(* ===== verification/Prelude.thy ===== *)
theory Prelude
  imports Main "HOL-Library.AList"
begin

section \<open>Prelude: Go results, the state-and-error monad, strings and lists\<close>

text \<open>
  What every component of the development shares.

  \<^item> Go errors (\<open>error\<close>): the concrete error types the repository constructs or inspects, and
    the wrapper of \<^verbatim>\<open>microerror.Mask\<close>.
  \<^item> The outcome of a Go call (\<open>res\<close>): a value, a returned error, or a run-time panic. A panic
    (a nil pointer dereference, say) is never confused with a returned error.
  \<^item> The monad \<open>M\<close>: a call reads and changes a state and ends with an outcome. \<open>bindM\<close> is
    the sequencing \<^verbatim>\<open>x, err := f(); if err != nil { return err }\<close>, \<open>masked\<close> the same with
    \<^verbatim>\<open>return microerror.Mask(err)\<close>, \<open>attempt\<close> hands the error to the caller as a value.
  \<^item> Pointers to strings (\<open>strptr\<close>), since one comparison of the code is a comparison of
    addresses and not of the strings they point to; all other pointers are \<open>option\<close>s.
  \<^item> The functions of the packages \<^verbatim>\<open>strings\<close> and \<^verbatim>\<open>slices\<close> the code uses, with their laws.
\<close>

named_theorems run_simps \<open>evaluation of the combinators of the monad\<close>
named_theorems run_iffs \<open>inversion of successful runs\<close>

subsection \<open>Errors\<close>

datatype error =
    ResponseError string \<comment> \<open>\<^verbatim>\<open>*azcore.ResponseError\<close> with its \<^verbatim>\<open>ErrorCode\<close>\<close>
  | MicroError string \<comment> \<open>a \<^verbatim>\<open>*microerror.Error\<close> variable, identified by its \<^verbatim>\<open>Kind\<close>\<close>
  | PlainError string \<comment> \<open>\<^verbatim>\<open>errors.New\<close>, \<^verbatim>\<open>fmt.Errorf\<close> and every other error\<close>
  | Masked error \<comment> \<open>\<^verbatim>\<open>microerror.Mask\<close>, \<^verbatim>\<open>microerror.Maskf\<close>: wraps, unwraps to its argument\<close>

text \<open>The end of the \<^verbatim>\<open>Unwrap\<close> chain: what \<^verbatim>\<open>microerror.Cause\<close> returns.\<close>

primrec Cause :: "error \<Rightarrow> error" where
  "Cause (ResponseError c) = ResponseError c"
| "Cause (MicroError k) = MicroError k"
| "Cause (PlainError m) = PlainError m"
| "Cause (Masked e) = Cause e"

text \<open>\<^verbatim>\<open>errors.As(err, &rerr)\<close> for a \<^verbatim>\<open>*azcore.ResponseError\<close>: the first one in the chain.\<close>

primrec AsResponseError :: "error \<Rightarrow> string option" where
  "AsResponseError (ResponseError c) = Some c"
| "AsResponseError (MicroError k) = None"
| "AsResponseError (PlainError m) = None"
| "AsResponseError (Masked e) = AsResponseError e"

lemma Cause_idem [simp]: "Cause (Cause e) = Cause e"
  by (induction e) auto

lemma AsResponseError_Cause [simp]: "AsResponseError (Cause e) = AsResponseError e"
  by (induction e) auto

lemma AsResponseError_Some_iff: "AsResponseError e = Some c \<longleftrightarrow> Cause e = ResponseError c"
  by (induction e) auto

subsection \<open>Outcomes\<close>

datatype 'a res = Ok 'a | Err error | Panic string

abbreviation nilDeref :: string where
  "nilDeref \<equiv> ''nil pointer dereference''"

primrec bindR :: "'a res \<Rightarrow> ('a \<Rightarrow> 'b res) \<Rightarrow> 'b res" where
  "bindR (Ok x) k = k x"
| "bindR (Err e) k = Err e"
| "bindR (Panic p) k = Panic p"

definition fromSum :: "error + 'a \<Rightarrow> 'a res" where
  "fromSum r = (case r of Inl e \<Rightarrow> Err e | Inr x \<Rightarrow> Ok x)"

definition derefOpt :: "'a option \<Rightarrow> 'a res" where
  "derefOpt p = (case p of None \<Rightarrow> Panic nilDeref | Some x \<Rightarrow> Ok x)"

lemma fromSum_simps [simp]: "fromSum (Inl e) = Err e" "fromSum (Inr x) = Ok x"
  by (simp_all add: fromSum_def)

lemma derefOpt_simps [simp]: "derefOpt None = Panic nilDeref" "derefOpt (Some x) = Ok x"
  by (simp_all add: derefOpt_def)

lemma derefOpt_not_Err [simp]: "derefOpt p \<noteq> Err e"
  by (cases p) auto

lemma derefOpt_Ok_iff [simp]: "derefOpt p = Ok x \<longleftrightarrow> p = Some x"
  by (cases p) auto

lemma bindR_Ok_iff [run_iffs]: "bindR r k = Ok y \<longleftrightarrow> (\<exists>x. r = Ok x \<and> k x = Ok y)"
  by (cases r) auto

subsection \<open>The monad of stateful calls\<close>

type_synonym ('s, 'a) M = "'s \<Rightarrow> 'a res \<times> 's"

definition ret :: "'a \<Rightarrow> ('s, 'a) M" where
  "ret x = (\<lambda>s. (Ok x, s))"

definition throw :: "error \<Rightarrow> ('s, 'a) M" where
  "throw e = (\<lambda>s. (Err e, s))"

definition panic :: "string \<Rightarrow> ('s, 'a) M" where
  "panic p = (\<lambda>s. (Panic p, s))"

definition liftR :: "'a res \<Rightarrow> ('s, 'a) M" where
  "liftR r = (\<lambda>s. (r, s))"

definition bindM :: "('s, 'a) M \<Rightarrow> ('a \<Rightarrow> ('s, 'b) M) \<Rightarrow> ('s, 'b) M" where
  "bindM m k = (\<lambda>s. case m s of
      (Ok x, t) \<Rightarrow> k x t
    | (Err e, t) \<Rightarrow> (Err e, t)
    | (Panic p, t) \<Rightarrow> (Panic p, t))"

definition masked :: "('s, 'a) M \<Rightarrow> ('s, 'a) M" where
  "masked m = (\<lambda>s. case m s of
      (Ok x, t) \<Rightarrow> (Ok x, t)
    | (Err e, t) \<Rightarrow> (Err (Masked e), t)
    | (Panic p, t) \<Rightarrow> (Panic p, t))"

definition attempt :: "('s, 'a) M \<Rightarrow> ('s, error + 'a) M" where
  "attempt m = (\<lambda>s. case m s of
      (Ok x, t) \<Rightarrow> (Ok (Inr x), t)
    | (Err e, t) \<Rightarrow> (Ok (Inl e), t)
    | (Panic p, t) \<Rightarrow> (Panic p, t))"

definition reads :: "('s \<Rightarrow> 'a) \<Rightarrow> ('s, 'a) M" where
  "reads f = (\<lambda>s. (Ok (f s), s))"

definition modifies :: "('s \<Rightarrow> 's) \<Rightarrow> ('s, unit) M" where
  "modifies f = (\<lambda>s. (Ok (), f s))"

text \<open>A constructor of a library that only reports an error.\<close>

definition checkErr :: "error option \<Rightarrow> ('s, unit) M" where
  "checkErr e = (case e of None \<Rightarrow> ret () | Some x \<Rightarrow> throw x)"

primrec forEach :: "('x \<Rightarrow> ('s, unit) M) \<Rightarrow> 'x list \<Rightarrow> ('s, unit) M" where
  "forEach f [] = ret ()"
| "forEach f (x # xs) = bindM (f x) (\<lambda>_. forEach f xs)"

lemma ret_run [run_simps]: "ret x s = (Ok x, s)"
  by (simp add: ret_def)

lemma throw_run [run_simps]: "throw e s = (Err e, s)"
  by (simp add: throw_def)

lemma panic_run [run_simps]: "panic p s = (Panic p, s)"
  by (simp add: panic_def)

lemma liftR_run [run_simps]: "liftR r s = (r, s)"
  by (simp add: liftR_def)

lemma checkErr_run [run_simps]:
  "checkErr e s = (case e of None \<Rightarrow> (Ok (), s) | Some x \<Rightarrow> (Err x, s))"
  by (simp add: checkErr_def ret_def throw_def split: option.splits)

lemma checkErr_Ok_iff [run_iffs]: "checkErr e s = (Ok y, t) \<longleftrightarrow> e = None \<and> t = s"
  by (auto simp: checkErr_run split: option.splits)

lemma reads_run [run_simps]: "reads f s = (Ok (f s), s)"
  by (simp add: reads_def)

lemma modifies_run [run_simps]: "modifies f s = (Ok (), f s)"
  by (simp add: modifies_def)

lemma bindM_run [run_simps]:
  "bindM m k s = (case m s of (Ok x, t) \<Rightarrow> k x t | (Err e, t) \<Rightarrow> (Err e, t) | (Panic p, t) \<Rightarrow> (Panic p, t))"
  by (simp add: bindM_def)

lemma masked_run [run_simps]:
  "masked m s = (case m s of (Ok x, t) \<Rightarrow> (Ok x, t) | (Err e, t) \<Rightarrow> (Err (Masked e), t)
     | (Panic p, t) \<Rightarrow> (Panic p, t))"
  by (simp add: masked_def)

lemma attempt_run [run_simps]:
  "attempt m s = (case m s of (Ok x, t) \<Rightarrow> (Ok (Inr x), t) | (Err e, t) \<Rightarrow> (Ok (Inl e), t)
     | (Panic p, t) \<Rightarrow> (Panic p, t))"
  by (simp add: attempt_def)

lemma bindM_Ok_iff [run_iffs]:
  "bindM m k s = (Ok y, t) \<longleftrightarrow> (\<exists>x u. m s = (Ok x, u) \<and> k x u = (Ok y, t))"
  by (auto simp: bindM_def split: prod.splits res.splits)

lemma masked_Ok_iff [run_iffs]: "masked m s = (Ok y, t) \<longleftrightarrow> m s = (Ok y, t)"
  by (auto simp: masked_def split: prod.splits res.splits)

lemma attempt_Ok_iff [run_iffs]:
  "attempt m s = (Ok r, t) \<longleftrightarrow> (\<exists>e. r = Inl e \<and> m s = (Err e, t)) \<or> (\<exists>x. r = Inr x \<and> m s = (Ok x, t))"
  by (auto simp: attempt_def split: prod.splits res.splits)

lemma attempt_not_Err [simp]: "attempt m s \<noteq> (Err e, t)"
  by (auto simp: attempt_def split: prod.splits res.splits)

lemma ret_Ok_iff [run_iffs]: "ret x s = (Ok y, t) \<longleftrightarrow> y = x \<and> t = s"
  by (auto simp: ret_def)

lemma throw_Ok_iff [run_iffs]: "throw e s = (Ok y, t) \<longleftrightarrow> False"
  by (auto simp: throw_def)

lemma panic_Ok_iff [run_iffs]: "panic p s = (Ok y, t) \<longleftrightarrow> False"
  by (auto simp: panic_def)

lemma liftR_Ok_iff [run_iffs]: "liftR r s = (Ok y, t) \<longleftrightarrow> r = Ok y \<and> t = s"
  by (auto simp: liftR_def)

lemma reads_Ok_iff [run_iffs]: "reads f s = (Ok y, t) \<longleftrightarrow> y = f s \<and> t = s"
  by (auto simp: reads_def)

lemma modifies_Ok_iff [run_iffs]: "modifies f s = (Ok y, t) \<longleftrightarrow> t = f s"
  by (auto simp: modifies_def)

lemma masked_state [simp]: "snd (masked m s) = snd (m s)"
  by (simp add: masked_def split: prod.splits res.splits)

lemma attempt_state [simp]: "snd (attempt m s) = snd (m s)"
  by (simp add: attempt_def split: prod.splits res.splits)

lemma bindM_ret_left [simp]: "bindM (ret x) k = k x"
  by (simp add: bindM_def ret_def)

lemma bindM_ret_right [simp]: "bindM m ret = m"
  by (rule ext) (simp add: bindM_def ret_def split: prod.splits res.splits)

lemma bindM_assoc: "bindM (bindM m f) g = bindM m (\<lambda>x. bindM (f x) g)"
  by (rule ext) (simp add: bindM_def split: prod.splits res.splits)

subsection \<open>Pointers to strings\<close>

text \<open>
  The only addresses the code can tell apart: the field \<^verbatim>\<open>Name\<close> of the \<^verbatim>\<open>Cluster\<close> object of the
  scope, and every other cell (a result of \<^verbatim>\<open>pointer.String\<close> or of the SDK's decoder).
\<close>

datatype addr = HeapCell | ClusterNameField

datatype strptr = NilPtr | Ptr addr string

definition pointer_String :: "string \<Rightarrow> strptr" where
  "pointer_String x = Ptr HeapCell x"

definition deref :: "strptr \<Rightarrow> string res" where
  "deref p = (case p of NilPtr \<Rightarrow> Panic nilDeref | Ptr a x \<Rightarrow> Ok x)"

definition pointsTo :: "strptr \<Rightarrow> addr \<Rightarrow> bool" where
  "pointsTo p a = (case p of NilPtr \<Rightarrow> False | Ptr b x \<Rightarrow> b = a)"

lemma deref_simps [simp]:
  "deref NilPtr = Panic nilDeref" "deref (Ptr a x) = Ok x" "deref (pointer_String x) = Ok x"
  by (simp_all add: deref_def pointer_String_def)

lemma deref_Ok_iff: "deref p = Ok x \<longleftrightarrow> (\<exists>a. p = Ptr a x)"
  by (cases p) (auto simp: deref_def)

lemma deref_not_Err [simp]: "deref p \<noteq> Err e"
  by (cases p) auto

lemma pointsTo_simps [simp]:
  "pointsTo NilPtr a = False" "pointsTo (Ptr b x) a \<longleftrightarrow> b = a"
  "pointsTo (pointer_String x) a \<longleftrightarrow> a = HeapCell"
  by (auto simp: pointsTo_def pointer_String_def)

end
