(* ===== verification/Go_Std.thy ===== *)
theory Go_Std
  imports Prelude "HOL-Library.Word"
begin

unbundle bit_operations_syntax

section \<open>The parts of Go's standard library the operator uses\<close>

text \<open>
  Packages \<^verbatim>\<open>strings\<close> (\<open>HasPrefix\<close>, \<open>TrimPrefix\<close>, \<open>TrimSuffix\<close>), \<^verbatim>\<open>fmt\<close> (printing of
  integers) and \<^verbatim>\<open>net\<close>: \<open>ParseIP\<close>, \<open>To4\<close>, \<open>IsPrivate\<close> and \<open>IP_String\<close>, on the 16-byte
  addresses \<^verbatim>\<open>net.ParseIP\<close> returns. The parser is that of \<^verbatim>\<open>netip.ParseAddr\<close>, to which
  \<^verbatim>\<open>net.ParseIP\<close> delegates: dotted decimal without leading zeros, and the IPv6 forms with
  \<^verbatim>\<open>::\<close>, an embedded IPv4 suffix and the zone suffix that \<^verbatim>\<open>net.ParseIP\<close> refuses.
  The lemmas at the end are the round trips between \<open>ParseIP\<close> and \<open>IP_String\<close> for IPv4.
\<close>

subsection \<open>strings\<close>

definition HasPrefix :: "string \<Rightarrow> string \<Rightarrow> bool" where
  "HasPrefix s p \<longleftrightarrow> take (length p) s = p"

definition TrimPrefix :: "string \<Rightarrow> string \<Rightarrow> string" where
  "TrimPrefix s p = (if HasPrefix s p then drop (length p) s else s)"

definition HasSuffix :: "string \<Rightarrow> string \<Rightarrow> bool" where
  "HasSuffix s p \<longleftrightarrow> length p \<le> length s \<and> drop (length s - length p) s = p"

definition TrimSuffix :: "string \<Rightarrow> string \<Rightarrow> string" where
  "TrimSuffix s p = (if HasSuffix s p then take (length s - length p) s else s)"

lemma HasPrefix_iff: "HasPrefix s p \<longleftrightarrow> (\<exists>r. s = p @ r)"
proof
  assume "HasPrefix s p"
  then have "s = p @ drop (length p) s"
    by (metis HasPrefix_def append_take_drop_id)
  then show "\<exists>r. s = p @ r" by blast
qed (auto simp: HasPrefix_def)

lemma HasPrefix_append [simp]: "HasPrefix (p @ r) p"
  by (simp add: HasPrefix_def)

lemma TrimPrefix_append [simp]: "TrimPrefix (p @ r) p = r"
  by (simp add: TrimPrefix_def)

lemma HasSuffix_append [simp]: "HasSuffix (r @ p) p"
  by (simp add: HasSuffix_def)

lemma TrimSuffix_append [simp]: "TrimSuffix (r @ p) p = r"
  by (simp add: TrimSuffix_def)

subsection \<open>fmt: integers in decimal\<close>

definition digitChar :: "nat \<Rightarrow> char" where
  "digitChar d = char_of (48 + d)"

fun showNat :: "nat \<Rightarrow> string" where
  "showNat n = (if n < 10 then [digitChar n] else showNat (n div 10) @ [digitChar (n mod 10)])"

declare showNat.simps [simp del]

definition showInt :: "int \<Rightarrow> string" where
  "showInt i = (if i < 0 then CHR ''-'' # showNat (nat (- i)) else showNat (nat i))"

subsection \<open>net and netip: parsing\<close>

type_synonym IP = "8 word list" \<comment> \<open>\<^verbatim>\<open>net.IP\<close>, a byte slice; the nil address is \<open>[]\<close>\<close>

definition isDigit :: "char \<Rightarrow> bool" where
  "isDigit c \<longleftrightarrow> 48 \<le> (of_char c :: nat) \<and> (of_char c :: nat) \<le> 57"

definition digitVal :: "char \<Rightarrow> nat" where
  "digitVal c = of_char c - 48"

text \<open>
  \<^verbatim>\<open>parseIPv4Fields\<close>: \<open>v\<close> and \<open>d\<close> are the value and the number of digits of the current
  octet, \<open>fs\<close> the octets already read.
\<close>

fun parseIPv4Fields :: "string \<Rightarrow> nat \<Rightarrow> nat \<Rightarrow> nat list \<Rightarrow> nat list option" where
  "parseIPv4Fields [] v d fs = (if length fs < 3 then None else Some (fs @ [v]))"
| "parseIPv4Fields (c # s) v d fs =
     (if isDigit c then
        (if d = 1 \<and> v = 0 then None
         else if v * 10 + digitVal c > 255 then None
         else parseIPv4Fields s (v * 10 + digitVal c) (Suc d) fs)
      else if c = CHR ''.'' then
        (if d = 0 \<or> s = [] then None
         else if length fs = 3 then None
         else parseIPv4Fields s 0 0 (fs @ [v]))
      else None)"

definition v4InV6Prefix :: "8 word list" where
  "v4InV6Prefix = replicate 10 0 @ [255, 255]"

definition hexVal :: "char \<Rightarrow> nat option" where
  "hexVal c = (let n = (of_char c :: nat) in
     if 48 \<le> n \<and> n \<le> 57 then Some (n - 48)
     else if 97 \<le> n \<and> n \<le> 102 then Some (n - 87)
     else if 65 \<le> n \<and> n \<le> 70 then Some (n - 55)
     else None)"

text \<open>One group of an IPv6 address: value, number of digits, rest; \<open>None\<close> beyond four digits.\<close>

fun hexGroup :: "string \<Rightarrow> nat \<Rightarrow> nat \<Rightarrow> (nat \<times> nat \<times> string) option" where
  "hexGroup [] acc off = Some (acc, off, [])"
| "hexGroup (c # s) acc off =
     (case hexVal c of
        None \<Rightarrow> Some (acc, off, c # s)
      | Some h \<Rightarrow> if off > 3 then None else hexGroup s (acc * 16 + h) (Suc off))"

text \<open>
  The loop of \<^verbatim>\<open>parseIPv6\<close>: at most eight groups (the first argument counts those left),
  \<open>bs\<close> the bytes read so far, \<open>e\<close> the position of the ellipsis. The result is the bytes, the
  ellipsis and the unread rest.
\<close>

fun parseIPv6Loop :: "nat \<Rightarrow> string \<Rightarrow> nat list \<Rightarrow> nat option \<Rightarrow> (nat list \<times> nat option \<times> string) option" where
  "parseIPv6Loop 0 s bs e = Some (bs, e, s)"
| "parseIPv6Loop (Suc n) s bs e =
     (case hexGroup s 0 0 of
        None \<Rightarrow> None
      | Some (acc, off, r) \<Rightarrow>
          if off = 0 then None
          else if r \<noteq> [] \<and> hd r = CHR ''.'' then
            (if e = None \<and> length bs \<noteq> 12 then None
             else if length bs + 4 > 16 then None
             else (case parseIPv4Fields s 0 0 [] of
                     None \<Rightarrow> None
                   | Some fs \<Rightarrow> Some (bs @ fs, e, [])))
          else
            (let bs' = bs @ [acc div 256, acc mod 256] in
             case r of
               [] \<Rightarrow> Some (bs', e, [])
             | c # t \<Rightarrow>
                 if c \<noteq> CHR '':'' then None
                 else (case t of
                   [] \<Rightarrow> None
                 | c' # t' \<Rightarrow>
                     if c' = CHR '':'' then
                       (if e \<noteq> None then None
                        else if t' = [] then Some (bs', Some (length bs'), [])
                        else parseIPv6Loop n t' bs' (Some (length bs')))
                     else parseIPv6Loop n t bs' e)))"

definition expandEllipsis :: "nat list \<Rightarrow> nat \<Rightarrow> nat list" where
  "expandEllipsis bs e = take e bs @ replicate (16 - length bs) 0 @ drop e bs"

text \<open>\<^verbatim>\<open>parseIPv6\<close> on an address with no zone; the result has 16 bytes.\<close>

definition parseIPv6 :: "string \<Rightarrow> nat list option" where
  "parseIPv6 s =
     (let lead = take 2 s = ''::''; body = (if lead then drop 2 s else s) in
      if lead \<and> body = [] then Some (replicate 16 0)
      else (case parseIPv6Loop 8 body [] (if lead then Some 0 else None) of
              None \<Rightarrow> None
            | Some (bs, e, rest) \<Rightarrow>
                if rest \<noteq> [] then None
                else if length bs < 16 then
                  (case e of None \<Rightarrow> None | Some p \<Rightarrow> Some (expandEllipsis bs p))
                else if e \<noteq> None then None
                else Some bs))"

text \<open>
  \<^verbatim>\<open>net.ParseIP\<close>: the first of the characters \<^verbatim>\<open>.\<close>, \<^verbatim>\<open>:\<close>, \<^verbatim>\<open>%\<close> decides; an address with a
  zone is refused, whatever the zone is, as is one whose zone is empty.
\<close>

definition ParseIP :: "string \<Rightarrow> IP" where
  "ParseIP s =
     (case dropWhile (\<lambda>c. c \<noteq> CHR ''.'' \<and> c \<noteq> CHR '':'' \<and> c \<noteq> CHR ''%'') s of
        [] \<Rightarrow> []
      | c # _ \<Rightarrow>
          if c = CHR ''.'' then
            (case parseIPv4Fields s 0 0 [] of
               None \<Rightarrow> []
             | Some fs \<Rightarrow> v4InV6Prefix @ map word_of_nat fs)
          else if c = CHR '':'' then
            (if CHR ''%'' \<in> set s then []
             else (case parseIPv6 s of None \<Rightarrow> [] | Some bs \<Rightarrow> map word_of_nat bs))
          else [])"

subsection \<open>net: classification and printing\<close>

definition To4 :: "IP \<Rightarrow> IP" where
  "To4 ip = (if length ip = 4 then ip
     else if length ip = 16 \<and> take 12 ip = v4InV6Prefix then drop 12 ip
     else [])"

definition IsPrivate :: "IP \<Rightarrow> bool" where
  "IsPrivate ip = (let ip4 = To4 ip in
     if ip4 \<noteq> [] then
       ip4 ! 0 = 10 \<or> (ip4 ! 0 = 172 \<and> ip4 ! 1 AND 0xf0 = 16) \<or> (ip4 ! 0 = 192 \<and> ip4 ! 1 = 168)
     else length ip = 16 \<and> ip ! 0 AND 0xfe = 0xfc)"

fun dotted :: "nat list \<Rightarrow> string" where
  "dotted [] = []"
| "dotted [f] = showNat f"
| "dotted (f # g # fs) = showNat f @ CHR ''.'' # dotted (g # fs)"

definition hexChar :: "nat \<Rightarrow> char" where
  "hexChar d = char_of (if d < 10 then 48 + d else 87 + d)"

fun showHex :: "nat \<Rightarrow> string" where
  "showHex n = (if n < 16 then [hexChar n] else showHex (n div 16) @ [hexChar (n mod 16)])"

declare showHex.simps [simp del]

fun groups16 :: "nat list \<Rightarrow> nat list" where
  "groups16 (a # b # bs) = (a * 256 + b) # groups16 bs"
| "groups16 _ = []"

text \<open>Start and length of the first longest run of at least two zero groups.\<close>

definition zeroRunAt :: "nat list \<Rightarrow> nat \<Rightarrow> nat" where
  "zeroRunAt gs i = length (takeWhile (\<lambda>g. g = 0) (drop i gs))"

definition bestZeroRun :: "nat list \<Rightarrow> (nat \<times> nat) option" where
  "bestZeroRun gs = foldl (\<lambda>b i.
     let l = zeroRunAt gs i in
     if 2 \<le> l \<and> (case b of None \<Rightarrow> True | Some (_, m) \<Rightarrow> m < l) then Some (i, l) else b)
   None [0..<length gs]"

fun colonHex :: "nat list \<Rightarrow> string" where
  "colonHex [] = []"
| "colonHex [g] = showHex g"
| "colonHex (g # h # gs) = showHex g @ CHR '':'' # colonHex (h # gs)"

definition IPv6_String :: "nat list \<Rightarrow> string" where
  "IPv6_String gs = (case bestZeroRun gs of
      None \<Rightarrow> colonHex gs
    | Some (i, l) \<Rightarrow> colonHex (take i gs) @ ''::'' @ colonHex (drop (i + l) gs))"

definition IP_String :: "IP \<Rightarrow> string" where
  "IP_String ip =
     (if ip = [] then ''<nil>''
      else if length ip \<noteq> 4 \<and> length ip \<noteq> 16 then
        ''?'' @ concat (map (\<lambda>b. [hexChar (unat b div 16), hexChar (unat b mod 16)]) ip)
      else if To4 ip \<noteq> [] then dotted (map unat (To4 ip))
      else IPv6_String (groups16 (map unat ip)))"

subsection \<open>IPv4: printing and parsing are inverse\<close>

lemma digitChar_facts:
  "d < 10 \<Longrightarrow> isDigit (digitChar d)" "d < 10 \<Longrightarrow> digitVal (digitChar d) = d"
  "isDigit c \<Longrightarrow> digitVal c < 10" "isDigit c \<Longrightarrow> digitChar (digitVal c) = c"
  by (auto simp: isDigit_def digitVal_def digitChar_def)

lemma dot_not_digit [simp]: "isDigit CHR ''.'' = False"
  by (simp add: isDigit_def)

lemma showNat_small: "n < 10 \<Longrightarrow> showNat n = [digitChar n]"
  by (simp add: showNat.simps)

lemma showNat_step: "0 < v \<Longrightarrow> d < 10 \<Longrightarrow> showNat (v * 10 + d) = showNat v @ [digitChar d]"
  by (subst showNat.simps) (simp add: div_add1_eq)

lemma showNat_nonempty [simp]: "showNat n \<noteq> []"
  by (subst showNat.simps) simp

lemma showNat_digits: "c \<in> set (showNat n) \<Longrightarrow> isDigit c"
proof (induction n rule: showNat.induct)
  case (1 n)
  then show ?case
    by (subst (asm) showNat.simps) (auto simp: digitChar_facts split: if_splits)
qed

text \<open>Reading back a printed octet.\<close>

lemma parseIPv4Fields_octet:
  assumes "n < 256"
  shows "parseIPv4Fields (showNat n @ r) 0 0 fs =
    (if r = [] then parseIPv4Fields [] n 1 fs else parseIPv4Fields r n (length (showNat n)) fs)"
proof -
  consider "n < 10" | "10 \<le> n" "n < 100" | "100 \<le> n" by linarith
  then show ?thesis
  proof cases
    case 1
    then show ?thesis by (simp add: showNat_small digitChar_facts)
  next
    case 2
    then have "showNat n = [digitChar (n div 10), digitChar (n mod 10)]"
      by (subst showNat.simps) (simp add: showNat_small)
    moreover have "0 < n div 10" "n div 10 < 10"
      using 2 by simp_all
    ultimately show ?thesis using 2 by (simp add: digitChar_facts)
  next
    case 3
    have "showNat (n div 10) = [digitChar (n div 10 div 10), digitChar (n div 10 mod 10)]"
      using 3 assms by (subst showNat.simps) (simp add: showNat_small)
    with 3 have sh: "showNat n = [digitChar (n div 100), digitChar (n div 10 mod 10), digitChar (n mod 10)]"
      by (subst showNat.simps) (simp add: div_mult2_eq [symmetric])
    have "n div 100 < 10" "0 < n div 100"
      using 3 assms by simp_all
    moreover have eq: "(n div 100 * 10 + n div 10 mod 10) * 10 + n mod 10 = n"
    proof -
      have "n div 100 * 10 + n div 10 mod 10 = n div 10"
        using div_mult_mod_eq [of "n div 10" 10] by (simp add: div_mult2_eq [symmetric])
      then show ?thesis by simp
    qed
    moreover have "n div 100 * 10 + n div 10 mod 10 \<le> 255"
      using eq assms by linarith
    ultimately show ?thesis
      using assms by (simp add: sh digitChar_facts)
  qed
qed

lemma parseIPv4Fields_dot:
  "r \<noteq> [] \<Longrightarrow> 0 < d \<Longrightarrow> length fs < 3 \<Longrightarrow>
     parseIPv4Fields (CHR ''.'' # r) v d fs = parseIPv4Fields r 0 0 (fs @ [v])"
  by simp

lemma dotted_nonempty: "xs \<noteq> [] \<Longrightarrow> dotted xs \<noteq> []"
  by (cases xs rule: dotted.cases) auto

lemma parseIPv4Fields_dotted:
  assumes "\<forall>n\<in>set gs. n < 256" "length fs + length gs = 4" "gs \<noteq> []"
  shows "parseIPv4Fields (dotted gs) 0 0 fs = Some (fs @ gs)"
  using assms
proof (induction gs arbitrary: fs rule: dotted.induct)
  case 1
  then show ?case by simp
next
  case (2 f)
  then show ?case
    using parseIPv4Fields_octet [of f "[]" fs] by simp
next
  case (3 f g gs)
  have "parseIPv4Fields (dotted (f # g # gs)) 0 0 fs = parseIPv4Fields (dotted (g # gs)) 0 0 (fs @ [f])"
    using "3.prems" parseIPv4Fields_octet [of f "CHR ''.'' # dotted (g # gs)" fs]
    by (simp add: dotted_nonempty parseIPv4Fields_dot del: parseIPv4Fields.simps(2))
  also have "\<dots> = Some ((fs @ [f]) @ g # gs)"
    using "3.prems" by (intro "3.IH") auto
  finally show ?case by simp
qed

text \<open>What the parser accepts is the printed form of what it returns.\<close>

lemma parseIPv4Fields_inv:
  assumes "parseIPv4Fields s v d fs = Some gs" "v = 0 \<longrightarrow> d \<le> 1" "d = 0 \<longrightarrow> v = 0" "s = [] \<longrightarrow> 0 < d"
  shows "\<exists>hs. gs = fs @ hs \<and> hs \<noteq> [] \<and> (if d = 0 then [] else showNat v) @ s = dotted hs"
  using assms
proof (induction s v d fs rule: parseIPv4Fields.induct)
  case (1 v d fs)
  then show ?case by (auto split: if_splits)
next
  case (2 c s v d fs)
  show ?case
  proof (cases "isDigit c")
    case True
    let ?v = "v * 10 + digitVal c"
    have p: "parseIPv4Fields s ?v (Suc d) fs = Some gs" "\<not> (d = 1 \<and> v = 0)" "\<not> 255 < ?v"
      using "2.prems"(1) True by (auto split: if_splits)
    have "v = 0 \<longrightarrow> d = 0"
      using p(2) "2.prems"(2) by auto
    then have sh: "showNat ?v = (if d = 0 then [] else showNat v) @ [c]"
      using "2.prems"(3) True
      by (cases "v = 0") (auto simp: showNat_small showNat_step digitChar_facts)
    have "\<exists>hs. gs = fs @ hs \<and> hs \<noteq> [] \<and> (if Suc d = 0 then [] else showNat ?v) @ s = dotted hs"
      using p \<open>v = 0 \<longrightarrow> d = 0\<close> True by (intro "2.IH"(1)) auto
    then show ?thesis by (simp add: sh)
  next
    case False
    then have c: "c = CHR ''.''" and d: "d \<noteq> 0" "s \<noteq> []" "length fs \<noteq> 3"
      and p: "parseIPv4Fields s 0 0 (fs @ [v]) = Some gs"
      using "2.prems"(1) by (auto split: if_splits)
    have "\<exists>hs. gs = (fs @ [v]) @ hs \<and> hs \<noteq> [] \<and> (if (0::nat) = 0 then [] else showNat 0) @ s = dotted hs"
      using False c d p by (intro "2.IH"(2)) auto
    then obtain h hs where hs: "gs = fs @ v # h # hs" "s = dotted (h # hs)"
      by (auto simp: neq_Nil_conv)
    then show ?thesis
      using c d by (intro exI [of _ "v # h # hs"]) simp
  qed
qed

lemma parseIPv4Fields_bounds:
  "parseIPv4Fields s v d fs = Some gs \<Longrightarrow> v < 256 \<Longrightarrow> \<forall>n\<in>set fs. n < 256 \<Longrightarrow> length fs \<le> 3 \<Longrightarrow>
     length gs = 4 \<and> (\<forall>n\<in>set gs. n < 256)"
proof (induction s v d fs rule: parseIPv4Fields.induct)
  case (1 v d fs)
  then show ?case by (auto split: if_splits)
next
  case (2 c s v d fs)
  show ?case
  proof (cases "isDigit c")
    case True
    then have "parseIPv4Fields s (v * 10 + digitVal c) (Suc d) fs = Some gs" "\<not> (d = 1 \<and> v = 0)"
      "\<not> 255 < v * 10 + digitVal c"
      using "2.prems"(1) by (auto split: if_splits)
    with True "2.prems"(3,4) show ?thesis by (intro "2.IH"(1)) auto
  next
    case False
    then have "c = CHR ''.''" "\<not> (d = 0 \<or> s = [])" "length fs \<noteq> 3"
      "parseIPv4Fields s 0 0 (fs @ [v]) = Some gs"
      using "2.prems"(1) by (auto split: if_splits)
    with False "2.prems"(2-4) show ?thesis by (intro "2.IH"(2)) auto
  qed
qed

lemma parseIPv4Fields_printed:
  assumes "parseIPv4Fields s 0 0 [] = Some gs" "s \<noteq> []"
  shows "dotted gs = s" and "length gs = 4" and "\<forall>n\<in>set gs. n < 256"
  using parseIPv4Fields_inv [OF assms(1)] assms(2) parseIPv4Fields_bounds [OF assms(1)] by auto

lemma To4_mapped [simp]: "length bs = 4 \<Longrightarrow> To4 (v4InV6Prefix @ bs) = bs"
  by (simp add: To4_def v4InV6Prefix_def)

lemma map_unat_word_of_nat: "\<forall>n\<in>set gs. n < 256 \<Longrightarrow> map unat (map word_of_nat gs :: 8 word list) = gs"
  by (induction gs) (simp_all add: unat_of_nat)

definition isIPv4Literal :: "string \<Rightarrow> bool" where
  "isIPv4Literal s \<longleftrightarrow> s \<noteq> [] \<and> parseIPv4Fields s 0 0 [] \<noteq> None"

lemma isIPv4LiteralE:
  assumes "isIPv4Literal s"
  obtains gs where "s = dotted gs" "length gs = 4" "\<forall>n\<in>set gs. n < 256"
    "parseIPv4Fields s 0 0 [] = Some gs"
  using assms parseIPv4Fields_printed unfolding isIPv4Literal_def by auto

lemma dropWhile_first_dot:
  assumes "\<forall>c\<in>set a. isDigit c"
  shows "dropWhile (\<lambda>c. c \<noteq> CHR ''.'' \<and> c \<noteq> CHR '':'' \<and> c \<noteq> CHR ''%'') (a @ CHR ''.'' # r) = CHR ''.'' # r"
  using assms by (induction a) (auto simp: isDigit_def)

lemma ParseIP_dotted:
  assumes "length gs = 4" "\<forall>n\<in>set gs. n < 256"
  shows "ParseIP (dotted gs) = v4InV6Prefix @ map word_of_nat gs"
proof -
  obtain f g hs where gs: "gs = f # g # hs"
    using assms(1) by (auto simp: numeral_eq_Suc length_Suc_conv)
  have "parseIPv4Fields (dotted gs) 0 0 [] = Some gs"
    using parseIPv4Fields_dotted [of gs "[]"] assms gs by simp
  moreover have "dropWhile (\<lambda>c. c \<noteq> CHR ''.'' \<and> c \<noteq> CHR '':'' \<and> c \<noteq> CHR ''%'') (dotted gs)
      = CHR ''.'' # dotted (g # hs)"
    using dropWhile_first_dot [of "showNat f" "dotted (g # hs)"] showNat_digits by (simp add: gs)
  ultimately show ?thesis by (simp add: ParseIP_def)
qed

lemma IP_String_mapped:
  assumes "length gs = 4" "\<forall>n\<in>set gs. n < 256"
  shows "IP_String (v4InV6Prefix @ map word_of_nat gs) = dotted gs"
proof -
  have "length (v4InV6Prefix :: 8 word list) = 12"
    by (simp add: v4InV6Prefix_def)
  moreover have "map word_of_nat gs \<noteq> ([] :: 8 word list)" "v4InV6Prefix \<noteq> []"
    using assms(1) by (auto simp: v4InV6Prefix_def)
  ultimately show ?thesis
    using assms(1) map_unat_word_of_nat [OF assms(2)] by (simp add: IP_String_def del: map_map)
qed

theorem IP_String_ParseIP: "isIPv4Literal s \<Longrightarrow> IP_String (ParseIP s) = s"
  by (erule isIPv4LiteralE) (simp add: ParseIP_dotted IP_String_mapped)

lemma ParseIP_IPv4_nonnil: "isIPv4Literal s \<Longrightarrow> ParseIP s \<noteq> []"
  by (erule isIPv4LiteralE) (simp add: ParseIP_dotted v4InV6Prefix_def)

lemma ParseIP_nil_text [simp]: "ParseIP ''<nil>'' = []"
  by (simp add: ParseIP_def)

lemma ParseIP_Nil [simp]: "ParseIP [] = []"
  by (simp add: ParseIP_def)

lemma IsPrivate_nil [simp]: "IsPrivate [] = False"
  by (simp add: IsPrivate_def To4_def)

lemma IP_String_nil [simp]: "IP_String [] = ''<nil>''"
  by (simp add: IP_String_def)

end
