(* ===== verification/Metrics.thy ===== *)
theory Metrics
  imports Go_Std
begin

section \<open>The metrics of the operator (\<open>pkg/metrics/metrics.go\<close>)\<close>

text \<open>
  The five metric vectors the package registers, with their names and label names. Setting,
  incrementing and deleting series is the business of the Prometheus library: a run logs the
  operation (\<open>event\<close> in theory \<open>Platform\<close>). What the operator owes the library is to pass
  \<^verbatim>\<open>WithLabelValues\<close> as many values as the vector has labels, since it panics otherwise:
  \<open>labelArity\<close>.
\<close>

datatype metricVec = ZoneInfo | ClusterZoneRecords | RecordInfo | AzureRequestError | AzureRequest

abbreviation "metricControllerLabel \<equiv> ''controller''"
abbreviation "metricControllerValue \<equiv> ''dns-operator-azure''"
abbreviation "metricNamespace \<equiv> ''dns_operator_azure''"
abbreviation "MetricZone \<equiv> ''zone''"
abbreviation "metricRecordSet \<equiv> ''record_set''"
abbreviation "metricAzure \<equiv> ''api_request''"
abbreviation "ZoneType \<equiv> ''type''"
abbreviation "ZoneTypePrivate \<equiv> ''private''"
abbreviation "ZoneTypePublic \<equiv> ''public''"

record vecOpts =
  optNamespace :: string
  optSubsystem :: string
  optName :: string
  optHelp :: string
  optConstLabels :: "(string \<times> string) list"
  optLabels :: "string list"

fun vecOptsOf :: "metricVec \<Rightarrow> vecOpts" where
  "vecOptsOf ZoneInfo =
     \<lparr>optNamespace = metricNamespace, optSubsystem = MetricZone, optName = ''info'',
      optHelp = ''Info about cluster DNS zone'',
      optConstLabels = [(metricControllerLabel, metricControllerValue)],
      optLabels = [MetricZone, ZoneType, ''resource_group'', ''tenant_id'', ''subscription_id'']\<rparr>"
| "vecOptsOf ClusterZoneRecords =
     \<lparr>optNamespace = metricNamespace, optSubsystem = MetricZone, optName = ''records_sum'',
      optHelp = ''Info about cluster'',
      optConstLabels = [(metricControllerLabel, metricControllerValue)],
      optLabels = [MetricZone, ZoneType]\<rparr>"
| "vecOptsOf RecordInfo =
     \<lparr>optNamespace = metricNamespace, optSubsystem = metricRecordSet, optName = ''info'',
      optHelp = ''Info about existing record set'',
      optConstLabels = [(metricControllerLabel, metricControllerValue)],
      optLabels = [MetricZone, ZoneType, ''fqdn'', ''ip'', ''ttl'']\<rparr>"
| "vecOptsOf AzureRequestError =
     \<lparr>optNamespace = metricNamespace, optSubsystem = metricAzure, optName = ''errors_total'',
      optHelp = ''Total number of errors for an Azure API call'',
      optConstLabels = [],
      optLabels = [''method'']\<rparr>"
| "vecOptsOf AzureRequest =
     \<lparr>optNamespace = metricNamespace, optSubsystem = metricAzure, optName = ''total'',
      optHelp = ''Total number of Azure API calls'',
      optConstLabels = [(metricControllerLabel, metricControllerValue)],
      optLabels = [''method'']\<rparr>"

text \<open>\<^verbatim>\<open>init()\<close> registers the five vectors, in this order.\<close>

definition registeredVecs :: "metricVec list" where
  "registeredVecs = [ZoneInfo, ClusterZoneRecords, RecordInfo, AzureRequestError, AzureRequest]"

definition labelArity :: "metricVec \<Rightarrow> nat" where
  "labelArity v = length (optLabels (vecOptsOf v))"

lemma labelArity_simps [simp]:
  "labelArity ZoneInfo = 5" "labelArity ClusterZoneRecords = 2" "labelArity RecordInfo = 5"
  "labelArity AzureRequestError = 1" "labelArity AzureRequest = 1"
  by (simp_all add: labelArity_def)

end
