(* ===== verification/Platform.thy ===== *)
theory Platform
  imports Metrics
begin

section \<open>The world around the operator: Azure SDK, Kubernetes API, metrics registry\<close>

text \<open>
  None of this is code of the repository. The theory fixes the data the libraries exchange with
  the operator (the fields the operator reads or writes), and the libraries themselves as
  \<^emph>\<open>parameters\<close>: the records \<open>azureSdk\<close> and \<open>kubeApi\<close> have one field per library function the
  code calls, and every definition that needs one takes the record as an argument. A call may
  change the world \<open>'w\<close>, about which nothing is assumed.

  The state of a run is \<open>'w st\<close>: the world, the one Kubernetes object the operator mutates in
  memory (the infrastructure cluster), and the log \<open>events\<close> of everything the operator asked of
  the outside: SDK requests, Kubernetes updates, metric updates, in order. Theorems about what
  the operator does to Azure are theorems about this log.
\<close>

subsection \<open>Maps and optional pointers\<close>

type_synonym strmap = "(string \<times> string) list option" \<comment> \<open>\<^verbatim>\<open>map[string]string\<close>; \<open>None\<close> is the nil map\<close>

definition entries :: "strmap \<Rightarrow> (string \<times> string) list" where
  "entries m = (case m of None \<Rightarrow> [] | Some al \<Rightarrow> al)"

definition lookupOk :: "strmap \<Rightarrow> string \<Rightarrow> string option" where
  "lookupOk m k = map_of (entries m) k"

text \<open>Go's \<^verbatim>\<open>m[k]\<close> without the second result: the empty string for a missing key.\<close>

definition lookupStr :: "strmap \<Rightarrow> string \<Rightarrow> string" where
  "lookupStr m k = (case lookupOk m k of None \<Rightarrow> [] | Some v \<Rightarrow> v)"

lemma lookupStr_simps [simp]:
  "lookupStr None k = []"
  "lookupStr (Some []) k = []"
  "lookupStr (Some ((k', v) # al)) k = (if k = k' then v else lookupStr (Some al) k)"
  by (simp_all add: lookupStr_def lookupOk_def entries_def)

subsection \<open>Azure: credentials, clients and resources\<close>

datatype TokenCredential =
    NoCredential
  | ManagedIdentityCredential string
  | ClientSecretCredential string string string
  | WorkloadIdentityCredential string string

record armClient =
  armSubscription :: string
  armCredential :: TokenCredential

abbreviation "RecordTypeA \<equiv> ''A''"
abbreviation "RecordTypeCNAME \<equiv> ''CNAME''"
abbreviation "RecordTypeNS \<equiv> ''NS''"

text \<open>
  \<^verbatim>\<open>capzazure.Global\<close>, the location of a DNS zone.
\<close>

abbreviation "azureGlobal \<equiv> ''global''"

record RecordSetProperties =
  TTL :: "int option"
  ARecords :: "string option list" \<comment> \<open>\<^verbatim>\<open>[]*ARecord\<close>, each by its \<^verbatim>\<open>IPv4Address\<close>\<close>
  CnameRecord :: "string option option" \<comment> \<open>\<^verbatim>\<open>*CnameRecord\<close>, by its \<^verbatim>\<open>Cname\<close>\<close>
  NsRecords :: "string option list"
  ProvisioningState :: "string option"

record RecordSet =
  rsName :: strptr
  rsType :: "string option"
  rsProperties :: "RecordSetProperties option"

record ZoneProperties =
  NumberOfRecordSets :: "int option"
  NameServers :: "string option list"

record Zone =
  zoneName :: "string option"
  zoneLocation :: "string option"
  zoneProperties :: "ZoneProperties option"

type_synonym tagmap = "(string \<times> string option) list" \<comment> \<open>\<^verbatim>\<open>map[string]*string\<close>, in iteration order; nil is \<open>[]\<close>\<close>

record ResourceGroup =
  rgName :: "string option"
  rgLocation :: "string option"
  rgTags :: tagmap
  rgProperties :: "string option option" \<comment> \<open>\<^verbatim>\<open>*Properties\<close>, by its \<^verbatim>\<open>ProvisioningState\<close>\<close>

record PrivateRecordSetProperties =
  pTTL :: "int option"
  pARecords :: "string option list"
  pCnameRecord :: "string option option"

record PrivateRecordSet =
  prsName :: "string option"
  prsType :: "string option"
  prsProperties :: "PrivateRecordSetProperties option"

record PrivateZone =
  pzName :: "string option"
  pzLocation :: "string option"
  pzProperties :: "int option option" \<comment> \<open>\<^verbatim>\<open>*Properties\<close>, by its \<^verbatim>\<open>NumberOfRecordSets\<close>\<close>

record VirtualNetworkLinkProperties =
  RegistrationEnabled :: "bool option"
  VirtualNetwork :: "string option option" \<comment> \<open>\<^verbatim>\<open>*SubResource\<close>, by its \<^verbatim>\<open>ID\<close>\<close>

record VirtualNetworkLink =
  vnlName :: "string option"
  vnlID :: "string option"
  vnlLocation :: "string option"
  vnlProperties :: "VirtualNetworkLinkProperties option"

text \<open>The value behind the \<^verbatim>\<open>interface{}\<close> that a public IP service returns.\<close>

datatype PublicIPIface =
    PublicIPv9 "string option option" \<comment> \<open>\<^verbatim>\<open>armnetwork.PublicIPAddress\<close>: \<^verbatim>\<open>Properties.IPAddress\<close>\<close>
  | PublicIPv4 "string option option" \<comment> \<open>the type of module version 4\<close>
  | PublicIPOther string

subsection \<open>Kubernetes objects\<close>

record ObjectReference =
  refName :: string
  refNamespace :: string

record Cluster =
  clName :: string
  clNamespace :: string
  clAnnotations :: strmap
  clInfrastructureRefName :: string
  clControlPlaneHost :: string
  clPhase :: string
  clDeleting :: bool \<comment> \<open>a non-zero deletion timestamp\<close>

text \<open>An item of \<^verbatim>\<open>status.conditions\<close> in an unstructured object, and the field itself.\<close>

datatype rawItem = RawMap "(string \<times> string) list" | RawOther string

datatype nestedSlice = SliceMissing | SliceError error | SliceOf "rawItem list"

record Unstructured =
  uKind :: string
  uName :: string
  uNamespace :: string
  uAnnotations :: strmap
  uFinalizers :: "string list"
  uDeleting :: bool
  uConditions :: nestedSlice
  uBody :: string \<comment> \<open>the rest of the object\<close>

record PrivateEndpoint =
  peName :: string
  pePrivateIPAddresses :: "string list"

record Subnet =
  snPrivateEndpoints :: "PrivateEndpoint list"

record AzureClusterSpec =
  acsResourceGroup :: string
  acsSubscriptionID :: string
  acsIdentityRef :: "ObjectReference option"
  acsVnetID :: string
  acsSubnets :: "Subnet list"

record Condition =
  cType :: string
  cStatus :: string
  cSeverity :: string
  cReason :: string
  cMessage :: string
  cLastTransitionTime :: nat \<comment> \<open>0 is the zero time\<close>

record AzureCluster =
  acName :: string
  acNamespace :: string
  acFinalizers :: "string list"
  acSpec :: AzureClusterSpec
  acConditions :: "Condition list"

record AzureClusterIdentity =
  idName :: string
  idNamespace :: string
  idType :: string
  idClientID :: string
  idTenantID :: string
  idClientSecretName :: string
  idClientSecretNamespace :: string

abbreviation "UserAssignedMSI \<equiv> ''UserAssignedMSI''"
abbreviation "ManualServicePrincipal \<equiv> ''ManualServicePrincipal''"
abbreviation "WorkloadIdentity \<equiv> ''WorkloadIdentity''"

type_synonym Secret = "(string \<times> string) list" \<comment> \<open>\<^verbatim>\<open>Secret.Data\<close>\<close>

record KService =
  svcAnnotations :: strmap
  svcType :: string
  svcIngressIPs :: "string list" \<comment> \<open>\<^verbatim>\<open>Status.LoadBalancer.Ingress[i].IP\<close>\<close>

datatype kubeClient = InClusterClient | KubeConfigClient string

subsection \<open>The log of effects and the state of a run\<close>

datatype request =
    ZonesGet string string
  | ZonesCreateOrUpdate string string Zone
  | ZonesBeginDelete string string
  | RecordSetsList string string
  | RecordSetsCreateOrUpdate string string string string RecordSet
  | RecordSetsDelete string string string string
  | ResourceGroupsGet string
  | ResourceGroupsCreateOrUpdate string ResourceGroup
  | ResourceGroupsBeginDelete string
  | PrivateZonesGet string string
  | PrivateZonesBeginCreateOrUpdate string string PrivateZone
  | PrivateZonesBeginDelete string string
  | PrivateRecordSetsListByType string string string
  | PrivateRecordSetsList string string
  | PrivateRecordSetsCreateOrUpdate string string string string PrivateRecordSet
  | VnetLinksList string string
  | VnetLinksBeginCreateOrUpdate string string string VirtualNetworkLink
  | VnetLinksBeginDelete string string string
  | PollUntilDone request

datatype event =
    AzureCall armClient request
  | KubeUpdate Unstructured
  | KubeStatusUpdate Unstructured
  | CapzPatch AzureCluster \<comment> \<open>a patch by CAPZ's scope, of the object it was built from\<close>
  | GaugeSet metricVec "string list" int \<comment> \<open>\<^verbatim>\<open>WithLabelValues(...).Set(v)\<close>\<close>
  | CounterInc metricVec "string list" \<comment> \<open>\<^verbatim>\<open>WithLabelValues(...).Inc()\<close>\<close>
  | GaugeDeletePartialMatch metricVec "(string \<times> string) list"

record 'w st =
  world :: 'w
  infraCluster :: Unstructured
  events :: "event list"

type_synonym ('w, 'a) prog = "('w st, 'a) M"

definition emit :: "event \<Rightarrow> ('w, unit) prog" where
  "emit e = modifies (\<lambda>s. s\<lparr>events := events s @ [e]\<rparr>)"

text \<open>A library call: the request is logged, then answered by the parameter.\<close>

definition callAzure :: "armClient \<Rightarrow> request \<Rightarrow> ('w \<Rightarrow> (error + 'a) \<times> 'w) \<Rightarrow> ('w, 'a) prog" where
  "callAzure a q f = (\<lambda>s. case f (world s) of
     (r, w) \<Rightarrow> (fromSum r, s\<lparr>world := w, events := events s @ [AzureCall a q]\<rparr>))"

definition callWorld :: "('w \<Rightarrow> (error + 'a) \<times> 'w) \<Rightarrow> ('w, 'a) prog" where
  "callWorld f = (\<lambda>s. case f (world s) of (r, w) \<Rightarrow> (fromSum r, s\<lparr>world := w\<rparr>))"

lemma emit_run [run_simps]: "emit e s = (Ok (), s\<lparr>events := events s @ [e]\<rparr>)"
  by (simp add: emit_def modifies_def)

lemma emit_Ok_iff [run_iffs]: "emit e s = (Ok y, t) \<longleftrightarrow> t = s\<lparr>events := events s @ [e]\<rparr>"
  by (auto simp: emit_run)

lemma callWorld_run [run_simps]:
  "callWorld f s = (case f (world s) of (r, w) \<Rightarrow> (fromSum r, s\<lparr>world := w\<rparr>))"
  by (simp add: callWorld_def)

lemma callAzure_run [run_simps]:
  "callAzure a q f s = (case f (world s) of
     (r, w) \<Rightarrow> (fromSum r, s\<lparr>world := w, events := events s @ [AzureCall a q]\<rparr>))"
  by (simp add: callAzure_def)

subsection \<open>What a run adds to the log\<close>

text \<open>
  \<open>emits P m\<close>: every run of \<open>m\<close> only appends to the log, and only events that satisfy \<open>P\<close>.
  The rules collected in \<open>emits_intros\<close> decompose a program along its structure.
\<close>

named_theorems emits_intros \<open>structural rules of emits\<close>

definition emits :: "(event \<Rightarrow> bool) \<Rightarrow> ('w, 'a) prog \<Rightarrow> bool" where
  "emits P m \<longleftrightarrow> (\<forall>s. \<exists>es. events (snd (m s)) = events s @ es \<and> (\<forall>e\<in>set es. P e))"

lemma emitsD:
  "emits P m \<Longrightarrow> m s = (r, t) \<Longrightarrow> \<exists>es. events t = events s @ es \<and> (\<forall>e\<in>set es. P e)"
  unfolding emits_def by (metis snd_conv)

lemma emits_weaken: "emits P m \<Longrightarrow> (\<And>e. P e \<Longrightarrow> Q e) \<Longrightarrow> emits Q m"
  unfolding emits_def by metis

lemma emits_same: "(\<And>s. events (snd (m s)) = events s) \<Longrightarrow> emits P m"
  unfolding emits_def by simp

lemma emits_basic [emits_intros]:
  "emits P (ret x)" "emits P (throw e)" "emits P (panic p)" "emits P (liftR r)" "emits P (reads f)"
  by (auto intro!: emits_same simp: run_simps)

lemma emits_checkErr [emits_intros]: "emits P (checkErr x)"
  by (auto intro!: emits_same simp: run_simps split: option.splits)

lemma emits_emit [emits_intros]: "P e \<Longrightarrow> emits P (emit e)"
  by (simp add: emits_def run_simps)

lemma emits_callAzure [emits_intros]: "P (AzureCall a q) \<Longrightarrow> emits P (callAzure a q f)"
  by (simp add: emits_def callAzure_def split: prod.splits)

lemma emits_callWorld [emits_intros]: "emits P (callWorld f)"
  by (auto intro!: emits_same simp: callWorld_def split: prod.splits)

lemma emits_bindM [emits_intros]:
  assumes "emits P m" "\<And>x. emits P (k x)"
  shows "emits P (bindM m k)"
  unfolding emits_def
proof
  fix s
  obtain r t where r: "m s = (r, t)" by (cases "m s")
  obtain es where es: "events t = events s @ es" "\<forall>e\<in>set es. P e"
    using emitsD [OF assms(1) r] by blast
  show "\<exists>es. events (snd (bindM m k s)) = events s @ es \<and> (\<forall>e\<in>set es. P e)"
  proof (cases r)
    case (Ok x)
    obtain fs where "events (snd (k x t)) = events t @ fs" "\<forall>e\<in>set fs. P e"
      using assms(2) [of x] unfolding emits_def by blast
    then show ?thesis
      using r Ok es by (auto simp: run_simps)
  qed (use r es in \<open>auto simp: run_simps\<close>)
qed

lemma emits_masked [emits_intros]: "emits P m \<Longrightarrow> emits P (masked m)"
  by (simp add: emits_def)

lemma emits_attempt [emits_intros]: "emits P m \<Longrightarrow> emits P (attempt m)"
  by (simp add: emits_def)

lemma emits_if [emits_intros]: "(b \<Longrightarrow> emits P m) \<Longrightarrow> (\<not> b \<Longrightarrow> emits P n) \<Longrightarrow> emits P (if b then m else n)"
  by simp

lemma emits_case_option [emits_intros]:
  "(x = None \<Longrightarrow> emits P m) \<Longrightarrow> (\<And>y. x = Some y \<Longrightarrow> emits P (k y)) \<Longrightarrow>
     emits P (case x of None \<Rightarrow> m | Some y \<Rightarrow> k y)"
  by (cases x) auto

lemma emits_case_sum [emits_intros]:
  "(\<And>y. x = Inl y \<Longrightarrow> emits P (m y)) \<Longrightarrow> (\<And>y. x = Inr y \<Longrightarrow> emits P (k y)) \<Longrightarrow>
     emits P (case x of Inl y \<Rightarrow> m y | Inr y \<Rightarrow> k y)"
  by (cases x) auto

lemma emits_case_prod [emits_intros]:
  "(\<And>y z. x = (y, z) \<Longrightarrow> emits P (k y z)) \<Longrightarrow> emits P (case x of (y, z) \<Rightarrow> k y z)"
  by (cases x) auto

lemma emits_forEach [emits_intros]:
  "(\<And>x. x \<in> set xs \<Longrightarrow> emits P (f x)) \<Longrightarrow> emits P (forEach f xs)"
  by (induction xs) (simp_all add: emits_basic emits_bindM)

text \<open>The mutating requests of the log, with the client that sent them.\<close>

fun isWrite :: "request \<Rightarrow> bool" where
  "isWrite (ZonesCreateOrUpdate _ _ _) = True"
| "isWrite (ZonesBeginDelete _ _) = True"
| "isWrite (RecordSetsCreateOrUpdate _ _ _ _ _) = True"
| "isWrite (RecordSetsDelete _ _ _ _) = True"
| "isWrite (ResourceGroupsCreateOrUpdate _ _) = True"
| "isWrite (ResourceGroupsBeginDelete _) = True"
| "isWrite (PrivateZonesBeginCreateOrUpdate _ _ _) = True"
| "isWrite (PrivateZonesBeginDelete _ _) = True"
| "isWrite (PrivateRecordSetsCreateOrUpdate _ _ _ _ _) = True"
| "isWrite (VnetLinksBeginCreateOrUpdate _ _ _ _) = True"
| "isWrite (VnetLinksBeginDelete _ _ _) = True"
| "isWrite _ = False"

fun writeOf :: "event \<Rightarrow> (armClient \<times> request) option" where
  "writeOf (AzureCall a q) = (if isWrite q then Some (a, q) else None)"
| "writeOf _ = None"

definition azureWrites :: "'w st \<Rightarrow> (armClient \<times> request) list" where
  "azureWrites s = List.map_filter writeOf (events s)"

lemma map_filter_append: "List.map_filter f (xs @ ys) = List.map_filter f xs @ List.map_filter f ys"
  by (simp add: List.map_filter_def)

lemma azureWrites_append [simp]:
  "azureWrites (s\<lparr>events := events t @ es\<rparr>) = azureWrites t @ List.map_filter writeOf es"
  by (simp add: azureWrites_def map_filter_append)

lemma azureWrites_infra [simp]: "azureWrites (s\<lparr>infraCluster := u\<rparr>) = azureWrites s"
  by (simp add: azureWrites_def)

lemma azureWrites_world [simp]: "azureWrites (s\<lparr>world := w\<rparr>) = azureWrites s"
  by (simp add: azureWrites_def)

text \<open>
  \<open>sends ws m\<close>: whatever the outcome, a run of \<open>m\<close> sends exactly the mutating requests \<open>ws\<close>;
  \<open>keepsInfra m\<close>: a run leaves the infrastructure cluster in memory as it was.
\<close>

definition sends :: "(armClient \<times> request) list \<Rightarrow> ('w, 'a) prog \<Rightarrow> bool" where
  "sends ws m \<longleftrightarrow> (\<forall>s. azureWrites (snd (m s)) = azureWrites s @ ws)"

definition keepsInfra :: "('w, 'a) prog \<Rightarrow> bool" where
  "keepsInfra m \<longleftrightarrow> (\<forall>s. infraCluster (snd (m s)) = infraCluster s)"

named_theorems sends_intros \<open>rules of sends and keepsInfra\<close>

lemma sendsD: "sends ws m \<Longrightarrow> m s = (r, t) \<Longrightarrow> azureWrites t = azureWrites s @ ws"
  unfolding sends_def by (metis snd_conv)

lemma keepsInfraD: "keepsInfra m \<Longrightarrow> m s = (r, t) \<Longrightarrow> infraCluster t = infraCluster s"
  unfolding keepsInfra_def by (metis snd_conv)

lemma sends_basic [sends_intros]:
  "sends [] (ret x)" "sends [] (throw e)" "sends [] (panic p)" "sends [] (liftR r)" "sends [] (reads f)"
  by (simp_all add: sends_def run_simps)

lemma sends_emit [sends_intros]: "writeOf e = None \<Longrightarrow> sends [] (emit e)"
  by (simp add: sends_def run_simps List.map_filter_def)

lemma sends_callWorld [sends_intros]: "sends [] (callWorld f)"
  by (simp add: sends_def run_simps split: prod.splits)

lemma sends_callAzure [sends_intros]:
  "sends (if isWrite q then [(a, q)] else []) (callAzure a q f)"
  by (simp add: sends_def run_simps azureWrites_def List.map_filter_def split: prod.splits)

lemma sends_masked [sends_intros]: "sends ws m \<Longrightarrow> sends ws (masked m)"
  by (simp add: sends_def)

lemma sends_attempt [sends_intros]: "sends ws m \<Longrightarrow> sends ws (attempt m)"
  by (simp add: sends_def)

lemma sends_bind_tail [sends_intros]:
  "sends ws m \<Longrightarrow> (\<And>x. sends [] (k x)) \<Longrightarrow> sends ws (bindM m k)"
  by (simp add: sends_def run_simps split: prod.splits res.splits) (metis snd_conv)

lemma sends_emit_then:
  "writeOf e = None \<Longrightarrow> sends ws (k ()) \<Longrightarrow> sends ws (bindM (emit e) k)"
  by (simp add: sends_def run_simps List.map_filter_def)

lemma keepsInfra_basic [sends_intros]:
  "keepsInfra (ret x)" "keepsInfra (throw e)" "keepsInfra (panic p)" "keepsInfra (liftR r)"
  "keepsInfra (reads f)" "keepsInfra (emit v)" "keepsInfra (callAzure a q g)" "keepsInfra (callWorld h)"
  by (simp_all add: keepsInfra_def run_simps split: prod.splits)

lemma keepsInfra_masked [sends_intros]: "keepsInfra m \<Longrightarrow> keepsInfra (masked m)"
  by (simp add: keepsInfra_def)

lemma keepsInfra_attempt [sends_intros]: "keepsInfra m \<Longrightarrow> keepsInfra (attempt m)"
  by (simp add: keepsInfra_def)

lemma keepsInfra_bindM [sends_intros]:
  "keepsInfra m \<Longrightarrow> (\<And>x. keepsInfra (k x)) \<Longrightarrow> keepsInfra (bindM m k)"
  by (simp add: keepsInfra_def run_simps split: prod.splits res.splits) (metis snd_conv)

lemma keepsInfra_if [sends_intros]:
  "(b \<Longrightarrow> keepsInfra m) \<Longrightarrow> (\<not> b \<Longrightarrow> keepsInfra n) \<Longrightarrow> keepsInfra (if b then m else n)"
  by simp

lemma keepsInfra_case_option [sends_intros]:
  "(x = None \<Longrightarrow> keepsInfra m) \<Longrightarrow> (\<And>y. x = Some y \<Longrightarrow> keepsInfra (k y)) \<Longrightarrow>
     keepsInfra (case x of None \<Rightarrow> m | Some y \<Rightarrow> k y)"
  by (cases x) auto

lemma keepsInfra_case_sum [sends_intros]:
  "(\<And>y. x = Inl y \<Longrightarrow> keepsInfra (m y)) \<Longrightarrow> (\<And>y. x = Inr y \<Longrightarrow> keepsInfra (k y)) \<Longrightarrow>
     keepsInfra (case x of Inl y \<Rightarrow> m y | Inr y \<Rightarrow> k y)"
  by (cases x) auto

lemma keepsInfra_case_prod [sends_intros]:
  "(\<And>y z. x = (y, z) \<Longrightarrow> keepsInfra (k y z)) \<Longrightarrow> keepsInfra (case x of (y, z) \<Rightarrow> k y z)"
  by (cases x) auto

lemma keepsInfra_forEach [sends_intros]:
  "(\<And>x. x \<in> set xs \<Longrightarrow> keepsInfra (f x)) \<Longrightarrow> keepsInfra (forEach f xs)"
  by (induction xs) (simp_all add: keepsInfra_basic keepsInfra_bindM)

text \<open>\<open>writesOnly Q m\<close>: whatever the outcome, every mutating request of a run of \<open>m\<close> satisfies \<open>Q\<close>.\<close>

definition writesOnly :: "(armClient \<times> request \<Rightarrow> bool) \<Rightarrow> ('w, 'a) prog \<Rightarrow> bool" where
  "writesOnly Q m \<longleftrightarrow> (\<forall>s. \<exists>ws. azureWrites (snd (m s)) = azureWrites s @ ws \<and> (\<forall>w\<in>set ws. Q w))"

named_theorems writes_intros \<open>rules of writesOnly\<close>

lemma writesOnlyD:
  "writesOnly Q m \<Longrightarrow> m s = (r, t) \<Longrightarrow> \<exists>ws. azureWrites t = azureWrites s @ ws \<and> (\<forall>w\<in>set ws. Q w)"
  unfolding writesOnly_def by (metis snd_conv)

lemma writesOnly_sends: "sends ws m \<Longrightarrow> \<forall>w\<in>set ws. Q w \<Longrightarrow> writesOnly Q m"
  unfolding writesOnly_def sends_def by blast

lemma writesOnly_basic [writes_intros]:
  "writesOnly Q (ret x)" "writesOnly Q (throw e)" "writesOnly Q (panic p)" "writesOnly Q (liftR r)"
  "writesOnly Q (reads f)"
  by (simp_all add: writesOnly_def run_simps)

lemma writesOnly_callWorld [writes_intros]: "writesOnly Q (callWorld f)"
  by (rule writesOnly_sends [OF sends_callWorld]) simp

lemma writesOnly_checkErr [writes_intros]: "writesOnly Q (checkErr x)"
  by (cases x) (simp_all add: checkErr_def writesOnly_basic)

lemma writesOnly_emit [writes_intros]: "writeOf e = None \<Longrightarrow> writesOnly Q (emit e)"
  by (rule writesOnly_sends [OF sends_emit]) simp_all

lemma writesOnly_masked [writes_intros]: "writesOnly Q m \<Longrightarrow> writesOnly Q (masked m)"
  by (simp add: writesOnly_def)

lemma writesOnly_attempt [writes_intros]: "writesOnly Q m \<Longrightarrow> writesOnly Q (attempt m)"
  by (simp add: writesOnly_def)

lemma writesOnly_bindM [writes_intros]:
  assumes "writesOnly Q m" "\<And>x. writesOnly Q (k x)"
  shows "writesOnly Q (bindM m k)"
  unfolding writesOnly_def
proof
  fix s
  obtain r t where r: "m s = (r, t)" by (cases "m s")
  obtain ws where ws: "azureWrites t = azureWrites s @ ws" "\<forall>w\<in>set ws. Q w"
    using writesOnlyD [OF assms(1) r] by blast
  show "\<exists>ws. azureWrites (snd (bindM m k s)) = azureWrites s @ ws \<and> (\<forall>w\<in>set ws. Q w)"
  proof (cases r)
    case (Ok x)
    obtain vs where "azureWrites (snd (k x t)) = azureWrites t @ vs" "\<forall>w\<in>set vs. Q w"
      using assms(2) [of x] unfolding writesOnly_def by blast
    then show ?thesis using r Ok ws by (auto simp: run_simps)
  qed (use r ws in \<open>auto simp: run_simps\<close>)
qed

lemma writesOnly_if [writes_intros]:
  "(b \<Longrightarrow> writesOnly Q m) \<Longrightarrow> (\<not> b \<Longrightarrow> writesOnly Q n) \<Longrightarrow> writesOnly Q (if b then m else n)"
  by simp

lemma writesOnly_case_option [writes_intros]:
  "(x = None \<Longrightarrow> writesOnly Q m) \<Longrightarrow> (\<And>y. x = Some y \<Longrightarrow> writesOnly Q (k y)) \<Longrightarrow>
     writesOnly Q (case x of None \<Rightarrow> m | Some y \<Rightarrow> k y)"
  by (cases x) auto

lemma writesOnly_case_sum [writes_intros]:
  "(\<And>y. x = Inl y \<Longrightarrow> writesOnly Q (m y)) \<Longrightarrow> (\<And>y. x = Inr y \<Longrightarrow> writesOnly Q (k y)) \<Longrightarrow>
     writesOnly Q (case x of Inl y \<Rightarrow> m y | Inr y \<Rightarrow> k y)"
  by (cases x) auto

lemma writesOnly_case_prod [writes_intros]:
  "(\<And>y z. x = (y, z) \<Longrightarrow> writesOnly Q (k y z)) \<Longrightarrow> writesOnly Q (case x of (y, z) \<Rightarrow> k y z)"
  by (cases x) auto

lemma writesOnly_forEach [writes_intros]:
  "(\<And>x. x \<in> set xs \<Longrightarrow> writesOnly Q (f x)) \<Longrightarrow> writesOnly Q (forEach f xs)"
  by (induction xs) (simp_all add: writesOnly_basic writesOnly_bindM)

lemma writesOnly_weaken: "writesOnly P m \<Longrightarrow> (\<And>w. P w \<Longrightarrow> Q w) \<Longrightarrow> writesOnly Q m"
  unfolding writesOnly_def by metis

text \<open>A program that never writes sends nothing.\<close>

lemma writesOnly_False_sends: "writesOnly (\<lambda>_. False) m \<longleftrightarrow> sends [] m"
  unfolding writesOnly_def sends_def by (metis all_not_in_conv append_Nil2 list.set(1) set_empty2)

text \<open>\<open>quiet m\<close>: a run of \<open>m\<close> logs nothing and leaves the infrastructure cluster alone (a lookup).\<close>

definition quiet :: "('w, 'a) prog \<Rightarrow> bool" where
  "quiet m \<longleftrightarrow> (\<forall>s. events (snd (m s)) = events s \<and> infraCluster (snd (m s)) = infraCluster s)"

named_theorems quiet_intros \<open>rules of quiet\<close>

lemma quietD: "quiet m \<Longrightarrow> m s = (r, t) \<Longrightarrow> events t = events s \<and> infraCluster t = infraCluster s"
  unfolding quiet_def by (metis snd_conv)

lemma quiet_basic [quiet_intros]:
  "quiet (ret x)" "quiet (throw e)" "quiet (panic p)" "quiet (liftR r)" "quiet (reads f)"
  "quiet (callWorld h)" "quiet (checkErr z)"
  by (simp_all add: quiet_def run_simps split: prod.splits option.splits)

lemma quiet_masked [quiet_intros]: "quiet m \<Longrightarrow> quiet (masked m)"
  by (simp add: quiet_def)

lemma quiet_attempt [quiet_intros]: "quiet m \<Longrightarrow> quiet (attempt m)"
  by (simp add: quiet_def)

lemma quiet_bindM [quiet_intros]: "quiet m \<Longrightarrow> (\<And>x. quiet (k x)) \<Longrightarrow> quiet (bindM m k)"
  by (simp add: quiet_def run_simps split: prod.splits res.splits) (metis snd_conv)

lemma quiet_if [quiet_intros]: "(b \<Longrightarrow> quiet m) \<Longrightarrow> (\<not> b \<Longrightarrow> quiet n) \<Longrightarrow> quiet (if b then m else n)"
  by simp

lemma quiet_case_option [quiet_intros]:
  "(x = None \<Longrightarrow> quiet m) \<Longrightarrow> (\<And>y. x = Some y \<Longrightarrow> quiet (k y)) \<Longrightarrow>
     quiet (case x of None \<Rightarrow> m | Some y \<Rightarrow> k y)"
  by (cases x) auto

lemma quiet_case_sum [quiet_intros]:
  "(\<And>y. x = Inl y \<Longrightarrow> quiet (m y)) \<Longrightarrow> (\<And>y. x = Inr y \<Longrightarrow> quiet (k y)) \<Longrightarrow>
     quiet (case x of Inl y \<Rightarrow> m y | Inr y \<Rightarrow> k y)"
  by (cases x) auto

lemma quiet_case_prod [quiet_intros]:
  "(\<And>y z. x = (y, z) \<Longrightarrow> quiet (k y z)) \<Longrightarrow> quiet (case x of (y, z) \<Rightarrow> k y z)"
  by (cases x) auto

lemma quiet_sends: "quiet m \<Longrightarrow> sends [] m"
  by (simp add: quiet_def sends_def azureWrites_def)

lemma quiet_infra: "quiet m \<Longrightarrow> keepsInfra m"
  by (simp add: quiet_def keepsInfra_def)

lemma quiet_writesOnly: "quiet m \<Longrightarrow> writesOnly Q m"
  by (rule writesOnly_sends [OF quiet_sends]) simp_all

lemma quiet_emits: "quiet m \<Longrightarrow> emits P m"
  by (rule emits_same) (simp add: quiet_def)

text \<open>\<^verbatim>\<open>WithLabelValues\<close> is called with the right number of label values.\<close>

fun wellLabelled :: "event \<Rightarrow> bool" where
  "wellLabelled (GaugeSet v ls x) \<longleftrightarrow> length ls = labelArity v"
| "wellLabelled (CounterInc v ls) \<longleftrightarrow> length ls = labelArity v"
| "wellLabelled (GaugeDeletePartialMatch v ls) \<longleftrightarrow> (\<forall>l\<in>set ls. fst l \<in> set (optLabels (vecOptsOf v)))"
| "wellLabelled _ \<longleftrightarrow> True"

subsection \<open>The libraries as parameters\<close>

type_synonym ('w, 'a) call = "'w \<Rightarrow> (error + 'a) \<times> 'w"

record 'w azureSdk =
  newCredential :: "TokenCredential \<Rightarrow> error option"
  newArmClient :: "string \<Rightarrow> string \<Rightarrow> TokenCredential \<Rightarrow> error option"
  zones_Get :: "armClient \<Rightarrow> string \<Rightarrow> string \<Rightarrow> ('w, Zone) call"
  zones_CreateOrUpdate :: "armClient \<Rightarrow> string \<Rightarrow> string \<Rightarrow> Zone \<Rightarrow> ('w, Zone) call"
  zones_BeginDelete :: "armClient \<Rightarrow> string \<Rightarrow> string \<Rightarrow> ('w, unit) call"
  recordSets_Pages :: "armClient \<Rightarrow> string \<Rightarrow> string \<Rightarrow> 'w \<Rightarrow> (error + RecordSet list) list \<times> 'w"
  recordSets_CreateOrUpdate :: "armClient \<Rightarrow> string \<Rightarrow> string \<Rightarrow> string \<Rightarrow> string \<Rightarrow> RecordSet \<Rightarrow> ('w, RecordSet) call"
  recordSets_Delete :: "armClient \<Rightarrow> string \<Rightarrow> string \<Rightarrow> string \<Rightarrow> string \<Rightarrow> ('w, unit) call"
  resourceGroups_Get :: "armClient \<Rightarrow> string \<Rightarrow> ('w, ResourceGroup) call"
  resourceGroups_CreateOrUpdate :: "armClient \<Rightarrow> string \<Rightarrow> ResourceGroup \<Rightarrow> ('w, ResourceGroup) call"
  resourceGroups_BeginDelete :: "armClient \<Rightarrow> string \<Rightarrow> ('w, unit) call"
  privateZones_Get :: "armClient \<Rightarrow> string \<Rightarrow> string \<Rightarrow> ('w, PrivateZone) call"
  privateZones_BeginCreateOrUpdate :: "armClient \<Rightarrow> string \<Rightarrow> string \<Rightarrow> PrivateZone \<Rightarrow> ('w, unit) call"
  privateZones_BeginDelete :: "armClient \<Rightarrow> string \<Rightarrow> string \<Rightarrow> ('w, unit) call"
  privateRecordSets_PagesByType :: "armClient \<Rightarrow> string \<Rightarrow> string \<Rightarrow> string \<Rightarrow> 'w \<Rightarrow> (error + PrivateRecordSet list) list \<times> 'w"
  privateRecordSets_Pages :: "armClient \<Rightarrow> string \<Rightarrow> string \<Rightarrow> 'w \<Rightarrow> (error + PrivateRecordSet list) list \<times> 'w"
  privateRecordSets_CreateOrUpdate :: "armClient \<Rightarrow> string \<Rightarrow> string \<Rightarrow> string \<Rightarrow> string \<Rightarrow> PrivateRecordSet \<Rightarrow> ('w, PrivateRecordSet) call"
  vnetLinks_Pages :: "armClient \<Rightarrow> string \<Rightarrow> string \<Rightarrow> 'w \<Rightarrow> (error + VirtualNetworkLink list) list \<times> 'w"
  vnetLinks_BeginCreateOrUpdate :: "armClient \<Rightarrow> string \<Rightarrow> string \<Rightarrow> string \<Rightarrow> VirtualNetworkLink \<Rightarrow> ('w, unit) call"
  vnetLinks_BeginDelete :: "armClient \<Rightarrow> string \<Rightarrow> string \<Rightarrow> string \<Rightarrow> ('w, unit) call"
  pollUntilDone :: "armClient \<Rightarrow> request \<Rightarrow> ('w, unit) call" \<comment> \<open>of the operation that request began\<close>

end
