(* ===== verification/Errors.thy ===== *)
theory Errors
  imports Prelude
begin

section \<open>Error values and their classification\<close>

text \<open>
  \<open>azure/errors.go\<close>, \<open>azure/services/dns/errors.go\<close> and \<open>pkg/errors/errors.go\<close>. A Go \<^verbatim>\<open>error\<close>
  argument that may be nil is an \<open>error option\<close>. \<open>IsParentResourceNotFound\<close> follows the wrapping
  of \<^verbatim>\<open>microerror.Mask\<close> (it uses \<^verbatim>\<open>errors.As\<close>), while \<open>IsResourceNotFoundError\<close> looks at the
  dynamic type of the error itself (a type assertion), so it recognises an SDK error only before
  it is masked.
\<close>

subsection \<open>azure/errors.go\<close>

definition ParentResourceNotFoundErrorCode :: string where
  "ParentResourceNotFoundErrorCode = ''ParentResourceNotFound''"

definition IsParentResourceNotFound :: "error option \<Rightarrow> bool" where
  "IsParentResourceNotFound err =
     (case err of
        None \<Rightarrow> False
      | Some e \<Rightarrow> AsResponseError e = Some ParentResourceNotFoundErrorCode)"

subsection \<open>azure/services/dns/errors.go\<close>

definition resourceGroupNotFoundErrorMessage :: string where
  "resourceGroupNotFoundErrorMessage = ''ResourceGroupNotFound''"

definition ingressNotReadyError :: error where
  "ingressNotReadyError = MicroError ''ingressNotReadyError''"

definition IsIngressNotReady :: "error option \<Rightarrow> bool" where
  "IsIngressNotReady err \<longleftrightarrow> map_option Cause err = Some ingressNotReadyError"

definition tooManyICServicesError :: error where
  "tooManyICServicesError = MicroError ''tooManyICServicesError''"

definition IsTooManyICServices :: "error option \<Rightarrow> bool" where
  "IsTooManyICServices err \<longleftrightarrow> map_option Cause err = Some tooManyICServicesError"

definition resourceNotFoundError :: error where
  "resourceNotFoundError = MicroError ''resourceNotFoundError''"

definition IsResourceNotFoundError :: "error option \<Rightarrow> bool" where
  "IsResourceNotFoundError err =
     (if map_option Cause err = Some resourceNotFoundError then True
      else (case err of
              Some (ResponseError c) \<Rightarrow> c = resourceGroupNotFoundErrorMessage
            | _ \<Rightarrow> False))"

subsection \<open>pkg/errors/errors.go\<close>

definition InvalidConfigError :: error where
  "InvalidConfigError = MicroError ''invalidConfigError''"

definition IsInvalidConfig :: "error option \<Rightarrow> bool" where
  "IsInvalidConfig err \<longleftrightarrow> map_option Cause err = Some InvalidConfigError"

definition FatalError :: error where
  "FatalError = MicroError ''FatalError''"

definition IsFatal :: "error option \<Rightarrow> bool" where
  "IsFatal err \<longleftrightarrow> map_option Cause err = Some FatalError"

subsection \<open>Laws\<close>

lemma IsParentResourceNotFound_None [simp]: "\<not> IsParentResourceNotFound None"
  by (simp add: IsParentResourceNotFound_def)

lemma IsParentResourceNotFound_Masked [simp]:
  "IsParentResourceNotFound (Some (Masked e)) = IsParentResourceNotFound (Some e)"
  by (simp add: IsParentResourceNotFound_def)

lemma IsParentResourceNotFound_iff:
  "IsParentResourceNotFound (Some e) \<longleftrightarrow> Cause e = ResponseError ''ParentResourceNotFound''"
  by (simp add: IsParentResourceNotFound_def ParentResourceNotFoundErrorCode_def AsResponseError_Some_iff)

lemma IsResourceNotFoundError_None [simp]: "\<not> IsResourceNotFoundError None"
  by (simp add: IsResourceNotFoundError_def)

lemma IsResourceNotFoundError_Masked:
  "IsResourceNotFoundError (Some (Masked e)) \<longleftrightarrow> Cause e = resourceNotFoundError"
  by (simp add: IsResourceNotFoundError_def)

lemma IsResourceNotFoundError_Response [simp]:
  "IsResourceNotFoundError (Some (ResponseError c)) \<longleftrightarrow> c = ''ResourceGroupNotFound''"
  by (simp add: IsResourceNotFoundError_def resourceNotFoundError_def
      resourceGroupNotFoundErrorMessage_def)

lemma IsResourceNotFoundError_sentinel [simp]:
  "IsResourceNotFoundError (Some (Masked resourceNotFoundError))"
  by (simp add: IsResourceNotFoundError_def resourceNotFoundError_def)

end
