(* ===== verification/Infracluster.thy ===== *)
theory Infracluster
  imports Platform Errors
begin

section \<open>The infrastructure cluster and its scope (\<open>pkg/infracluster\<close>)\<close>

text \<open>
  \<open>scope.go\<close>, \<open>common_patcher.go\<close>, \<open>publicip_service.go\<close> and \<open>annotation.go\<close>. The Go interface
  \<^verbatim>\<open>Patcher\<close> is the record \<open>Patcher\<close> of its methods; \<open>NewCommonPatcher\<close> builds the one of this
  package, CAPZ's \<^verbatim>\<open>ClusterScope\<close> is a parameter. The pointer \<^verbatim>\<open>InfraCluster\<close> is shared by the scope,
  the patcher and the controller: the object lives in the state (\<open>infraCluster\<close>). The cached
  fields of \<^verbatim>\<open>Scope\<close> are fields of the record, and the functions that fill a cache return the
  new scope.
\<close>

subsection \<open>Parameters: the Kubernetes client and CAPZ\<close>

record PublicIPSpec =
  pipName :: string
  pipDNSName :: string

record 'w Patcher =
  pClientID :: string
  pSubscriptionID :: string
  pTenantID :: string
  pClusterName :: string
  pPatchObject :: "('w, unit) prog"
  pIsAPIServerPrivate :: bool
  pAPIServerPrivateIP :: string
  pAPIServerPublicIP :: "PublicIPSpec option"
  pClose :: "('w, unit) prog"

type_synonym 'w getter = "string \<Rightarrow> string \<Rightarrow> ('w, PublicIPIface) prog" \<comment> \<open>\<^verbatim>\<open>async.Getter\<close>: name, resource group\<close>

record 'w kubeApi =
  getClusterByName :: "string \<Rightarrow> string \<Rightarrow> ('w, Cluster) call" \<comment> \<open>namespace, name\<close>
  getInfraObject :: "Cluster \<Rightarrow> ('w, Unstructured) call"
  getAzureCluster :: "string \<Rightarrow> string \<Rightarrow> ('w, AzureCluster) call" \<comment> \<open>name, namespace\<close>
  getAzureClusterIdentity :: "string \<Rightarrow> string \<Rightarrow> ('w, AzureClusterIdentity) call"
  getSecret :: "string \<Rightarrow> string \<Rightarrow> ('w, Secret) call"
  getCluster :: "string \<Rightarrow> string \<Rightarrow> ('w, Cluster) call"
  updateObject :: "Unstructured \<Rightarrow> ('w, Unstructured) call" \<comment> \<open>the object as the server returns it\<close>
  updateStatus :: "Unstructured \<Rightarrow> ('w, Unstructured) call"
  apiIsNotFound :: "error \<Rightarrow> bool"
  isPaused :: "Cluster \<Rightarrow> Unstructured \<Rightarrow> bool"
  containsFinalizer :: "Unstructured \<Rightarrow> string \<Rightarrow> bool"
  addFinalizer :: "Unstructured \<Rightarrow> string \<Rightarrow> Unstructured"
  removeFinalizer :: "Unstructured \<Rightarrow> string \<Rightarrow> Unstructured"
  fromUnstructured :: "Unstructured \<Rightarrow> error + AzureCluster"
  newMicrologger :: "error option"
  newRestConfig :: "kubeClient \<Rightarrow> error option"
  newClients :: "kubeClient \<Rightarrow> error option"
  getSecretWith :: "kubeClient \<Rightarrow> string \<Rightarrow> string \<Rightarrow> ('w, Secret) call"
  listServices :: "kubeClient \<Rightarrow> string \<Rightarrow> string option \<Rightarrow> ('w, KService list) call"
  conditionFromMap :: "bool \<Rightarrow> (string \<times> string) list \<Rightarrow> error + Condition" \<comment> \<open>is it a \<^verbatim>\<open>metav1.Condition\<close>?\<close>
  conditionToMap :: "bool \<Rightarrow> Condition \<Rightarrow> error + (string \<times> string) list"
  setStatusCondition :: "Condition list \<Rightarrow> Condition \<Rightarrow> 'w \<Rightarrow> (bool \<times> Condition list) \<times> 'w"
  timeNow :: "'w \<Rightarrow> nat \<times> 'w"

text \<open>
  CAPZ's \<^verbatim>\<open>ClusterScope\<close>, by the answers of its methods. It is built from an \<^verbatim>\<open>AzureCluster\<close> object of
  its own, which \<open>newAzureScope\<close> reads; its \<^verbatim>\<open>PatchObject\<close> and \<^verbatim>\<open>Close\<close> patch that object. Such a patch is
  logged (\<open>CapzPatch\<close>) with the object the scope was built from; it acts on the outside world and not on the
  infrastructure object of the operator. The public IP service acts on the outside world only.
\<close>

record 'w capzScope =
  csClientID :: string
  csSubscriptionID :: string
  csTenantID :: string
  csClusterName :: string
  csPatchObject :: "('w, unit) call"
  csIsAPIServerPrivate :: bool
  csAPIServerPrivateIP :: string
  csAPIServerPublicIP :: "PublicIPSpec option"
  csClose :: "('w, unit) call"

record 'w capz =
  newClusterScope :: "Cluster \<Rightarrow> AzureCluster \<Rightarrow> ('w, 'w capzScope) call"
  newPublicIPs :: "'w capzScope \<Rightarrow> error + (string \<Rightarrow> string \<Rightarrow> ('w, PublicIPIface) call)"

definition capzPatch :: "AzureCluster \<Rightarrow> ('w, unit) call \<Rightarrow> ('w, unit) prog" where
  "capzPatch azureCluster patch = bindM (emit (CapzPatch azureCluster)) (\<lambda>_. callWorld patch)"

definition capzPatcherOps :: "AzureCluster \<Rightarrow> 'w capzScope \<Rightarrow> 'w Patcher" where
  "capzPatcherOps azureCluster c =
     \<lparr>pClientID = csClientID c, pSubscriptionID = csSubscriptionID c, pTenantID = csTenantID c,
      pClusterName = csClusterName c, pPatchObject = capzPatch azureCluster (csPatchObject c),
      pIsAPIServerPrivate = csIsAPIServerPrivate c, pAPIServerPrivateIP = csAPIServerPrivateIP c,
      pAPIServerPublicIP = csAPIServerPublicIP c, pClose = capzPatch azureCluster (csClose c)\<rparr>"

definition worldGetter :: "(string \<Rightarrow> string \<Rightarrow> ('w, PublicIPIface) call) \<Rightarrow> 'w getter" where
  "worldGetter g = (\<lambda>name resourceGroup. callWorld (g name resourceGroup))"

text \<open>\<^verbatim>\<open>Update\<close> and \<^verbatim>\<open>Status().Update\<close> overwrite the object in memory with the server's answer.\<close>

definition kubeUpdate :: "'w kubeApi \<Rightarrow> ('w, unit) prog" where
  "kubeUpdate K = (\<lambda>s. case updateObject K (infraCluster s) (world s) of
      (Inl e, w) \<Rightarrow> (Err e, s\<lparr>world := w, events := events s @ [KubeUpdate (infraCluster s)]\<rparr>)
    | (Inr u, w) \<Rightarrow> (Ok (), s\<lparr>world := w, infraCluster := u, events := events s @ [KubeUpdate (infraCluster s)]\<rparr>))"

definition kubeStatusUpdate :: "'w kubeApi \<Rightarrow> ('w, unit) prog" where
  "kubeStatusUpdate K = (\<lambda>s. case updateStatus K (infraCluster s) (world s) of
      (Inl e, w) \<Rightarrow> (Err e, s\<lparr>world := w, events := events s @ [KubeStatusUpdate (infraCluster s)]\<rparr>)
    | (Inr u, w) \<Rightarrow> (Ok (), s\<lparr>world := w, infraCluster := u, events := events s @ [KubeStatusUpdate (infraCluster s)]\<rparr>))"

lemma emits_kubeUpdate [emits_intros]: "(\<And>u. P (KubeUpdate u)) \<Longrightarrow> emits P (kubeUpdate K)"
  by (auto simp: emits_def kubeUpdate_def split: prod.splits sum.splits)

lemma emits_kubeStatusUpdate [emits_intros]: "(\<And>u. P (KubeStatusUpdate u)) \<Longrightarrow> emits P (kubeStatusUpdate K)"
  by (auto simp: emits_def kubeStatusUpdate_def split: prod.splits sum.splits)

subsection \<open>annotation.go: resource tags\<close>

definition ResourceTagNamePrefix :: string where
  "ResourceTagNamePrefix = ''azure-resourcegroup-tag.''"

primrec resourceTagsLoop :: "(string \<times> string) list \<Rightarrow> tagmap \<Rightarrow> tagmap" where
  "resourceTagsLoop [] tags = tags"
| "resourceTagsLoop (kv # al) tags =
     resourceTagsLoop al
       (if HasPrefix (fst kv) ResourceTagNamePrefix
        then AList.update (TrimPrefix (fst kv) ResourceTagNamePrefix) (Some (snd kv)) tags
        else tags)"

definition GetResourceTagsFromInfraClusterAnnotations :: "strmap \<Rightarrow> tagmap" where
  "GetResourceTagsFromInfraClusterAnnotations annotations =
     (case annotations of
        None \<Rightarrow> []
      | Some al \<Rightarrow> if al = [] then [] else resourceTagsLoop al [])"

subsection \<open>publicip\_service.go\<close>

definition PublicIPService_Get :: "Cluster \<Rightarrow> 'w getter" where
  "PublicIPService_Get cluster = (\<lambda>name resourceGroup.
     let ip = ParseIP (clControlPlaneHost cluster) in
     if ip = [] then throw (PlainError (''cluster '' @ clName cluster @ '' does not have valid control plane IP address''))
     else ret (PublicIPv9 (Some (Some (IP_String ip)))))"

text \<open>It answers without the outside world, so it is of the form of CAPZ's service too.\<close>

lemma PublicIPService_Get_world:
  "PublicIPService_Get cluster = worldGetter (\<lambda>name rg w.
     (if ParseIP (clControlPlaneHost cluster) = []
      then Inl (PlainError (''cluster '' @ clName cluster @ '' does not have valid control plane IP address''))
      else Inr (PublicIPv9 (Some (Some (IP_String (ParseIP (clControlPlaneHost cluster)))))), w))"
  by (auto simp: PublicIPService_Get_def worldGetter_def fun_eq_iff run_simps Let_def)

subsection \<open>scope.go: kinds of clusters\<close>

definition kindAzureCluster :: string where
  "kindAzureCluster = ''AzureCluster''"

definition kindAzureASOManagedCluster :: string where
  "kindAzureASOManagedCluster = ''AzureASOManagedCluster''"

abbreviation "AnnotationAzureSubscriptionID \<equiv> ''giantswarm.io/azure-subscription-id''"
abbreviation "AnnotationAzureClusterIdentityName \<equiv> ''azure.giantswarm.io/azure-cluster-identity''"
abbreviation "AnnotationAzureClusterIdentityNamespace \<equiv> ''azure.giantswarm.io/azure-cluster-identity-namespace''"

definition isAzureCluster :: "Unstructured \<Rightarrow> bool" where
  "isAzureCluster u \<longleftrightarrow> uKind u = kindAzureCluster"

definition isASOManagedCluster :: "Unstructured \<Rightarrow> bool" where
  "isASOManagedCluster u \<longleftrightarrow> uKind u = kindAzureASOManagedCluster"

definition asoManagedClusterIdentityRef :: "Unstructured \<Rightarrow> ObjectReference option" where
  "asoManagedClusterIdentityRef u =
     (if \<not> isASOManagedCluster u then None
      else let name = lookupStr (uAnnotations u) AnnotationAzureClusterIdentityName in
        if name = [] then None
        else Some \<lparr>refName = name,
                   refNamespace = lookupStr (uAnnotations u) AnnotationAzureClusterIdentityNamespace\<rparr>)"

definition azureClusterFromInfraObject :: "'w kubeApi \<Rightarrow> Unstructured \<Rightarrow> AzureCluster option" where
  "azureClusterFromInfraObject K u =
     (if \<not> isAzureCluster u then None
      else (case fromUnstructured K u of Inl e \<Rightarrow> None | Inr ac \<Rightarrow> Some ac))"

definition azureClusterSpec :: "'w kubeApi \<Rightarrow> Unstructured \<Rightarrow> AzureClusterSpec option" where
  "azureClusterSpec K u = map_option acSpec (azureClusterFromInfraObject K u)"

definition azureClusterStatus :: "'w kubeApi \<Rightarrow> Unstructured \<Rightarrow> Condition list option" where
  "azureClusterStatus K u = map_option acConditions (azureClusterFromInfraObject K u)"

subsection \<open>common\_patcher.go\<close>

record CommonPatcher =
  cpCluster :: Cluster
  cpClientID :: string
  cpSubscriptionID :: string
  cpTenantID :: string
  cpIP :: IP

definition CommonPatcher_PatchObject :: "'w kubeApi \<Rightarrow> ('w, unit) prog" where
  "CommonPatcher_PatchObject K =
     bindM (reads infraCluster) (\<lambda>u.
     bindM (if \<not> isASOManagedCluster u then kubeStatusUpdate K else ret ()) (\<lambda>_.
     kubeUpdate K))"

definition CommonPatcher_IsAPIServerPrivate :: "CommonPatcher \<Rightarrow> bool" where
  "CommonPatcher_IsAPIServerPrivate p \<longleftrightarrow> cpIP p \<noteq> [] \<and> IsPrivate (cpIP p)"

definition CommonPatcher_APIServerPrivateIP :: "CommonPatcher \<Rightarrow> string" where
  "CommonPatcher_APIServerPrivateIP p = (if IsPrivate (cpIP p) then IP_String (cpIP p) else [])"

definition CommonPatcher_APIServerPublicIP :: "CommonPatcher \<Rightarrow> PublicIPSpec option" where
  "CommonPatcher_APIServerPublicIP p =
     (if IsPrivate (cpIP p) then None
      else Some \<lparr>pipName = IP_String (cpIP p), pipDNSName = []\<rparr>)"

definition NewCommonPatcher :: "string \<Rightarrow> string \<Rightarrow> string \<Rightarrow> Cluster \<Rightarrow> CommonPatcher" where
  "NewCommonPatcher clientID subscriptionID tenantID cluster =
     \<lparr>cpCluster = cluster, cpClientID = clientID, cpSubscriptionID = subscriptionID,
      cpTenantID = tenantID, cpIP = ParseIP (clControlPlaneHost cluster)\<rparr>"

text \<open>The method set of \<^verbatim>\<open>*CommonPatcher\<close> as a value of the interface.\<close>

definition commonPatcherOps :: "'w kubeApi \<Rightarrow> CommonPatcher \<Rightarrow> 'w Patcher" where
  "commonPatcherOps K p =
     \<lparr>pClientID = cpClientID p, pSubscriptionID = cpSubscriptionID p, pTenantID = cpTenantID p,
      pClusterName = clName (cpCluster p), pPatchObject = CommonPatcher_PatchObject K,
      pIsAPIServerPrivate = CommonPatcher_IsAPIServerPrivate p,
      pAPIServerPrivateIP = CommonPatcher_APIServerPrivateIP p,
      pAPIServerPublicIP = CommonPatcher_APIServerPublicIP p,
      pClose = CommonPatcher_PatchObject K\<rparr>"

subsection \<open>scope.go: the scope and its lookups\<close>

record ManagementClusterConfig =
  mccName :: string
  mccNamespace :: string

record ClusterZoneAzureConfig =
  czSubscriptionID :: string
  czClientID :: string
  czTenantID :: string
  czClientSecret :: string
  czLocation :: string

record 'w Scope =
  sCluster :: Cluster
  sPatcher :: "'w Patcher"
  sPublicIPService :: "'w getter"
  sManagementClusterConfig :: ManagementClusterConfig
  sManagementCluster :: "AzureCluster option"
  sManagementClusterIdentity :: "AzureClusterIdentity option"
  sClusterIdentityRef :: "ObjectReference option"
  sClusterK8sClient :: "kubeClient option"
  sAzureLocation :: string

definition emptyAzureCluster :: AzureCluster where
  "emptyAzureCluster =
     \<lparr>acName = [], acNamespace = [], acFinalizers = [],
      acSpec = \<lparr>acsResourceGroup = [], acsSubscriptionID = [], acsIdentityRef = None,
                acsVnetID = [], acsSubnets = []\<rparr>,
      acConditions = []\<rparr>"

definition emptyAzureClusterIdentity :: AzureClusterIdentity where
  "emptyAzureClusterIdentity =
     \<lparr>idName = [], idNamespace = [], idType = [], idClientID = [], idTenantID = [],
      idClientSecretName = [], idClientSecretNamespace = []\<rparr>"

definition managementAzureCluster :: "'w kubeApi \<Rightarrow> string \<Rightarrow> string \<Rightarrow> ('w, AzureCluster) prog" where
  "managementAzureCluster K name namespace =
     bindM (attempt (callWorld (getAzureCluster K name namespace))) (\<lambda>r.
       case r of
         Inl err \<Rightarrow> if apiIsNotFound K err then ret emptyAzureCluster else throw (Masked err)
       | Inr managementCluster \<Rightarrow> ret managementCluster)"

definition azureClusterIdentity :: "'w kubeApi \<Rightarrow> ObjectReference option \<Rightarrow> ('w, AzureClusterIdentity) prog" where
  "azureClusterIdentity K identityRef =
     (case identityRef of
        None \<Rightarrow> throw (PlainError ''azure cluster or identity reference does not exist'')
      | Some ref \<Rightarrow>
          bindM (attempt (callWorld (getAzureClusterIdentity K (refName ref) (refNamespace ref)))) (\<lambda>r.
            case r of
              Inl err \<Rightarrow> if apiIsNotFound K err then ret emptyAzureClusterIdentity else throw (Masked err)
            | Inr identity \<Rightarrow> ret identity))"

definition ManagementCluster :: "'w kubeApi \<Rightarrow> 'w Scope \<Rightarrow> ('w, AzureCluster \<times> 'w Scope) prog" where
  "ManagementCluster K s =
     (case sManagementCluster s of
        Some managementCluster \<Rightarrow> ret (managementCluster, s)
      | None \<Rightarrow>
          bindM (managementAzureCluster K (mccName (sManagementClusterConfig s))
                   (mccNamespace (sManagementClusterConfig s))) (\<lambda>managementCluster.
          ret (managementCluster, s\<lparr>sManagementCluster := Some managementCluster\<rparr>)))"

definition ManagementClusterIdentity :: "'w kubeApi \<Rightarrow> 'w Scope \<Rightarrow> ('w, AzureClusterIdentity \<times> 'w Scope) prog" where
  "ManagementClusterIdentity K s =
     (case sManagementClusterIdentity s of
        Some identity \<Rightarrow> ret (identity, s)
      | None \<Rightarrow>
          bindM (ManagementCluster K s) (\<lambda>(managementCluster, s').
          bindM (azureClusterIdentity K (acsIdentityRef (acSpec managementCluster))) (\<lambda>identity.
          ret (identity, s'\<lparr>sManagementClusterIdentity := Some identity\<rparr>))))"

text \<open>
  \<^verbatim>\<open>InfraClusterIdentity\<close>: the reference of the \<^verbatim>\<open>AzureCluster\<close> spec if its lookup gives no error,
  the annotated reference of an AKS cluster (errors included), the configured reference if its
  lookup gives no error, the identity of the management cluster.
\<close>

definition infraClusterIdentityFallback :: "'w kubeApi \<Rightarrow> 'w Scope \<Rightarrow> ('w, AzureClusterIdentity \<times> 'w Scope) prog" where
  "infraClusterIdentityFallback K s =
     bindM (reads infraCluster) (\<lambda>u.
       case asoManagedClusterIdentityRef u of
         Some identityRef \<Rightarrow> bindM (azureClusterIdentity K (Some identityRef)) (\<lambda>identity. ret (identity, s))
       | None \<Rightarrow>
           (case sClusterIdentityRef s of
              None \<Rightarrow> ManagementClusterIdentity K s
            | Some ref \<Rightarrow>
                bindM (attempt (azureClusterIdentity K (Some ref))) (\<lambda>r.
                  case r of
                    Inr identity \<Rightarrow> ret (identity, s)
                  | Inl err \<Rightarrow> ManagementClusterIdentity K s)))"

definition InfraClusterIdentity :: "'w kubeApi \<Rightarrow> 'w Scope \<Rightarrow> ('w, AzureClusterIdentity \<times> 'w Scope) prog" where
  "InfraClusterIdentity K s =
     bindM (reads infraCluster) (\<lambda>u.
       case azureClusterSpec K u of
         None \<Rightarrow> infraClusterIdentityFallback K s
       | Some spec \<Rightarrow>
           bindM (attempt (azureClusterIdentity K (acsIdentityRef spec))) (\<lambda>r.
             case r of
               Inr identity \<Rightarrow> ret (identity, s)
             | Inl err \<Rightarrow> infraClusterIdentityFallback K s))"

subsection \<open>scope.go: the client of the workload cluster\<close>

abbreviation "kubeConfigSecretSuffix \<equiv> ''-kubeconfig''"
abbreviation "kubeConfigSecretKey \<equiv> ''value''"

definition secretValue :: "Secret \<Rightarrow> string \<Rightarrow> string" where
  "secretValue data key = (case map_of data key of None \<Rightarrow> [] | Some v \<Rightarrow> v)"

definition getK8sClient :: "'w kubeApi \<Rightarrow> kubeClient \<Rightarrow> ('w, kubeClient) prog" where
  "getK8sClient K config =
     bindM (masked (checkErr (newRestConfig K config))) (\<lambda>_.
     bindM (masked (checkErr (newClients K config))) (\<lambda>_.
     ret config))"

definition getClusterKubeConfig :: "'w kubeApi \<Rightarrow> Cluster \<Rightarrow> ('w, string) prog" where
  "getClusterKubeConfig K cluster =
     bindM (masked (getK8sClient K InClusterClient)) (\<lambda>k8sClient.
     bindM (masked (callWorld (getSecretWith K k8sClient (clName cluster @ kubeConfigSecretSuffix)
                                 (clNamespace cluster)))) (\<lambda>secret.
     ret (secretValue secret kubeConfigSecretKey)))"

definition getClusterK8sClient :: "'w kubeApi \<Rightarrow> 'w Scope \<Rightarrow> ('w, kubeClient) prog" where
  "getClusterK8sClient K s =
     bindM (masked (checkErr (newMicrologger K))) (\<lambda>_.
     bindM (masked (getClusterKubeConfig K (sCluster s))) (\<lambda>kubeconfig.
     getK8sClient K (KubeConfigClient kubeconfig)))"

definition ClusterK8sClient :: "'w kubeApi \<Rightarrow> 'w Scope \<Rightarrow> ('w, kubeClient \<times> 'w Scope) prog" where
  "ClusterK8sClient K s =
     (case sClusterK8sClient s of
        Some c \<Rightarrow> ret (c, s)
      | None \<Rightarrow> bindM (getClusterK8sClient K s) (\<lambda>c. ret (c, s\<lparr>sClusterK8sClient := Some c\<rparr>)))"

definition SetClusterK8sClient :: "'w Scope \<Rightarrow> kubeClient \<Rightarrow> 'w Scope" where
  "SetClusterK8sClient s c = s\<lparr>sClusterK8sClient := Some c\<rparr>"

subsection \<open>scope.go: NewScope\<close>

record ScopeParams =
  spCluster :: Cluster
  spManagementClusterConfig :: ManagementClusterConfig
  spClusterIdentityRef :: "ObjectReference option"
  spClusterZoneAzureConfig :: ClusterZoneAzureConfig

definition newAzureScope :: "'w kubeApi \<Rightarrow> 'w capz \<Rightarrow> ScopeParams \<Rightarrow> ('w, 'w Scope) prog" where
  "newAzureScope K Z params =
     (let cluster = spCluster params in
      bindM (callWorld (getAzureCluster K (clInfrastructureRefName cluster) (clNamespace cluster))) (\<lambda>azureCluster.
      bindM (callWorld (newClusterScope Z cluster azureCluster)) (\<lambda>clusterScope.
      bindM (liftR (fromSum (newPublicIPs Z clusterScope))) (\<lambda>publicips.
      ret \<lparr>sCluster = cluster, sPatcher = capzPatcherOps azureCluster clusterScope, sPublicIPService = worldGetter publicips,
           sManagementClusterConfig = spManagementClusterConfig params,
           sManagementCluster = None, sManagementClusterIdentity = None,
           sClusterIdentityRef = None, sClusterK8sClient = None, sAzureLocation = []\<rparr>))))"

text \<open>Subscription, client and tenant of a cluster that is not an \<^verbatim>\<open>AzureCluster\<close>, before the fallback.\<close>

definition configuredCredentials :: "'w kubeApi \<Rightarrow> ScopeParams \<Rightarrow> Unstructured \<Rightarrow> ('w, string \<times> string \<times> string) prog" where
  "configuredCredentials K params u =
     (let cz = spClusterZoneAzureConfig params in
      if isASOManagedCluster u then
        (let ann = lookupStr (clAnnotations (spCluster params)) AnnotationAzureSubscriptionID;
             sub = (if ann \<noteq> [] then ann else czSubscriptionID cz) in
         case asoManagedClusterIdentityRef u of
           None \<Rightarrow> ret (sub, czClientID cz, czTenantID cz)
         | Some identityRef \<Rightarrow>
             bindM (azureClusterIdentity K (Some identityRef)) (\<lambda>identity.
             ret (sub, idClientID identity, idTenantID identity)))
      else ret (czSubscriptionID cz, czClientID cz, czTenantID cz))"

definition newCommonScope :: "'w kubeApi \<Rightarrow> ScopeParams \<Rightarrow> ('w, 'w Scope) prog" where
  "newCommonScope K params =
     bindM (reads infraCluster) (\<lambda>u.
     bindM (configuredCredentials K params u) (\<lambda>(sub, client, tenant).
     bindM (if sub = [] \<or> client = [] \<or> tenant = [] then
              bindM (managementAzureCluster K (mccName (spManagementClusterConfig params))
                       (mccNamespace (spManagementClusterConfig params))) (\<lambda>mc.
              bindM (azureClusterIdentity K (acsIdentityRef (acSpec mc))) (\<lambda>mcId.
              ret (acsSubscriptionID (acSpec mc), idClientID mcId, idTenantID mcId, Some mc, Some mcId)))
            else ret (sub, client, tenant, None, None)) (\<lambda>(sub', client', tenant', mc, mcId).
     ret \<lparr>sCluster = spCluster params,
          sPatcher = commonPatcherOps K (NewCommonPatcher client' sub' tenant' (spCluster params)),
          sPublicIPService = PublicIPService_Get (spCluster params),
          sManagementClusterConfig = spManagementClusterConfig params,
          sManagementCluster = mc, sManagementClusterIdentity = mcId,
          sClusterIdentityRef = spClusterIdentityRef params, sClusterK8sClient = None,
          sAzureLocation = czLocation (spClusterZoneAzureConfig params)\<rparr>)))"

definition NewScope :: "'w kubeApi \<Rightarrow> 'w capz \<Rightarrow> ScopeParams \<Rightarrow> ('w, 'w Scope) prog" where
  "NewScope K Z params =
     bindM (reads infraCluster) (\<lambda>u.
       if isAzureCluster u then newAzureScope K Z params else newCommonScope K params)"

subsection \<open>What a patcher promises about the API server's address\<close>

text \<open>
  The service takes the private address if the API server is private and the public one
  otherwise; it needs the one it takes to be there.
\<close>

locale api_patcher =
  fixes p :: "'w Patcher"
    and host :: string
  assumes private_address: "pIsAPIServerPrivate p \<Longrightarrow> pAPIServerPrivateIP p = host"
    and public_address: "\<not> pIsAPIServerPrivate p \<Longrightarrow> \<exists>d. pAPIServerPublicIP p = Some \<lparr>pipName = host, pipDNSName = d\<rparr>"
begin

lemma address_present:
  "pIsAPIServerPrivate p \<and> pAPIServerPrivateIP p = host \<or>
   \<not> pIsAPIServerPrivate p \<and> map_option pipName (pAPIServerPublicIP p) = Some host"
  using private_address public_address by fastforce

end

text \<open>The patcher of this package keeps it for every control plane host, with the host as Go prints it.\<close>

interpretation common: api_patcher "commonPatcherOps K (NewCommonPatcher client sub tenant cluster)"
  "IP_String (ParseIP (clControlPlaneHost cluster))"
  for K :: "'w kubeApi" and client sub tenant cluster
  by unfold_locales
    (auto simp: commonPatcherOps_def NewCommonPatcher_def CommonPatcher_IsAPIServerPrivate_def
      CommonPatcher_APIServerPrivateIP_def CommonPatcher_APIServerPublicIP_def)

subsection \<open>Resource tags as a map\<close>

lemma resourceTagsLoop_map:
  "map_of (resourceTagsLoop al tags) k =
     (case map_of (rev al) (ResourceTagNamePrefix @ k) of None \<Rightarrow> map_of tags k | Some v \<Rightarrow> Some (Some v))"
proof (induction al arbitrary: tags)
  case (Cons kv al)
  have "map_of (if HasPrefix (fst kv) ResourceTagNamePrefix
        then AList.update (TrimPrefix (fst kv) ResourceTagNamePrefix) (Some (snd kv)) tags else tags) k =
      (if fst kv = ResourceTagNamePrefix @ k then Some (Some (snd kv)) else map_of tags k)"
    by (auto simp: AList.update_conv' HasPrefix_iff)
  with Cons show ?case by (auto simp: map_add_def split: option.splits)
qed simp

lemma resourceTagsLoop_distinct: "distinct (map fst tags) \<Longrightarrow> distinct (map fst (resourceTagsLoop al tags))"
  by (induction al arbitrary: tags) (auto simp: AList.distinct_update)

subsection \<open>Lookups leave no trace in the log\<close>

lemma quiet_managementAzureCluster [quiet_intros]: "quiet (managementAzureCluster K name namespace)"
  unfolding managementAzureCluster_def by (intro quiet_intros)

lemma quiet_azureClusterIdentity [quiet_intros]: "quiet (azureClusterIdentity K ref)"
  unfolding azureClusterIdentity_def by (intro quiet_intros)

lemma quiet_ManagementCluster [quiet_intros]: "quiet (ManagementCluster K s)"
  unfolding ManagementCluster_def by (intro quiet_intros)

lemma quiet_ManagementClusterIdentity [quiet_intros]: "quiet (ManagementClusterIdentity K s)"
  unfolding ManagementClusterIdentity_def by (intro quiet_intros)

lemma quiet_InfraClusterIdentity [quiet_intros]: "quiet (InfraClusterIdentity K s)"
  unfolding InfraClusterIdentity_def infraClusterIdentityFallback_def by (intro quiet_intros)

lemma quiet_ClusterK8sClient [quiet_intros]: "quiet (ClusterK8sClient K s)"
  unfolding ClusterK8sClient_def getClusterK8sClient_def getClusterKubeConfig_def getK8sClient_def
  by (intro quiet_intros)

lemma quiet_NewScope [quiet_intros]: "quiet (NewScope K Z params)"
  unfolding NewScope_def newAzureScope_def newCommonScope_def configuredCredentials_def Let_def
  by (intro quiet_intros)

lemma quiet_worldGetter [quiet_intros]: "quiet (worldGetter g name rg)"
  unfolding worldGetter_def by (intro quiet_intros)

end
