(* ===== verification/Dns_Scope.thy ===== *)
theory Dns_Scope
  imports Infracluster
begin

section \<open>The scopes of the DNS services (\<open>azure/scope\<close>)\<close>

text \<open>
  \<open>dns.go\<close> (\<open>DNSScope\<close>) and \<open>privatedns.go\<close> (\<open>PrivateDNSScope\<close>): validated parameter bundles and
  the names derived from them. The constructors return \<open>InvalidConfigError\<close>, masked, when a
  mandatory parameter is empty. The two scopes derive zone names and the target of the wildcard
  record in the same way: locale \<open>zone_naming\<close>, interpreted on both.
\<close>

abbreviation "clientSecretKeyName \<equiv> ''clientSecret''"
abbreviation "AnnotationWildcardCNAMETarget \<equiv> ''network.giantswarm.io/wildcard-cname-target''"

definition dotJoin :: "string \<Rightarrow> string \<Rightarrow> string" where \<comment> \<open>\<^verbatim>\<open>fmt.Sprintf("%s.%s", a, b)\<close>\<close>
  "dotJoin a b = a @ ''.'' @ b"

subsection \<open>dns.go\<close>

record BaseZoneCredentials =
  bzClientID :: string
  bzClientSecret :: string
  bzSubscriptionID :: string
  bzTenantID :: string

record Identity =
  clusterIdentity :: AzureClusterIdentity
  identitySecret :: Secret

record 'w DNSScopeParams =
  dpClusterScope :: "'w Scope"
  dpBaseDomain :: string
  dpBaseDomainResourceGroup :: string
  dpBaseZoneCredentials :: BaseZoneCredentials
  dpAzureClusterIdentity :: AzureClusterIdentity
  dpAzureClusterServicePrincipalSecret :: Secret
  dpManagementClusterAzureIdentity :: AzureClusterIdentity
  dpManagementClusterServicePrincipalSecret :: Secret
  dpManagementClusterSpec :: AzureClusterSpec
  dpResourceTags :: tagmap

record 'w DNSScope =
  dsScope :: "'w Scope"
  dsBaseDomain :: string
  dsBaseDomainResourceGroup :: string
  dsBaseZoneCredentials :: BaseZoneCredentials
  dsIdentity :: Identity
  dsManagementClusterIdentity :: Identity
  dsManagementClusterSpec :: AzureClusterSpec
  dsResourceTags :: tagmap

definition NewDNSScope :: "'w DNSScopeParams \<Rightarrow> 'w DNSScope res" where
  "NewDNSScope params =
     (if dpBaseDomain params = [] then Err (Masked InvalidConfigError)
      else if dpBaseDomainResourceGroup params = [] then Err (Masked InvalidConfigError)
      else if dpBaseZoneCredentials params =
                \<lparr>bzClientID = [], bzClientSecret = [], bzSubscriptionID = [], bzTenantID = []\<rparr>
           then Err (Masked InvalidConfigError)
      else Ok \<lparr>dsScope = dpClusterScope params,
               dsBaseDomain = dpBaseDomain params,
               dsBaseDomainResourceGroup = dpBaseDomainResourceGroup params,
               dsBaseZoneCredentials = dpBaseZoneCredentials params,
               dsIdentity = \<lparr>clusterIdentity = dpAzureClusterIdentity params,
                             identitySecret = dpAzureClusterServicePrincipalSecret params\<rparr>,
               dsManagementClusterIdentity =
                 \<lparr>clusterIdentity = dpManagementClusterAzureIdentity params,
                  identitySecret = dpManagementClusterServicePrincipalSecret params\<rparr>,
               dsManagementClusterSpec = dpManagementClusterSpec params,
               dsResourceTags = dpResourceTags params\<rparr>)"

abbreviation dsPatcher :: "'w DNSScope \<Rightarrow> 'w Patcher" where
  "dsPatcher s \<equiv> sPatcher (dsScope s)"

definition APIEndpoint :: "'w DNSScope \<Rightarrow> string res" where
  "APIEndpoint s = bindR (derefOpt (pAPIServerPublicIP (dsPatcher s))) (\<lambda>spec. Ok (pipName spec))"

definition ClusterDomain :: "'w DNSScope \<Rightarrow> string" where
  "ClusterDomain s = dotJoin (pClusterName (dsPatcher s)) (dsBaseDomain s)"

definition DNSScope_ResourceGroup :: "'w DNSScope \<Rightarrow> string" where
  "DNSScope_ResourceGroup s = pClusterName (dsPatcher s)"

definition AzureClientSecret :: "'w DNSScope \<Rightarrow> string" where
  "AzureClientSecret s = secretValue (identitySecret (dsIdentity s)) clientSecretKeyName"

definition WildcardFQDN :: "'w DNSScope \<Rightarrow> string" where
  "WildcardFQDN s =
     (let target = lookupStr (clAnnotations (sCluster (dsScope s))) AnnotationWildcardCNAMETarget in
      if target = [] then dotJoin ''ingress'' (ClusterDomain s)
      else dotJoin target (ClusterDomain s))"

subsection \<open>privatedns.go\<close>

abbreviation "apiPrivateLinkSuffix \<equiv> ''-api-privatelink-privateendpoint''"

record PrivateDNSScopeParams =
  ppBaseDomain :: string
  ppClusterName :: string
  ppAPIServerIP :: string
  ppMCIngressIP :: string
  ppWildcardCNAMETarget :: string
  ppVirtualNetworkID :: string
  ppClusterAzureIdentity :: AzureClusterIdentity
  ppClusterServicePrincipalSecret :: Secret
  ppClusterSpec :: AzureClusterSpec

record PrivateDNSScope =
  psBaseDomain :: string
  psClusterName :: string
  psApiServerIP :: string
  psMcIngressIP :: string
  psWildcardCNAMETarget :: string
  psVirtualNetworkID :: string
  psManagementClusterIdentity :: Identity
  psManagementClusterSpec :: AzureClusterSpec

definition NewPrivateDNSScope :: "PrivateDNSScopeParams \<Rightarrow> PrivateDNSScope res" where
  "NewPrivateDNSScope params =
     (if ppBaseDomain params = [] then Err (Masked InvalidConfigError)
      else Ok \<lparr>psBaseDomain = ppBaseDomain params,
               psClusterName = ppClusterName params,
               psApiServerIP = ppAPIServerIP params,
               psMcIngressIP = ppMCIngressIP params,
               psWildcardCNAMETarget = ppWildcardCNAMETarget params,
               psVirtualNetworkID = ppVirtualNetworkID params,
               psManagementClusterIdentity =
                 \<lparr>clusterIdentity = ppClusterAzureIdentity params,
                  identitySecret = ppClusterServicePrincipalSecret params\<rparr>,
               psManagementClusterSpec = ppClusterSpec params\<rparr>)"

definition ClusterDomain_private :: "PrivateDNSScope \<Rightarrow> string" where
  "ClusterDomain_private s = dotJoin (psClusterName s) (psBaseDomain s)"

definition ManagementClusterResourceGroup :: "PrivateDNSScope \<Rightarrow> string" where
  "ManagementClusterResourceGroup s = acsResourceGroup (psManagementClusterSpec s)"

definition ManagementClusterAzureClientSecret :: "PrivateDNSScope \<Rightarrow> string" where
  "ManagementClusterAzureClientSecret s =
     secretValue (identitySecret (psManagementClusterIdentity s)) clientSecretKeyName"

definition ManagementClusterSubscriptionID :: "PrivateDNSScope \<Rightarrow> string" where
  "ManagementClusterSubscriptionID s = acsSubscriptionID (psManagementClusterSpec s)"

definition ManagementClusterTenantID :: "PrivateDNSScope \<Rightarrow> string" where
  "ManagementClusterTenantID s = idTenantID (clusterIdentity (psManagementClusterIdentity s))"

definition ManagementClusterClientID :: "PrivateDNSScope \<Rightarrow> string" where
  "ManagementClusterClientID s = idClientID (clusterIdentity (psManagementClusterIdentity s))"

text \<open>The two nested loops over subnets and private endpoints; the last match wins.\<close>

primrec endpointLoop :: "string \<Rightarrow> PrivateEndpoint list \<Rightarrow> string \<Rightarrow> string" where
  "endpointLoop name [] ip = ip"
| "endpointLoop name (e # es) ip =
     endpointLoop name es
       (if peName e = name then
          (case pePrivateIPAddresses e of [] \<Rightarrow> ip | a # _ \<Rightarrow> a)
        else ip)"

primrec subnetLoop :: "string \<Rightarrow> Subnet list \<Rightarrow> string \<Rightarrow> string" where
  "subnetLoop name [] ip = ip"
| "subnetLoop name (n # ns) ip = subnetLoop name ns (endpointLoop name (snPrivateEndpoints n) ip)"

definition privateLinkedAPIServerIPFromManagementCluster :: "PrivateDNSScope \<Rightarrow> string" where
  "privateLinkedAPIServerIPFromManagementCluster s =
     subnetLoop (psClusterName s @ apiPrivateLinkSuffix) (acsSubnets (psManagementClusterSpec s)) []"

definition PrivateLinkedAPIServerIP :: "PrivateDNSScope \<Rightarrow> string" where
  "PrivateLinkedAPIServerIP s =
     (if 0 < length (psApiServerIP s) then psApiServerIP s
      else if 0 < length (privateLinkedAPIServerIPFromManagementCluster s)
           then privateLinkedAPIServerIPFromManagementCluster s
      else [])"

definition PrivateLinkedMcIngressIP :: "PrivateDNSScope \<Rightarrow> string" where
  "PrivateLinkedMcIngressIP s = psMcIngressIP s"

definition WildcardFQDN_private :: "PrivateDNSScope \<Rightarrow> string" where
  "WildcardFQDN_private s =
     (if psWildcardCNAMETarget s = [] then dotJoin ''ingress'' (ClusterDomain_private s)
      else dotJoin (psWildcardCNAMETarget s) (ClusterDomain_private s))"

subsection \<open>Names derived from a scope\<close>

lemma dotJoin_inj_base: "dotJoin a d = dotJoin b d \<longleftrightarrow> a = b"
  by (simp add: dotJoin_def)

lemma TrimSuffix_dotJoin [simp]: "TrimSuffix (dotJoin a d) (CHR ''.'' # d) = a"
  using TrimSuffix_append [of a "''.'' @ d"] by (simp add: dotJoin_def)

locale zone_naming =
  fixes domain :: "'sc \<Rightarrow> string"
    and clusterOf :: "'sc \<Rightarrow> string"
    and baseOf :: "'sc \<Rightarrow> string"
    and target :: "'sc \<Rightarrow> string"
    and wildcard :: "'sc \<Rightarrow> string"
  assumes domain_eq: "domain s = dotJoin (clusterOf s) (baseOf s)"
    and wildcard_eq: "wildcard s = dotJoin (if target s = [] then ''ingress'' else target s) (domain s)"
begin

lemma wildcard_in_zone: "HasSuffix (wildcard s) (''.'' @ domain s)"
proof -
  have "HasSuffix ((if target s = [] then ''ingress'' else target s) @ (''.'' @ domain s)) (''.'' @ domain s)"
    by (rule HasSuffix_append)
  then show ?thesis by (simp add: wildcard_eq dotJoin_def)
qed

lemma domains_differ: "baseOf s = baseOf t \<Longrightarrow> domain s = domain t \<longleftrightarrow> clusterOf s = clusterOf t"
  by (simp add: domain_eq dotJoin_inj_base)

lemma domain_not_base: "domain s \<noteq> baseOf s"
proof
  assume "domain s = baseOf s"
  then have "length (dotJoin (clusterOf s) (baseOf s)) = length (baseOf s)"
    by (simp add: domain_eq)
  then show False by (simp add: dotJoin_def)
qed

end

interpretation pub: zone_naming ClusterDomain "\<lambda>s. pClusterName (dsPatcher s)" dsBaseDomain
  "\<lambda>s. lookupStr (clAnnotations (sCluster (dsScope s))) AnnotationWildcardCNAMETarget" WildcardFQDN
  by unfold_locales (simp_all add: ClusterDomain_def WildcardFQDN_def)

interpretation priv: zone_naming ClusterDomain_private psClusterName psBaseDomain
  psWildcardCNAMETarget WildcardFQDN_private
  by unfold_locales (simp_all add: ClusterDomain_private_def WildcardFQDN_private_def)

end
