(* ===== verification/Dns_Client.thy ===== *)
theory Dns_Client
  imports Dns_Scope
begin

section \<open>The client of the public DNS service (\<open>azure/services/dns/client.go\<close>)\<close>

text \<open>
  The Go interface \<^verbatim>\<open>client\<close> (\<open>dns.go\<close>) is the record \<open>dnsClient\<close> of its methods;
  \<open>azureClientOps\<close> is its implementation over the SDK. Locale \<open>dns_client\<close> states what a client
  promises to the service: which mutating request each method sends (exactly one, or none), that
  it only appends to the log, and that it leaves the infrastructure cluster in memory alone. The
  interpretation shows it for the client of this package, for every SDK.
\<close>

subsection \<open>The interface\<close>

record 'w dnsClient =
  GetZone :: "string \<Rightarrow> string \<Rightarrow> ('w, Zone) prog"
  CreateOrUpdateZone :: "string \<Rightarrow> string \<Rightarrow> Zone \<Rightarrow> ('w, Zone) prog"
  DeleteZone :: "string \<Rightarrow> string \<Rightarrow> ('w, unit) prog"
  CreateOrUpdateRecordSet :: "string \<Rightarrow> string \<Rightarrow> string \<Rightarrow> string \<Rightarrow> RecordSet \<Rightarrow> ('w, RecordSet) prog"
  DeleteRecordSet :: "string \<Rightarrow> string \<Rightarrow> string \<Rightarrow> string \<Rightarrow> ('w, unit) prog"
  ListRecordSets :: "string \<Rightarrow> string \<Rightarrow> ('w, RecordSet list) prog"
  GetResourceGroup :: "string \<Rightarrow> ('w, ResourceGroup) prog"
  CreateOrUpdateResourceGroup :: "string \<Rightarrow> ResourceGroup \<Rightarrow> ('w, ResourceGroup) prog"
  DeleteResourceGroup :: "string \<Rightarrow> ('w, unit) prog"

record azureClient =
  acZones :: armClient
  acRecordSets :: armClient
  acResourceGroups :: armClient

subsection \<open>Construction\<close>

text \<open>\<^verbatim>\<open>newZonesClient\<close>, \<^verbatim>\<open>newRecordSetsClient\<close>, \<^verbatim>\<open>newResourceGroupClient\<close>: one SDK constructor each.\<close>

definition newSdkClient :: "'w azureSdk \<Rightarrow> string \<Rightarrow> string \<Rightarrow> TokenCredential \<Rightarrow> ('s, armClient) M" where
  "newSdkClient A kind subscriptionID cred =
     bindM (checkErr (newArmClient A kind subscriptionID cred)) (\<lambda>_.
     ret \<lparr>armSubscription = subscriptionID, armCredential = cred\<rparr>)"

definition newClientSet :: "'w azureSdk \<Rightarrow> string \<Rightarrow> TokenCredential \<Rightarrow> ('s, azureClient) M" where
  "newClientSet A subscriptionID cred =
     bindM (masked (newSdkClient A ''zones'' subscriptionID cred)) (\<lambda>zonesClient.
     bindM (masked (newSdkClient A ''recordSets'' subscriptionID cred)) (\<lambda>recordSetsClient.
     bindM (masked (newSdkClient A ''resourceGroups'' subscriptionID cred)) (\<lambda>resourceGroupsClient.
     ret \<lparr>acZones = zonesClient, acRecordSets = recordSetsClient,
          acResourceGroups = resourceGroupsClient\<rparr>)))"

definition newAzureClient :: "'w azureSdk \<Rightarrow> 'w DNSScope \<Rightarrow> ('s, azureClient) M" where
  "newAzureClient A scope =
     (let identity = clusterIdentity (dsIdentity scope);
          subscriptionID = pSubscriptionID (dsPatcher scope) in
      bindM (if idType identity = UserAssignedMSI then
               (let cred = ManagedIdentityCredential (pClientID (dsPatcher scope)) in
                bindM (masked (checkErr (newCredential A cred))) (\<lambda>_. ret cred))
             else if idType identity = ManualServicePrincipal then
               (let cred = ClientSecretCredential (idTenantID identity) (idClientID identity) (AzureClientSecret scope) in
                bindM (checkErr (newCredential A cred)) (\<lambda>_. ret cred))
             else if idType identity = WorkloadIdentity then
               (let cred = WorkloadIdentityCredential (idTenantID identity) (idClientID identity) in
                bindM (masked (checkErr (newCredential A cred))) (\<lambda>_. ret cred))
             else ret NoCredential)
        (newClientSet A subscriptionID))"

definition newBaseZoneClient :: "'w azureSdk \<Rightarrow> BaseZoneCredentials \<Rightarrow> ('s, azureClient) M" where
  "newBaseZoneClient A credentials =
     (let cred = ClientSecretCredential (bzTenantID credentials) (bzClientID credentials) (bzClientSecret credentials) in
      bindM (masked (checkErr (newCredential A cred))) (\<lambda>_.
      newClientSet A (bzSubscriptionID credentials) cred))"

subsection \<open>The methods\<close>

abbreviation azureRequestInc :: "string \<Rightarrow> ('w, unit) prog" where
  "azureRequestInc method \<equiv> emit (CounterInc AzureRequest [method])"

abbreviation azureRequestErrorInc :: "string \<Rightarrow> ('w, unit) prog" where
  "azureRequestErrorInc method \<equiv> emit (CounterInc AzureRequestError [method])"

text \<open>The shape of most methods: run the call, on an error count it and mask it.\<close>

definition countErrors :: "string \<Rightarrow> ('w, 'a) prog \<Rightarrow> ('w, 'a) prog" where
  "countErrors method m =
     bindM (attempt m) (\<lambda>r.
       case r of
         Inl err \<Rightarrow> bindM (azureRequestErrorInc method) (\<lambda>_. throw (Masked err))
       | Inr x \<Rightarrow> ret x)"

text \<open>The loop \<^verbatim>\<open>for pager.More() { NextPage }\<close> over the pages the service delivers.\<close>

primrec collectPages :: "(error + 'a list) list \<Rightarrow> 'a list \<Rightarrow> 'a list res" where
  "collectPages [] acc = Ok acc"
| "collectPages (p # ps) acc =
     (case p of Inl err \<Rightarrow> Err (Masked err) | Inr page \<Rightarrow> collectPages ps (acc @ page))"

definition callPager :: "armClient \<Rightarrow> request \<Rightarrow> ('w \<Rightarrow> (error + 'a list) list \<times> 'w) \<Rightarrow> ('w, (error + 'a list) list) prog" where
  "callPager a q f = callAzure a q (\<lambda>w. case f w of (ps, w') \<Rightarrow> (Inr ps, w'))"

definition azure_GetZone :: "'w azureSdk \<Rightarrow> azureClient \<Rightarrow> string \<Rightarrow> string \<Rightarrow> ('w, Zone) prog" where
  "azure_GetZone A ac rg zone =
     bindM (azureRequestInc ''zones.Get'') (\<lambda>_.
     countErrors ''zones.Get'' (callAzure (acZones ac) (ZonesGet rg zone) (zones_Get A (acZones ac) rg zone)))"

definition azure_CreateOrUpdateZone :: "'w azureSdk \<Rightarrow> azureClient \<Rightarrow> string \<Rightarrow> string \<Rightarrow> Zone \<Rightarrow> ('w, Zone) prog" where
  "azure_CreateOrUpdateZone A ac rg zone params =
     bindM (azureRequestInc ''zones.CreateOrUpdate'') (\<lambda>_.
     countErrors ''zones.CreateOrUpdate''
       (callAzure (acZones ac) (ZonesCreateOrUpdate rg zone params)
          (zones_CreateOrUpdate A (acZones ac) rg zone params)))"

definition azure_DeleteZone :: "'w azureSdk \<Rightarrow> azureClient \<Rightarrow> string \<Rightarrow> string \<Rightarrow> ('w, unit) prog" where
  "azure_DeleteZone A ac rg zone =
     bindM (azureRequestInc ''zones.BeginDelete'') (\<lambda>_.
     bindM (countErrors ''zones.BeginDelete''
              (callAzure (acZones ac) (ZonesBeginDelete rg zone) (zones_BeginDelete A (acZones ac) rg zone))) (\<lambda>_.
     bindM (azureRequestInc ''poller.PollUntilDone'') (\<lambda>_.
     countErrors ''poller.PollUntilDone''
       (callAzure (acZones ac) (PollUntilDone (ZonesBeginDelete rg zone))
          (pollUntilDone A (acZones ac) (ZonesBeginDelete rg zone))))))"

definition azure_ListRecordSets :: "'w azureSdk \<Rightarrow> azureClient \<Rightarrow> string \<Rightarrow> string \<Rightarrow> ('w, RecordSet list) prog" where
  "azure_ListRecordSets A ac rg zone =
     bindM (azureRequestInc ''recordSets.NewListByDNSZonePager'') (\<lambda>_.
     bindM (callPager (acRecordSets ac) (RecordSetsList rg zone)
              (recordSets_Pages A (acRecordSets ac) rg zone)) (\<lambda>pages.
     liftR (collectPages pages [])))"

definition azure_CreateOrUpdateRecordSet ::
    "'w azureSdk \<Rightarrow> azureClient \<Rightarrow> string \<Rightarrow> string \<Rightarrow> string \<Rightarrow> string \<Rightarrow> RecordSet \<Rightarrow> ('w, RecordSet) prog" where
  "azure_CreateOrUpdateRecordSet A ac rg zone rtype name rs =
     bindM (azureRequestInc ''recordSets.CreateOrUpdate'') (\<lambda>_.
     countErrors ''recordSets.CreateOrUpdate''
       (callAzure (acRecordSets ac) (RecordSetsCreateOrUpdate rg zone rtype name rs)
          (recordSets_CreateOrUpdate A (acRecordSets ac) rg zone rtype name rs)))"

definition azure_DeleteRecordSet ::
    "'w azureSdk \<Rightarrow> azureClient \<Rightarrow> string \<Rightarrow> string \<Rightarrow> string \<Rightarrow> string \<Rightarrow> ('w, unit) prog" where
  "azure_DeleteRecordSet A ac rg zone rtype name =
     bindM (azureRequestInc ''recordSets.Delete'') (\<lambda>_.
     countErrors ''recordSets.Delete''
       (callAzure (acRecordSets ac) (RecordSetsDelete rg zone rtype name)
          (recordSets_Delete A (acRecordSets ac) rg zone rtype name)))"

definition azure_GetResourceGroup :: "'w azureSdk \<Rightarrow> azureClient \<Rightarrow> string \<Rightarrow> ('w, ResourceGroup) prog" where
  "azure_GetResourceGroup A ac rg =
     bindM (azureRequestInc ''resourceGroups.Get'') (\<lambda>_.
     bindM (attempt (callAzure (acResourceGroups ac) (ResourceGroupsGet rg)
                       (resourceGroups_Get A (acResourceGroups ac) rg))) (\<lambda>r.
       case r of
         Inl err \<Rightarrow>
           bindM (azureRequestErrorInc ''resourceGroups.Get'') (\<lambda>_.
             if IsResourceNotFoundError (Some err) then throw (Masked resourceNotFoundError)
             else throw (Masked err))
       | Inr resp \<Rightarrow> ret resp))"

definition azure_CreateOrUpdateResourceGroup ::
    "'w azureSdk \<Rightarrow> azureClient \<Rightarrow> string \<Rightarrow> ResourceGroup \<Rightarrow> ('w, ResourceGroup) prog" where
  "azure_CreateOrUpdateResourceGroup A ac rg params =
     bindM (azureRequestInc ''resourceGroups.createOrUpdate'') (\<lambda>_.
     countErrors ''resourceGroups.CreateOrUpdate''
       (callAzure (acResourceGroups ac) (ResourceGroupsCreateOrUpdate rg params)
          (resourceGroups_CreateOrUpdate A (acResourceGroups ac) rg params)))"

definition azure_DeleteResourceGroup :: "'w azureSdk \<Rightarrow> azureClient \<Rightarrow> string \<Rightarrow> ('w, unit) prog" where
  "azure_DeleteResourceGroup A ac rg =
     bindM (azureRequestInc ''resourceGroups.Delete'') (\<lambda>_.
     bindM (attempt (callAzure (acResourceGroups ac) (ResourceGroupsBeginDelete rg)
                       (resourceGroups_BeginDelete A (acResourceGroups ac) rg))) (\<lambda>r.
       case r of
         Inl err \<Rightarrow>
           if IsResourceNotFoundError (Some err) then throw (Masked resourceNotFoundError)
           else bindM (azureRequestErrorInc ''resourceGroups.Delete'') (\<lambda>_. throw (Masked err))
       | Inr poller \<Rightarrow>
           countErrors ''poller.PollUntilDone''
             (callAzure (acResourceGroups ac) (PollUntilDone (ResourceGroupsBeginDelete rg))
                (pollUntilDone A (acResourceGroups ac) (ResourceGroupsBeginDelete rg)))))"

text \<open>The method set of \<^verbatim>\<open>*azureClient\<close> as a value of the interface.\<close>

definition azureClientOps :: "'w azureSdk \<Rightarrow> azureClient \<Rightarrow> 'w dnsClient" where
  "azureClientOps A ac =
     \<lparr>GetZone = azure_GetZone A ac,
      CreateOrUpdateZone = azure_CreateOrUpdateZone A ac,
      DeleteZone = azure_DeleteZone A ac,
      CreateOrUpdateRecordSet = azure_CreateOrUpdateRecordSet A ac,
      DeleteRecordSet = azure_DeleteRecordSet A ac,
      ListRecordSets = azure_ListRecordSets A ac,
      GetResourceGroup = azure_GetResourceGroup A ac,
      CreateOrUpdateResourceGroup = azure_CreateOrUpdateResourceGroup A ac,
      DeleteResourceGroup = azure_DeleteResourceGroup A ac\<rparr>"

subsection \<open>What a client promises to the service\<close>

locale dns_client =
  fixes c :: "'w dnsClient"
    and zc rc gc :: armClient
  assumes GetZone_sends: "sends [] (GetZone c rg zone)"
    and CreateOrUpdateZone_sends: "sends [(zc, ZonesCreateOrUpdate rg zone p)] (CreateOrUpdateZone c rg zone p)"
    and DeleteZone_sends: "sends [(zc, ZonesBeginDelete rg zone)] (DeleteZone c rg zone)"
    and CreateOrUpdateRecordSet_sends:
      "sends [(rc, RecordSetsCreateOrUpdate rg zone ty nm rs)] (CreateOrUpdateRecordSet c rg zone ty nm rs)"
    and DeleteRecordSet_sends: "sends [(rc, RecordSetsDelete rg zone ty nm)] (DeleteRecordSet c rg zone ty nm)"
    and ListRecordSets_sends: "sends [] (ListRecordSets c rg zone)"
    and GetResourceGroup_sends: "sends [] (GetResourceGroup c rg)"
    and CreateOrUpdateResourceGroup_sends:
      "sends [(gc, ResourceGroupsCreateOrUpdate rg g)] (CreateOrUpdateResourceGroup c rg g)"
    and DeleteResourceGroup_sends: "sends [(gc, ResourceGroupsBeginDelete rg)] (DeleteResourceGroup c rg)"
    and GetZone_infra: "keepsInfra (GetZone c rg zone)"
    and CreateOrUpdateZone_infra: "keepsInfra (CreateOrUpdateZone c rg zone p)"
    and DeleteZone_infra: "keepsInfra (DeleteZone c rg zone)"
    and CreateOrUpdateRecordSet_infra: "keepsInfra (CreateOrUpdateRecordSet c rg zone ty nm rs)"
    and DeleteRecordSet_infra: "keepsInfra (DeleteRecordSet c rg zone ty nm)"
    and ListRecordSets_infra: "keepsInfra (ListRecordSets c rg zone)"
    and GetResourceGroup_infra: "keepsInfra (GetResourceGroup c rg)"
    and CreateOrUpdateResourceGroup_infra: "keepsInfra (CreateOrUpdateResourceGroup c rg g)"
    and DeleteResourceGroup_infra: "keepsInfra (DeleteResourceGroup c rg)"
begin

lemmas client_infra =
  GetZone_infra CreateOrUpdateZone_infra DeleteZone_infra CreateOrUpdateRecordSet_infra
  DeleteRecordSet_infra ListRecordSets_infra GetResourceGroup_infra
  CreateOrUpdateResourceGroup_infra DeleteResourceGroup_infra

lemma client_writes:
  "writesOnly Q (GetZone c rg zone)" "writesOnly Q (ListRecordSets c rg zone)" "writesOnly Q (GetResourceGroup c rg)"
  "Q (zc, ZonesCreateOrUpdate rg zone p) \<Longrightarrow> writesOnly Q (CreateOrUpdateZone c rg zone p)"
  "Q (zc, ZonesBeginDelete rg zone) \<Longrightarrow> writesOnly Q (DeleteZone c rg zone)"
  "Q (rc, RecordSetsCreateOrUpdate rg zone ty nm rs) \<Longrightarrow> writesOnly Q (CreateOrUpdateRecordSet c rg zone ty nm rs)"
  "Q (rc, RecordSetsDelete rg zone ty nm) \<Longrightarrow> writesOnly Q (DeleteRecordSet c rg zone ty nm)"
  "Q (gc, ResourceGroupsCreateOrUpdate rg g) \<Longrightarrow> writesOnly Q (CreateOrUpdateResourceGroup c rg g)"
  "Q (gc, ResourceGroupsBeginDelete rg) \<Longrightarrow> writesOnly Q (DeleteResourceGroup c rg)"
  by (rule writesOnly_sends [OF GetZone_sends] writesOnly_sends [OF ListRecordSets_sends]
      writesOnly_sends [OF GetResourceGroup_sends] writesOnly_sends [OF CreateOrUpdateZone_sends]
      writesOnly_sends [OF DeleteZone_sends] writesOnly_sends [OF CreateOrUpdateRecordSet_sends]
      writesOnly_sends [OF DeleteRecordSet_sends] writesOnly_sends [OF CreateOrUpdateResourceGroup_sends]
      writesOnly_sends [OF DeleteResourceGroup_sends]; simp)+

text \<open>A read that succeeds or fails leaves the writes as they were.\<close>

lemma client_reads:
  "GetZone c rg zone s = (r1, t) \<Longrightarrow> azureWrites t = azureWrites s"
  "ListRecordSets c rg zone s = (r2, t) \<Longrightarrow> azureWrites t = azureWrites s"
  "GetResourceGroup c rg s = (r3, t) \<Longrightarrow> azureWrites t = azureWrites s"
  using sendsD [OF GetZone_sends] sendsD [OF ListRecordSets_sends] sendsD [OF GetResourceGroup_sends]
  by fastforce+

end

lemmas azure_client_defs =
  azure_GetZone_def azure_CreateOrUpdateZone_def azure_DeleteZone_def azure_ListRecordSets_def
  azure_CreateOrUpdateRecordSet_def azure_DeleteRecordSet_def azure_GetResourceGroup_def
  azure_CreateOrUpdateResourceGroup_def azure_DeleteResourceGroup_def

lemma countErrors_writes [simp]: "azureWrites (snd (countErrors meth m s)) = azureWrites (snd (m s))"
  by (simp add: countErrors_def run_simps List.map_filter_def split: prod.splits res.splits sum.splits)

lemma sends_countErrors [simp]: "sends ws (countErrors meth m) = sends ws m"
  by (simp add: sends_def)

lemma sends_callAzure_iff [simp]:
  "sends ws (callAzure a q f) \<longleftrightarrow> ws = (if isWrite q then [(a, q)] else [])"
  by (auto simp: sends_def run_simps azureWrites_def List.map_filter_def split: prod.splits)

lemma keepsInfra_countErrors [sends_intros]: "keepsInfra m \<Longrightarrow> keepsInfra (countErrors meth m)"
  unfolding countErrors_def by (intro sends_intros) (auto intro!: sends_intros split: sum.splits)

interpretation azure: dns_client "azureClientOps A ac" "acZones ac" "acRecordSets ac" "acResourceGroups ac"
  for A :: "'w azureSdk" and ac
proof unfold_locales
  show "sends [(acZones ac, ZonesBeginDelete rg zone)] (DeleteZone (azureClientOps A ac) rg zone)" for rg zone
    by (simp add: azureClientOps_def azure_client_defs)
      (rule sends_emit_then, simp, rule sends_bind_tail; simp add: sends_emit_then)
  show "sends [] (ListRecordSets (azureClientOps A ac) rg zone)" for rg zone
    by (simp add: azureClientOps_def azure_client_defs callPager_def)
      (rule sends_emit_then, simp, rule sends_bind_tail; simp add: sends_basic)
  show "sends [] (GetResourceGroup (azureClientOps A ac) rg)" for rg
    by (simp add: azureClientOps_def azure_client_defs)
      (rule sends_emit_then, simp, rule sends_bind_tail;
        auto intro!: sends_attempt sends_emit_then sends_basic split: sum.splits)
  show "sends [(acResourceGroups ac, ResourceGroupsBeginDelete rg)] (DeleteResourceGroup (azureClientOps A ac) rg)" for rg
    by (simp add: azureClientOps_def azure_client_defs)
      (rule sends_emit_then, simp, rule sends_bind_tail;
        auto intro!: sends_attempt sends_emit_then sends_basic split: sum.splits)
qed (auto simp: azureClientOps_def azure_client_defs callPager_def sends_emit_then
    intro!: keepsInfra_basic keepsInfra_masked keepsInfra_attempt keepsInfra_bindM keepsInfra_countErrors
    split: sum.splits)

subsection \<open>Pages\<close>

text \<open>A page that fails ends the listing, wherever it comes: the pages before it are not returned.\<close>

lemma collectPages_Err: "collectPages (map Inr xss @ Inl err # ps) acc = Err (Masked err)"
  by (induction xss arbitrary: acc) auto

lemma collectPages_Ok: "collectPages ps acc = Ok rs \<longleftrightarrow> (\<exists>xss. ps = map Inr xss \<and> rs = acc @ concat xss)"
proof (induction ps arbitrary: acc)
  case Nil
  then show ?case by auto
next
  case (Cons p ps)
  show ?case
  proof (cases p)
    case (Inl e)
    then show ?thesis by auto
  next
    case (Inr page)
    have "(\<exists>xss. p # ps = map Inr xss \<and> rs = acc @ concat xss) \<longleftrightarrow>
        (\<exists>xss. ps = map Inr xss \<and> rs = acc @ page @ concat xss)"
      by (auto simp: Inr Cons_eq_map_conv)
    then show ?thesis by (simp add: Inr Cons)
  qed
qed

text \<open>A listing in full: the request is counted, logged and answered with the pages in order.\<close>

lemma azure_ListRecordSets_run:
  "azure_ListRecordSets A ac rg zone s =
     (case recordSets_Pages A (acRecordSets ac) rg zone (world s) of
        (pages, w) \<Rightarrow> (collectPages pages [],
          s\<lparr>world := w, events := events s @ [CounterInc AzureRequest [''recordSets.NewListByDNSZonePager''],
             AzureCall (acRecordSets ac) (RecordSetsList rg zone)]\<rparr>))"
  by (simp add: azure_ListRecordSets_def callPager_def run_simps split: prod.splits)

lemma ListRecordSets_azure [simp]: "ListRecordSets (azureClientOps A ac) = azure_ListRecordSets A ac"
  by (simp add: azureClientOps_def)

end
