(* ===== verification/Record_Diff.thy ===== *)
theory Record_Diff
  imports Platform
begin

section \<open>Comparing desired with current record sets\<close>

text \<open>
  The four functions \<^verbatim>\<open>calculateMissing...Records\<close> of the repository (A and CNAME records, public
  and private zones) have one contract, stated here once: of the desired record sets, return, in
  order, those that are not in sync with the zone, where a record set is in sync when the
  \<^emph>\<open>first\<close> current record set of that name (of whatever type) has the same content.

  \<open>indexByName\<close> is \<^verbatim>\<open>slices.IndexFunc\<close> with the comparison of names the code passes; a nil name
  before the first match is a panic.
\<close>

fun indexByName :: "('r \<Rightarrow> string res) \<Rightarrow> string \<Rightarrow> 'r list \<Rightarrow> nat option res" where
  "indexByName nm n [] = Ok None"
| "indexByName nm n (r # rs) =
     bindR (nm r) (\<lambda>x. if x = n then Ok (Some 0)
       else bindR (indexByName nm n rs) (\<lambda>ix. Ok (map_option Suc ix)))"

definition firstNamed :: "('r \<Rightarrow> string) \<Rightarrow> string \<Rightarrow> 'r list \<Rightarrow> 'r option" where
  "firstNamed nm n cur = find (\<lambda>r. nm r = n) cur"

definition inSync :: "('r \<Rightarrow> string) \<Rightarrow> ('r \<Rightarrow> 'r \<Rightarrow> bool) \<Rightarrow> 'r list \<Rightarrow> 'r \<Rightarrow> bool" where
  "inSync nm same cur d = (case firstNamed nm (nm d) cur of None \<Rightarrow> False | Some c \<Rightarrow> same d c)"

lemma indexByName_None:
  assumes "\<forall>r\<in>set rs. nm' r = Ok (nm r)"
  shows "firstNamed nm n rs = None \<Longrightarrow> indexByName nm' n rs = Ok None"
  using assms by (induction rs) (auto simp: firstNamed_def split: if_splits)

lemma indexByName_Some:
  assumes "\<forall>r\<in>set rs. nm' r = Ok (nm r)" "firstNamed nm n rs = Some c"
  shows "\<exists>i. indexByName nm' n rs = Ok (Some i) \<and> i < length rs \<and> rs ! i = c"
  using assms
proof (induction rs)
  case Nil
  then show ?case by (simp add: firstNamed_def)
next
  case (Cons r rs)
  show ?case
  proof (cases "nm r = n")
    case True
    with Cons.prems show ?thesis by (auto simp: firstNamed_def)
  next
    case False
    with Cons obtain i where "indexByName nm' n rs = Ok (Some i)" "i < length rs" "rs ! i = c"
      by (auto simp: firstNamed_def)
    with False Cons.prems show ?thesis by (intro exI [of _ "Suc i"]) simp
  qed
qed

lemma firstNamed_Some:
  "firstNamed nm n cur = Some c \<Longrightarrow> c \<in> set cur \<and> nm c = n"
  by (auto simp: firstNamed_def find_Some_iff)

text \<open>A current list replaced elementwise by records of the same name and the same content.\<close>

lemma inSync_all2:
  assumes "list_all2 (\<lambda>c c'. nm c' = nm c \<and> (\<forall>d. same d c' = same d c)) cur cur'"
  shows "inSync nm same cur' d = inSync nm same cur d"
  using assms
  by (induction rule: list_all2_induct) (auto simp: inSync_def firstNamed_def)

lemma firstNamed_distinct:
  assumes "distinct (map nm ms)" "m \<in> set ms"
  shows "firstNamed nm (nm m) ms = Some m"
  using assms by (induction ms) (auto simp: firstNamed_def)

locale record_diff =
  fixes nm :: "'r \<Rightarrow> string"
    and wfDesired :: "'r \<Rightarrow> bool"
    and wfCurrent :: "'r \<Rightarrow> bool"
    and same :: "'r \<Rightarrow> 'r \<Rightarrow> bool"
    and calc :: "'r list \<Rightarrow> 'r list \<Rightarrow> ('s, 'r list) M"
  assumes calc_filter:
    "\<forall>d\<in>set ds. wfDesired d \<Longrightarrow> \<forall>c\<in>set cur. wfCurrent c \<Longrightarrow>
       fst (calc ds cur s) = Ok (filter (\<lambda>d. \<not> inSync nm same cur d) ds)"
    and same_refl: "same d d"
begin

lemma calc_complete:
  assumes "\<forall>d\<in>set ds. wfDesired d" "\<forall>c\<in>set cur. wfCurrent c"
  shows "fst (calc ds cur s) = Ok [] \<longleftrightarrow> (\<forall>d\<in>set ds. inSync nm same cur d)"
  using calc_filter [OF assms] by (simp add: filter_empty_conv)

text \<open>Desired record sets compared with themselves: nothing is missing. Two of the same name would hide
  each other, so their names must differ.\<close>

lemma calc_self:
  assumes "\<forall>d\<in>set ds. wfDesired d \<and> wfCurrent d" "distinct (map nm ds)"
  shows "fst (calc ds ds s) = Ok []"
  using calc_complete [of ds ds] assms by (simp add: inSync_def firstNamed_distinct same_refl)

end

end
