(* ===== verification/Sample_Env.thy ===== *)
theory Sample_Env
  imports Dns_Scope
begin

section \<open>A concrete environment\<close>

text \<open>
  An in-memory Azure subscription and Kubernetes API, as instances of the parameters \<open>azureSdk\<close>,
  \<open>kubeApi\<close> and \<open>capz\<close>. The development proves nothing about them: they are the inputs at which
  theorems with hypotheses are shown to apply. They behave as the services are documented to: a
  created resource is found afterwards, an operation on a record of a missing zone reports
  \<^verbatim>\<open>ParentResourceNotFound\<close>, an update of the status subresource ignores metadata, an update of the
  object ignores its status.
\<close>

record cloud =
  cGroups :: "(string \<times> ResourceGroup) list"
  cZones :: "(string \<times> string) list"
  cRecords :: "((string \<times> string) \<times> RecordSet list) list"
  cPrivateZones :: "(string \<times> string) list"
  cPrivateRecords :: "((string \<times> string) \<times> PrivateRecordSet list) list"
  cLinks :: "((string \<times> string) \<times> VirtualNetworkLink list) list"
  cObject :: Unstructured \<comment> \<open>the infrastructure cluster as the API server stores it\<close>
  cNow :: nat

definition bucket :: "('k \<times> 'v list) list \<Rightarrow> 'k \<Rightarrow> 'v list" where
  "bucket al k = (case map_of al k of None \<Rightarrow> [] | Some xs \<Rightarrow> xs)"

definition parentMissing :: error where
  "parentMissing = ResponseError ''ParentResourceNotFound''"

definition sampleZone :: "cloud \<Rightarrow> string \<Rightarrow> string \<Rightarrow> Zone" where
  "sampleZone w rg zone =
     \<lparr>zoneName = Some zone, zoneLocation = Some azureGlobal,
      zoneProperties = Some \<lparr>NumberOfRecordSets = Some (int (length (bucket (cRecords w) (rg, zone)))),
                             NameServers = [Some ''ns1-01.azure-dns.com.'']\<rparr>\<rparr>"

definition storedRecordSet :: "string \<Rightarrow> string \<Rightarrow> RecordSet \<Rightarrow> RecordSet" where
  "storedRecordSet ty name r =
     r\<lparr>rsName := Ptr HeapCell name, rsType := Some (''Microsoft.Network/dnszones/'' @ ty),
       rsProperties := map_option (\<lambda>p. p\<lparr>ProvisioningState := Some ''Succeeded''\<rparr>) (rsProperties r)\<rparr>"

definition putRecordSet :: "RecordSet \<Rightarrow> RecordSet list \<Rightarrow> RecordSet list" where
  "putRecordSet r rs = filter (\<lambda>x. \<not> (rsName x = rsName r \<and> rsType x = rsType r)) rs @ [r]"

definition putPrivateRecordSet :: "PrivateRecordSet \<Rightarrow> PrivateRecordSet list \<Rightarrow> PrivateRecordSet list" where
  "putPrivateRecordSet r rs = filter (\<lambda>x. \<not> (prsName x = prsName r \<and> prsType x = prsType r)) rs @ [r]"

definition privateTypeOf :: "PrivateRecordSet \<Rightarrow> string" where
  "privateTypeOf r = (case prsProperties r of
     None \<Rightarrow> RecordTypeA
   | Some p \<Rightarrow> if pCnameRecord p = None then RecordTypeA else RecordTypeCNAME)"

definition sampleSdk :: "cloud azureSdk" where
  "sampleSdk =
     \<lparr>newCredential = (\<lambda>_. None),
      newArmClient = (\<lambda>_ _ _. None),
      zones_Get = (\<lambda>_ rg zone w.
        if (rg, zone) \<in> set (cZones w) then (Inr (sampleZone w rg zone), w)
        else (Inl (ResponseError ''ResourceNotFound''), w)),
      zones_CreateOrUpdate = (\<lambda>_ rg zone p w. (Inr (sampleZone w rg zone), w\<lparr>cZones := (rg, zone) # cZones w\<rparr>)),
      zones_BeginDelete = (\<lambda>_ rg zone w. (Inr (), w\<lparr>cZones := removeAll (rg, zone) (cZones w)\<rparr>)),
      recordSets_Pages = (\<lambda>_ rg zone w.
        if (rg, zone) \<in> set (cZones w) then ([Inr (bucket (cRecords w) (rg, zone))], w) else ([Inl parentMissing], w)),
      recordSets_CreateOrUpdate = (\<lambda>_ rg zone ty name r w.
        if (rg, zone) \<in> set (cZones w)
        then (Inr (storedRecordSet ty name r),
              w\<lparr>cRecords := AList.update (rg, zone)
                  (putRecordSet (storedRecordSet ty name r) (bucket (cRecords w) (rg, zone))) (cRecords w)\<rparr>)
        else (Inl parentMissing, w)),
      recordSets_Delete = (\<lambda>_ rg zone ty name w.
        (Inr (), w\<lparr>cRecords := AList.update (rg, zone)
                  (filter (\<lambda>x. rsName x \<noteq> Ptr HeapCell name) (bucket (cRecords w) (rg, zone))) (cRecords w)\<rparr>)),
      resourceGroups_Get = (\<lambda>_ rg w.
        case map_of (cGroups w) rg of
          None \<Rightarrow> (Inl (ResponseError ''ResourceGroupNotFound''), w)
        | Some g \<Rightarrow> (Inr g, w)),
      resourceGroups_CreateOrUpdate = (\<lambda>_ rg g w.
        (Inr g, w\<lparr>cGroups := AList.update rg (g\<lparr>rgProperties := Some (Some ''Succeeded'')\<rparr>) (cGroups w)\<rparr>)),
      resourceGroups_BeginDelete = (\<lambda>_ rg w.
        if map_of (cGroups w) rg = None then (Inl (ResponseError ''ResourceGroupNotFound''), w)
        else (Inr (), w\<lparr>cGroups := filter (\<lambda>x. fst x \<noteq> rg) (cGroups w)\<rparr>)),
      privateZones_Get = (\<lambda>_ rg zone w.
        if (rg, zone) \<in> set (cPrivateZones w)
        then (Inr \<lparr>pzName = Some zone, pzLocation = Some azureGlobal,
                   pzProperties = Some (Some (int (length (bucket (cPrivateRecords w) (rg, zone)))))\<rparr>, w)
        else (Inl (ResponseError ''ResourceNotFound''), w)),
      privateZones_BeginCreateOrUpdate = (\<lambda>_ rg zone p w. (Inr (), w\<lparr>cPrivateZones := (rg, zone) # cPrivateZones w\<rparr>)),
      privateZones_BeginDelete = (\<lambda>_ rg zone w. (Inr (), w\<lparr>cPrivateZones := removeAll (rg, zone) (cPrivateZones w)\<rparr>)),
      privateRecordSets_PagesByType = (\<lambda>_ rg zone ty w.
        if (rg, zone) \<in> set (cPrivateZones w)
        then ([Inr (filter (\<lambda>x. privateTypeOf x = ty) (bucket (cPrivateRecords w) (rg, zone)))], w)
        else ([Inl parentMissing], w)),
      privateRecordSets_Pages = (\<lambda>_ rg zone w.
        if (rg, zone) \<in> set (cPrivateZones w) then ([Inr (bucket (cPrivateRecords w) (rg, zone))], w)
        else ([Inl parentMissing], w)),
      privateRecordSets_CreateOrUpdate = (\<lambda>_ rg zone ty name r w.
        if (rg, zone) \<in> set (cPrivateZones w)
        then (Inr r, w\<lparr>cPrivateRecords := AList.update (rg, zone)
                  (putPrivateRecordSet r (bucket (cPrivateRecords w) (rg, zone))) (cPrivateRecords w)\<rparr>)
        else (Inl parentMissing, w)),
      vnetLinks_Pages = (\<lambda>_ rg zone w. ([Inr (bucket (cLinks w) (rg, zone))], w)),
      vnetLinks_BeginCreateOrUpdate = (\<lambda>_ rg zone name l w.
        (Inr (), w\<lparr>cLinks := AList.update (rg, zone)
                  (bucket (cLinks w) (rg, zone) @ [l\<lparr>vnlName := Some name, vnlID := Some name\<rparr>]) (cLinks w)\<rparr>)),
      vnetLinks_BeginDelete = (\<lambda>_ rg zone name w.
        (Inr (), w\<lparr>cLinks := AList.update (rg, zone)
                  (filter (\<lambda>l. vnlName l \<noteq> Some name) (bucket (cLinks w) (rg, zone))) (cLinks w)\<rparr>)),
      pollUntilDone = (\<lambda>_ _ w. (Inr (), w))\<rparr>"

text \<open>A Kubernetes API that holds one cluster, one management cluster and the given services.\<close>

definition sampleKube :: "Cluster \<Rightarrow> AzureCluster \<Rightarrow> AzureClusterIdentity \<Rightarrow> KService list \<Rightarrow> cloud kubeApi" where
  "sampleKube cl ac ident svcs =
     \<lparr>getClusterByName = (\<lambda>_ n w. (if n = clName cl then Inr cl else Inl (PlainError ''NotFound''), w)),
      getInfraObject = (\<lambda>_ w. (Inr (cObject w), w)),
      getAzureCluster = (\<lambda>_ _ w. (Inr ac, w)),
      getAzureClusterIdentity = (\<lambda>_ _ w. (Inr ident, w)),
      getSecret = (\<lambda>_ _ w. (Inr [(clientSecretKeyName, ''secret'')], w)),
      getCluster = (\<lambda>_ _ w. (Inr cl, w)),
      updateObject = (\<lambda>u w. let v = u\<lparr>uConditions := uConditions (cObject w)\<rparr> in (Inr v, w\<lparr>cObject := v\<rparr>)),
      updateStatus = (\<lambda>u w. let v = (cObject w)\<lparr>uConditions := uConditions u\<rparr> in (Inr v, w\<lparr>cObject := v\<rparr>)),
      apiIsNotFound = (\<lambda>e. Cause e = PlainError ''NotFound''),
      isPaused = (\<lambda>c u. lookupOk (uAnnotations u) ''cluster.x-k8s.io/paused'' \<noteq> None),
      containsFinalizer = (\<lambda>u f. f \<in> set (uFinalizers u)),
      addFinalizer = (\<lambda>u f. u\<lparr>uFinalizers := uFinalizers u @ [f]\<rparr>),
      removeFinalizer = (\<lambda>u f. u\<lparr>uFinalizers := removeAll f (uFinalizers u)\<rparr>),
      fromUnstructured = (\<lambda>u. Inr ac),
      newMicrologger = None,
      newRestConfig = (\<lambda>_. None),
      newClients = (\<lambda>_. None),
      getSecretWith = (\<lambda>_ _ _ w. (Inr [(''value'', ''kubeconfig'')], w)),
      listServices = (\<lambda>_ ns sel w. (Inr (if ns = ''kube-system'' then svcs else []), w)),
      conditionFromMap = (\<lambda>_ m. Inr
        \<lparr>cType = lookupStr (Some m) ''type'', cStatus = lookupStr (Some m) ''status'', cSeverity = [],
         cReason = lookupStr (Some m) ''reason'', cMessage = [], cLastTransitionTime = 1\<rparr>),
      conditionToMap = (\<lambda>_ c. Inr [(''type'', cType c), (''status'', cStatus c), (''reason'', cReason c)]),
      setStatusCondition = (\<lambda>cs c w. ((True, filter (\<lambda>x. cType x \<noteq> cType c) cs @ [c]), w)),
      timeNow = (\<lambda>w. (cNow w, w\<lparr>cNow := Suc (cNow w)\<rparr>))\<rparr>"

definition sampleCapz :: "cloud capz" where
  "sampleCapz =
     \<lparr>newClusterScope = (\<lambda>cl ac w. (Inr
        \<lparr>csClientID = ''client'', csSubscriptionID = acsSubscriptionID (acSpec ac), csTenantID = ''tenant'',
         csClusterName = clName cl, csPatchObject = (\<lambda>w. (Inr (), w)), csIsAPIServerPrivate = False,
         csAPIServerPrivateIP = [], csAPIServerPublicIP = Some \<lparr>pipName = ''api-ip'', pipDNSName = ''wc''\<rparr>,
         csClose = (\<lambda>w. (Inr (), w))\<rparr>, w)),
      newPublicIPs = (\<lambda>c. Inr (\<lambda>name rg w. (Inr (PublicIPv9 (Some (Some ''20.4.101.180''))), w)))\<rparr>"

subsection \<open>Clusters\<close>

definition sampleCluster :: Cluster where
  "sampleCluster =
     \<lparr>clName = ''wc'', clNamespace = ''org'', clAnnotations = None, clInfrastructureRefName = ''wc'',
      clControlPlaneHost = ''20.0.0.7'', clPhase = ''Provisioned'', clDeleting = False\<rparr>"

definition sampleInfra :: "string \<Rightarrow> Unstructured" where
  "sampleInfra kind =
     \<lparr>uKind = kind, uName = ''wc'', uNamespace = ''org'',
      uAnnotations = Some [(''azure-resourcegroup-tag.team'', ''phoenix'')],
      uFinalizers = [], uDeleting = False, uConditions = SliceMissing, uBody = []\<rparr>"

definition sampleManagementCluster :: AzureCluster where
  "sampleManagementCluster =
     \<lparr>acName = ''mc'', acNamespace = ''org'', acFinalizers = [''azurecluster.infrastructure.cluster.x-k8s.io''],
      acSpec = \<lparr>acsResourceGroup = ''mc-rg'', acsSubscriptionID = ''sub'',
                acsIdentityRef = Some \<lparr>refName = ''id'', refNamespace = ''org''\<rparr>,
                acsVnetID = ''vnet-1'', acsSubnets = []\<rparr>,
      acConditions = []\<rparr>"

definition sampleIdentity :: AzureClusterIdentity where
  "sampleIdentity =
     \<lparr>idName = ''id'', idNamespace = ''org'', idType = ManualServicePrincipal, idClientID = ''client'',
      idTenantID = ''tenant'', idClientSecretName = ''sp'', idClientSecretNamespace = ''org''\<rparr>"

definition sampleService :: KService where
  "sampleService =
     \<lparr>svcAnnotations = Some [(''giantswarm.io/external-dns'', ''managed''),
        (''external-dns.alpha.kubernetes.io/hostname'', ''ingress.wc.example.io'')],
      svcType = ''LoadBalancer'', svcIngressIPs = [''20.0.0.9'']\<rparr>"

definition sampleK :: "cloud kubeApi" where
  "sampleK = sampleKube sampleCluster sampleManagementCluster sampleIdentity [sampleService]"

text \<open>The base domain exists; nothing of the workload cluster does.\<close>

definition sampleCloud :: "string \<Rightarrow> cloud" where
  "sampleCloud kind =
     \<lparr>cGroups = [(''mc-rg'', \<lparr>rgName = Some ''mc-rg'', rgLocation = Some ''westeurope'', rgTags = [],
                              rgProperties = Some (Some ''Succeeded'')\<rparr>)],
      cZones = [(''base-rg'', ''example.io'')], cRecords = [], cPrivateZones = [], cPrivateRecords = [], cLinks = [],
      cObject = sampleInfra kind, cNow = 7\<rparr>"

definition sampleState :: "string \<Rightarrow> cloud st" where
  "sampleState kind = \<lparr>world = sampleCloud kind, infraCluster = sampleInfra kind, events = []\<rparr>"

definition samplePatcher :: "cloud Patcher" where
  "samplePatcher = commonPatcherOps sampleK (NewCommonPatcher ''client'' ''sub'' ''tenant'' sampleCluster)"

definition sampleScope :: "cloud Scope" where
  "sampleScope =
     \<lparr>sCluster = sampleCluster, sPatcher = samplePatcher, sPublicIPService = PublicIPService_Get sampleCluster,
      sManagementClusterConfig = \<lparr>mccName = ''mc'', mccNamespace = ''org''\<rparr>,
      sManagementCluster = None, sManagementClusterIdentity = None, sClusterIdentityRef = None,
      sClusterK8sClient = None, sAzureLocation = ''westeurope''\<rparr>"

definition sampleDNSScope :: "cloud DNSScope" where
  "sampleDNSScope =
     \<lparr>dsScope = sampleScope, dsBaseDomain = ''example.io'', dsBaseDomainResourceGroup = ''base-rg'',
      dsBaseZoneCredentials =
        \<lparr>bzClientID = ''bc'', bzClientSecret = ''bs'', bzSubscriptionID = ''bsub'', bzTenantID = ''bt''\<rparr>,
      dsIdentity = \<lparr>clusterIdentity = sampleIdentity, identitySecret = [(clientSecretKeyName, ''secret'')]\<rparr>,
      dsManagementClusterIdentity = \<lparr>clusterIdentity = emptyAzureClusterIdentity, identitySecret = []\<rparr>,
      dsManagementClusterSpec = acSpec emptyAzureCluster,
      dsResourceTags = [(''team'', Some ''phoenix'')]\<rparr>"

definition sampleReconcilerZone :: ClusterZoneAzureConfig where
  "sampleReconcilerZone =
     \<lparr>czSubscriptionID = ''sub'', czClientID = ''client'', czTenantID = ''tenant'', czClientSecret = ''secret'',
      czLocation = ''westeurope''\<rparr>"

end
