(* ===== verification/Dns_Records.thy ===== *)
theory Dns_Records
  imports Dns_Client Record_Diff Sample_Env
begin

section \<open>Record sets of the public zone (\<open>azure/services/dns/*records.go\<close>)\<close>

text \<open>
  \<open>arecords.go\<close>, \<open>cnamerecords.go\<close> and \<open>nsrecords.go\<close>: the desired record sets of a cluster, the
  comparison with the zone's current ones, and the creation of what is missing. The \<^verbatim>\<open>Service\<close> of
  package \<^verbatim>\<open>dns\<close> is the record \<open>Service\<close>; its \<^verbatim>\<open>scope\<close> is a copy of the controller's scope.

  \<^verbatim>\<open>calculateMissingARecords\<close> resets \<^verbatim>\<open>ProvisioningState\<close> in the list it is given, which the caller
  goes on using: the model returns the changed list beside the result.
\<close>

record 'w Service =
  svScope :: "'w DNSScope"
  svAzureClient :: "'w dnsClient"
  svAzureBaseZoneClient :: "'w dnsClient"
  svPublicIPsService :: "'w getter"

abbreviation svPatcher :: "'w Service \<Rightarrow> 'w Patcher" where
  "svPatcher s \<equiv> dsPatcher (svScope s)"

abbreviation svDomain :: "'w Service \<Rightarrow> string" where
  "svDomain s \<equiv> ClusterDomain (svScope s)"

abbreviation svResourceGroup :: "'w Service \<Rightarrow> string" where
  "svResourceGroup s \<equiv> DNSScope_ResourceGroup (svScope s)"

definition IsAzureCluster :: "('w, bool) prog" where
  "IsAzureCluster = reads (\<lambda>s. isAzureCluster (infraCluster s))"

definition IsASOManagedCluster :: "('w, bool) prog" where
  "IsASOManagedCluster = reads (\<lambda>s. isASOManagedCluster (infraCluster s))"

subsection \<open>arecords.go: desired A records\<close>

abbreviation "apiRecordName \<equiv> ''api''"
abbreviation "apiserverRecordName \<equiv> ''apiserver''"
abbreviation "apiRecordTTL \<equiv> 300 :: int"
abbreviation "ingressRecordTTL \<equiv> 300 :: int"
abbreviation "gatewayRecordTTL \<equiv> 300 :: int"
abbreviation "ingressServiceSelector \<equiv> ''app.kubernetes.io/name in (ingress-nginx,nginx-ingress-controller)''"
abbreviation "ingressAppNamespace \<equiv> ''kube-system''"
abbreviation "gatewayNamespace \<equiv> ''envoy-gateway-system''"
abbreviation "externalDNSManagedAnnotation \<equiv> ''giantswarm.io/external-dns''"
abbreviation "externalDNSManagedValue \<equiv> ''managed''"
abbreviation "externalDNSHostnameAnnotation \<equiv> ''external-dns.alpha.kubernetes.io/hostname''"
abbreviation "ServiceTypeLoadBalancer \<equiv> ''LoadBalancer''"

definition emptyProperties :: RecordSetProperties where
  "emptyProperties = \<lparr>TTL = None, ARecords = [], CnameRecord = None, NsRecords = [], ProvisioningState = None\<rparr>"

definition aRecordSet :: "string \<Rightarrow> int \<Rightarrow> string option list \<Rightarrow> RecordSet" where
  "aRecordSet name ttl ips =
     \<lparr>rsName = pointer_String name, rsType = Some RecordTypeA,
      rsProperties = Some (emptyProperties\<lparr>TTL := Some ttl, ARecords := ips\<rparr>)\<rparr>"

definition rsNameOf :: "RecordSet \<Rightarrow> string res" where
  "rsNameOf r = deref (rsName r)"

text \<open>\<^verbatim>\<open>armdnsRecordSet[i].Properties.ARecords = append(..., ip)\<close> at the index of a name.\<close>

definition appendARecord :: "string \<Rightarrow> string \<Rightarrow> RecordSet list \<Rightarrow> RecordSet list res" where
  "appendARecord name ip rss =
     bindR (indexByName rsNameOf name rss) (\<lambda>ix.
       case ix of
         None \<Rightarrow> Panic ''index out of range''
       | Some i \<Rightarrow>
           bindR (derefOpt (rsProperties (rss ! i))) (\<lambda>p.
           Ok (rss[i := (rss ! i)\<lparr>rsProperties := Some (p\<lparr>ARecords := ARecords p @ [Some ip]\<rparr>)\<rparr>])))"

definition getIPAddressForPublicDNS :: "'w Service \<Rightarrow> ('w, string) prog" where
  "getIPAddressForPublicDNS s =
     bindM (liftR (derefOpt (pAPIServerPublicIP (svPatcher s)))) (\<lambda>spec.
       if ParseIP (pipName spec) = [] then
         bindM (masked (svPublicIPsService s (pipName spec) (svResourceGroup s))) (\<lambda>publicIPIface.
           case publicIPIface of
             PublicIPv9 properties \<Rightarrow> liftR (bindR (derefOpt properties) derefOpt)
           | PublicIPv4 properties \<Rightarrow> liftR (bindR (derefOpt properties) derefOpt)
           | PublicIPOther T \<Rightarrow> throw (Masked (PlainError (T @ '' is not a armnetwork.PublicIPAddress''))))
       else ret (pipName spec))"

text \<open>
  The conditions shared by both loops over services: managed by the operator, a hostname, of type
  \<^verbatim>\<open>LoadBalancer\<close>; the first address of the load balancer, if it has one.
\<close>

definition managedHostname :: "KService \<Rightarrow> string option" where
  "managedHostname svc =
     (if lookupStr (svcAnnotations svc) externalDNSManagedAnnotation \<noteq> externalDNSManagedValue then None
      else (case lookupOk (svcAnnotations svc) externalDNSHostnameAnnotation of
              None \<Rightarrow> None
            | Some hostname \<Rightarrow>
                if hostname = [] then None
                else if svcType svc \<noteq> ServiceTypeLoadBalancer then None
                else Some hostname))"

definition loadBalancerIP :: "KService \<Rightarrow> string option" where
  "loadBalancerIP svc =
     (case svcIngressIPs svc of
        [] \<Rightarrow> None
      | ip # _ \<Rightarrow> if ip = [] then None else Some ip)"

fun ingressLoop :: "string \<Rightarrow> KService list \<Rightarrow> RecordSet option res" where
  "ingressLoop clusterZone [] = Ok None"
| "ingressLoop clusterZone (svc # svcs) =
     (case managedHostname svc of
        None \<Rightarrow> ingressLoop clusterZone svcs
      | Some hostname \<Rightarrow>
          (case loadBalancerIP svc of
             None \<Rightarrow> Err (Masked ingressNotReadyError)
           | Some ip \<Rightarrow>
               Ok (Some (aRecordSet (TrimSuffix hostname (''.'' @ clusterZone)) ingressRecordTTL [Some ip]))))"

definition getIngressARecord :: "'w kubeApi \<Rightarrow> 'w Service \<Rightarrow> ('w, RecordSet option \<times> 'w Service) prog" where
  "getIngressARecord K s =
     bindM (masked (ClusterK8sClient K (dsScope (svScope s)))) (\<lambda>(k8sClient, sc).
     bindM (masked (callWorld (listServices K k8sClient ingressAppNamespace (Some ingressServiceSelector)))) (\<lambda>icServices.
     bindM (liftR (ingressLoop (svDomain s) icServices)) (\<lambda>r.
     ret (r, s\<lparr>svScope := (svScope s)\<lparr>dsScope := sc\<rparr>\<rparr>))))"

fun gatewayLoop :: "string \<Rightarrow> KService list \<Rightarrow> RecordSet list \<Rightarrow> RecordSet list" where
  "gatewayLoop clusterZone [] recordSets = recordSets"
| "gatewayLoop clusterZone (svc # svcs) recordSets =
     (case managedHostname svc of
        None \<Rightarrow> gatewayLoop clusterZone svcs recordSets
      | Some hostname \<Rightarrow>
          (case loadBalancerIP svc of
             None \<Rightarrow> gatewayLoop clusterZone svcs recordSets
           | Some ip \<Rightarrow>
               gatewayLoop clusterZone svcs
                 (recordSets @ [aRecordSet (TrimSuffix hostname (''.'' @ clusterZone)) gatewayRecordTTL [Some ip]])))"

definition getGatewayARecords :: "'w kubeApi \<Rightarrow> 'w Service \<Rightarrow> ('w, RecordSet list \<times> 'w Service) prog" where
  "getGatewayARecords K s =
     bindM (masked (ClusterK8sClient K (dsScope (svScope s)))) (\<lambda>(k8sClient, sc).
     bindM (masked (callWorld (listServices K k8sClient gatewayNamespace None))) (\<lambda>services.
     ret (gatewayLoop (svDomain s) services [], s\<lparr>svScope := (svScope s)\<lparr>dsScope := sc\<rparr>\<rparr>)))"

text \<open>
  \<^verbatim>\<open>getDesiredARecords\<close>. The client of the workload cluster that the first lookup caches in the
  service serves the second; no later step of the service uses the cache.
\<close>

definition getDesiredARecords :: "'w kubeApi \<Rightarrow> 'w Service \<Rightarrow> ('w, RecordSet list) prog" where
  "getDesiredARecords K s =
     bindM IsASOManagedCluster (\<lambda>aso.
     if aso then ret []
     else
       (let base = [aRecordSet apiRecordName apiRecordTTL [], aRecordSet apiserverRecordName apiRecordTTL []] in
        bindM (if pIsAPIServerPrivate (svPatcher s) then ret (pAPIServerPrivateIP (svPatcher s))
               else getIPAddressForPublicDNS s) (\<lambda>ip.
        bindM (liftR (bindR (appendARecord apiRecordName ip base) (appendARecord apiserverRecordName ip))) (\<lambda>rss.
        bindM IsAzureCluster (\<lambda>azure.
          if azure then ret rss
          else
            bindM (masked (getIngressARecord K s)) (\<lambda>(ingressRecord, s').
            bindM (masked (getGatewayARecords K s')) (\<lambda>(gatewayRecords, s'').
            ret ((case ingressRecord of None \<Rightarrow> rss | Some r \<Rightarrow> rss @ [r]) @ gatewayRecords))))))))"

subsection \<open>arecords.go: missing A records\<close>

definition clearProvisioningState :: "nat \<Rightarrow> RecordSet list \<Rightarrow> RecordSet list res" where
  "clearProvisioningState i cur =
     bindR (derefOpt (rsProperties (cur ! i))) (\<lambda>p.
     Ok (cur[i := (cur ! i)\<lparr>rsProperties := Some (p\<lparr>ProvisioningState := None\<rparr>)\<rparr>]))"

text \<open>The \<^verbatim>\<open>switch\<close>: the A records differ, or else the TTL does.\<close>

definition aRecordDiffers :: "RecordSet \<Rightarrow> RecordSet \<Rightarrow> bool res" where
  "aRecordDiffers desired current =
     bindR (derefOpt (rsProperties desired)) (\<lambda>dp.
     bindR (derefOpt (rsProperties current)) (\<lambda>cp.
     Ok (ARecords dp \<noteq> ARecords cp \<or> TTL dp \<noteq> TTL cp)))"

definition setRecordInfo :: "string \<Rightarrow> string \<Rightarrow> string \<Rightarrow> int option \<Rightarrow> string option \<Rightarrow> ('w, unit) prog" where
  "setRecordInfo zone ztype name ttl ip =
     bindM (liftR (derefOpt ip)) (\<lambda>ip.
     bindM (liftR (derefOpt ttl)) (\<lambda>ttl.
     emit (GaugeSet RecordInfo [zone, ztype, dotJoin name zone, ip, showInt ttl] 1)))"

primrec missingALoop ::
    "string \<Rightarrow> RecordSet list \<Rightarrow> RecordSet list \<Rightarrow> RecordSet list \<Rightarrow> ('w, RecordSet list \<times> RecordSet list) prog" where
  "missingALoop zone [] cur recordsToCreate = ret (recordsToCreate, cur)"
| "missingALoop zone (d # ds) cur recordsToCreate =
     bindM (liftR (rsNameOf d)) (\<lambda>name.
     bindM (liftR (indexByName rsNameOf name cur)) (\<lambda>ix.
       case ix of
         None \<Rightarrow> missingALoop zone ds cur (recordsToCreate @ [d])
       | Some i \<Rightarrow>
           bindM (liftR (clearProvisioningState i cur)) (\<lambda>cur'.
           bindM (liftR (aRecordDiffers d (cur' ! i))) (\<lambda>differs.
           bindM (liftR (derefOpt (rsProperties (cur' ! i)))) (\<lambda>cp.
           bindM (forEach (setRecordInfo zone ZoneTypePublic name (TTL cp)) (ARecords cp)) (\<lambda>_.
           missingALoop zone ds cur' (if differs then recordsToCreate @ [d] else recordsToCreate)))))))"

definition calculateMissingARecords ::
    "'w kubeApi \<Rightarrow> 'w Service \<Rightarrow> RecordSet list \<Rightarrow> ('w, RecordSet list \<times> RecordSet list) prog" where
  "calculateMissingARecords K s currentRecordSets =
     bindM (getDesiredARecords K s) (\<lambda>desired.
     missingALoop (svDomain s) desired currentRecordSets [])"

definition createRecordSet :: "'w Service \<Rightarrow> string \<Rightarrow> RecordSet \<Rightarrow> ('w, unit) prog" where
  "createRecordSet s rtype r =
     bindM (liftR (rsNameOf r)) (\<lambda>name.
     bindM (CreateOrUpdateRecordSet (svAzureClient s) (svResourceGroup s) (svDomain s) rtype name r) (\<lambda>_.
     ret ()))"

definition updateARecords :: "'w kubeApi \<Rightarrow> 'w Service \<Rightarrow> RecordSet list \<Rightarrow> ('w, RecordSet list) prog" where
  "updateARecords K s currentRecordSets =
     bindM (calculateMissingARecords K s currentRecordSets) (\<lambda>(recordsToCreate, cur).
       if recordsToCreate = [] then ret cur
       else bindM (forEach (\<lambda>r. masked (createRecordSet s RecordTypeA r)) recordsToCreate) (\<lambda>_. ret cur))"

subsection \<open>cnamerecords.go\<close>

abbreviation "cnameRecordTTL \<equiv> 300 :: int"

definition desiredCnameRecords :: "string \<Rightarrow> RecordSet list" where
  "desiredCnameRecords wildcardTarget =
     [\<lparr>rsName = pointer_String ''*'', rsType = Some RecordTypeCNAME,
       rsProperties = Some (emptyProperties\<lparr>TTL := Some cnameRecordTTL, CnameRecord := Some (Some wildcardTarget)\<rparr>)\<rparr>]"

definition cnameRecordDiffers :: "RecordSet \<Rightarrow> RecordSet \<Rightarrow> bool res" where
  "cnameRecordDiffers desired current =
     bindR (derefOpt (rsProperties current)) (\<lambda>cp.
     bindR (derefOpt (rsProperties desired)) (\<lambda>dp.
     Ok (CnameRecord cp \<noteq> CnameRecord dp \<or> TTL cp \<noteq> TTL dp)))"

primrec missingCnameLoop :: "RecordSet list \<Rightarrow> RecordSet list \<Rightarrow> RecordSet list \<Rightarrow> RecordSet list res" where
  "missingCnameLoop [] cur recordsToCreate = Ok recordsToCreate"
| "missingCnameLoop (d # ds) cur recordsToCreate =
     bindR (rsNameOf d) (\<lambda>name.
     bindR (indexByName rsNameOf name cur) (\<lambda>ix.
       case ix of
         None \<Rightarrow> missingCnameLoop ds cur (recordsToCreate @ [d])
       | Some i \<Rightarrow>
           bindR (cnameRecordDiffers d (cur ! i)) (\<lambda>differs.
           missingCnameLoop ds cur (if differs then recordsToCreate @ [d] else recordsToCreate))))"

definition calculateMissingCnameRecords :: "'w Service \<Rightarrow> RecordSet list \<Rightarrow> RecordSet list res" where
  "calculateMissingCnameRecords s currentRecordSets =
     missingCnameLoop (desiredCnameRecords (WildcardFQDN (svScope s))) currentRecordSets []"

definition updateCnameRecords :: "'w Service \<Rightarrow> RecordSet list \<Rightarrow> ('w, unit) prog" where
  "updateCnameRecords s currentRecordSets =
     bindM (liftR (calculateMissingCnameRecords s currentRecordSets)) (\<lambda>recordsToCreate.
       if recordsToCreate = [] then ret ()
       else forEach (createRecordSet s RecordTypeCNAME) recordsToCreate)"

subsection \<open>nsrecords.go\<close>

abbreviation "zoneRecordTTL \<equiv> 3600 :: int"

definition deleteClusterNSRecords :: "'w Service \<Rightarrow> ('w, unit) prog" where
  "deleteClusterNSRecords s =
     DeleteRecordSet (svAzureBaseZoneClient s) (dsBaseDomainResourceGroup (svScope s))
       (dsBaseDomain (svScope s)) RecordTypeNS (pClusterName (svPatcher s))"

definition nsRecordSet :: "string option list \<Rightarrow> RecordSet" where
  "nsRecordSet nameServerRecords =
     \<lparr>rsName = NilPtr, rsType = None,
      rsProperties = Some (emptyProperties\<lparr>TTL := Some zoneRecordTTL, NsRecords := nameServerRecords\<rparr>)\<rparr>"

definition createClusterNSRecord :: "'w Service \<Rightarrow> string option list \<Rightarrow> ('w, unit) prog" where
  "createClusterNSRecord s nameServerRecords =
     bindM (CreateOrUpdateRecordSet (svAzureBaseZoneClient s) (dsBaseDomainResourceGroup (svScope s))
              (dsBaseDomain (svScope s)) RecordTypeNS (pClusterName (svPatcher s))
              (nsRecordSet nameServerRecords)) (\<lambda>_.
     ret ())"

subsection \<open>The comparisons meet the contract of \<open>record_diff\<close>\<close>

definition rsNm :: "RecordSet \<Rightarrow> string" where
  "rsNm r = (case rsName r of NilPtr \<Rightarrow> [] | Ptr a x \<Rightarrow> x)"

definition named :: "RecordSet \<Rightarrow> bool" where
  "named r \<longleftrightarrow> rsName r \<noteq> NilPtr \<and> rsProperties r \<noteq> None"

text \<open>What the code needs of a current record set not to dereference a nil pointer.\<close>

definition completeA :: "RecordSet \<Rightarrow> bool" where
  "completeA r \<longleftrightarrow> rsName r \<noteq> NilPtr \<and>
     (case rsProperties r of
        None \<Rightarrow> False
      | Some p \<Rightarrow> None \<notin> set (ARecords p) \<and> (ARecords p \<noteq> [] \<longrightarrow> TTL p \<noteq> None))"

definition sameA :: "RecordSet \<Rightarrow> RecordSet \<Rightarrow> bool" where
  "sameA d c \<longleftrightarrow> map_option ARecords (rsProperties d) = map_option ARecords (rsProperties c) \<and>
     map_option TTL (rsProperties d) = map_option TTL (rsProperties c)"

definition sameCname :: "RecordSet \<Rightarrow> RecordSet \<Rightarrow> bool" where
  "sameCname d c \<longleftrightarrow> map_option CnameRecord (rsProperties d) = map_option CnameRecord (rsProperties c) \<and>
     map_option TTL (rsProperties d) = map_option TTL (rsProperties c)"

lemma rsNameOf_named: "rsName r \<noteq> NilPtr \<Longrightarrow> rsNameOf r = Ok (rsNm r)"
  by (cases "rsName r") (simp_all add: rsNameOf_def rsNm_def)

lemma completeA_named: "completeA r \<Longrightarrow> named r"
  by (auto simp: completeA_def named_def split: option.splits)

lemma namedD: "named r \<Longrightarrow> rsNameOf r = Ok (rsNm r)" "named r \<Longrightarrow> \<exists>p. rsProperties r = Some p"
  by (auto simp: named_def rsNameOf_named)

lemma setRecordInfo_loop:
  assumes "None \<notin> set ips" "ips \<noteq> [] \<longrightarrow> ttl \<noteq> None"
  shows "\<exists>es. forEach (setRecordInfo zone ty name ttl) ips s = (Ok (), s\<lparr>events := events s @ es\<rparr>) \<and>
    List.map_filter writeOf es = []"
  using assms
proof (induction ips arbitrary: s)
  case Nil
  have "s = s\<lparr>events := events s @ []\<rparr>" by simp
  then show ?case by (auto simp: run_simps List.map_filter_def intro!: exI [of _ "[]"])
next
  case (Cons ip ips)
  then obtain i x where ix: "ip = Some i" "ttl = Some x" by (cases ip) auto
  let ?e = "GaugeSet RecordInfo [zone, ty, dotJoin name zone, i, showInt x] 1"
  obtain es where es: "forEach (setRecordInfo zone ty name ttl) ips (s\<lparr>events := events s @ [?e]\<rparr>) =
      (Ok (), s\<lparr>events := events s @ ?e # es\<rparr>)" "List.map_filter writeOf es = []"
    using Cons.IH [of "s\<lparr>events := events s @ [?e]\<rparr>"] Cons.prems by auto
  then have "forEach (setRecordInfo zone ty name ttl) (ip # ips) s = (Ok (), s\<lparr>events := events s @ ?e # es\<rparr>)"
    by (simp add: run_simps setRecordInfo_def ix)
  then show ?case
    using es(2) by (intro exI [of _ "?e # es"]) (simp add: List.map_filter_def)
qed

definition cleared :: "RecordSet \<Rightarrow> RecordSet \<Rightarrow> bool" where
  "cleared c c' \<longleftrightarrow> c' = c \<or> c' = c\<lparr>rsProperties := map_option (\<lambda>p. p\<lparr>ProvisioningState := None\<rparr>) (rsProperties c)\<rparr>"

lemma cleared_facts:
  assumes "cleared c c'"
  shows "rsNm c' = rsNm c" "sameA d c' = sameA d c" "completeA c' = completeA c" "sameCname d c' = sameCname d c"
  using assms
  by (auto simp: cleared_def rsNm_def sameA_def completeA_def sameCname_def option.map_comp comp_def
      split: option.splits)

lemma clearProvisioningState_ok:
  assumes "completeA (cur ! i)" "i < length cur"
  shows "\<exists>cur'. clearProvisioningState i cur = Ok cur' \<and> list_all2 cleared cur cur' \<and>
    cleared (cur ! i) (cur' ! i)"
proof -
  obtain p where p: "rsProperties (cur ! i) = Some p"
    using assms(1) by (auto simp: completeA_def split: option.splits)
  let ?c = "(cur ! i)\<lparr>rsProperties := Some (p\<lparr>ProvisioningState := None\<rparr>)\<rparr>"
  have c: "cleared (cur ! i) ?c" by (simp add: cleared_def p)
  moreover have "cleared (cur ! j) (cur[i := ?c] ! j)" if "j < length cur" for j
    using c that by (cases "i = j") (simp_all add: cleared_def)
  then have "list_all2 cleared cur (cur[i := ?c])"
    by (simp add: list_all2_conv_all_nth)
  ultimately show ?thesis
    using assms(2) p by (simp add: clearProvisioningState_def)
qed

lemma inSync_cleared: "list_all2 cleared cur cur' \<Longrightarrow> inSync rsNm sameA cur' d = inSync rsNm sameA cur d"
  by (rule inSync_all2) (auto elim!: list_all2_mono simp: cleared_facts)

lemma completeA_cleared: "list_all2 cleared cur cur' \<Longrightarrow> \<forall>c\<in>set cur. completeA c \<Longrightarrow> \<forall>c\<in>set cur'. completeA c"
  by (induction rule: list_all2_induct) (auto simp: cleared_facts)

lemma list_all2_cleared_trans:
  "list_all2 cleared xs ys \<Longrightarrow> list_all2 cleared ys zs \<Longrightarrow> list_all2 cleared xs zs"
  by (rule list_all2_trans [of cleared cleared cleared]) (auto simp: cleared_def option.map_comp comp_def)

text \<open>One step of the loop at a desired record set whose name the zone has.\<close>

lemma missingALoop_step:
  assumes d: "named d" and cur: "\<forall>c\<in>set cur. completeA c" and c: "firstNamed rsNm (rsNm d) cur = Some c"
  shows "\<exists>cur' es. list_all2 cleared cur cur' \<and> List.map_filter writeOf es = [] \<and>
    missingALoop zone (d # ds) cur acc s =
      missingALoop zone ds cur' (if \<not> inSync rsNm sameA cur d then acc @ [d] else acc) (s\<lparr>events := events s @ es\<rparr>)"
proof -
  have nms: "\<forall>r\<in>set cur. rsNameOf r = Ok (rsNm r)"
    using cur completeA_named namedD(1) by auto
  obtain i where i: "indexByName rsNameOf (rsNm d) cur = Ok (Some i)" "i < length cur" "cur ! i = c"
    using indexByName_Some [OF nms c] by blast
  have "completeA c" using firstNamed_Some [OF c] cur by blast
  then obtain cur' where cur': "clearProvisioningState i cur = Ok cur'" "list_all2 cleared cur cur'"
      "cleared c (cur' ! i)"
    using clearProvisioningState_ok [of cur i] i by auto
  have "completeA (cur' ! i)" using cur'(3) \<open>completeA c\<close> by (simp add: cleared_facts)
  then obtain cp where cp: "rsProperties (cur' ! i) = Some cp" "None \<notin> set (ARecords cp)"
      "ARecords cp \<noteq> [] \<longrightarrow> TTL cp \<noteq> None"
    by (auto simp: completeA_def split: option.splits)
  obtain dp where dp: "rsProperties d = Some dp" using namedD(2) [OF d] by blast
  have differs: "aRecordDiffers d (cur' ! i) = Ok (\<not> inSync rsNm sameA cur d)"
    using c cp(1) dp cleared_facts(2) [OF cur'(3), of d]
    by (auto simp: aRecordDiffers_def inSync_def sameA_def)
  obtain es where es: "forEach (setRecordInfo zone ZoneTypePublic (rsNm d) (TTL cp)) (ARecords cp) s =
      (Ok (), s\<lparr>events := events s @ es\<rparr>)" "List.map_filter writeOf es = []"
    using setRecordInfo_loop [OF cp(2,3)] by blast
  have "missingALoop zone (d # ds) cur acc s =
      missingALoop zone ds cur' (if \<not> inSync rsNm sameA cur d then acc @ [d] else acc) (s\<lparr>events := events s @ es\<rparr>)"
    using es(1) by (simp add: run_simps namedD [OF d] i(1) cur'(1) differs cp(1))
  with cur'(2) es(2) show ?thesis by blast
qed

text \<open>The loop, run from any state: what it returns and what it leaves alone.\<close>

lemma missingALoop_run:
  assumes "\<forall>d\<in>set ds. named d" "\<forall>c\<in>set cur. completeA c"
  shows "\<exists>cur' es. missingALoop zone ds cur acc s =
      (Ok (acc @ filter (\<lambda>d. \<not> inSync rsNm sameA cur d) ds, cur'), s\<lparr>events := events s @ es\<rparr>) \<and>
    list_all2 cleared cur cur' \<and> List.map_filter writeOf es = []"
  using assms
proof (induction ds arbitrary: cur acc s)
  case Nil
  have "s = s\<lparr>events := events s @ []\<rparr>" by simp
  then show ?case
    by (auto simp: run_simps List.map_filter_def cleared_def intro!: exI [of _ "[]"] list_all2_refl)
next
  case (Cons d ds)
  have d: "named d" and nms: "\<forall>r\<in>set cur. rsNameOf r = Ok (rsNm r)"
    using Cons.prems completeA_named namedD(1) by auto
  show ?case
  proof (cases "firstNamed rsNm (rsNm d) cur")
    case None
    then have "indexByName rsNameOf (rsNm d) cur = Ok None" "\<not> inSync rsNm sameA cur d"
      using indexByName_None [OF nms] by (simp_all add: inSync_def)
    then show ?thesis
      using Cons.IH [of cur "acc @ [d]" s] Cons.prems namedD [OF d] by (simp add: run_simps)
  next
    case (Some c)
    let ?acc = "if \<not> inSync rsNm sameA cur d then acc @ [d] else acc"
    obtain cur' es1 where step: "list_all2 cleared cur cur'" "List.map_filter writeOf es1 = []"
        "missingALoop zone (d # ds) cur acc s = missingALoop zone ds cur' ?acc (s\<lparr>events := events s @ es1\<rparr>)"
      using missingALoop_step [OF d Cons.prems(2) Some] by blast
    obtain cur'' es2 where IH: "missingALoop zone ds cur' ?acc (s\<lparr>events := events s @ es1\<rparr>) =
        (Ok (?acc @ filter (\<lambda>d. \<not> inSync rsNm sameA cur' d) ds, cur''), s\<lparr>events := (events s @ es1) @ es2\<rparr>)"
        "list_all2 cleared cur' cur''" "List.map_filter writeOf es2 = []"
      using Cons.IH [of cur' ?acc "s\<lparr>events := events s @ es1\<rparr>"] Cons.prems completeA_cleared [OF step(1)] by auto
    show ?thesis
      using step IH list_all2_cleared_trans [OF step(1) IH(2)]
      by (intro exI [of _ cur''] exI [of _ "es1 @ es2"])
        (simp add: map_filter_append inSync_cleared [OF step(1)])
  qed
qed

lemma missingCnameLoop_run:
  assumes "\<forall>d\<in>set ds. named d" "\<forall>c\<in>set cur. named c"
  shows "missingCnameLoop ds cur acc = Ok (acc @ filter (\<lambda>d. \<not> inSync rsNm sameCname cur d) ds)"
  using assms
proof (induction ds arbitrary: acc)
  case Nil
  then show ?case by simp
next
  case (Cons d ds)
  have d: "named d" and nms: "\<forall>r\<in>set cur. rsNameOf r = Ok (rsNm r)"
    using Cons.prems namedD(1) by auto
  show ?case
  proof (cases "firstNamed rsNm (rsNm d) cur")
    case None
    with Cons indexByName_None [OF nms None] namedD [OF d] show ?thesis
      by (simp add: inSync_def)
  next
    case (Some c)
    then obtain i where i: "indexByName rsNameOf (rsNm d) cur = Ok (Some i)" "cur ! i = c"
      using indexByName_Some [OF nms] by blast
    have "named c" using firstNamed_Some [OF Some] Cons.prems(2) by blast
    then have "cnameRecordDiffers d c = Ok (\<not> inSync rsNm sameCname cur d)"
      using Some namedD(2) [OF d] namedD(2) [of c]
      by (auto simp: cnameRecordDiffers_def inSync_def sameCname_def)
    with Cons i namedD [OF d] show ?thesis by simp
  qed
qed

interpretation pubA: record_diff rsNm named completeA sameA
  "\<lambda>ds cur. bindM (missingALoop zone ds cur []) (\<lambda>(r, cur'). ret r)"
  for zone
proof
  fix ds cur and s :: "'w st"
  assume wf: "\<forall>d\<in>set ds. named d" "\<forall>c\<in>set cur. completeA c"
  show "fst (bindM (missingALoop zone ds cur []) (\<lambda>(r, cur'). ret r) s) =
      Ok (filter (\<lambda>d. \<not> inSync rsNm sameA cur d) ds)"
    using missingALoop_run [OF wf, of zone "[]" s] by (auto simp: run_simps)
qed (simp add: sameA_def)

interpretation pubC: record_diff rsNm named named sameCname
  "\<lambda>ds cur. liftR (missingCnameLoop ds cur [])"
  by unfold_locales (simp_all add: missingCnameLoop_run run_simps sameCname_def)

subsection \<open>The desired A records\<close>

lemma aRecordSet_complete [simp]:
  "named (aRecordSet name ttl ips)" "rsNm (aRecordSet name ttl ips) = name"
  "completeA (aRecordSet name ttl (map Some xs))" "completeA (aRecordSet name ttl [Some x])"
  by (auto simp: aRecordSet_def named_def rsNm_def pointer_String_def completeA_def emptyProperties_def)

text \<open>The append to both records of the pair succeeds and gives each of them the address.\<close>

lemma append_both:
  "bindR (appendARecord apiRecordName ip [aRecordSet apiRecordName ttl [], aRecordSet apiserverRecordName ttl []])
     (appendARecord apiserverRecordName ip) =
   Ok [aRecordSet apiRecordName ttl [Some ip], aRecordSet apiserverRecordName ttl [Some ip]]"
  by (simp add: appendARecord_def aRecordSet_def rsNameOf_def emptyProperties_def)

text \<open>Of the services, the first managed one decides about the ingress record.\<close>

lemma ingressLoop_first:
  "ingressLoop zone svcs =
     (case find (\<lambda>svc. managedHostname svc \<noteq> None) svcs of
        None \<Rightarrow> Ok None
      | Some svc \<Rightarrow>
          (case loadBalancerIP svc of
             None \<Rightarrow> Err (Masked ingressNotReadyError)
           | Some ip \<Rightarrow> Ok (Some (aRecordSet (TrimSuffix (the (managedHostname svc)) (''.'' @ zone)) 300 [Some ip]))))"
  by (induction svcs) (auto split: option.splits)

definition gatewayRecord :: "string \<Rightarrow> KService \<Rightarrow> RecordSet option" where
  "gatewayRecord zone svc =
     (case managedHostname svc of
        None \<Rightarrow> None
      | Some hostname \<Rightarrow> map_option (\<lambda>ip. aRecordSet (TrimSuffix hostname (''.'' @ zone)) 300 [Some ip]) (loadBalancerIP svc))"

lemma gatewayLoop_filter: "gatewayLoop zone svcs rss = rss @ List.map_filter (gatewayRecord zone) svcs"
  by (induction svcs arbitrary: rss)
    (auto simp: List.map_filter_def gatewayRecord_def split: option.splits)

definition desiredRecord :: "RecordSet \<Rightarrow> bool" where
  "desiredRecord r \<longleftrightarrow> (\<exists>name ip. r = aRecordSet name 300 [Some ip])"

lemma desiredRecord_facts: "desiredRecord r \<Longrightarrow> named r \<and> completeA r"
  by (auto simp: desiredRecord_def)

lemma desiredRecord_intro [intro]: "desiredRecord (aRecordSet name 300 [Some ip])"
  by (auto simp: desiredRecord_def)

lemma gatewayRecords_desired: "r \<in> set (gatewayLoop zone svcs []) \<Longrightarrow> desiredRecord r"
  by (auto simp: gatewayLoop_filter List.map_filter_def gatewayRecord_def split: option.splits if_splits)

lemma ingressRecord_desired: "ingressLoop zone svcs = Ok (Some r) \<Longrightarrow> desiredRecord r"
  by (auto simp: ingressLoop_first split: option.splits)

text \<open>
  The desired records: the pair of API records with one address, and for a cluster that is not an
  \<^verbatim>\<open>AzureCluster\<close> the ingress and gateway records. Each has one address and the TTL of 300 seconds.
\<close>

definition apiAddress :: "'w Service \<Rightarrow> ('w, string) prog" where
  "apiAddress sv =
     (if pIsAPIServerPrivate (svPatcher sv) then ret (pAPIServerPrivateIP (svPatcher sv))
      else getIPAddressForPublicDNS sv)"

lemma getDesiredARecords_aks:
  "isASOManagedCluster (infraCluster s) \<Longrightarrow> getDesiredARecords K sv s = (Ok [], s)"
  by (simp add: getDesiredARecords_def IsASOManagedCluster_def run_simps)

lemma serviceRecords_desired:
  assumes "getIngressARecord K sv s = (Ok (rec, sv'), u)" "getGatewayARecords K sv' u = (Ok (gws, sv''), t)"
  shows "\<forall>r\<in>set ((case rec of None \<Rightarrow> [] | Some r \<Rightarrow> [r]) @ gws). desiredRecord r"
  using assms gatewayRecords_desired ingressRecord_desired
  by (auto simp: getIngressARecord_def getGatewayARecords_def run_iffs split: option.splits)

lemma getDesiredARecords_shape:
  assumes "getDesiredARecords K sv s = (Ok ds, t)" "\<not> isASOManagedCluster (infraCluster s)"
  shows "\<exists>ip u rest. apiAddress sv s = (Ok ip, u) \<and> (\<forall>r\<in>set rest. desiredRecord r) \<and>
    ds = [aRecordSet apiRecordName 300 [Some ip], aRecordSet apiserverRecordName 300 [Some ip]] @ rest"
proof -
  obtain ip u where ip: "apiAddress sv s = (Ok ip, u)"
      and rest: "(if isAzureCluster (infraCluster u)
          then ret [aRecordSet apiRecordName 300 [Some ip], aRecordSet apiserverRecordName 300 [Some ip]]
          else bindM (masked (getIngressARecord K sv)) (\<lambda>(ingressRecord, s').
            bindM (masked (getGatewayARecords K s')) (\<lambda>(gatewayRecords, s'').
            ret ((case ingressRecord of
                    None \<Rightarrow> [aRecordSet apiRecordName 300 [Some ip], aRecordSet apiserverRecordName 300 [Some ip]]
                  | Some r \<Rightarrow> [aRecordSet apiRecordName 300 [Some ip], aRecordSet apiserverRecordName 300 [Some ip]] @ [r])
                 @ gatewayRecords)))) u = (Ok ds, t)"
    using assms
    unfolding getDesiredARecords_def apiAddress_def [symmetric] Let_def append_both
    by (auto simp: IsASOManagedCluster_def IsAzureCluster_def run_iffs)
  show ?thesis
  proof (cases "isAzureCluster (infraCluster u)")
    case True
    with ip rest show ?thesis by (auto simp: run_iffs)
  next
    case False
    then obtain rec sv' v gws sv'' where "getIngressARecord K sv u = (Ok (rec, sv'), v)"
        "getGatewayARecords K sv' v = (Ok (gws, sv''), t)"
        "ds = [aRecordSet apiRecordName 300 [Some ip], aRecordSet apiserverRecordName 300 [Some ip]] @
          (case rec of None \<Rightarrow> [] | Some r \<Rightarrow> [r]) @ gws"
      using rest by (auto simp: run_iffs split: option.splits)
    with ip serviceRecords_desired show ?thesis by blast
  qed
qed

lemma getDesiredARecords_desired:
  assumes "getDesiredARecords K sv s = (Ok ds, t)"
  shows "\<forall>r\<in>set ds. desiredRecord r"
proof (cases "isASOManagedCluster (infraCluster s)")
  case True
  then show ?thesis using assms by (simp add: getDesiredARecords_aks)
next
  case False
  then show ?thesis using getDesiredARecords_shape [OF assms] by auto
qed

text \<open>A service whose patcher keeps the contract publishes the host when it is an IP address.\<close>

lemma apiAddress_contract:
  assumes "api_patcher (svPatcher sv) host" "ParseIP host \<noteq> []"
  shows "apiAddress sv s = (Ok host, s)"
  using api_patcher.address_present [OF assms(1)] assms(2)
  by (auto simp: apiAddress_def getIPAddressForPublicDNS_def run_simps)

end
