(* ===== verification/Resource_Group.thy ===== *)
theory Resource_Group
  imports Dns_Records
begin

section \<open>The resource group of a non-Azure cluster (\<open>azure/services/dns/resourcegroup.go\<close>)\<close>

text \<open>
  The operator creates, tags and deletes the resource group of a cluster that CAPZ does not
  manage. A tag map is an association list in the order in which Go's \<^verbatim>\<open>range\<close> visits it; the
  results as maps do not depend on that order, which the lemmas show.
\<close>

subsection \<open>Tags\<close>

primrec tagsEqualLoop :: "tagmap \<Rightarrow> tagmap \<Rightarrow> bool res" where
  "tagsEqualLoop existingTags [] = Ok True"
| "tagsEqualLoop existingTags (kv # newTags) =
     (case map_of existingTags (fst kv) of
        None \<Rightarrow> Ok False
      | Some existingValue \<Rightarrow>
          bindR (derefOpt existingValue) (\<lambda>ev.
          bindR (derefOpt (snd kv)) (\<lambda>v.
            if ev \<noteq> v then Ok False else tagsEqualLoop existingTags newTags)))"

definition resourceGroupTagsEqual :: "tagmap \<Rightarrow> tagmap \<Rightarrow> bool res" where
  "resourceGroupTagsEqual existingTags newTags =
     (if length existingTags \<noteq> length newTags then Ok False else tagsEqualLoop existingTags newTags)"

primrec tagsCopyLoop :: "tagmap \<Rightarrow> tagmap \<Rightarrow> tagmap" where
  "tagsCopyLoop [] mergedTags = mergedTags"
| "tagsCopyLoop (kv # tags) mergedTags = tagsCopyLoop tags (AList.update (fst kv) (snd kv) mergedTags)"

definition mergeResourceTags :: "tagmap \<Rightarrow> tagmap \<Rightarrow> tagmap" where
  "mergeResourceTags existingTags newTags = tagsCopyLoop newTags (tagsCopyLoop existingTags [])"

subsection \<open>Operations of the service\<close>

definition updateClusterResourceGroup :: "'w Service \<Rightarrow> ResourceGroup \<Rightarrow> ('w, ResourceGroup) prog" where
  "updateClusterResourceGroup s existing =
     (let tags = dsResourceTags (svScope s) in
      bindM (liftR (resourceGroupTagsEqual (rgTags existing) tags)) (\<lambda>equal.
        if \<not> equal then
          (let existing' = existing\<lparr>rgTags := mergeResourceTags (rgTags existing) tags\<rparr> in
           bindM (liftR (derefOpt (rgProperties existing'))) (\<lambda>_.
           let existing'' = existing'\<lparr>rgProperties := Some None\<rparr> in
           bindM (masked (CreateOrUpdateResourceGroup (svAzureClient s) (svResourceGroup s) existing'')) (\<lambda>_.
           ret existing'')))
        else ret existing))"

definition resourceGroupLocation :: "'w kubeApi \<Rightarrow> 'w Service \<Rightarrow> ('w, string option) prog" where
  "resourceGroupLocation K s =
     (let location = sAzureLocation (dsScope (svScope s)) in
      if location = [] then
        bindM (masked (ManagementCluster K (dsScope (svScope s)))) (\<lambda>(managementCluster, _).
        bindM (masked (GetResourceGroup (svAzureClient s) (acsResourceGroup (acSpec managementCluster)))) (\<lambda>g.
        ret (rgLocation g)))
      else ret (Some location))"

definition createClusterResourceGroup :: "'w kubeApi \<Rightarrow> 'w Service \<Rightarrow> ('w, ResourceGroup) prog" where
  "createClusterResourceGroup K s =
     bindM (attempt (GetResourceGroup (svAzureClient s) (svResourceGroup s))) (\<lambda>r.
       case r of
         Inr existing \<Rightarrow> updateClusterResourceGroup s existing
       | Inl err \<Rightarrow>
           if \<not> IsResourceNotFoundError (Some err) then throw (Masked err)
           else
             bindM (resourceGroupLocation K s) (\<lambda>location.
             masked (CreateOrUpdateResourceGroup (svAzureClient s) (svResourceGroup s)
               \<lparr>rgName = Some (svResourceGroup s), rgLocation = location,
                rgTags = dsResourceTags (svScope s), rgProperties = None\<rparr>)))"

definition deleteClusterResourceGroup :: "'w Service \<Rightarrow> ('w, unit) prog" where
  "deleteClusterResourceGroup s =
     bindM (attempt (DeleteResourceGroup (svAzureClient s) (svResourceGroup s))) (\<lambda>r.
       case r of
         Inl err \<Rightarrow> if \<not> IsResourceNotFoundError (Some err) then throw (Masked err) else ret ()
       | Inr _ \<Rightarrow> ret ())"

subsection \<open>Tags as maps\<close>

text \<open>Keys are unique in a Go map; values are non-nil in what Azure returns and in what we build.\<close>

definition tagsWf :: "tagmap \<Rightarrow> bool" where
  "tagsWf tags \<longleftrightarrow> distinct (map fst tags) \<and> None \<notin> snd ` set tags"

lemma tagsCopyLoop_map: "map_of (tagsCopyLoop tags acc) = map_of acc ++ map_of (rev tags)"
  by (induction tags arbitrary: acc) (auto simp: AList.update_conv' map_add_def fun_eq_iff split: option.splits)

lemma tagsCopyLoop_distinct: "distinct (map fst acc) \<Longrightarrow> distinct (map fst (tagsCopyLoop tags acc))"
  by (induction tags arbitrary: acc) (auto simp: AList.distinct_update)

lemma map_of_rev_distinct: "distinct (map fst xs) \<Longrightarrow> map_of (rev xs) = map_of xs"
  by (simp add: map_of_inject_set rev_map [symmetric] distinct_rev)

lemma mergeResourceTags_map:
  assumes "distinct (map fst e)" "distinct (map fst n)"
  shows "map_of (mergeResourceTags e n) = map_of e ++ map_of n"
  using assms by (simp add: mergeResourceTags_def tagsCopyLoop_map map_of_rev_distinct)

lemma mergeResourceTags_distinct: "distinct (map fst (mergeResourceTags e n))"
  by (simp add: mergeResourceTags_def tagsCopyLoop_distinct)

lemma tagsEqualLoop_iff:
  assumes "None \<notin> ran (map_of e)" "None \<notin> snd ` set n"
  shows "tagsEqualLoop e n = Ok (\<forall>(k, v)\<in>set n. map_of e k = Some v)"
  using assms(2)
proof (induction n)
  case Nil
  then show ?case by simp
next
  case (Cons kv n)
  obtain k v where kv: "kv = (k, Some v)" using Cons.prems by (cases kv; cases "snd kv") auto
  show ?case
  proof (cases "map_of e k")
    case None
    then show ?thesis by (auto simp: kv)
  next
    case (Some x)
    then obtain y where "x = Some y" using assms(1) by (cases x) (auto simp: ran_def)
    with Some Cons kv show ?thesis by auto
  qed
qed

lemma subset_map_eq:
  assumes "distinct (map fst e)" "distinct (map fst n)" "length e = length n"
    and "\<forall>(k, v)\<in>set n. map_of e k = Some v"
  shows "map_of e = map_of n"
proof -
  have "set n \<subseteq> set e" using assms(4) by (auto dest: map_of_SomeD)
  moreover have "card (set n) = card (set e)"
    using assms(1-3) by (simp add: distinct_card distinct_map)
  ultimately have "set n = set e" by (intro card_subset_eq) auto
  then show ?thesis using assms(1,2) map_of_inject_set by blast
qed

lemma tagsEqual_maps:
  assumes "tagsWf e" "tagsWf n"
  shows "resourceGroupTagsEqual e n = Ok (map_of e = map_of n)"
proof -
  have d: "distinct (map fst e)" "distinct (map fst n)" "None \<notin> snd ` set n"
    using assms by (auto simp: tagsWf_def)
  have ran: "None \<notin> ran (map_of e)"
    using assms(1) by (auto simp: tagsWf_def ran_distinct)
  have len: "length e = length n" if "map_of e = map_of n"
    using that d(1,2) map_of_inject_set [OF d(1,2)] by (metis distinct_card distinct_map)
  have "(\<forall>(k, v)\<in>set n. map_of e k = Some v) \<longleftrightarrow> map_of e = map_of n" if "length e = length n"
  proof
    assume "map_of e = map_of n"
    then show "\<forall>(k, v)\<in>set n. map_of e k = Some v" using d(2) by auto
  qed (rule subset_map_eq [OF d(1,2) that])
  then show ?thesis
    using len by (auto simp: resourceGroupTagsEqual_def tagsEqualLoop_iff [OF ran d(3)])
qed

lemma mergeResourceTags_wf:
  assumes "tagsWf e" "tagsWf n"
  shows "tagsWf (mergeResourceTags e n)"
proof -
  have "None \<notin> ran (map_of e ++ map_of n)"
  proof -
    have "ran (map_of e ++ map_of n) \<subseteq> ran (map_of e) \<union> ran (map_of n)"
      by (auto simp: ran_def)
    then show ?thesis using assms by (auto simp: tagsWf_def ran_distinct)
  qed
  then have "None \<notin> snd ` set (mergeResourceTags e n)"
    using assms mergeResourceTags_map [of e n] ran_distinct [OF mergeResourceTags_distinct, of e n]
    by (simp add: tagsWf_def)
  then show ?thesis by (simp add: tagsWf_def mergeResourceTags_distinct)
qed

lemma merge_eq_new_iff:
  assumes "tagsWf e" "tagsWf n"
  shows "map_of (mergeResourceTags e n) = map_of n \<longleftrightarrow> fst ` set e \<subseteq> fst ` set n"
proof -
  have "map_of e ++ map_of n = map_of n \<longleftrightarrow> dom (map_of e) \<subseteq> dom (map_of n)"
    by (auto simp: map_add_def fun_eq_iff dom_def split: option.splits)
  then show ?thesis
    using assms by (simp add: mergeResourceTags_map tagsWf_def dom_map_of_conv_image_fst)
qed

subsection \<open>Properties\<close>

text \<open>
  C35: The comparison of resource tags decides whether the two tag maps are equal, for maps whose
  values are not nil; it does not depend on the order in which Go iterates over them.
\<close>

theorem resourceGroupTagsEqual_iff:
  assumes "tagsWf existingTags" "tagsWf newTags"
  shows "resourceGroupTagsEqual existingTags newTags = Ok (map_of existingTags = map_of newTags)"
  using assms by (rule tagsEqual_maps)

theorem resourceGroupTagsEqual_iff_witness:
  "resourceGroupTagsEqual [(''a'', Some ''1''), (''b'', Some ''2'')] [(''b'', Some ''2''), (''a'', Some ''1'')] = Ok True"
proof -
  have "map_of [(''a'', Some ''1''), (''b'', Some ''2'')] = map_of [(''b'', Some ''2''), (''a'', Some ''1'')]"
    by auto
  then show ?thesis
    using resourceGroupTagsEqual_iff [of "[(''a'', Some ''1''), (''b'', Some ''2'')]" "[(''b'', Some ''2''), (''a'', Some ''1'')]"]
    by (simp add: tagsWf_def del: map_of.simps)
qed

text \<open>
  C36: After the tags of an existing group have been merged with the desired ones, the next
  comparison finds them equal exactly if the group had no tag besides the desired ones. With a
  foreign tag, which the merge keeps, the comparison fails at every reconciliation and the group
  is written again each time.
\<close>

theorem tags_settle_iff:
  assumes "tagsWf existingTags" "tagsWf newTags"
  shows "resourceGroupTagsEqual (mergeResourceTags existingTags newTags) newTags =
    Ok (fst ` set existingTags \<subseteq> fst ` set newTags)"
  using tagsEqual_maps [OF mergeResourceTags_wf [OF assms] assms(2)] merge_eq_new_iff [OF assms] by simp

theorem tags_settle_iff_witness:
  "resourceGroupTagsEqual (mergeResourceTags [(''costs'', Some ''42'')] [(''team'', Some ''phoenix'')])
     [(''team'', Some ''phoenix'')] = Ok False"
  using tags_settle_iff [of "[(''costs'', Some ''42'')]" "[(''team'', Some ''phoenix'')]"] by (simp add: tagsWf_def)

end
