(* ===== verification/Dns_Service.thy ===== *)
theory Dns_Service
  imports Resource_Group
begin

section \<open>The public DNS service (\<open>azure/services/dns/dns.go\<close>)\<close>

text \<open>
  \<open>New\<close>, \<open>Reconcile\<close>, \<open>ReconcileDelete\<close> and \<open>createClusterDNSZone\<close>. The state and the log carry what the
  service does to Azure and to the metrics; its own fields do not change.

  The loop over the record sets of the base domain compares the \<^emph>\<open>pointer\<close> \<^verbatim>\<open>Name\<close> with the address
  of \<^verbatim>\<open>s.scope.Cluster.Name\<close> (\<open>pointsTo\<close>).
\<close>

definition New :: "'w azureSdk \<Rightarrow> 'w DNSScope \<Rightarrow> 'w getter \<Rightarrow> ('s, 'w Service) M" where
  "New A scope publicIPsService =
     bindM (masked (newAzureClient A scope)) (\<lambda>azureClient.
     bindM (masked (newBaseZoneClient A (dsBaseZoneCredentials scope))) (\<lambda>azureBaseZoneClient.
     ret \<lparr>svScope = scope, svAzureClient = azureClientOps A azureClient,
          svAzureBaseZoneClient = azureClientOps A azureBaseZoneClient,
          svPublicIPsService = publicIPsService\<rparr>))"

definition createClusterDNSZone :: "'w Service \<Rightarrow> ('w, Zone) prog" where
  "createClusterDNSZone s =
     masked (CreateOrUpdateZone (svAzureClient s) (svResourceGroup s) (svDomain s)
       \<lparr>zoneName = Some (svDomain s), zoneLocation = Some azureGlobal, zoneProperties = None\<rparr>)"

text \<open>The loop \<^verbatim>\<open>range over received NS records\<close>.\<close>

primrec nsRecordExistsLoop :: "RecordSet list \<Rightarrow> bool \<Rightarrow> bool res" where
  "nsRecordExistsLoop [] found = Ok found"
| "nsRecordExistsLoop (r # rs) found =
     (if pointsTo (rsName r) ClusterNameField then
        bindR (derefOpt (rsProperties r)) (\<lambda>p.
        nsRecordExistsLoop rs (if 0 < length (NsRecords p) then True else found))
      else nsRecordExistsLoop rs found)"

text \<open>The list of the zone's record sets; a missing zone is created and has none.\<close>

definition listOrCreateZone :: "'w Service \<Rightarrow> ('w, RecordSet list) prog" where
  "listOrCreateZone s =
     bindM (attempt (ListRecordSets (svAzureClient s) (svResourceGroup s) (svDomain s))) (\<lambda>r.
       case r of
         Inr clusterRecordSets \<Rightarrow> ret clusterRecordSets
       | Inl err \<Rightarrow>
           if \<not> IsParentResourceNotFound (Some err) then
             bindM (azureRequestErrorInc ''recordSets.NewListByDNSZonePager'') (\<lambda>_. throw (Masked err))
           else bindM (masked (createClusterDNSZone s)) (\<lambda>_. ret []))"

definition reconcileResourceGroup :: "'w kubeApi \<Rightarrow> 'w Service \<Rightarrow> ('w, unit) prog" where
  "reconcileResourceGroup K s =
     bindM IsAzureCluster (\<lambda>azure.
       if \<not> azure then bindM (masked (createClusterResourceGroup K s)) (\<lambda>_. ret ()) else ret ())"

text \<open>From reading the zone to the delegation: \<open>reconcileDelegation\<close> is the middle part of \<^verbatim>\<open>Reconcile\<close>.\<close>

definition reconcileDelegation :: "'w Service \<Rightarrow> ('w, unit) prog" where
  "reconcileDelegation s =
     bindM (masked (GetZone (svAzureClient s) (svResourceGroup s) (svDomain s))) (\<lambda>clusterZone.
     bindM (liftR (bindR (derefOpt (zoneProperties clusterZone)) (\<lambda>p. derefOpt (NumberOfRecordSets p)))) (\<lambda>n.
     bindM (emit (GaugeSet ClusterZoneRecords [svDomain s, ZoneTypePublic] n)) (\<lambda>_.
     bindM (masked (ListRecordSets (svAzureBaseZoneClient s) (dsBaseDomainResourceGroup (svScope s))
                      (dsBaseDomain (svScope s)))) (\<lambda>basedomainRecordSets.
     bindM (emit (GaugeSet ClusterZoneRecords [dsBaseDomain (svScope s), ZoneTypePublic]
                    (int (length basedomainRecordSets)))) (\<lambda>_.
     bindM (liftR (nsRecordExistsLoop basedomainRecordSets False)) (\<lambda>clusterNSRecordExists.
     bindM (liftR (derefOpt (zoneProperties clusterZone))) (\<lambda>p.
       if \<not> clusterNSRecordExists then masked (createClusterNSRecord s (NameServers p)) else ret ())))))))"

definition Reconcile :: "'w kubeApi \<Rightarrow> 'w Service \<Rightarrow> ('w, unit) prog" where
  "Reconcile K s =
     bindM (reconcileResourceGroup K s) (\<lambda>_.
     bindM (emit (GaugeSet ZoneInfo [svDomain s, ZoneTypePublic, svResourceGroup s,
                    pTenantID (svPatcher s), pSubscriptionID (svPatcher s)] 1)) (\<lambda>_.
     bindM (listOrCreateZone s) (\<lambda>clusterRecordSets.
     bindM (reconcileDelegation s) (\<lambda>_.
     bindM (masked (updateARecords K s clusterRecordSets)) (\<lambda>clusterRecordSets'.
     masked (updateCnameRecords s clusterRecordSets'))))))"

definition ReconcileDelete :: "'w Service \<Rightarrow> ('w, unit) prog" where
  "ReconcileDelete s =
     bindM (masked (deleteClusterNSRecords s)) (\<lambda>_.
     bindM IsAzureCluster (\<lambda>azure.
       if \<not> azure then masked (deleteClusterResourceGroup s) else ret ()))"

subsection \<open>What the service asks of Azure\<close>

text \<open>
  The requests a service of the given scope may send with the cluster's clients, and the one it
  may send with the client of the base domain.
\<close>

fun clusterWrite :: "'w DNSScope \<Rightarrow> request \<Rightarrow> bool" where
  "clusterWrite sc (ResourceGroupsCreateOrUpdate rg g) \<longleftrightarrow> rg = DNSScope_ResourceGroup sc"
| "clusterWrite sc (ZonesCreateOrUpdate rg zone z) \<longleftrightarrow> rg = DNSScope_ResourceGroup sc \<and> zone = ClusterDomain sc"
| "clusterWrite sc (RecordSetsCreateOrUpdate rg zone ty name r) \<longleftrightarrow>
     rg = DNSScope_ResourceGroup sc \<and> zone = ClusterDomain sc \<and> ty \<in> {RecordTypeA, RecordTypeCNAME} \<and>
     rsNameOf r = Ok name"
| "clusterWrite sc _ \<longleftrightarrow> False"

fun delegationWrite :: "'w DNSScope \<Rightarrow> request \<Rightarrow> bool" where
  "delegationWrite sc (RecordSetsCreateOrUpdate rg zone ty name r) \<longleftrightarrow>
     rg = dsBaseDomainResourceGroup sc \<and> zone = dsBaseDomain sc \<and> ty = RecordTypeNS \<and>
     name = pClusterName (dsPatcher sc) \<and> (\<exists>ns. r = nsRecordSet ns)"
| "delegationWrite sc _ \<longleftrightarrow> False"

abbreviation recordWrite :: "armClient \<Rightarrow> 'w Service \<Rightarrow> string \<Rightarrow> RecordSet \<Rightarrow> armClient \<times> request" where
  "recordWrite a sv ty r \<equiv> (a, RecordSetsCreateOrUpdate (svResourceGroup sv) (svDomain sv) ty (rsNm r) r)"

lemma quiet_IsAzureCluster [quiet_intros]: "quiet IsAzureCluster" "quiet IsASOManagedCluster"
  by (simp_all add: IsAzureCluster_def IsASOManagedCluster_def quiet_basic)

lemma IsAzureCluster_Ok_iff [run_iffs]:
  "IsAzureCluster s = (Ok b, t) \<longleftrightarrow> b = isAzureCluster (infraCluster s) \<and> t = s"
  "IsASOManagedCluster s = (Ok b, t) \<longleftrightarrow> b = isASOManagedCluster (infraCluster s) \<and> t = s"
  by (auto simp: IsAzureCluster_def IsASOManagedCluster_def run_simps)

lemma quiet_serviceRecords [quiet_intros]:
  "quiet (getIngressARecord K sv)" "quiet (getGatewayARecords K sv)"
  unfolding getIngressARecord_def getGatewayARecords_def by (intro quiet_intros)+

lemma missingALoop_writes [writes_intros]: "writesOnly Q (missingALoop zone ds cur acc)"
  by (induction ds arbitrary: cur acc)
    (auto intro!: writes_intros simp: setRecordInfo_def split: option.splits)

lemma missingALoop_infra [sends_intros]: "keepsInfra (missingALoop zone ds cur acc)"
  by (induction ds arbitrary: cur acc)
    (auto intro!: sends_intros simp: setRecordInfo_def split: option.splits)

locale dns_service =
  cl: dns_client "svAzureClient sv" zc rc gc +
  bs: dns_client "svAzureBaseZoneClient sv" bz br bg
  for sv :: "'w Service" and zc rc gc bz br bg +
  assumes getter_quiet: "quiet (svPublicIPsService sv name rg)"
begin

lemma quiet_getDesiredARecords: "quiet (getDesiredARecords K sv)"
  unfolding getDesiredARecords_def getIPAddressForPublicDNS_def Let_def
  by (intro quiet_intros getter_quiet) (auto intro!: quiet_intros split: PublicIPIface.splits)

lemma calculateMissing_sends: "sends [] (calculateMissingARecords K sv cur)"
  unfolding writesOnly_False_sends [symmetric] calculateMissingARecords_def
  by (intro writes_intros quiet_writesOnly quiet_getDesiredARecords)

text \<open>The writes of the loops that create the missing record sets.\<close>

lemma createRecordSet_run:
  assumes "createRecordSet sv ty r s = (Ok x, t)"
  shows "azureWrites t = azureWrites s @ [recordWrite rc sv ty r]"
  using assms sendsD [OF cl.CreateOrUpdateRecordSet_sends]
  by (fastforce simp: createRecordSet_def run_iffs rsNameOf_def deref_Ok_iff rsNm_def)

lemma createRecordSets_run:
  assumes "forEach (createRecordSet sv ty) rs s = (Ok x, t)"
  shows "azureWrites t = azureWrites s @ map (recordWrite rc sv ty) rs"
  using assms
proof (induction rs arbitrary: s)
  case (Cons r rs)
  then obtain u where "createRecordSet sv ty r s = (Ok (), u)" "forEach (createRecordSet sv ty) rs u = (Ok x, t)"
    by (auto simp: run_iffs)
  with Cons.IH createRecordSet_run show ?case by fastforce
qed (simp add: run_iffs)

lemma updateARecords_run:
  assumes "updateARecords K sv cur s = (Ok cur', t)"
  shows "\<exists>rs u. calculateMissingARecords K sv cur s = (Ok (rs, cur'), u) \<and>
    azureWrites t = azureWrites s @ map (recordWrite rc sv RecordTypeA) rs"
proof -
  have "forEach (\<lambda>r. masked (createRecordSet sv RecordTypeA r)) rs v = (Ok x, w) \<Longrightarrow>
      forEach (createRecordSet sv RecordTypeA) rs v = (Ok x, w)" for rs v x w
    by (induction rs arbitrary: v) (auto simp: run_iffs)
  with assms show ?thesis
    using sendsD [OF calculateMissing_sends] createRecordSets_run
    by (fastforce simp: updateARecords_def run_iffs split: if_splits)
qed

lemma updateCnameRecords_run:
  assumes "updateCnameRecords sv cur s = (Ok x, t)"
  shows "\<exists>rs. calculateMissingCnameRecords sv cur = Ok rs \<and>
    azureWrites t = azureWrites s @ map (recordWrite rc sv RecordTypeCNAME) rs"
  using assms createRecordSets_run by (fastforce simp: updateCnameRecords_def run_iffs split: if_splits)

text \<open>Before the records: the resource group, the zone and the delegation.\<close>

lemma createClusterResourceGroup_run:
  assumes "createClusterResourceGroup K sv s = (Ok x, t)"
  shows "\<exists>gs. length gs \<le> 1 \<and>
    azureWrites t = azureWrites s @ map (\<lambda>g. (gc, ResourceGroupsCreateOrUpdate (svResourceGroup sv) g)) gs"
proof -
  have loc: "sends [] (resourceGroupLocation K sv)"
    unfolding writesOnly_False_sends [symmetric] resourceGroupLocation_def Let_def
    by (intro writes_intros quiet_writesOnly [OF quiet_ManagementCluster] cl.client_writes)
  consider (found) existing u where "GetResourceGroup (svAzureClient sv) (svResourceGroup sv) s = (Ok existing, u)"
      "updateClusterResourceGroup sv existing u = (Ok x, t)"
    | (missing) err u l v g where "GetResourceGroup (svAzureClient sv) (svResourceGroup sv) s = (Err err, u)"
      "resourceGroupLocation K sv u = (Ok l, v)"
      "CreateOrUpdateResourceGroup (svAzureClient sv) (svResourceGroup sv) g v = (Ok x, t)"
    using assms by (auto simp: createClusterResourceGroup_def run_iffs split: if_splits)
  then show ?thesis
  proof cases
    case found
    then show ?thesis
      using cl.client_reads(3) sendsD [OF cl.CreateOrUpdateResourceGroup_sends]
      by (fastforce simp: updateClusterResourceGroup_def Let_def run_iffs split: if_splits
          intro: exI [of _ "[]"] exI [of _ "[_]"])
  next
    case missing
    then show ?thesis
      using cl.client_reads(3) sendsD [OF loc missing(2)] sendsD [OF cl.CreateOrUpdateResourceGroup_sends missing(3)]
      by (intro exI [of _ "[g]"]) simp
  qed
qed

lemma reconcileResourceGroup_run:
  assumes "reconcileResourceGroup K sv s = (Ok x, t)"
  shows "\<exists>gs. length gs \<le> (if isAzureCluster (infraCluster s) then 0 else 1) \<and>
    azureWrites t = azureWrites s @ map (\<lambda>g. (gc, ResourceGroupsCreateOrUpdate (svResourceGroup sv) g)) gs"
  using assms createClusterResourceGroup_run
  by (cases "isAzureCluster (infraCluster s)") (auto simp: reconcileResourceGroup_def run_iffs)

lemma listOrCreateZone_run:
  assumes "listOrCreateZone sv s = (Ok rs, t)"
  shows "(ListRecordSets (svAzureClient sv) (svResourceGroup sv) (svDomain sv) s = (Ok rs, t) \<and>
      azureWrites t = azureWrites s) \<or>
    (\<exists>err u. ListRecordSets (svAzureClient sv) (svResourceGroup sv) (svDomain sv) s = (Err err, u) \<and>
      IsParentResourceNotFound (Some err) \<and> rs = [] \<and>
      azureWrites t = azureWrites s @ [(zc, ZonesCreateOrUpdate (svResourceGroup sv) (svDomain sv)
        \<lparr>zoneName = Some (svDomain sv), zoneLocation = Some azureGlobal, zoneProperties = None\<rparr>)])"
  using assms cl.client_reads(2) sendsD [OF cl.CreateOrUpdateZone_sends]
  by (auto simp: listOrCreateZone_def createClusterDNSZone_def run_iffs split: if_splits)

lemma reconcileDelegation_run:
  assumes "reconcileDelegation sv s = (Ok x, t)"
  shows "\<exists>zone p u v bs w ex. GetZone (svAzureClient sv) (svResourceGroup sv) (svDomain sv) s = (Ok zone, u) \<and>
    zoneProperties zone = Some p \<and>
    ListRecordSets (svAzureBaseZoneClient sv) (dsBaseDomainResourceGroup (svScope sv)) (dsBaseDomain (svScope sv)) v =
      (Ok bs, w) \<and>
    nsRecordExistsLoop bs False = Ok ex \<and>
    azureWrites t = azureWrites s @ (if ex then [] else
      [(br, RecordSetsCreateOrUpdate (dsBaseDomainResourceGroup (svScope sv)) (dsBaseDomain (svScope sv)) RecordTypeNS
         (pClusterName (svPatcher sv)) (nsRecordSet (NameServers p)))])"
proof -
  obtain zone u n p v bs w ex where zone: "GetZone (svAzureClient sv) (svResourceGroup sv) (svDomain sv) s = (Ok zone, u)"
      and v: "v = u\<lparr>events := events u @ [GaugeSet ClusterZoneRecords [svDomain sv, ZoneTypePublic] n]\<rparr>"
      and bs: "ListRecordSets (svAzureBaseZoneClient sv) (dsBaseDomainResourceGroup (svScope sv))
        (dsBaseDomain (svScope sv)) v = (Ok bs, w)"
      and ex: "nsRecordExistsLoop bs False = Ok ex" "zoneProperties zone = Some p"
      and last: "(if \<not> ex then masked (createClusterNSRecord sv (NameServers p)) else ret ())
        (w\<lparr>events := events w @ [GaugeSet ClusterZoneRecords [dsBaseDomain (svScope sv), ZoneTypePublic]
           (int (length bs))]\<rparr>) = (Ok x, t)"
    using assms by (auto simp: reconcileDelegation_def run_iffs)
  have w: "azureWrites w = azureWrites s"
    using cl.client_reads(1) [OF zone] bs.client_reads(2) [OF bs] by (simp add: v List.map_filter_def)
  then have "azureWrites t = azureWrites s @ (if ex then [] else
      [(br, RecordSetsCreateOrUpdate (dsBaseDomainResourceGroup (svScope sv)) (dsBaseDomain (svScope sv)) RecordTypeNS
         (pClusterName (svPatcher sv)) (nsRecordSet (NameServers p)))])"
    using last sendsD [OF bs.CreateOrUpdateRecordSet_sends]
    by (cases ex) (fastforce simp: createClusterNSRecord_def run_iffs List.map_filter_def)+
  with zone bs ex show ?thesis by blast
qed

lemmas infra_intros = sends_intros cl.client_infra bs.client_infra

lemma prepare_infra:
  "keepsInfra (reconcileResourceGroup K sv)" "keepsInfra (listOrCreateZone sv)" "keepsInfra (reconcileDelegation sv)"
  unfolding reconcileResourceGroup_def createClusterResourceGroup_def resourceGroupLocation_def
    updateClusterResourceGroup_def listOrCreateZone_def createClusterDNSZone_def reconcileDelegation_def
    createClusterNSRecord_def Let_def
  by (intro infra_intros quiet_infra [OF quiet_ManagementCluster] quiet_infra [OF quiet_IsAzureCluster(1)])+

text \<open>The whole of a successful \<open>Reconcile\<close>.\<close>

lemma Reconcile_parts:
  assumes "Reconcile K sv s = (Ok x, t)"
  obtains u1 u2 ls cur u3 u4 cur' u5 where
    "reconcileResourceGroup K sv s = (Ok (), u1)"
    "u2 = u1\<lparr>events := events u1 @ [GaugeSet ZoneInfo ls 1]\<rparr>"
    "listOrCreateZone sv u2 = (Ok cur, u3)"
    "reconcileDelegation sv u3 = (Ok (), u4)"
    "updateARecords K sv cur u4 = (Ok cur', u5)"
    "updateCnameRecords sv cur' u5 = (Ok x, t)"
  using assms by (auto simp: Reconcile_def run_iffs)

lemma Reconcile_run:
  assumes "Reconcile K sv s = (Ok x, t)"
  shows "\<exists>gs zs ns ars crs.
    azureWrites t = azureWrites s
      @ map (\<lambda>g. (gc, ResourceGroupsCreateOrUpdate (svResourceGroup sv) g)) gs
      @ map (\<lambda>z. (zc, ZonesCreateOrUpdate (svResourceGroup sv) (svDomain sv) z)) zs
      @ map (\<lambda>n. (br, RecordSetsCreateOrUpdate (dsBaseDomainResourceGroup (svScope sv)) (dsBaseDomain (svScope sv))
               RecordTypeNS (pClusterName (svPatcher sv)) (nsRecordSet n))) ns
      @ map (recordWrite rc sv RecordTypeA) ars
      @ map (recordWrite rc sv RecordTypeCNAME) crs \<and>
    length gs \<le> (if isAzureCluster (infraCluster s) then 0 else 1) \<and> length zs \<le> 1 \<and> length ns \<le> 1 \<and>
    (\<exists>cur cur' u v. calculateMissingARecords K sv cur u = (Ok (ars, cur'), v) \<and>
       infraCluster u = infraCluster s \<and>
       calculateMissingCnameRecords sv cur' = Ok crs \<and> (zs \<noteq> [] \<longrightarrow> cur = []))"
proof -
  obtain u1 u2 ls cur u3 u4 cur' u5 where
    rg: "reconcileResourceGroup K sv s = (Ok (), u1)"
    and u2: "u2 = u1\<lparr>events := events u1 @ [GaugeSet ZoneInfo ls 1]\<rparr>"
    and zone: "listOrCreateZone sv u2 = (Ok cur, u3)"
    and del: "reconcileDelegation sv u3 = (Ok (), u4)"
    and as: "updateARecords K sv cur u4 = (Ok cur', u5)"
    and cs: "updateCnameRecords sv cur' u5 = (Ok x, t)"
    by (rule Reconcile_parts [OF assms])
  obtain gs where gs: "length gs \<le> (if isAzureCluster (infraCluster s) then 0 else 1)"
      "azureWrites u1 = azureWrites s @ map (\<lambda>g. (gc, ResourceGroupsCreateOrUpdate (svResourceGroup sv) g)) gs"
    using reconcileResourceGroup_run [OF rg] by blast
  obtain zs where zs: "length zs \<le> 1" "zs \<noteq> [] \<longrightarrow> cur = []"
      "azureWrites u3 = azureWrites u2 @ map (\<lambda>z. (zc, ZonesCreateOrUpdate (svResourceGroup sv) (svDomain sv) z)) zs"
    using listOrCreateZone_run [OF zone] by (elim disjE) (fastforce intro: that [of "[]"] that [of "[_]"])+
  obtain ns where ns: "length ns \<le> 1" "azureWrites u4 = azureWrites u3 @
      map (\<lambda>n. (br, RecordSetsCreateOrUpdate (dsBaseDomainResourceGroup (svScope sv)) (dsBaseDomain (svScope sv))
               RecordTypeNS (pClusterName (svPatcher sv)) (nsRecordSet n))) ns"
    using reconcileDelegation_run [OF del] by (auto split: if_splits intro: that [of "[]"] that [of "[_]"])
  obtain ars v where ars: "calculateMissingARecords K sv cur u4 = (Ok (ars, cur'), v)"
      "azureWrites u5 = azureWrites u4 @ map (recordWrite rc sv RecordTypeA) ars"
    using updateARecords_run [OF as] by blast
  obtain crs where crs: "calculateMissingCnameRecords sv cur' = Ok crs"
      "azureWrites t = azureWrites u5 @ map (recordWrite rc sv RecordTypeCNAME) crs"
    using updateCnameRecords_run [OF cs] by blast
  moreover have "infraCluster u4 = infraCluster s"
    using keepsInfraD [OF prepare_infra(1) rg] keepsInfraD [OF prepare_infra(2) zone]
      keepsInfraD [OF prepare_infra(3) del] by (simp add: u2)
  ultimately show ?thesis
    using gs zs ns ars u2
    by (intro exI [of _ gs] exI [of _ zs] exI [of _ ns] exI [of _ ars] exI [of _ crs]) (auto simp: List.map_filter_def)
qed

text \<open>The delegation within it.\<close>

lemma Reconcile_delegation:
  assumes "Reconcile K sv s = (Ok x, t)"
  shows "\<exists>pre u v post. azureWrites u = azureWrites s @ pre \<and> reconcileDelegation sv u = (Ok (), v) \<and>
    azureWrites t = azureWrites v @ post"
proof -
  obtain u1 u2 ls cur u3 u4 cur' u5 where parts:
    "reconcileResourceGroup K sv s = (Ok (), u1)"
    "u2 = u1\<lparr>events := events u1 @ [GaugeSet ZoneInfo ls 1]\<rparr>"
    "listOrCreateZone sv u2 = (Ok cur, u3)"
    "reconcileDelegation sv u3 = (Ok (), u4)"
    "updateARecords K sv cur u4 = (Ok cur', u5)"
    "updateCnameRecords sv cur' u5 = (Ok x, t)"
    by (rule Reconcile_parts [OF assms])
  obtain w1 where "azureWrites u1 = azureWrites s @ w1" using reconcileResourceGroup_run [OF parts(1)] by blast
  moreover have "azureWrites u2 = azureWrites u1" by (simp add: parts(2) List.map_filter_def)
  moreover obtain w2 where "azureWrites u3 = azureWrites u2 @ w2"
    using listOrCreateZone_run [OF parts(3)] by (metis append_Nil2)
  moreover obtain w3 where "azureWrites u5 = azureWrites u4 @ w3" using updateARecords_run [OF parts(5)] by blast
  moreover obtain w4 where "azureWrites t = azureWrites u5 @ w4" using updateCnameRecords_run [OF parts(6)] by blast
  ultimately show ?thesis using parts(4) by (metis append_assoc)
qed

text \<open>Whatever the outcome: only the cluster's own group, zone and records, and its delegation.\<close>

lemma createRecordSet_writes:
  assumes "\<And>n. rsNameOf r = Ok n \<Longrightarrow> Q (rc, RecordSetsCreateOrUpdate (svResourceGroup sv) (svDomain sv) ty n r)"
  shows "writesOnly Q (createRecordSet sv ty r)"
proof (cases "rsNameOf r")
  case (Ok n)
  then have "createRecordSet sv ty r =
      bindM (CreateOrUpdateRecordSet (svAzureClient sv) (svResourceGroup sv) (svDomain sv) ty n r) (\<lambda>_. ret ())"
    by (simp add: createRecordSet_def fun_eq_iff run_simps)
  moreover have "writesOnly Q \<dots>"
    using assms [OF Ok] by (intro writes_intros cl.client_writes)
  ultimately show ?thesis by simp
qed (simp_all add: createRecordSet_def writesOnly_def run_simps)

lemma Reconcile_writesOnly:
  "writesOnly (\<lambda>(a, q). a \<in> {zc, rc, gc} \<and> clusterWrite (svScope sv) q \<or>
     a = br \<and> delegationWrite (svScope sv) q) (Reconcile K sv)"
  unfolding Reconcile_def reconcileResourceGroup_def createClusterResourceGroup_def resourceGroupLocation_def
    updateClusterResourceGroup_def listOrCreateZone_def createClusterDNSZone_def reconcileDelegation_def
    createClusterNSRecord_def updateARecords_def calculateMissingARecords_def updateCnameRecords_def
    Let_def
  by (intro writes_intros cl.client_writes bs.client_writes quiet_writesOnly [OF quiet_ManagementCluster]
      quiet_writesOnly [OF quiet_getDesiredARecords] quiet_writesOnly [OF quiet_IsAzureCluster(1)] createRecordSet_writes) auto

lemma ReconcileDelete_infra: "keepsInfra (ReconcileDelete sv)"
  unfolding ReconcileDelete_def deleteClusterNSRecords_def deleteClusterResourceGroup_def Let_def
  by (intro infra_intros quiet_infra [OF quiet_IsAzureCluster(1)])

lemma ReconcileDelete_run:
  assumes "ReconcileDelete sv s = (r, t)"
  defines "nsd \<equiv> (br, RecordSetsDelete (dsBaseDomainResourceGroup (svScope sv)) (dsBaseDomain (svScope sv))
      RecordTypeNS (pClusterName (svPatcher sv)))"
  shows "azureWrites t = azureWrites s @ nsd #
      (if (\<exists>u. deleteClusterNSRecords sv s = (Ok (), u)) \<and> \<not> isAzureCluster (infraCluster s)
       then [(gc, ResourceGroupsBeginDelete (svResourceGroup sv))] else [])"
proof -
  obtain q u where d: "deleteClusterNSRecords sv s = (q, u)" by (cases "deleteClusterNSRecords sv s")
  have u: "azureWrites u = azureWrites s @ [nsd]" "infraCluster u = infraCluster s"
    using sendsD [OF bs.DeleteRecordSet_sends] keepsInfraD [OF bs.DeleteRecordSet_infra] d
    by (auto simp: deleteClusterNSRecords_def nsd_def)
  have "sends [(gc, ResourceGroupsBeginDelete (svResourceGroup sv))] (deleteClusterResourceGroup sv)"
    unfolding deleteClusterResourceGroup_def
    by (rule sends_bind_tail [OF sends_attempt [OF cl.DeleteResourceGroup_sends]])
      (auto intro!: sends_basic split: sum.splits)
  note del = sendsD [OF this [THEN sends_masked]]
  show ?thesis
    using assms(1) d u del
    by (cases q) (auto simp: ReconcileDelete_def IsAzureCluster_def run_simps split: if_splits)
qed

end

subsection \<open>The contract holds of every service \<open>New\<close> returns\<close>

definition serviceOf ::
    "'w azureSdk \<Rightarrow> 'w DNSScope \<Rightarrow> azureClient \<Rightarrow> azureClient \<Rightarrow>
     (string \<Rightarrow> string \<Rightarrow> ('w, PublicIPIface) call) \<Rightarrow> 'w Service" where
  "serviceOf A scope ac bac g =
     \<lparr>svScope = scope, svAzureClient = azureClientOps A ac, svAzureBaseZoneClient = azureClientOps A bac,
      svPublicIPsService = worldGetter g\<rparr>"

definition uniformClient :: "armClient \<Rightarrow> azureClient" where
  "uniformClient a = \<lparr>acZones = a, acRecordSets = a, acResourceGroups = a\<rparr>"

lemma serviceOf_fields [simp]:
  "svScope (serviceOf A scope ac bac g) = scope"
  "svAzureClient (serviceOf A scope ac bac g) = azureClientOps A ac"
  "svAzureBaseZoneClient (serviceOf A scope ac bac g) = azureClientOps A bac"
  "svPublicIPsService (serviceOf A scope ac bac g) = worldGetter g"
  by (simp_all add: serviceOf_def)

interpretation svc: dns_service "serviceOf A scope ac bac g"
  "acZones ac" "acRecordSets ac" "acResourceGroups ac" "acZones bac" "acRecordSets bac" "acResourceGroups bac"
  for A :: "'w azureSdk" and scope ac bac g
  by (intro dns_service.intro dns_service_axioms.intro)
    (simp_all add: azure.dns_client_axioms quiet_worldGetter)

lemma newClientSet_uniform:
  "newClientSet A sub cred s = (Ok ac, t) \<Longrightarrow>
     ac = uniformClient \<lparr>armSubscription = sub, armCredential = cred\<rparr> \<and> t = s"
  by (auto simp: newClientSet_def newSdkClient_def uniformClient_def run_iffs)

lemma New_service:
  assumes "New A scope (worldGetter g) s = (Ok sv, t)"
  shows "\<exists>a b. sv = serviceOf A scope (uniformClient a) (uniformClient b) g \<and>
    armSubscription a = pSubscriptionID (dsPatcher scope) \<and>
    armSubscription b = bzSubscriptionID (dsBaseZoneCredentials scope) \<and> t = s"
proof -
  obtain ac bac u where ac: "newAzureClient A scope s = (Ok ac, u)"
      and bac: "newBaseZoneClient A (dsBaseZoneCredentials scope) u = (Ok bac, t)"
      and sv: "sv = serviceOf A scope ac bac g"
    using assms by (auto simp: New_def serviceOf_def run_iffs)
  obtain c1 where 1: "ac = uniformClient \<lparr>armSubscription = pSubscriptionID (dsPatcher scope), armCredential = c1\<rparr>" "u = s"
    using ac newClientSet_uniform
    by (fastforce simp: newAzureClient_def Let_def run_iffs split: if_splits)
  obtain c2 where "bac = uniformClient \<lparr>armSubscription = bzSubscriptionID (dsBaseZoneCredentials scope), armCredential = c2\<rparr>" "t = u"
    using bac newClientSet_uniform by (fastforce simp: newBaseZoneClient_def Let_def run_iffs)
  with 1 sv show ?thesis by (metis armClient.select_convs(1))
qed

lemma uniformClient_fields [simp]:
  "acZones (uniformClient a) = a" "acRecordSets (uniformClient a) = a" "acResourceGroups (uniformClient a) = a"
  by (simp_all add: uniformClient_def)

subsection \<open>A service of the sample environment\<close>

definition sampleGetter :: "string \<Rightarrow> string \<Rightarrow> (cloud, PublicIPIface) call" where
  "sampleGetter = (\<lambda>name rg w. (Inr (PublicIPv9 (Some (Some ''20.0.0.7''))), w))"

definition sampleArm :: armClient where
  "sampleArm = \<lparr>armSubscription = ''sub'', armCredential = ClientSecretCredential ''tenant'' ''client'' ''secret''\<rparr>"

definition sampleBaseArm :: armClient where
  "sampleBaseArm = \<lparr>armSubscription = ''bsub'', armCredential = ClientSecretCredential ''bt'' ''bc'' ''bs''\<rparr>"

definition sampleSv :: "cloud Service" where
  "sampleSv = serviceOf sampleSdk sampleDNSScope (uniformClient sampleArm) (uniformClient sampleBaseArm) sampleGetter"

lemma sampleSv_New: "New sampleSdk sampleDNSScope (worldGetter sampleGetter) s = (Ok sampleSv, s)"
  by (simp add: New_def newAzureClient_def newBaseZoneClient_def newClientSet_def newSdkClient_def run_simps
      sampleSv_def serviceOf_def uniformClient_def sampleArm_def sampleBaseArm_def sampleSdk_def
      sampleDNSScope_def sampleScope_def samplePatcher_def commonPatcherOps_def NewCommonPatcher_def
      sampleIdentity_def AzureClientSecret_def secretValue_def Let_def)

lemma sampleRun_Ok: "fst (Reconcile sampleK sampleSv (sampleState ''VSphereCluster'')) = Ok ()"
  by code_simp

lemma sampleRun:
  "Reconcile sampleK sampleSv (sampleState ''VSphereCluster'') =
     (Ok (), snd (Reconcile sampleK sampleSv (sampleState ''VSphereCluster'')))"
  by (simp add: prod_eq_iff sampleRun_Ok)

subsection \<open>Properties of the service\<close>

text \<open>
  The specification of a reconciliation: at most one write of the resource group (none for an
  \<^verbatim>\<open>AzureCluster\<close>), at most one of the zone, at most one of the delegation, then the A records, then
  the CNAME records of the zone.
\<close>

definition reconcileTrace :: "'w DNSScope \<Rightarrow> armClient \<Rightarrow> armClient \<Rightarrow> bool \<Rightarrow> (armClient \<times> request) list \<Rightarrow> bool" where
  "reconcileTrace scope a b azure ws \<longleftrightarrow>
     (\<exists>gs zs ns ars crs.
        ws = map (\<lambda>g. (a, ResourceGroupsCreateOrUpdate (DNSScope_ResourceGroup scope) g)) gs
          @ map (\<lambda>z. (a, ZonesCreateOrUpdate (DNSScope_ResourceGroup scope) (ClusterDomain scope) z)) zs
          @ map (\<lambda>n. (b, RecordSetsCreateOrUpdate (dsBaseDomainResourceGroup scope) (dsBaseDomain scope)
                   RecordTypeNS (pClusterName (dsPatcher scope)) (nsRecordSet n))) ns
          @ map (\<lambda>r. (a, RecordSetsCreateOrUpdate (DNSScope_ResourceGroup scope) (ClusterDomain scope)
                   RecordTypeA (rsNm r) r)) ars
          @ map (\<lambda>r. (a, RecordSetsCreateOrUpdate (DNSScope_ResourceGroup scope) (ClusterDomain scope)
                   RecordTypeCNAME (rsNm r) r)) crs \<and>
        length gs \<le> (if azure then 0 else 1) \<and> length zs \<le> 1 \<and> length ns \<le> 1 \<and>
        set crs \<subseteq> set (desiredCnameRecords (WildcardFQDN scope)))"

lemma missingCnameLoop_subset:
  "missingCnameLoop ds cur acc = Ok rs \<Longrightarrow> set rs \<subseteq> set acc \<union> set ds"
proof (induction ds arbitrary: acc)
  case (Cons d ds)
  then obtain acc' where "missingCnameLoop ds cur acc' = Ok rs" "set acc' \<subseteq> set acc \<union> {d}"
    by (auto simp: run_iffs split: option.splits if_splits) (metis subset_insertI)
  with Cons.IH show ?case by fastforce
qed simp

text \<open>
  C7: A reconciliation of the public DNS service that succeeds sends its mutating requests in the
  order of the specification \<open>reconcileTrace\<close> and no others, those of the cluster with a client of the
  cluster's subscription, the delegation with a client of the base domain's subscription.
\<close>

theorem Reconcile_writes:
  assumes "New A scope (worldGetter g) s0 = (Ok sv, s1)"
    and "Reconcile K sv s = (Ok (), t)"
  shows "\<exists>a b ws. armSubscription a = pSubscriptionID (dsPatcher scope) \<and>
    armSubscription b = bzSubscriptionID (dsBaseZoneCredentials scope) \<and>
    azureWrites t = azureWrites s @ ws \<and> reconcileTrace scope a b (isAzureCluster (infraCluster s)) ws"
proof -
  obtain a b where sv: "sv = serviceOf A scope (uniformClient a) (uniformClient b) g"
      and ab: "armSubscription a = pSubscriptionID (dsPatcher scope)"
        "armSubscription b = bzSubscriptionID (dsBaseZoneCredentials scope)"
    using New_service [OF assms(1)] by blast
  have crs: "set crs \<subseteq> set (desiredCnameRecords (WildcardFQDN scope))"
    if "calculateMissingCnameRecords sv cur = Ok crs" for cur crs
    using that missingCnameLoop_subset by (fastforce simp: calculateMissingCnameRecords_def sv)
  show ?thesis
    using svc.Reconcile_run [OF assms(2) [unfolded sv]] crs ab
    unfolding reconcileTrace_def sv by fastforce
qed

theorem Reconcile_writes_witness:
  "\<exists>a b ws. armSubscription a = ''sub'' \<and> armSubscription b = ''bsub'' \<and>
     azureWrites (snd (Reconcile sampleK sampleSv (sampleState ''VSphereCluster''))) = ws \<and>
     reconcileTrace sampleDNSScope a b False ws"
  using Reconcile_writes [OF sampleSv_New sampleRun]
  by (simp add: sampleDNSScope_def sampleScope_def samplePatcher_def commonPatcherOps_def NewCommonPatcher_def
      sampleState_def sampleInfra_def azureWrites_def List.map_filter_def isAzureCluster_def kindAzureCluster_def)

text \<open>
  C8: Whatever the outcome of a reconciliation (success, an error at any step, a panic), every
  mutating request it sent writes the cluster's own resource group, its own zone or an A or CNAME
  record of that zone, with a client of the cluster's subscription, or the NS record of the
  cluster in the base domain, with a client of the base domain's subscription. Nothing is deleted.
\<close>

theorem Reconcile_isolation:
  assumes "New A scope (worldGetter g) s0 = (Ok sv, s1)"
    and "Reconcile K sv s = (r, t)"
  shows "\<exists>ws. azureWrites t = azureWrites s @ ws \<and>
    (\<forall>(a, q)\<in>set ws.
       armSubscription a = pSubscriptionID (dsPatcher scope) \<and> clusterWrite scope q \<or>
       armSubscription a = bzSubscriptionID (dsBaseZoneCredentials scope) \<and> delegationWrite scope q)"
proof -
  obtain a b where sv: "sv = serviceOf A scope (uniformClient a) (uniformClient b) g"
      and ab: "armSubscription a = pSubscriptionID (dsPatcher scope)"
        "armSubscription b = bzSubscriptionID (dsBaseZoneCredentials scope)"
    using New_service [OF assms(1)] by blast
  show ?thesis
    using writesOnlyD [OF svc.Reconcile_writesOnly assms(2) [unfolded sv]] ab by fastforce
qed

theorem Reconcile_isolation_witness:
  "\<exists>ws. azureWrites (snd (Reconcile sampleK sampleSv (sampleState ''VSphereCluster''))) = ws \<and>
     (\<forall>(a, q)\<in>set ws. armSubscription a = ''sub'' \<and> clusterWrite sampleDNSScope q \<or>
        armSubscription a = ''bsub'' \<and> delegationWrite sampleDNSScope q)"
  using Reconcile_isolation [OF sampleSv_New sampleRun]
  by (simp add: sampleDNSScope_def sampleScope_def samplePatcher_def commonPatcherOps_def NewCommonPatcher_def
      sampleState_def azureWrites_def List.map_filter_def)

text \<open>
  C10: A deletion sends the deletion of the cluster's NS record in the base domain first. Only if
  that succeeds, and only for a cluster that is not an \<^verbatim>\<open>AzureCluster\<close>, it goes on to delete the
  cluster's resource group; no other mutating request is sent, whatever the outcome.
\<close>

theorem ReconcileDelete_writes:
  assumes "New A scope (worldGetter g) s0 = (Ok sv, s1)"
    and "ReconcileDelete sv s = (r, t)"
  shows "\<exists>a b. armSubscription a = pSubscriptionID (dsPatcher scope) \<and>
    armSubscription b = bzSubscriptionID (dsBaseZoneCredentials scope) \<and>
    azureWrites t = azureWrites s
      @ (b, RecordSetsDelete (dsBaseDomainResourceGroup scope) (dsBaseDomain scope) RecordTypeNS
              (pClusterName (dsPatcher scope)))
      # (if (\<exists>u. deleteClusterNSRecords sv s = (Ok (), u)) \<and> \<not> isAzureCluster (infraCluster s)
         then [(a, ResourceGroupsBeginDelete (DNSScope_ResourceGroup scope))] else [])"
  using New_service [OF assms(1)] svc.ReconcileDelete_run assms(2) by fastforce

theorem ReconcileDelete_writes_witness:
  "\<exists>a b. armSubscription a = ''sub'' \<and> armSubscription b = ''bsub'' \<and>
    azureWrites (snd (ReconcileDelete sampleSv (sampleState ''VSphereCluster''))) =
      [(b, RecordSetsDelete ''base-rg'' ''example.io'' ''NS'' ''wc''), (a, ResourceGroupsBeginDelete ''wc'')]"
proof -
  let ?s = "sampleState ''VSphereCluster''"
  have "fst (deleteClusterNSRecords sampleSv ?s) = Ok ()" by code_simp
  then have "\<exists>u. deleteClusterNSRecords sampleSv ?s = (Ok (), u)" by (metis prod.collapse)
  moreover have run: "ReconcileDelete sampleSv ?s = (fst (ReconcileDelete sampleSv ?s), snd (ReconcileDelete sampleSv ?s))"
    by simp
  ultimately show ?thesis
    using ReconcileDelete_writes [OF sampleSv_New run]
    by (simp add: sampleDNSScope_def sampleScope_def samplePatcher_def commonPatcherOps_def NewCommonPatcher_def
        sampleCluster_def sampleState_def sampleInfra_def azureWrites_def List.map_filter_def isAzureCluster_def
        kindAzureCluster_def DNSScope_ResourceGroup_def)
qed

text \<open>
  C11: Updating the A records writes exactly the desired record sets that are not in sync with the
  zone, each once and in order; a record set is in sync when the first one the zone lists under
  its name has the same addresses and the same TTL. (The record sets the service lists have names,
  properties, addresses and a TTL, as the API documents.)
\<close>

theorem updateARecords_exact:
  assumes "New A scope (worldGetter g) s0 = (Ok sv, s1)"
    and "getDesiredARecords K sv s = (Ok ds, s')"
    and "\<forall>c\<in>set cur. completeA c"
    and "updateARecords K sv cur s = (Ok cur', t)"
  shows "\<exists>a. armSubscription a = pSubscriptionID (dsPatcher scope) \<and>
    azureWrites t = azureWrites s @
      map (\<lambda>r. (a, RecordSetsCreateOrUpdate (DNSScope_ResourceGroup scope) (ClusterDomain scope) RecordTypeA (rsNm r) r))
        (filter (\<lambda>d. \<not> inSync rsNm sameA cur d) ds)"
proof -
  obtain a b where sv: "sv = serviceOf A scope (uniformClient a) (uniformClient b) g"
      and a: "armSubscription a = pSubscriptionID (dsPatcher scope)"
    using New_service [OF assms(1)] by blast
  obtain rs u where rs: "calculateMissingARecords K sv cur s = (Ok (rs, cur'), u)"
      "azureWrites t = azureWrites s @ map (recordWrite a sv RecordTypeA) rs"
    using svc.updateARecords_run [OF assms(4) [unfolded sv]] by (auto simp: sv)
  have "\<forall>d\<in>set ds. named d"
    using getDesiredARecords_desired [OF assms(2)] desiredRecord_facts by blast
  from missingALoop_run [OF this assms(3), of "svDomain sv" "[]" s'] rs(1)
  have "rs = filter (\<lambda>d. \<not> inSync rsNm sameA cur d) ds"
    by (auto simp: calculateMissingARecords_def run_simps assms(2))
  with rs(2) a show ?thesis by (auto simp: sv)
qed

definition sampleZoneState :: "cloud st" where
  "sampleZoneState = (sampleState ''VSphereCluster'')\<lparr>world :=
     (sampleCloud ''VSphereCluster'')\<lparr>cZones := [(''wc'', ''wc.example.io''), (''base-rg'', ''example.io'')]\<rparr>\<rparr>"

definition sampleCurrent :: "RecordSet list" where
  "sampleCurrent = [aRecordSet ''api'' 300 [Some ''20.0.0.7''], aRecordSet ''apiserver'' 60 [Some ''20.0.0.7'']]"

definition sampleDesired :: "RecordSet list" where
  "sampleDesired = [aRecordSet ''api'' 300 [Some ''20.0.0.7''], aRecordSet ''apiserver'' 300 [Some ''20.0.0.7''],
     aRecordSet ''ingress'' 300 [Some ''20.0.0.9'']]"

lemma sampleDesired_run:
  "getDesiredARecords sampleK sampleSv sampleZoneState =
     (Ok sampleDesired, snd (getDesiredARecords sampleK sampleSv sampleZoneState))"
  unfolding prod_eq_iff by simp code_simp

lemma sampleCurrent_complete: "\<forall>c\<in>set sampleCurrent. completeA c"
  by (simp add: sampleCurrent_def)

lemma sampleDNSScope_names:
  "DNSScope_ResourceGroup sampleDNSScope = ''wc''" "ClusterDomain sampleDNSScope = ''wc.example.io''"
  "pSubscriptionID (dsPatcher sampleDNSScope) = ''sub''" "WildcardFQDN sampleDNSScope = ''ingress.wc.example.io''"
  by (simp_all add: sampleDNSScope_def sampleScope_def samplePatcher_def commonPatcherOps_def NewCommonPatcher_def
      sampleCluster_def DNSScope_ResourceGroup_def ClusterDomain_def dotJoin_def WildcardFQDN_def)

lemma sampleZoneState_writes [simp]: "azureWrites sampleZoneState = []"
  by (simp add: sampleZoneState_def sampleState_def azureWrites_def List.map_filter_def)

theorem updateARecords_exact_witness:
  "\<exists>a. armSubscription a = ''sub'' \<and> azureWrites (snd (updateARecords sampleK sampleSv sampleCurrent sampleZoneState)) =
     map (\<lambda>r. (a, RecordSetsCreateOrUpdate ''wc'' ''wc.example.io'' ''A'' (rsNm r) r))
       [aRecordSet ''apiserver'' 300 [Some ''20.0.0.7''], aRecordSet ''ingress'' 300 [Some ''20.0.0.9'']]"
proof -
  let ?m = "updateARecords sampleK sampleSv sampleCurrent sampleZoneState"
  have run: "?m = (Ok sampleCurrent, snd ?m)" unfolding prod_eq_iff by simp code_simp
  have "filter (\<lambda>d. \<not> inSync rsNm sameA sampleCurrent d) sampleDesired =
      [aRecordSet ''apiserver'' 300 [Some ''20.0.0.7''], aRecordSet ''ingress'' 300 [Some ''20.0.0.9'']]"
    by code_simp
  then show ?thesis
    using updateARecords_exact [OF sampleSv_New sampleDesired_run sampleCurrent_complete run]
    by (simp add: sampleDNSScope_names)
qed

text \<open>
  C13: The wildcard record is written exactly when the first record set the zone lists under the
  name \<open>*\<close> does not point to the cluster's wildcard target with the TTL of 300 seconds, and then
  with that target and TTL.
\<close>

theorem updateCnameRecords_exact:
  assumes "New A scope (worldGetter g) s0 = (Ok sv, s1)"
    and "\<forall>c\<in>set cur. named c"
    and "updateCnameRecords sv cur s = (Ok (), t)"
  shows "\<exists>a. armSubscription a = pSubscriptionID (dsPatcher scope) \<and>
    azureWrites t = azureWrites s @
      (if \<exists>c p. firstNamed rsNm ''*'' cur = Some c \<and> rsProperties c = Some p \<and>
            CnameRecord p = Some (Some (WildcardFQDN scope)) \<and> TTL p = Some 300
       then []
       else [(a, RecordSetsCreateOrUpdate (DNSScope_ResourceGroup scope) (ClusterDomain scope) RecordTypeCNAME ''*''
               \<lparr>rsName = Ptr HeapCell ''*'', rsType = Some RecordTypeCNAME, rsProperties = Some
                  \<lparr>TTL = Some 300, ARecords = [], CnameRecord = Some (Some (WildcardFQDN scope)), NsRecords = [],
                   ProvisioningState = None\<rparr>\<rparr>)])"
proof -
  obtain a b where sv: "sv = serviceOf A scope (uniformClient a) (uniformClient b) g"
      and a: "armSubscription a = pSubscriptionID (dsPatcher scope)"
    using New_service [OF assms(1)] by blast
  define w where "w = \<lparr>rsName = Ptr HeapCell ''*'', rsType = Some RecordTypeCNAME, rsProperties = Some
      \<lparr>TTL = Some 300, ARecords = [], CnameRecord = Some (Some (WildcardFQDN scope)), NsRecords = [],
       ProvisioningState = None\<rparr>\<rparr>"
  have w: "desiredCnameRecords (WildcardFQDN scope) = [w]" "named w" "rsNm w = ''*''"
    by (simp_all add: w_def desiredCnameRecords_def named_def rsNm_def pointer_String_def emptyProperties_def)
  have "calculateMissingCnameRecords sv cur = Ok (if inSync rsNm sameCname cur w then [] else [w])"
    using w missingCnameLoop_run [of "[w]" cur "[]"] assms(2)
    by (simp add: calculateMissingCnameRecords_def sv del: missingCnameLoop.simps)
  moreover have "inSync rsNm sameCname cur w \<longleftrightarrow> (\<exists>c p. firstNamed rsNm ''*'' cur = Some c \<and> rsProperties c = Some p \<and>
      CnameRecord p = Some (Some (WildcardFQDN scope)) \<and> TTL p = Some 300)"
  proof (cases "firstNamed rsNm ''*'' cur")
    case (Some c)
    have "rsProperties w = Some \<lparr>TTL = Some 300, ARecords = [], CnameRecord = Some (Some (WildcardFQDN scope)),
        NsRecords = [], ProvisioningState = None\<rparr>" by (simp add: w_def)
    with Some show ?thesis by (cases "rsProperties c") (auto simp: inSync_def w(3) sameCname_def)
  qed (simp add: inSync_def w(3))
  ultimately show ?thesis
    using svc.updateCnameRecords_run [OF assms(3) [unfolded sv]] a
    by (intro exI [of _ a]) (auto simp: sv w(3) w_def [symmetric])
qed

theorem updateCnameRecords_exact_witness:
  "\<exists>a. armSubscription a = ''sub'' \<and> azureWrites (snd (updateCnameRecords sampleSv sampleCurrent sampleZoneState)) =
     [(a, RecordSetsCreateOrUpdate ''wc'' ''wc.example.io'' ''CNAME'' ''*''
        \<lparr>rsName = Ptr HeapCell ''*'', rsType = Some ''CNAME'', rsProperties = Some
           \<lparr>TTL = Some 300, ARecords = [], CnameRecord = Some (Some ''ingress.wc.example.io''), NsRecords = [],
            ProvisioningState = None\<rparr>\<rparr>)]"
proof -
  let ?m = "updateCnameRecords sampleSv sampleCurrent sampleZoneState"
  have run: "?m = (Ok (), snd ?m)" unfolding prod_eq_iff by simp code_simp
  have "\<forall>c\<in>set sampleCurrent. named c" "firstNamed rsNm ''*'' sampleCurrent = None"
    by (simp_all add: sampleCurrent_def firstNamed_def)
  then show ?thesis
    using updateCnameRecords_exact [OF sampleSv_New _ run] by (simp add: sampleDNSScope_names)
qed

end
