(* ===== verification/Private_Client.thy ===== *)
theory Private_Client
  imports Dns_Client
begin

section \<open>The client of the private DNS service (\<open>azure/services/privatedns/client.go\<close>)\<close>

text \<open>
  The Go interface \<^verbatim>\<open>Client\<close> is the record \<open>privateClient\<close>; \<open>privateClientOps\<close> is its implementation.
  Its methods differ from those of the public client in what they count and mask: a deletion of a
  link counts no request, and the pager of the links does not mask its error.
\<close>

record 'w privateClient =
  CreateOrUpdatePrivateZone :: "string \<Rightarrow> string \<Rightarrow> PrivateZone \<Rightarrow> ('w, unit) prog"
  GetPrivateZone :: "string \<Rightarrow> string \<Rightarrow> ('w, PrivateZone) prog"
  DeletePrivateZone :: "string \<Rightarrow> string \<Rightarrow> ('w, unit) prog"
  ListPrivateRecordSets :: "string \<Rightarrow> string \<Rightarrow> ('w, PrivateRecordSet list) prog"
  CreateOrUpdateVirtualNetworkLink :: "string \<Rightarrow> string \<Rightarrow> string \<Rightarrow> string \<Rightarrow> string \<Rightarrow> ('w, unit) prog"
  ListVirtualNetworkLink :: "string \<Rightarrow> string \<Rightarrow> ('w, VirtualNetworkLink list) prog"
  DeleteVirtualNetworkLink :: "string \<Rightarrow> string \<Rightarrow> string \<Rightarrow> ('w, unit) prog"
  ListRecordSets_private :: "string \<Rightarrow> string \<Rightarrow> ('w, PrivateRecordSet list) prog"
  CreateOrUpdateRecordSet_private ::
    "string \<Rightarrow> string \<Rightarrow> string \<Rightarrow> string \<Rightarrow> PrivateRecordSet \<Rightarrow> ('w, PrivateRecordSet) prog"

record privateAzureClient =
  pacPrivateZones :: armClient
  pacPrivateRecordSets :: armClient
  pacVirtualNetworkLinks :: armClient

definition newPrivateDNSClient :: "'w azureSdk \<Rightarrow> PrivateDNSScope \<Rightarrow> ('s, privateAzureClient) M" where
  "newPrivateDNSClient A scope =
     (let identity = clusterIdentity (psManagementClusterIdentity scope);
          subscriptionID = ManagementClusterSubscriptionID scope in
      bindM (if idType identity = UserAssignedMSI then
               (let cred = ManagedIdentityCredential (idClientID identity) in
                bindM (masked (checkErr (newCredential A cred))) (\<lambda>_. ret cred))
             else if idType identity = ManualServicePrincipal then
               (let cred = ClientSecretCredential (idTenantID identity) (idClientID identity)
                             (ManagementClusterAzureClientSecret scope) in
                bindM (checkErr (newCredential A cred)) (\<lambda>_. ret cred))
             else if idType identity = WorkloadIdentity then
               (let cred = WorkloadIdentityCredential (idTenantID identity) (idClientID identity) in
                bindM (masked (checkErr (newCredential A cred))) (\<lambda>_. ret cred))
             else ret NoCredential) (\<lambda>cred.
      bindM (masked (newSdkClient A ''privateZones'' subscriptionID cred)) (\<lambda>privateZonesClient.
      bindM (masked (newSdkClient A ''privateRecordSets'' subscriptionID cred)) (\<lambda>privateRecordSetsClient.
      bindM (masked (newSdkClient A ''virtualNetworkLinks'' subscriptionID cred)) (\<lambda>virtualNetworkLinkClient.
      ret \<lparr>pacPrivateZones = privateZonesClient, pacPrivateRecordSets = privateRecordSetsClient,
           pacVirtualNetworkLinks = virtualNetworkLinkClient\<rparr>)))))"

text \<open>
  \<^verbatim>\<open>poller.PollUntilDone\<close> as this client calls it: the operation is polled first and counted after.
\<close>

definition pollAndCount :: "'w azureSdk \<Rightarrow> armClient \<Rightarrow> request \<Rightarrow> ('w, unit) prog" where
  "pollAndCount A a q =
     bindM (attempt (callAzure a (PollUntilDone q) (pollUntilDone A a q))) (\<lambda>r.
     bindM (azureRequestInc ''poller.PollUntilDone'') (\<lambda>_.
       case r of
         Inl err \<Rightarrow> bindM (azureRequestErrorInc ''poller.PollUntilDone'') (\<lambda>_. throw (Masked err))
       | Inr _ \<Rightarrow> ret ()))"

definition private_ListPrivateRecordSets ::
    "'w azureSdk \<Rightarrow> privateAzureClient \<Rightarrow> string \<Rightarrow> string \<Rightarrow> ('w, PrivateRecordSet list) prog" where
  "private_ListPrivateRecordSets A pc rg zone =
     bindM (azureRequestInc ''privateRecordSets.NewListByTypePager'') (\<lambda>_.
     bindM (callPager (pacPrivateRecordSets pc) (PrivateRecordSetsListByType rg zone RecordTypeA)
              (privateRecordSets_PagesByType A (pacPrivateRecordSets pc) rg zone RecordTypeA)) (\<lambda>pages.
     liftR (collectPages pages [])))"

definition private_CreateOrUpdatePrivateZone ::
    "'w azureSdk \<Rightarrow> privateAzureClient \<Rightarrow> string \<Rightarrow> string \<Rightarrow> PrivateZone \<Rightarrow> ('w, unit) prog" where
  "private_CreateOrUpdatePrivateZone A pc rg zone params =
     bindM (azureRequestInc ''privateZones.BeginCreateOrUpdate'') (\<lambda>_.
     bindM (countErrors ''privateZones.BeginCreateOrUpdate''
              (callAzure (pacPrivateZones pc) (PrivateZonesBeginCreateOrUpdate rg zone params)
                 (privateZones_BeginCreateOrUpdate A (pacPrivateZones pc) rg zone params))) (\<lambda>_.
     pollAndCount A (pacPrivateZones pc) (PrivateZonesBeginCreateOrUpdate rg zone params)))"

definition newVirtualNetworkLink :: "string \<Rightarrow> VirtualNetworkLink" where
  "newVirtualNetworkLink vnetID =
     \<lparr>vnlName = None, vnlID = None, vnlLocation = Some azureGlobal,
      vnlProperties = Some \<lparr>RegistrationEnabled = Some False, VirtualNetwork = Some (Some vnetID)\<rparr>\<rparr>"

definition private_CreateOrUpdateVirtualNetworkLink ::
    "'w azureSdk \<Rightarrow> privateAzureClient \<Rightarrow> string \<Rightarrow> string \<Rightarrow> string \<Rightarrow> string \<Rightarrow> string \<Rightarrow> ('w, unit) prog" where
  "private_CreateOrUpdateVirtualNetworkLink A pc rg zone workloadClusterName vnetID vnetLinkName =
     bindM (azureRequestInc ''virtualNetworkLinkClient.BeginCreateOrUpdate'') (\<lambda>_.
     let link = newVirtualNetworkLink vnetID;
         q = VnetLinksBeginCreateOrUpdate rg zone vnetLinkName link in
     bindM (countErrors ''virtualNetworkLinkClient.BeginCreateOrUpdate''
              (callAzure (pacVirtualNetworkLinks pc) q
                 (vnetLinks_BeginCreateOrUpdate A (pacVirtualNetworkLinks pc) rg zone vnetLinkName link))) (\<lambda>_.
     pollAndCount A (pacVirtualNetworkLinks pc) q))"

primrec collectPagesRaw :: "(error + 'a list) list \<Rightarrow> 'a list \<Rightarrow> 'a list res" where
  "collectPagesRaw [] acc = Ok acc"
| "collectPagesRaw (p # ps) acc =
     (case p of Inl err \<Rightarrow> Err err | Inr page \<Rightarrow> collectPagesRaw ps (acc @ page))"

definition private_ListVirtualNetworkLink ::
    "'w azureSdk \<Rightarrow> privateAzureClient \<Rightarrow> string \<Rightarrow> string \<Rightarrow> ('w, VirtualNetworkLink list) prog" where
  "private_ListVirtualNetworkLink A pc rg zone =
     bindM (azureRequestInc ''virtualNetworkLinkClient.NewListPager'') (\<lambda>_.
     bindM (callPager (pacVirtualNetworkLinks pc) (VnetLinksList rg zone)
              (vnetLinks_Pages A (pacVirtualNetworkLinks pc) rg zone)) (\<lambda>pages.
     liftR (collectPagesRaw pages [])))"

definition private_DeleteVirtualNetworkLink ::
    "'w azureSdk \<Rightarrow> privateAzureClient \<Rightarrow> string \<Rightarrow> string \<Rightarrow> string \<Rightarrow> ('w, unit) prog" where
  "private_DeleteVirtualNetworkLink A pc rg zone name =
     bindM (countErrors ''virtualNetworkLinkClient.BeginDelete''
              (callAzure (pacVirtualNetworkLinks pc) (VnetLinksBeginDelete rg zone name)
                 (vnetLinks_BeginDelete A (pacVirtualNetworkLinks pc) rg zone name))) (\<lambda>_.
     pollAndCount A (pacVirtualNetworkLinks pc) (VnetLinksBeginDelete rg zone name))"

definition private_GetPrivateZone ::
    "'w azureSdk \<Rightarrow> privateAzureClient \<Rightarrow> string \<Rightarrow> string \<Rightarrow> ('w, PrivateZone) prog" where
  "private_GetPrivateZone A pc rg zone =
     bindM (azureRequestInc ''privateZones.Get'') (\<lambda>_.
     countErrors ''privateZones.Get''
       (callAzure (pacPrivateZones pc) (PrivateZonesGet rg zone)
          (privateZones_Get A (pacPrivateZones pc) rg zone)))"

definition private_DeletePrivateZone ::
    "'w azureSdk \<Rightarrow> privateAzureClient \<Rightarrow> string \<Rightarrow> string \<Rightarrow> ('w, unit) prog" where
  "private_DeletePrivateZone A pc rg zone =
     bindM (azureRequestInc ''privateZones.BeginDelete'') (\<lambda>_.
     bindM (countErrors ''privateZones.BeginDelete''
              (callAzure (pacPrivateZones pc) (PrivateZonesBeginDelete rg zone)
                 (privateZones_BeginDelete A (pacPrivateZones pc) rg zone))) (\<lambda>_.
     pollAndCount A (pacPrivateZones pc) (PrivateZonesBeginDelete rg zone)))"

definition private_ListRecordSets ::
    "'w azureSdk \<Rightarrow> privateAzureClient \<Rightarrow> string \<Rightarrow> string \<Rightarrow> ('w, PrivateRecordSet list) prog" where
  "private_ListRecordSets A pc rg zone =
     bindM (azureRequestInc ''privateRecordSets.NewListPager'') (\<lambda>_.
     bindM (callPager (pacPrivateRecordSets pc) (PrivateRecordSetsList rg zone)
              (privateRecordSets_Pages A (pacPrivateRecordSets pc) rg zone)) (\<lambda>pages.
     liftR (collectPages pages [])))"

definition private_CreateOrUpdateRecordSet ::
    "'w azureSdk \<Rightarrow> privateAzureClient \<Rightarrow> string \<Rightarrow> string \<Rightarrow> string \<Rightarrow> string \<Rightarrow> PrivateRecordSet \<Rightarrow>
     ('w, PrivateRecordSet) prog" where
  "private_CreateOrUpdateRecordSet A pc rg zone rtype name rs =
     bindM (azureRequestInc ''privateRecordSets.CreateOrUpdate'') (\<lambda>_.
     countErrors ''privateRecordSets.CreateOrUpdate''
       (callAzure (pacPrivateRecordSets pc) (PrivateRecordSetsCreateOrUpdate rg zone rtype name rs)
          (privateRecordSets_CreateOrUpdate A (pacPrivateRecordSets pc) rg zone rtype name rs)))"

definition virtualNetworkLinkName :: "string \<Rightarrow> string" where
  "virtualNetworkLinkName resourceGroupName = resourceGroupName @ ''-vnet-link''"

definition privateClientOps :: "'w azureSdk \<Rightarrow> privateAzureClient \<Rightarrow> 'w privateClient" where
  "privateClientOps A pc =
     \<lparr>CreateOrUpdatePrivateZone = private_CreateOrUpdatePrivateZone A pc,
      GetPrivateZone = private_GetPrivateZone A pc,
      DeletePrivateZone = private_DeletePrivateZone A pc,
      ListPrivateRecordSets = private_ListPrivateRecordSets A pc,
      CreateOrUpdateVirtualNetworkLink = private_CreateOrUpdateVirtualNetworkLink A pc,
      ListVirtualNetworkLink = private_ListVirtualNetworkLink A pc,
      DeleteVirtualNetworkLink = private_DeleteVirtualNetworkLink A pc,
      ListRecordSets_private = private_ListRecordSets A pc,
      CreateOrUpdateRecordSet_private = private_CreateOrUpdateRecordSet A pc\<rparr>"

subsection \<open>What the client promises to the service\<close>

locale private_client =
  fixes c :: "'w privateClient"
    and zc rc lc :: armClient
  assumes CreateOrUpdatePrivateZone_sends:
      "sends [(zc, PrivateZonesBeginCreateOrUpdate rg zone p)] (CreateOrUpdatePrivateZone c rg zone p)"
    and GetPrivateZone_sends: "sends [] (GetPrivateZone c rg zone)"
    and DeletePrivateZone_sends: "sends [(zc, PrivateZonesBeginDelete rg zone)] (DeletePrivateZone c rg zone)"
    and ListPrivateRecordSets_sends: "sends [] (ListPrivateRecordSets c rg zone)"
    and CreateOrUpdateVirtualNetworkLink_sends:
      "sends [(lc, VnetLinksBeginCreateOrUpdate rg zone ln (newVirtualNetworkLink vnet))]
         (CreateOrUpdateVirtualNetworkLink c rg zone wc vnet ln)"
    and ListVirtualNetworkLink_sends: "sends [] (ListVirtualNetworkLink c rg zone)"
    and DeleteVirtualNetworkLink_sends:
      "sends [(lc, VnetLinksBeginDelete rg zone ln)] (DeleteVirtualNetworkLink c rg zone ln)"
    and CreateOrUpdateRecordSet_sends:
      "sends [(rc, PrivateRecordSetsCreateOrUpdate rg zone ty nm rs)] (CreateOrUpdateRecordSet_private c rg zone ty nm rs)"
    and CreateOrUpdatePrivateZone_infra: "keepsInfra (CreateOrUpdatePrivateZone c rg zone p)"
    and GetPrivateZone_infra: "keepsInfra (GetPrivateZone c rg zone)"
    and DeletePrivateZone_infra: "keepsInfra (DeletePrivateZone c rg zone)"
    and ListPrivateRecordSets_infra: "keepsInfra (ListPrivateRecordSets c rg zone)"
    and CreateOrUpdateVirtualNetworkLink_infra: "keepsInfra (CreateOrUpdateVirtualNetworkLink c rg zone wc vnet ln)"
    and ListVirtualNetworkLink_infra: "keepsInfra (ListVirtualNetworkLink c rg zone)"
    and DeleteVirtualNetworkLink_infra: "keepsInfra (DeleteVirtualNetworkLink c rg zone ln)"
    and CreateOrUpdateRecordSet_infra: "keepsInfra (CreateOrUpdateRecordSet_private c rg zone ty nm rs)"
begin

lemmas client_infra =
  CreateOrUpdatePrivateZone_infra GetPrivateZone_infra DeletePrivateZone_infra ListPrivateRecordSets_infra
  CreateOrUpdateVirtualNetworkLink_infra ListVirtualNetworkLink_infra DeleteVirtualNetworkLink_infra
  CreateOrUpdateRecordSet_infra

lemma client_writes:
  "writesOnly Q (GetPrivateZone c rg zone)" "writesOnly Q (ListPrivateRecordSets c rg zone)"
  "writesOnly Q (ListVirtualNetworkLink c rg zone)"
  "Q (zc, PrivateZonesBeginCreateOrUpdate rg zone p) \<Longrightarrow> writesOnly Q (CreateOrUpdatePrivateZone c rg zone p)"
  "Q (zc, PrivateZonesBeginDelete rg zone) \<Longrightarrow> writesOnly Q (DeletePrivateZone c rg zone)"
  "Q (lc, VnetLinksBeginCreateOrUpdate rg zone ln (newVirtualNetworkLink vnet)) \<Longrightarrow>
     writesOnly Q (CreateOrUpdateVirtualNetworkLink c rg zone wc vnet ln)"
  "Q (lc, VnetLinksBeginDelete rg zone ln) \<Longrightarrow> writesOnly Q (DeleteVirtualNetworkLink c rg zone ln)"
  "Q (rc, PrivateRecordSetsCreateOrUpdate rg zone ty nm rs) \<Longrightarrow>
     writesOnly Q (CreateOrUpdateRecordSet_private c rg zone ty nm rs)"
  by (rule writesOnly_sends [OF GetPrivateZone_sends] writesOnly_sends [OF ListPrivateRecordSets_sends]
      writesOnly_sends [OF ListVirtualNetworkLink_sends] writesOnly_sends [OF CreateOrUpdatePrivateZone_sends]
      writesOnly_sends [OF DeletePrivateZone_sends] writesOnly_sends [OF CreateOrUpdateVirtualNetworkLink_sends]
      writesOnly_sends [OF DeleteVirtualNetworkLink_sends] writesOnly_sends [OF CreateOrUpdateRecordSet_sends]; simp)+

lemma client_reads:
  "GetPrivateZone c rg zone s = (r1, t) \<Longrightarrow> azureWrites t = azureWrites s"
  "ListPrivateRecordSets c rg zone s = (r2, t) \<Longrightarrow> azureWrites t = azureWrites s"
  "ListVirtualNetworkLink c rg zone s = (r3, t) \<Longrightarrow> azureWrites t = azureWrites s"
  using sendsD [OF GetPrivateZone_sends] sendsD [OF ListPrivateRecordSets_sends]
    sendsD [OF ListVirtualNetworkLink_sends] by fastforce+

end

lemmas private_client_defs =
  private_ListPrivateRecordSets_def private_CreateOrUpdatePrivateZone_def
  private_CreateOrUpdateVirtualNetworkLink_def private_ListVirtualNetworkLink_def
  private_DeleteVirtualNetworkLink_def private_GetPrivateZone_def private_DeletePrivateZone_def
  private_ListRecordSets_def private_CreateOrUpdateRecordSet_def Let_def

lemma sends_pollAndCount: "sends [] (pollAndCount A a q)"
  unfolding pollAndCount_def
  by (rule sends_bind_tail [OF sends_attempt]) (auto intro!: sends_emit_then sends_emit sends_basic split: sum.splits)

lemma keepsInfra_pollAndCount: "keepsInfra (pollAndCount A a q)"
  unfolding pollAndCount_def by (intro sends_intros)

lemma sends_then_poll: "sends ws m \<Longrightarrow> sends ws (bindM m (\<lambda>_. pollAndCount A a q))"
  by (rule sends_bind_tail) (auto intro: sends_pollAndCount)

lemma sends_pager: "sends [] (bindM (callPager a q f) (\<lambda>pages. liftR (h pages)))" if "\<not> isWrite q"
  unfolding callPager_def using that by (intro sends_bind_tail) (simp_all add: sends_basic)

interpretation pclient: private_client "privateClientOps A pc" "pacPrivateZones pc" "pacPrivateRecordSets pc"
  "pacVirtualNetworkLinks pc"
  for A :: "'w azureSdk" and pc
  by unfold_locales
    (auto simp: privateClientOps_def private_client_defs callPager_def
      intro!: sends_emit_then sends_then_poll sends_pager [unfolded callPager_def]
        keepsInfra_basic keepsInfra_bindM keepsInfra_countErrors keepsInfra_pollAndCount)

end
