(* ===== verification/Private_Dns.thy ===== *)
theory Private_Dns
  imports Private_Client Record_Diff Dns_Records
begin

section \<open>The private DNS service (\<open>azure/services/privatedns\<close>)\<close>

text \<open>
  \<open>privatedns.go\<close>, \<open>arecords.go\<close> and \<open>cnamerecords.go\<close>: the private zone of a cluster in the
  resource group of the cluster that attaches it, its link to that cluster's virtual network, and
  its record sets.
\<close>

record 'w PrivateService =
  psvScope :: PrivateDNSScope
  psvClient :: "'w privateClient"

definition New_private :: "'w azureSdk \<Rightarrow> PrivateDNSScope \<Rightarrow> ('s, 'w PrivateService) M" where
  "New_private A scope =
     bindM (masked (newPrivateDNSClient A scope)) (\<lambda>pc.
     ret \<lparr>psvScope = scope, psvClient = privateClientOps A pc\<rparr>)"

abbreviation psvDomain :: "'w PrivateService \<Rightarrow> string" where
  "psvDomain s \<equiv> ClusterDomain_private (psvScope s)"

abbreviation psvResourceGroup :: "'w PrivateService \<Rightarrow> string" where
  "psvResourceGroup s \<equiv> ManagementClusterResourceGroup (psvScope s)"

subsection \<open>arecords.go\<close>

abbreviation "mcIngressRecordName \<equiv> ''ingress''"

definition emptyPrivateProperties :: PrivateRecordSetProperties where
  "emptyPrivateProperties = \<lparr>pTTL = None, pARecords = [], pCnameRecord = None\<rparr>"

definition privateARecordSet :: "string \<Rightarrow> string option list \<Rightarrow> PrivateRecordSet" where
  "privateARecordSet name ips =
     \<lparr>prsName = Some name, prsType = Some RecordTypeA,
      prsProperties = Some (emptyPrivateProperties\<lparr>pTTL := Some apiRecordTTL, pARecords := ips\<rparr>)\<rparr>"

definition prsNameOf :: "PrivateRecordSet \<Rightarrow> string res" where
  "prsNameOf r = derefOpt (prsName r)"

text \<open>The address is appended to the first record set of that name.\<close>

definition appendPrivateARecord :: "string \<Rightarrow> string \<Rightarrow> PrivateRecordSet list \<Rightarrow> PrivateRecordSet list res" where
  "appendPrivateARecord name ip rss =
     bindR (indexByName prsNameOf name rss) (\<lambda>ix.
       case ix of
         None \<Rightarrow> Panic ''index out of range''
       | Some i \<Rightarrow>
           bindR (derefOpt (prsProperties (rss ! i))) (\<lambda>p.
           Ok (rss[i := (rss ! i)\<lparr>prsProperties := Some (p\<lparr>pARecords := pARecords p @ [Some ip]\<rparr>)\<rparr>])))"

definition getDesiredPrivateARecords :: "PrivateDNSScope \<Rightarrow> PrivateRecordSet list res" where
  "getDesiredPrivateARecords sc =
     bindR (if 0 < length (PrivateLinkedAPIServerIP sc)
            then appendPrivateARecord apiserverRecordName (PrivateLinkedAPIServerIP sc)
                   [privateARecordSet apiserverRecordName []]
            else Ok []) (\<lambda>rss.
       if 0 < length (PrivateLinkedMcIngressIP sc)
       then appendPrivateARecord mcIngressRecordName (PrivateLinkedMcIngressIP sc)
              (rss @ [privateARecordSet mcIngressRecordName []])
       else Ok rss)"

definition privateARecordDiffers :: "PrivateRecordSet \<Rightarrow> PrivateRecordSet \<Rightarrow> bool res" where
  "privateARecordDiffers desired current =
     bindR (derefOpt (prsProperties desired)) (\<lambda>dp.
     bindR (derefOpt (prsProperties current)) (\<lambda>cp.
     Ok (pARecords dp \<noteq> pARecords cp \<or> pTTL dp \<noteq> pTTL cp)))"

primrec missingPrivateALoop ::
    "string \<Rightarrow> PrivateRecordSet list \<Rightarrow> PrivateRecordSet list \<Rightarrow> PrivateRecordSet list \<Rightarrow>
     ('w, PrivateRecordSet list) prog" where
  "missingPrivateALoop zone [] cur recordsToCreate = ret recordsToCreate"
| "missingPrivateALoop zone (d # ds) cur recordsToCreate =
     bindM (liftR (prsNameOf d)) (\<lambda>name.
     bindM (liftR (indexByName prsNameOf name cur)) (\<lambda>ix.
       case ix of
         None \<Rightarrow> missingPrivateALoop zone ds cur (recordsToCreate @ [d])
       | Some i \<Rightarrow>
           bindM (liftR (privateARecordDiffers d (cur ! i))) (\<lambda>differs.
           bindM (liftR (derefOpt (prsProperties (cur ! i)))) (\<lambda>cp.
           bindM (forEach (setRecordInfo zone ZoneTypePrivate name (pTTL cp)) (pARecords cp)) (\<lambda>_.
           missingPrivateALoop zone ds cur (if differs then recordsToCreate @ [d] else recordsToCreate))))))"

definition calculateMissingARecords_private ::
    "'w PrivateService \<Rightarrow> PrivateRecordSet list \<Rightarrow> ('w, PrivateRecordSet list) prog" where
  "calculateMissingARecords_private s currentRecordSets =
     bindM (liftR (getDesiredPrivateARecords (psvScope s))) (\<lambda>desired.
     missingPrivateALoop (psvDomain s) desired currentRecordSets [])"

definition createPrivateRecordSet :: "'w PrivateService \<Rightarrow> string \<Rightarrow> PrivateRecordSet \<Rightarrow> ('w, unit) prog" where
  "createPrivateRecordSet s rtype r =
     bindM (liftR (prsNameOf r)) (\<lambda>name.
     bindM (CreateOrUpdateRecordSet_private (psvClient s) (psvResourceGroup s) (psvDomain s) rtype name r) (\<lambda>_.
     ret ()))"

definition updateARecords_private :: "'w PrivateService \<Rightarrow> PrivateRecordSet list \<Rightarrow> ('w, unit) prog" where
  "updateARecords_private s currentRecordSets =
     bindM (calculateMissingARecords_private s currentRecordSets) (\<lambda>recordsToCreate.
       if recordsToCreate = [] then ret ()
       else forEach (\<lambda>r. masked (createPrivateRecordSet s RecordTypeA r)) recordsToCreate)"

subsection \<open>cnamerecords.go\<close>

definition desiredCnameRecords_private :: "string \<Rightarrow> PrivateRecordSet list" where
  "desiredCnameRecords_private wildcardTarget =
     [\<lparr>prsName = Some ''*'', prsType = Some RecordTypeCNAME,
       prsProperties = Some (emptyPrivateProperties\<lparr>pTTL := Some cnameRecordTTL,
                                                    pCnameRecord := Some (Some wildcardTarget)\<rparr>)\<rparr>]"

definition privateCnameRecordDiffers :: "PrivateRecordSet \<Rightarrow> PrivateRecordSet \<Rightarrow> bool res" where
  "privateCnameRecordDiffers desired current =
     bindR (derefOpt (prsProperties current)) (\<lambda>cp.
     bindR (derefOpt (prsProperties desired)) (\<lambda>dp.
     Ok (pCnameRecord cp \<noteq> pCnameRecord dp \<or> pTTL cp \<noteq> pTTL dp)))"

primrec missingPrivateCnameLoop ::
    "PrivateRecordSet list \<Rightarrow> PrivateRecordSet list \<Rightarrow> PrivateRecordSet list \<Rightarrow> PrivateRecordSet list res" where
  "missingPrivateCnameLoop [] cur recordsToCreate = Ok recordsToCreate"
| "missingPrivateCnameLoop (d # ds) cur recordsToCreate =
     bindR (prsNameOf d) (\<lambda>name.
     bindR (indexByName prsNameOf name cur) (\<lambda>ix.
       case ix of
         None \<Rightarrow> missingPrivateCnameLoop ds cur (recordsToCreate @ [d])
       | Some i \<Rightarrow>
           bindR (privateCnameRecordDiffers d (cur ! i)) (\<lambda>differs.
           missingPrivateCnameLoop ds cur (if differs then recordsToCreate @ [d] else recordsToCreate))))"

definition calculateMissingCnameRecords_private ::
    "'w PrivateService \<Rightarrow> PrivateRecordSet list \<Rightarrow> PrivateRecordSet list res" where
  "calculateMissingCnameRecords_private s currentRecordSets =
     missingPrivateCnameLoop (desiredCnameRecords_private (WildcardFQDN_private (psvScope s))) currentRecordSets []"

definition updateCnameRecords_private :: "'w PrivateService \<Rightarrow> PrivateRecordSet list \<Rightarrow> ('w, unit) prog" where
  "updateCnameRecords_private s currentRecordSets =
     bindM (liftR (calculateMissingCnameRecords_private s currentRecordSets)) (\<lambda>recordsToCreate.
       if recordsToCreate = [] then ret ()
       else forEach (createPrivateRecordSet s RecordTypeCNAME) recordsToCreate)"

subsection \<open>privatedns.go\<close>

text \<open>The two searches among the links of the zone.\<close>

fun operatorLinkIndex :: "string \<Rightarrow> string \<Rightarrow> VirtualNetworkLink list \<Rightarrow> nat option res" where
  "operatorLinkIndex vnetLinkName clientID [] = Ok None"
| "operatorLinkIndex vnetLinkName clientID (l # ls) =
     bindR (derefOpt (vnlName l)) (\<lambda>name.
     bindR (if name = vnetLinkName then Ok True
            else bindR (derefOpt (vnlID l)) (\<lambda>i. Ok (i = clientID))) (\<lambda>hit.
       if hit then Ok (Some 0)
       else bindR (operatorLinkIndex vnetLinkName clientID ls) (\<lambda>ix. Ok (map_option Suc ix))))"

definition linkedVnet :: "VirtualNetworkLink \<Rightarrow> string res" where
  "linkedVnet l =
     bindR (derefOpt (vnlProperties l)) (\<lambda>p.
     bindR (derefOpt (VirtualNetwork p)) derefOpt)"

definition ensureVnetLink :: "'w PrivateService \<Rightarrow> ('w, unit) prog" where
  "ensureVnetLink s =
     bindM (masked (ListVirtualNetworkLink (psvClient s) (psvResourceGroup s) (psvDomain s))) (\<lambda>networkLinks.
     let vnetLinkName = virtualNetworkLinkName (psvResourceGroup s) in
     bindM (liftR (operatorLinkIndex vnetLinkName (ManagementClusterClientID (psvScope s)) networkLinks)) (\<lambda>ix.
       if ix \<noteq> None then ret ()
       else
         bindM (liftR (indexByName linkedVnet (psVirtualNetworkID (psvScope s)) networkLinks)) (\<lambda>existing.
         bindM (case existing of
                  None \<Rightarrow> ret ()
                | Some i \<Rightarrow>
                    bindM (liftR (derefOpt (vnlName (networkLinks ! i)))) (\<lambda>name.
                    masked (DeleteVirtualNetworkLink (psvClient s) (psvResourceGroup s) (psvDomain s) name))) (\<lambda>_.
         masked (CreateOrUpdateVirtualNetworkLink (psvClient s) (psvResourceGroup s) (psvDomain s)
                   (psClusterName (psvScope s)) (psVirtualNetworkID (psvScope s)) vnetLinkName)))))"

definition listOrCreatePrivateZone :: "'w PrivateService \<Rightarrow> ('w, PrivateRecordSet list) prog" where
  "listOrCreatePrivateZone s =
     bindM (attempt (ListPrivateRecordSets (psvClient s) (psvResourceGroup s) (psvDomain s))) (\<lambda>r.
       case r of
         Inr recordSets \<Rightarrow> ret recordSets
       | Inl err \<Rightarrow>
           if \<not> IsParentResourceNotFound (Some err) then throw (Masked err)
           else
             bindM (masked (CreateOrUpdatePrivateZone (psvClient s) (psvResourceGroup s) (psvDomain s)
                      \<lparr>pzName = Some (psvDomain s), pzLocation = Some azureGlobal, pzProperties = None\<rparr>)) (\<lambda>_.
             ret []))"

text \<open>An error of \<^verbatim>\<open>GetPrivateZone\<close> is only logged, and the zero value of the zone is used.\<close>

definition privateZoneRecordsMetric :: "'w PrivateService \<Rightarrow> ('w, unit) prog" where
  "privateZoneRecordsMetric s =
     bindM (attempt (GetPrivateZone (psvClient s) (psvResourceGroup s) (psvDomain s))) (\<lambda>r.
     let zone = (case r of Inl err \<Rightarrow> \<lparr>pzName = None, pzLocation = None, pzProperties = None\<rparr> | Inr z \<Rightarrow> z) in
     bindM (liftR (bindR (derefOpt (pzProperties zone)) derefOpt)) (\<lambda>n.
     emit (GaugeSet ClusterZoneRecords [psvDomain s, ZoneTypePrivate] n)))"

definition Reconcile_private :: "'w PrivateService \<Rightarrow> ('w, unit) prog" where
  "Reconcile_private s =
     bindM (emit (GaugeSet ZoneInfo [psvDomain s, ZoneTypePrivate, psvResourceGroup s,
                    ManagementClusterTenantID (psvScope s), ManagementClusterSubscriptionID (psvScope s)] 1)) (\<lambda>_.
     bindM (listOrCreatePrivateZone s) (\<lambda>privateClusterRecordSets.
     bindM (ensureVnetLink s) (\<lambda>_.
     bindM (privateZoneRecordsMetric s) (\<lambda>_.
     bindM (masked (updateARecords_private s privateClusterRecordSets)) (\<lambda>_.
     masked (updateCnameRecords_private s privateClusterRecordSets))))))"

definition ReconcileDelete_private :: "'w PrivateService \<Rightarrow> ('w, unit) prog" where
  "ReconcileDelete_private s =
     bindM (masked (DeleteVirtualNetworkLink (psvClient s) (psvResourceGroup s) (psvDomain s)
                      (virtualNetworkLinkName (psvResourceGroup s)))) (\<lambda>_.
     masked (DeletePrivateZone (psvClient s) (psvResourceGroup s) (psvDomain s)))"

subsection \<open>The comparisons meet the contract of \<open>record_diff\<close>\<close>

definition prsNm :: "PrivateRecordSet \<Rightarrow> string" where
  "prsNm r = (case prsName r of None \<Rightarrow> [] | Some x \<Rightarrow> x)"

definition namedPrivate :: "PrivateRecordSet \<Rightarrow> bool" where
  "namedPrivate r \<longleftrightarrow> prsName r \<noteq> None \<and> prsProperties r \<noteq> None"

definition completePrivateA :: "PrivateRecordSet \<Rightarrow> bool" where
  "completePrivateA r \<longleftrightarrow> prsName r \<noteq> None \<and>
     (case prsProperties r of
        None \<Rightarrow> False
      | Some p \<Rightarrow> None \<notin> set (pARecords p) \<and> (pARecords p \<noteq> [] \<longrightarrow> pTTL p \<noteq> None))"

definition samePrivateA :: "PrivateRecordSet \<Rightarrow> PrivateRecordSet \<Rightarrow> bool" where
  "samePrivateA d c \<longleftrightarrow> map_option pARecords (prsProperties d) = map_option pARecords (prsProperties c) \<and>
     map_option pTTL (prsProperties d) = map_option pTTL (prsProperties c)"

definition samePrivateCname :: "PrivateRecordSet \<Rightarrow> PrivateRecordSet \<Rightarrow> bool" where
  "samePrivateCname d c \<longleftrightarrow> map_option pCnameRecord (prsProperties d) = map_option pCnameRecord (prsProperties c) \<and>
     map_option pTTL (prsProperties d) = map_option pTTL (prsProperties c)"

lemma namedPrivateD:
  "namedPrivate r \<Longrightarrow> prsNameOf r = Ok (prsNm r)" "namedPrivate r \<Longrightarrow> \<exists>p. prsProperties r = Some p"
  by (auto simp: namedPrivate_def prsNameOf_def prsNm_def)

lemma completePrivateA_named: "completePrivateA r \<Longrightarrow> namedPrivate r"
  by (auto simp: completePrivateA_def namedPrivate_def split: option.splits)

lemma missingPrivateALoop_step:
  assumes d: "namedPrivate d" and cur: "\<forall>c\<in>set cur. completePrivateA c"
    and c: "firstNamed prsNm (prsNm d) cur = Some c"
  shows "\<exists>es. List.map_filter writeOf es = [] \<and>
    missingPrivateALoop zone (d # ds) cur acc s =
      missingPrivateALoop zone ds cur (if \<not> inSync prsNm samePrivateA cur d then acc @ [d] else acc)
        (s\<lparr>events := events s @ es\<rparr>)"
proof -
  have nms: "\<forall>r\<in>set cur. prsNameOf r = Ok (prsNm r)"
    using cur completePrivateA_named namedPrivateD(1) by auto
  obtain i where i: "indexByName prsNameOf (prsNm d) cur = Ok (Some i)" "i < length cur" "cur ! i = c"
    using indexByName_Some [OF nms c] by blast
  have "completePrivateA c" using firstNamed_Some [OF c] cur by blast
  then obtain cp where cp: "prsProperties c = Some cp" "None \<notin> set (pARecords cp)"
      "pARecords cp \<noteq> [] \<longrightarrow> pTTL cp \<noteq> None"
    by (auto simp: completePrivateA_def split: option.splits)
  obtain dp where dp: "prsProperties d = Some dp" using namedPrivateD(2) [OF d] by blast
  have differs: "privateARecordDiffers d c = Ok (\<not> inSync prsNm samePrivateA cur d)"
    using c cp(1) dp by (auto simp: privateARecordDiffers_def inSync_def samePrivateA_def)
  obtain es where es: "forEach (setRecordInfo zone ZoneTypePrivate (prsNm d) (pTTL cp)) (pARecords cp) s =
      (Ok (), s\<lparr>events := events s @ es\<rparr>)" "List.map_filter writeOf es = []"
    using setRecordInfo_loop [OF cp(2,3)] by blast
  then show ?thesis
    by (intro exI [of _ es]) (simp add: run_simps namedPrivateD(1) [OF d] i(1,3) differs cp(1))
qed

lemma missingPrivateALoop_run:
  assumes "\<forall>d\<in>set ds. namedPrivate d" "\<forall>c\<in>set cur. completePrivateA c"
  shows "\<exists>es. missingPrivateALoop zone ds cur acc s =
      (Ok (acc @ filter (\<lambda>d. \<not> inSync prsNm samePrivateA cur d) ds), s\<lparr>events := events s @ es\<rparr>) \<and>
    List.map_filter writeOf es = []"
  using assms
proof (induction ds arbitrary: acc s)
  case Nil
  have "s = s\<lparr>events := events s @ []\<rparr>" by simp
  then show ?case by (auto simp: run_simps List.map_filter_def intro!: exI [of _ "[]"])
next
  case (Cons d ds)
  have d: "namedPrivate d" and nms: "\<forall>r\<in>set cur. prsNameOf r = Ok (prsNm r)"
    using Cons.prems completePrivateA_named namedPrivateD(1) by auto
  show ?case
  proof (cases "firstNamed prsNm (prsNm d) cur")
    case None
    then have "indexByName prsNameOf (prsNm d) cur = Ok None" "\<not> inSync prsNm samePrivateA cur d"
      using indexByName_None [OF nms] by (simp_all add: inSync_def)
    then show ?thesis
      using Cons.IH [of "acc @ [d]" s] Cons.prems namedPrivateD [OF d] by (simp add: run_simps)
  next
    case (Some c)
    let ?acc = "if \<not> inSync prsNm samePrivateA cur d then acc @ [d] else acc"
    obtain es1 where step: "List.map_filter writeOf es1 = []" "missingPrivateALoop zone (d # ds) cur acc s =
        missingPrivateALoop zone ds cur ?acc (s\<lparr>events := events s @ es1\<rparr>)"
      using missingPrivateALoop_step [OF d Cons.prems(2) Some] by blast
    obtain es2 where IH: "missingPrivateALoop zone ds cur ?acc (s\<lparr>events := events s @ es1\<rparr>) =
        (Ok (?acc @ filter (\<lambda>d. \<not> inSync prsNm samePrivateA cur d) ds), s\<lparr>events := (events s @ es1) @ es2\<rparr>)"
        "List.map_filter writeOf es2 = []"
      using Cons.IH [of ?acc "s\<lparr>events := events s @ es1\<rparr>"] Cons.prems by auto
    show ?thesis
      using step IH by (intro exI [of _ "es1 @ es2"]) (simp add: map_filter_append)
  qed
qed

lemma missingPrivateCnameLoop_run:
  assumes "\<forall>d\<in>set ds. namedPrivate d" "\<forall>c\<in>set cur. namedPrivate c"
  shows "missingPrivateCnameLoop ds cur acc = Ok (acc @ filter (\<lambda>d. \<not> inSync prsNm samePrivateCname cur d) ds)"
  using assms
proof (induction ds arbitrary: acc)
  case Nil
  then show ?case by simp
next
  case (Cons d ds)
  have d: "namedPrivate d" and nms: "\<forall>r\<in>set cur. prsNameOf r = Ok (prsNm r)"
    using Cons.prems namedPrivateD(1) by auto
  show ?case
  proof (cases "firstNamed prsNm (prsNm d) cur")
    case None
    with Cons indexByName_None [OF nms None] namedPrivateD [OF d] show ?thesis
      by (simp add: inSync_def)
  next
    case (Some c)
    then obtain i where i: "indexByName prsNameOf (prsNm d) cur = Ok (Some i)" "cur ! i = c"
      using indexByName_Some [OF nms] by blast
    have "namedPrivate c" using firstNamed_Some [OF Some] Cons.prems(2) by blast
    then have "privateCnameRecordDiffers d c = Ok (\<not> inSync prsNm samePrivateCname cur d)"
      using Some namedPrivateD(2) [OF d] namedPrivateD(2) [of c]
      by (auto simp: privateCnameRecordDiffers_def inSync_def samePrivateCname_def)
    with Cons i namedPrivateD [OF d] show ?thesis by simp
  qed
qed

interpretation privA: record_diff prsNm namedPrivate completePrivateA samePrivateA
  "\<lambda>ds cur. missingPrivateALoop zone ds cur []"
  for zone
proof
  fix ds cur and s :: "'w st"
  assume wf: "\<forall>d\<in>set ds. namedPrivate d" "\<forall>c\<in>set cur. completePrivateA c"
  show "fst (missingPrivateALoop zone ds cur [] s) = Ok (filter (\<lambda>d. \<not> inSync prsNm samePrivateA cur d) ds)"
    using missingPrivateALoop_run [OF wf, of zone "[]" s] by auto
qed (simp add: samePrivateA_def)

interpretation privC: record_diff prsNm namedPrivate namedPrivate samePrivateCname
  "\<lambda>ds cur. liftR (missingPrivateCnameLoop ds cur [])"
  by unfold_locales (simp_all add: missingPrivateCnameLoop_run run_simps samePrivateCname_def)

text \<open>The desired A records of a private zone: one per address that is known.\<close>

lemma getDesiredPrivateARecords_eq:
  "getDesiredPrivateARecords sc = Ok (
     (if PrivateLinkedAPIServerIP sc = [] then [] else [privateARecordSet apiserverRecordName [Some (PrivateLinkedAPIServerIP sc)]]) @
     (if PrivateLinkedMcIngressIP sc = [] then [] else [privateARecordSet mcIngressRecordName [Some (PrivateLinkedMcIngressIP sc)]]))"
  by (simp add: getDesiredPrivateARecords_def appendPrivateARecord_def prsNameOf_def privateARecordSet_def
      emptyPrivateProperties_def)

end
