(* ===== verification/Conditions.thy ===== *)
theory Conditions
  imports Infracluster
begin

section \<open>Status conditions of an unstructured object (\<open>pkg/infracluster/scope.go\<close>)\<close>

text \<open>
  \<open>SetUnstructuredCondition\<close> and its two variants. The object is the infrastructure cluster of the
  state. The converters between unstructured maps and typed conditions, \<^verbatim>\<open>apimeta.SetStatusCondition\<close>
  and the clock are parameters. \<^verbatim>\<open>SetNestedSlice\<close> fails only when \<^verbatim>\<open>status\<close> is not a map, in which case
  \<^verbatim>\<open>NestedSlice\<close> has failed before.
\<close>

datatype conditionArg =
    MetaCondition Condition
  | CAPICondition Condition
  | OtherCondition string \<comment> \<open>any other dynamic type, by its name\<close>

text \<open>The loop over the raw items, and the loop that converts back.\<close>

primrec parseConditions :: "'w kubeApi \<Rightarrow> bool \<Rightarrow> rawItem list \<Rightarrow> Condition list \<Rightarrow> Condition list res" where
  "parseConditions K isMeta [] conditions = Ok conditions"
| "parseConditions K isMeta (item # raw) conditions =
     (case item of
        RawOther t \<Rightarrow> Err (PlainError ''condition item is not a map'')
      | RawMap m \<Rightarrow>
          bindR (fromSum (conditionFromMap K isMeta m)) (\<lambda>c.
          parseConditions K isMeta raw (conditions @ [c])))"

definition currentConditions :: "'w kubeApi \<Rightarrow> bool \<Rightarrow> Unstructured \<Rightarrow> Condition list res" where
  "currentConditions K isMeta obj =
     (case uConditions obj of
        SliceError err \<Rightarrow> Err err
      | SliceMissing \<Rightarrow> Ok []
      | SliceOf raw \<Rightarrow> parseConditions K isMeta raw [])"

primrec rawConditions :: "'w kubeApi \<Rightarrow> bool \<Rightarrow> Condition list \<Rightarrow> rawItem list res" where
  "rawConditions K isMeta [] = Ok []"
| "rawConditions K isMeta (c # cs) =
     bindR (fromSum (conditionToMap K isMeta c)) (\<lambda>m.
     bindR (rawConditions K isMeta cs) (\<lambda>raw.
     Ok (RawMap m # raw)))"

definition SetNestedSlice :: "rawItem list \<Rightarrow> ('w, unit) prog" where
  "SetNestedSlice raw = modifies (\<lambda>s. s\<lparr>infraCluster := (infraCluster s)\<lparr>uConditions := SliceOf raw\<rparr>\<rparr>)"

definition metav1_Now :: "'w kubeApi \<Rightarrow> ('w, nat) prog" where
  "metav1_Now K = callWorld (\<lambda>w. case timeNow K w of (t, w') \<Rightarrow> (Inr t, w'))"

definition setUnstructuredCondition :: "'w kubeApi \<Rightarrow> Condition \<Rightarrow> ('w, unit) prog" where
  "setUnstructuredCondition K condition =
     bindM (reads infraCluster) (\<lambda>obj.
     bindM (liftR (currentConditions K True obj)) (\<lambda>conditions.
     bindM (callWorld (\<lambda>w. case setStatusCondition K conditions condition w of (r, w') \<Rightarrow> (Inr r, w'))) (\<lambda>(changed, conditions').
       if \<not> changed then ret ()
       else
         bindM (liftR (rawConditions K True conditions')) (\<lambda>raw.
         SetNestedSlice raw))))"

text \<open>
  The loop over the conditions of the same type. The local \<open>condition\<close> keeps the time it gets
  at the first match.
\<close>

primrec replaceCondition ::
    "'w kubeApi \<Rightarrow> Condition list \<Rightarrow> Condition \<Rightarrow> bool \<Rightarrow> ('w, Condition list \<times> Condition \<times> bool) prog" where
  "replaceCondition K [] condition found = ret ([], condition, found)"
| "replaceCondition K (c # cs) condition found =
     (if cType c = cType condition then
        bindM (if cLastTransitionTime condition = 0
               then bindM (metav1_Now K) (\<lambda>now. ret (condition\<lparr>cLastTransitionTime := now\<rparr>))
               else ret condition) (\<lambda>condition'.
        bindM (replaceCondition K cs condition' True) (\<lambda>(cs', condition'', found').
        ret (condition' # cs', condition'', found')))
      else
        bindM (replaceCondition K cs condition found) (\<lambda>(cs', condition'', found').
        ret (c # cs', condition'', found')))"

definition setUnstructuredCAPICondition :: "'w kubeApi \<Rightarrow> Condition \<Rightarrow> ('w, unit) prog" where
  "setUnstructuredCAPICondition K condition =
     bindM (reads infraCluster) (\<lambda>obj.
     bindM (liftR (currentConditions K False obj)) (\<lambda>conditions.
     bindM (replaceCondition K conditions condition False) (\<lambda>(conditions', condition', found).
     bindM (if \<not> found
            then bindM (metav1_Now K) (\<lambda>now. ret (conditions' @ [condition'\<lparr>cLastTransitionTime := now\<rparr>]))
            else ret conditions') (\<lambda>conditions''.
     bindM (liftR (rawConditions K False conditions'')) (\<lambda>raw.
     SetNestedSlice raw)))))"

definition SetUnstructuredCondition :: "'w kubeApi \<Rightarrow> conditionArg \<Rightarrow> ('w, unit) prog" where
  "SetUnstructuredCondition K condition =
     (case condition of
        MetaCondition c \<Rightarrow> setUnstructuredCondition K c
      | CAPICondition c \<Rightarrow> setUnstructuredCAPICondition K c
      | OtherCondition t \<Rightarrow> throw (PlainError (''unsupported condition type '' @ t)))"

end
