(* ===== verification/Controller.thy ===== *)
theory Controller
  imports Dns_Service Private_Dns Conditions
begin

section \<open>The cluster controller (\<open>controllers/cluster_controller.go\<close>)\<close>

text \<open>
  \<open>Reconcile_cluster\<close> is \<^verbatim>\<open>ClusterReconciler.Reconcile\<close>: it looks up the \<^verbatim>\<open>Cluster\<close> and its infrastructure
  object, builds the scope, runs \<open>reconcileNormal\<close> or \<open>reconcileDelete\<close>, and closes the patcher in a
  deferred call (\<open>deferClose\<close>), also when the handler fails or panics. The services the controller
  builds may be nil pointers (\<open>None\<close>), on which a method call panics.

  The lookups that fill a cache of the scope return the new scope beside their result.
\<close>

abbreviation "AzureClusterControllerFinalizer \<equiv> ''dns-operator-azure.giantswarm.io/azurecluster''"
abbreviation "azurePrivateEndpointOperatorApiServerAnnotation \<equiv>
  ''azure-private-endpoint-operator.giantswarm.io/private-link-apiserver-ip''"
abbreviation "azurePrivateEndpointOperatorMcIngressAnnotation \<equiv>
  ''azure-private-endpoint-operator.giantswarm.io/private-link-mc-ingress-ip''"
abbreviation "ClusterPhaseProvisioned \<equiv> ''Provisioned''"
abbreviation "LoadBalancersReadyCondition \<equiv> ''LoadBalancersReady''"

record ClusterReconciler =
  rBaseDomain :: string
  rBaseDomainResourceGroup :: string
  rBaseZoneClientID :: string
  rBaseZoneClientSecret :: string
  rBaseZoneSubscriptionID :: string
  rBaseZoneTenantID :: string
  rManagementClusterConfig :: ManagementClusterConfig
  rInfraClusterZoneAzureConfig :: ClusterZoneAzureConfig
  rClusterAzureIdentityRef :: "ObjectReference option"

record Result =
  RequeueAfter :: nat \<comment> \<open>seconds; 0 is the zero value\<close>

definition emptyResult :: Result where
  "emptyResult = \<lparr>RequeueAfter = 0\<rparr>"

subsection \<open>The services the controller builds\<close>

definition getInfraClusterStaticServicePrincipalSecret :: "'w kubeApi \<Rightarrow> AzureClusterIdentity \<Rightarrow> ('w, Secret) prog" where
  "getInfraClusterStaticServicePrincipalSecret K identity =
     (if idType identity = ManualServicePrincipal
      then callWorld (getSecret K (idClientSecretName identity) (idClientSecretNamespace identity))
      else ret [])"

definition getDnsServiceForPublicRecords ::
    "'w azureSdk \<Rightarrow> 'w kubeApi \<Rightarrow> ClusterReconciler \<Rightarrow> 'w Scope \<Rightarrow> ('w, 'w Service \<times> 'w Scope) prog" where
  "getDnsServiceForPublicRecords A K r clusterScope =
     bindM (masked (InfraClusterIdentity K clusterScope)) (\<lambda>(identity, clusterScope').
     bindM (masked (getInfraClusterStaticServicePrincipalSecret K identity)) (\<lambda>secret.
     bindM (reads infraCluster) (\<lambda>u.
     bindM (masked (liftR (NewDNSScope
              \<lparr>dpClusterScope = clusterScope',
               dpBaseDomain = rBaseDomain r,
               dpBaseDomainResourceGroup = rBaseDomainResourceGroup r,
               dpBaseZoneCredentials =
                 \<lparr>bzClientID = rBaseZoneClientID r, bzClientSecret = rBaseZoneClientSecret r,
                  bzSubscriptionID = rBaseZoneSubscriptionID r, bzTenantID = rBaseZoneTenantID r\<rparr>,
               dpAzureClusterIdentity = identity,
               dpAzureClusterServicePrincipalSecret = secret,
               dpManagementClusterAzureIdentity = emptyAzureClusterIdentity,
               dpManagementClusterServicePrincipalSecret = [],
               dpManagementClusterSpec = acSpec emptyAzureCluster,
               dpResourceTags = GetResourceTagsFromInfraClusterAnnotations (uAnnotations u)\<rparr>))) (\<lambda>dnsScope.
     bindM (masked (New A dnsScope (sPublicIPService clusterScope'))) (\<lambda>dnsService.
     ret (dnsService, clusterScope'))))))"

text \<open>
  The secret of a service principal, as both private services read it: not found is no error and
  no service (\<open>None\<close>).
\<close>

definition privateServiceSecret :: "'w kubeApi \<Rightarrow> AzureClusterIdentity \<Rightarrow> ('w, Secret option) prog" where
  "privateServiceSecret K identity =
     (if idType identity = ManualServicePrincipal then
        bindM (attempt (callWorld (getSecret K (idClientSecretName identity) (idClientSecretNamespace identity)))) (\<lambda>r.
          case r of
            Inl err \<Rightarrow> if apiIsNotFound K err then ret None else throw (Masked err)
          | Inr secret \<Rightarrow> ret (Some secret))
      else ret (Some []))"

definition getPrivateDnsServiceForMcToWcApi ::
    "'w azureSdk \<Rightarrow> 'w kubeApi \<Rightarrow> ClusterReconciler \<Rightarrow> 'w Scope \<Rightarrow> ('w, 'w PrivateService option \<times> 'w Scope) prog" where
  "getPrivateDnsServiceForMcToWcApi A K r clusterScope =
     bindM (masked (ManagementCluster K clusterScope)) (\<lambda>(managementCluster, sc1).
     bindM (masked (ManagementClusterIdentity K sc1)) (\<lambda>(identity, sc2).
     bindM (privateServiceSecret K identity) (\<lambda>sec.
       case sec of
         None \<Rightarrow> ret (None, sc2)
       | Some secret \<Rightarrow>
           bindM (reads infraCluster) (\<lambda>u.
           bindM (masked (liftR (NewPrivateDNSScope
                    \<lparr>ppBaseDomain = rBaseDomain r,
                     ppClusterName = uName u,
                     ppAPIServerIP = lookupStr (uAnnotations u) azurePrivateEndpointOperatorApiServerAnnotation,
                     ppMCIngressIP = [],
                     ppWildcardCNAMETarget = lookupStr (clAnnotations (sCluster sc2)) AnnotationWildcardCNAMETarget,
                     ppVirtualNetworkID = acsVnetID (acSpec managementCluster),
                     ppClusterAzureIdentity = identity,
                     ppClusterServicePrincipalSecret = secret,
                     ppClusterSpec = acSpec managementCluster\<rparr>))) (\<lambda>privateDnsScope.
           bindM (masked (New_private A privateDnsScope)) (\<lambda>privateDnsService.
           ret (Some privateDnsService, sc2)))))))"

definition getPrivateDnsServiceForWcToMcIngress ::
    "'w azureSdk \<Rightarrow> 'w kubeApi \<Rightarrow> ClusterReconciler \<Rightarrow> 'w Scope \<Rightarrow> ('w, 'w PrivateService option \<times> 'w Scope) prog" where
  "getPrivateDnsServiceForWcToMcIngress A K r clusterScope =
     bindM (masked (ManagementCluster K clusterScope)) (\<lambda>(managementCluster, sc1).
     bindM (masked (InfraClusterIdentity K sc1)) (\<lambda>(identity, sc2).
     bindM (privateServiceSecret K identity) (\<lambda>sec.
       case sec of
         None \<Rightarrow> ret (None, sc2)
       | Some secret \<Rightarrow>
           bindM (masked (callWorld (getCluster K (acName managementCluster) (acNamespace managementCluster)))) (\<lambda>managementCAPICluster.
           bindM (reads infraCluster) (\<lambda>u.
           bindM (liftR (derefOpt (azureClusterSpec K u))) (\<lambda>spec.
           bindM (masked (liftR (NewPrivateDNSScope
                    \<lparr>ppBaseDomain = rBaseDomain r,
                     ppClusterName = acName managementCluster,
                     ppAPIServerIP = [],
                     ppMCIngressIP = lookupStr (uAnnotations u) azurePrivateEndpointOperatorMcIngressAnnotation,
                     ppWildcardCNAMETarget = lookupStr (clAnnotations managementCAPICluster) AnnotationWildcardCNAMETarget,
                     ppVirtualNetworkID = acsVnetID spec,
                     ppClusterAzureIdentity = identity,
                     ppClusterServicePrincipalSecret = secret,
                     ppClusterSpec = spec\<rparr>))) (\<lambda>privateDnsScope.
           bindM (masked (New_private A privateDnsScope)) (\<lambda>privateDnsService.
           ret (Some privateDnsService, sc2)))))))))"

subsection \<open>Readiness and metrics\<close>

definition isClusterReadyForDnsManagements :: "'w kubeApi \<Rightarrow> Cluster \<Rightarrow> ('w, Result \<times> bool) prog" where
  "isClusterReadyForDnsManagements K cluster =
     (if clPhase cluster \<noteq> ClusterPhaseProvisioned then ret (\<lparr>RequeueAfter = 120\<rparr>, False)
      else
        bindM (reads infraCluster) (\<lambda>u.
          if isAzureCluster u then
            (let infraClusterIsReady =
                   (case azureClusterStatus K u of
                      None \<Rightarrow> False
                    | Some conditions \<Rightarrow> list_ex (\<lambda>condition. cType condition = LoadBalancersReadyCondition) conditions) in
             if \<not> infraClusterIsReady then ret (\<lparr>RequeueAfter = 120\<rparr>, False)
             else ret (emptyResult, True))
          else ret (emptyResult, True)))"

definition deleteClusterMetrics :: "string \<Rightarrow> string \<Rightarrow> ('w, unit) prog" where
  "deleteClusterMetrics name ztype =
     bindM (emit (GaugeDeletePartialMatch ZoneInfo [(MetricZone, name), (ZoneType, ztype)])) (\<lambda>_.
     bindM (emit (GaugeDeletePartialMatch ClusterZoneRecords [(MetricZone, name), (ZoneType, ztype)])) (\<lambda>_.
     emit (GaugeDeletePartialMatch RecordInfo [(MetricZone, name), (ZoneType, ztype)])))"

subsection \<open>reconcileNormal\<close>

definition addControllerFinalizer :: "'w kubeApi \<Rightarrow> 'w Scope \<Rightarrow> ('w, unit) prog" where
  "addControllerFinalizer K clusterScope =
     bindM (reads infraCluster) (\<lambda>u.
       if \<not> containsFinalizer K u AzureClusterControllerFinalizer then
         bindM (modifies (\<lambda>s. s\<lparr>infraCluster := addFinalizer K (infraCluster s) AzureClusterControllerFinalizer\<rparr>)) (\<lambda>_.
         pPatchObject (sPatcher clusterScope))
       else ret ())"

definition dnsZoneReadyCondition :: Condition where
  "dnsZoneReadyCondition =
     \<lparr>cType = ''GSDNSZoneReady'', cStatus = ''True'', cSeverity = [], cReason = ''GSDNSZonesCreated'',
      cMessage = ''GiantSwarm DNS Zones have been created'', cLastTransitionTime = 0\<rparr>"

text \<open>
  The two private parts of \<^verbatim>\<open>reconcileNormal\<close> and \<^verbatim>\<open>reconcileDelete\<close>: with the annotation set on an
  \<^verbatim>\<open>AzureCluster\<close>, build the service and run \<open>act\<close> on it. A nil service panics.
\<close>

definition onPrivateService ::
    "('w, 'w PrivateService option \<times> 'w Scope) prog \<Rightarrow> ('w PrivateService \<Rightarrow> ('w, unit) prog) \<Rightarrow> ('w, 'w Scope) prog" where
  "onPrivateService getService act =
     bindM getService (\<lambda>(svc, clusterScope').
     bindM (liftR (derefOpt svc)) (\<lambda>privateDnsService.
     bindM (act privateDnsService) (\<lambda>_.
     ret clusterScope')))"

definition setDnsReady :: "'w kubeApi \<Rightarrow> ('w, unit) prog" where
  "setDnsReady K =
     bindM IsASOManagedCluster (\<lambda>aso.
       if \<not> aso then
         bindM (SetUnstructuredCondition K (CAPICondition dnsZoneReadyCondition)) (\<lambda>_.
         kubeStatusUpdate K)
       else ret ())"

definition reconcileNormal ::
    "'w azureSdk \<Rightarrow> 'w kubeApi \<Rightarrow> ClusterReconciler \<Rightarrow> 'w Scope \<Rightarrow> ('w, Result) prog" where
  "reconcileNormal A K r clusterScope =
     bindM (addControllerFinalizer K clusterScope) (\<lambda>_.
     bindM (isClusterReadyForDnsManagements K (sCluster clusterScope)) (\<lambda>(result, isReady).
       if \<not> isReady then ret result
       else
         bindM (reads infraCluster) (\<lambda>u.
         let annotations = uAnnotations u; spec = azureClusterSpec K u in
         bindM (if spec \<noteq> None \<and> lookupStr annotations azurePrivateEndpointOperatorApiServerAnnotation \<noteq> []
                then onPrivateService (getPrivateDnsServiceForMcToWcApi A K r clusterScope)
                       (\<lambda>p. masked (Reconcile_private p))
                else ret clusterScope) (\<lambda>sc1.
         bindM (if spec \<noteq> None \<and> lookupStr annotations azurePrivateEndpointOperatorMcIngressAnnotation \<noteq> []
                then onPrivateService (masked (getPrivateDnsServiceForWcToMcIngress A K r sc1))
                       (\<lambda>p. masked (Reconcile_private p))
                else ret sc1) (\<lambda>sc2.
         bindM (masked (getDnsServiceForPublicRecords A K r sc2)) (\<lambda>(dnsService, sc3).
         bindM (emit (GaugeSet ZoneInfo [rBaseDomain r, ZoneTypePublic, rBaseDomainResourceGroup r,
                        rBaseZoneTenantID r, rBaseZoneSubscriptionID r] 1)) (\<lambda>_.
         bindM (masked (Reconcile K dnsService)) (\<lambda>_.
         bindM (setDnsReady K) (\<lambda>_.
         bindM (pPatchObject (sPatcher sc3)) (\<lambda>_.
         ret \<lparr>RequeueAfter = 300\<rparr>))))))))))"

subsection \<open>reconcileDelete\<close>

definition removeControllerFinalizer :: "'w kubeApi \<Rightarrow> ('w, unit) prog" where
  "removeControllerFinalizer K =
     bindM (reads infraCluster) (\<lambda>u.
       if containsFinalizer K u AzureClusterControllerFinalizer then
         modifies (\<lambda>s. s\<lparr>infraCluster := removeFinalizer K (infraCluster s) AzureClusterControllerFinalizer\<rparr>)
       else ret ())"

definition reconcileDelete ::
    "'w azureSdk \<Rightarrow> 'w kubeApi \<Rightarrow> ClusterReconciler \<Rightarrow> 'w Scope \<Rightarrow> ('w, Result) prog" where
  "reconcileDelete A K r clusterScope =
     bindM (reads infraCluster) (\<lambda>u.
     let annotations = uAnnotations u; spec = azureClusterSpec K u;
         domain = dotJoin (pClusterName (sPatcher clusterScope)) (rBaseDomain r) in
     bindM (if spec \<noteq> None \<and> lookupStr annotations azurePrivateEndpointOperatorApiServerAnnotation \<noteq> []
            then bindM (onPrivateService (getPrivateDnsServiceForMcToWcApi A K r clusterScope)
                          (\<lambda>p. masked (ReconcileDelete_private p))) (\<lambda>sc.
                 bindM (deleteClusterMetrics domain ZoneTypePrivate) (\<lambda>_. ret sc))
            else ret clusterScope) (\<lambda>sc1.
     bindM (if spec \<noteq> None \<and> lookupStr annotations azurePrivateEndpointOperatorMcIngressAnnotation \<noteq> []
            then bindM (onPrivateService (getPrivateDnsServiceForWcToMcIngress A K r sc1)
                          (\<lambda>p. masked (ReconcileDelete_private p))) (\<lambda>sc.
                 bindM (deleteClusterMetrics domain ZoneTypePrivate) (\<lambda>_. ret sc))
            else ret sc1) (\<lambda>sc2.
     bindM (masked (getDnsServiceForPublicRecords A K r sc2)) (\<lambda>(dnsService, sc3).
     bindM (masked (ReconcileDelete dnsService)) (\<lambda>_.
     bindM (removeControllerFinalizer K) (\<lambda>_.
     bindM (deleteClusterMetrics domain ZoneTypePublic) (\<lambda>_.
     ret emptyResult)))))))"

subsection \<open>Reconcile\<close>

text \<open>
  The deferred call: it runs whatever the handler did, its error is returned only if the handler
  returned none, and a panic goes on after it.
\<close>

definition deferClose :: "('w, unit) prog \<Rightarrow> ('w, 'a) prog \<Rightarrow> ('w, 'a) prog" where
  "deferClose close m = (\<lambda>s. case m s of
      (Ok x, t) \<Rightarrow> (case close t of
                     (Ok y, u) \<Rightarrow> (Ok x, u)
                   | (Err err, u) \<Rightarrow> (Err (Masked err), u)
                   | (Panic p, u) \<Rightarrow> (Panic p, u))
    | (Err e, t) \<Rightarrow> (case close t of
                     (Ok y, u) \<Rightarrow> (Err e, u)
                   | (Err err, u) \<Rightarrow> (Err e, u)
                   | (Panic p, u) \<Rightarrow> (Panic p, u))
    | (Panic p, t) \<Rightarrow> (Panic p, snd (close t)))"

definition Reconcile_cluster ::
    "'w azureSdk \<Rightarrow> 'w kubeApi \<Rightarrow> 'w capz \<Rightarrow> ClusterReconciler \<Rightarrow> string \<Rightarrow> string \<Rightarrow> ('w, Result) prog" where
  "Reconcile_cluster A K Z r namespace name =
     bindM (attempt (callWorld (getClusterByName K namespace name))) (\<lambda>rc.
       case rc of
         Inl err \<Rightarrow> if apiIsNotFound K err then ret emptyResult else throw err
       | Inr cluster \<Rightarrow>
           bindM (attempt (callWorld (getInfraObject K cluster))) (\<lambda>ri.
             case ri of
               Inl err \<Rightarrow>
                 if apiIsNotFound K err then ret \<lparr>RequeueAfter = 60\<rparr> else throw (Masked err)
             | Inr infra \<Rightarrow>
                 bindM (modifies (\<lambda>s. s\<lparr>infraCluster := infra\<rparr>)) (\<lambda>_.
                   if isPaused K cluster infra then ret emptyResult
                   else
                     bindM (masked (NewScope K Z
                              \<lparr>spCluster = cluster,
                               spManagementClusterConfig = rManagementClusterConfig r,
                               spClusterIdentityRef = rClusterAzureIdentityRef r,
                               spClusterZoneAzureConfig = rInfraClusterZoneAzureConfig r\<rparr>)) (\<lambda>clusterScope.
                     deferClose (pClose (sPatcher clusterScope))
                       (if clDeleting cluster \<or> uDeleting infra
                        then reconcileDelete A K r clusterScope
                        else reconcileNormal A K r clusterScope)))))"

end
