(* ===== verification/Infra_Props.thy ===== *)
theory Infra_Props
  imports Conditions Sample_Env
begin

section \<open>Properties of the infrastructure cluster and its scope\<close>

text \<open>
  What \<open>pkg/infracluster\<close> guarantees: the tags read from annotations, what the patcher of
  non-Azure clusters persists, which credentials a scope gets, and how a status condition is set.
\<close>

subsection \<open>annotation.go\<close>

text \<open>
  C34: The resource tags of a cluster are exactly the annotations with the prefix
  \<^verbatim>\<open>azure-resourcegroup-tag.\<close>, under the rest of their name and with their value; the keys of the
  result are unique. (The annotations are a Go map, so their keys are unique.)
\<close>

theorem resourceTags_lookup:
  assumes "distinct (map fst al)"
  shows "map_of (GetResourceTagsFromInfraClusterAnnotations (Some al)) k =
      map_option Some (map_of al (''azure-resourcegroup-tag.'' @ k)) \<and>
    distinct (map fst (GetResourceTagsFromInfraClusterAnnotations (Some al)))"
proof -
  have "map_of (rev al) = map_of al"
    using assms by (simp add: map_of_inject_set rev_map [symmetric] distinct_rev)
  then show ?thesis
    by (auto simp: GetResourceTagsFromInfraClusterAnnotations_def resourceTagsLoop_map resourceTagsLoop_distinct
        ResourceTagNamePrefix_def split: option.splits)
qed

theorem resourceTags_lookup_witness:
  "map_of (GetResourceTagsFromInfraClusterAnnotations
      (Some [(''azure-resourcegroup-tag.team'', ''phoenix''), (''other'', ''x'')])) ''team'' = Some (Some ''phoenix'')"
  using resourceTags_lookup [of "[(''azure-resourcegroup-tag.team'', ''phoenix''), (''other'', ''x'')]" "''team''"]
  by simp

subsection \<open>common\_patcher.go\<close>

text \<open>
  C29: For an AKS cluster the patcher sends one update, of the object as it is in memory, so that a
  finalizer added there is part of what is stored; the status is not touched.
\<close>

theorem PatchObject_aks:
  assumes "isASOManagedCluster (infraCluster s)"
    and "CommonPatcher_PatchObject K s = (r, t)"
  shows "events t = events s @ [KubeUpdate (infraCluster s)]"
  using assms by (auto simp: CommonPatcher_PatchObject_def kubeUpdate_def run_simps split: prod.splits sum.splits)

theorem PatchObject_aks_witness:
  "events (snd (CommonPatcher_PatchObject sampleK (sampleState ''AzureASOManagedCluster''))) =
     [KubeUpdate (sampleInfra ''AzureASOManagedCluster'')]"
proof -
  have "isASOManagedCluster (infraCluster (sampleState ''AzureASOManagedCluster''))"
    by (simp add: isASOManagedCluster_def kindAzureASOManagedCluster_def sampleState_def sampleInfra_def)
  from PatchObject_aks [OF this prod.collapse [symmetric], of sampleK] show ?thesis
    by (simp add: sampleState_def)
qed

text \<open>
  C30: For any other cluster the status update comes first and its answer replaces the object in
  memory. The status endpoint stores no metadata: it answers with the finalizers the server has.
  So the update that follows sends the server's finalizers, and a finalizer that was only added in
  memory is not stored.
\<close>

theorem PatchObject_drops_finalizer:
  assumes "\<not> isASOManagedCluster (infraCluster s)"
    and status_ignores_metadata: "\<And>u v w w'. updateStatus K u w = (Inr v, w') \<Longrightarrow> uFinalizers v = uFinalizers (stored w)"
    and "f \<notin> set (uFinalizers (stored (world s)))"
    and "CommonPatcher_PatchObject K s = (Ok (), t)"
  shows "\<exists>v. events t = events s @ [KubeStatusUpdate (infraCluster s), KubeUpdate v] \<and> f \<notin> set (uFinalizers v)"
proof -
  obtain v w' where v: "updateStatus K (infraCluster s) (world s) = (Inr v, w')"
    using assms(1,4)
    by (auto simp: CommonPatcher_PatchObject_def kubeStatusUpdate_def run_simps split: prod.splits sum.splits)
  moreover have "events t = events s @ [KubeStatusUpdate (infraCluster s), KubeUpdate v]"
    using assms(1,4) v
    by (auto simp: CommonPatcher_PatchObject_def kubeStatusUpdate_def kubeUpdate_def run_simps
        split: prod.splits sum.splits)
  ultimately show ?thesis using status_ignores_metadata [OF v] assms(3) by auto
qed

theorem PatchObject_drops_finalizer_witness:
  "let s = (sampleState ''VSphereCluster'')\<lparr>infraCluster := (sampleInfra ''VSphereCluster'')\<lparr>uFinalizers := [''f'']\<rparr>\<rparr> in
   \<exists>v. events (snd (CommonPatcher_PatchObject sampleK s)) = [KubeStatusUpdate (infraCluster s), KubeUpdate v] \<and>
     ''f'' \<notin> set (uFinalizers v)"
proof -
  let ?s = "(sampleState ''VSphereCluster'')\<lparr>infraCluster := (sampleInfra ''VSphereCluster'')\<lparr>uFinalizers := [''f'']\<rparr>\<rparr>"
  have run: "CommonPatcher_PatchObject sampleK ?s = (Ok (), snd (CommonPatcher_PatchObject sampleK ?s))"
    by (simp add: CommonPatcher_PatchObject_def kubeStatusUpdate_def kubeUpdate_def run_simps sampleK_def
        sampleKube_def Let_def sampleState_def sampleInfra_def isASOManagedCluster_def kindAzureASOManagedCluster_def)
  have "\<exists>v. events (snd (CommonPatcher_PatchObject sampleK ?s)) = events ?s @ [KubeStatusUpdate (infraCluster ?s), KubeUpdate v] \<and>
      ''f'' \<notin> set (uFinalizers v)"
    by (rule PatchObject_drops_finalizer [where stored = cObject, OF _ _ _ run])
      (auto simp: sampleState_def sampleInfra_def sampleCloud_def isASOManagedCluster_def
        kindAzureASOManagedCluster_def sampleK_def sampleKube_def Let_def)
  then show ?thesis by (simp add: sampleState_def)
qed

subsection \<open>scope.go: credentials\<close>

text \<open>
  C31: An AKS cluster with a subscription annotation and an identity annotation gets a scope with
  exactly that subscription and the client and tenant of that identity, whatever the operator is
  configured with, and the management cluster is not looked up.
\<close>

theorem NewScope_aks:
  assumes "isASOManagedCluster (infraCluster s)"
    and "lookupStr (clAnnotations (spCluster params)) AnnotationAzureSubscriptionID = sub" "sub \<noteq> []"
    and "asoManagedClusterIdentityRef (infraCluster s) = Some ref"
    and "getAzureClusterIdentity K (refName ref) (refNamespace ref) (world s) = (Inr identity, w)"
    and "idClientID identity \<noteq> []" "idTenantID identity \<noteq> []"
  shows "\<exists>sc. NewScope K Z params s = (Ok sc, s\<lparr>world := w\<rparr>) \<and>
    pSubscriptionID (sPatcher sc) = sub \<and> pClientID (sPatcher sc) = idClientID identity \<and>
    pTenantID (sPatcher sc) = idTenantID identity \<and> sManagementCluster sc = None"
proof -
  have "\<not> isAzureCluster (infraCluster s)"
    using assms(1) by (simp add: isAzureCluster_def isASOManagedCluster_def kindAzureCluster_def kindAzureASOManagedCluster_def)
  then show ?thesis
    using assms by (simp add: NewScope_def newCommonScope_def configuredCredentials_def azureClusterIdentity_def
        run_simps Let_def commonPatcherOps_def NewCommonPatcher_def)
qed

definition sampleAksState :: "cloud st" where
  "sampleAksState =
     (let u = (sampleInfra ''AzureASOManagedCluster'')\<lparr>uAnnotations :=
                Some [(''azure.giantswarm.io/azure-cluster-identity'', ''aks-id'')]\<rparr> in
      (sampleState ''AzureASOManagedCluster'')\<lparr>infraCluster := u\<rparr>)"

definition sampleParams :: ScopeParams where
  "sampleParams =
     \<lparr>spCluster = sampleCluster\<lparr>clAnnotations := Some [(''giantswarm.io/azure-subscription-id'', ''aks-sub'')]\<rparr>,
      spManagementClusterConfig = \<lparr>mccName = ''mc'', mccNamespace = ''org''\<rparr>,
      spClusterIdentityRef = None,
      spClusterZoneAzureConfig = \<lparr>czSubscriptionID = [], czClientID = [], czTenantID = [], czClientSecret = [],
                                  czLocation = []\<rparr>\<rparr>"

theorem NewScope_aks_witness:
  "\<exists>sc. NewScope sampleK sampleCapz sampleParams sampleAksState = (Ok sc, sampleAksState) \<and>
     pSubscriptionID (sPatcher sc) = ''aks-sub'' \<and> pClientID (sPatcher sc) = ''client'' \<and>
     pTenantID (sPatcher sc) = ''tenant'' \<and> sManagementCluster sc = None"
  using NewScope_aks [of sampleAksState sampleParams "''aks-sub''" "\<lparr>refName = ''aks-id'', refNamespace = []\<rparr>"
      sampleK sampleIdentity "world sampleAksState" sampleCapz]
  by (simp add: sampleAksState_def sampleState_def sampleInfra_def sampleParams_def sampleK_def sampleKube_def
      sampleIdentity_def isASOManagedCluster_def kindAzureASOManagedCluster_def asoManagedClusterIdentityRef_def Let_def)

text \<open>
  C32: A cluster that is neither an \<^verbatim>\<open>AzureCluster\<close> nor an AKS cluster uses the configured subscription,
  client and tenant if all three are set, and then looks nothing up. If one is missing, all three come
  from elsewhere: the subscription from the \<^verbatim>\<open>AzureCluster\<close> with the configured name and namespace of the
  management cluster, client and tenant from the identity that \<^verbatim>\<open>AzureCluster\<close> refers to. The scope keeps both
  objects.
\<close>

theorem NewScope_fallback:
  assumes "\<not> isAzureCluster (infraCluster s)" "\<not> isASOManagedCluster (infraCluster s)"
    and "getAzureCluster K (mccName (spManagementClusterConfig params)) (mccNamespace (spManagementClusterConfig params)) (world s) =
      (Inr mc, w1)"
    and "acsIdentityRef (acSpec mc) = Some ref"
    and "getAzureClusterIdentity K (refName ref) (refNamespace ref) w1 = (Inr identity, w2)"
  defines "cz \<equiv> spClusterZoneAzureConfig params"
  shows "\<exists>sc. if czSubscriptionID cz = [] \<or> czClientID cz = [] \<or> czTenantID cz = []
    then NewScope K Z params s = (Ok sc, s\<lparr>world := w2\<rparr>) \<and>
      sManagementCluster sc = Some mc \<and> sManagementClusterIdentity sc = Some identity \<and>
      pSubscriptionID (sPatcher sc) = acsSubscriptionID (acSpec mc) \<and>
      pClientID (sPatcher sc) = idClientID identity \<and> pTenantID (sPatcher sc) = idTenantID identity
    else NewScope K Z params s = (Ok sc, s) \<and>
      sManagementCluster sc = None \<and> sManagementClusterIdentity sc = None \<and>
      pSubscriptionID (sPatcher sc) = czSubscriptionID cz \<and> pClientID (sPatcher sc) = czClientID cz \<and>
      pTenantID (sPatcher sc) = czTenantID cz"
  using assms(1-5)
  by (cases "czSubscriptionID cz = [] \<or> czClientID cz = [] \<or> czTenantID cz = []")
    (simp_all add: NewScope_def newCommonScope_def configuredCredentials_def managementAzureCluster_def azureClusterIdentity_def
      cz_def run_simps Let_def commonPatcherOps_def NewCommonPatcher_def)

text \<open>An API server that tells names and namespaces apart.\<close>

definition keyedK :: "cloud kubeApi" where
  "keyedK = sampleK\<lparr>
     getAzureCluster := (\<lambda>n ns w. (if n = ''mc'' \<and> ns = ''org'' then Inr sampleManagementCluster
        else Inl (PlainError ''NotFound''), w)),
     getAzureClusterIdentity := (\<lambda>n ns w. (if n = ''id'' \<and> ns = ''org'' then Inr sampleIdentity
        else Inl (PlainError ''NotFound''), w))\<rparr>"

theorem NewScope_fallback_witness:
  "\<exists>sc. NewScope keyedK sampleCapz sampleParams (sampleState ''VSphereCluster'') = (Ok sc, sampleState ''VSphereCluster'') \<and>
     sManagementCluster sc = Some sampleManagementCluster \<and> sManagementClusterIdentity sc = Some sampleIdentity \<and> pSubscriptionID (sPatcher sc) = ''sub'' \<and>
     pClientID (sPatcher sc) = ''client'' \<and> pTenantID (sPatcher sc) = ''tenant''"
proof -
  let ?s = "sampleState ''VSphereCluster''"
  have kind: "\<not> isAzureCluster (infraCluster ?s)" "\<not> isASOManagedCluster (infraCluster ?s)"
    by (simp_all add: sampleState_def sampleInfra_def isAzureCluster_def kindAzureCluster_def
        isASOManagedCluster_def kindAzureASOManagedCluster_def)
  show ?thesis
    using NewScope_fallback [OF kind, of keyedK sampleParams sampleManagementCluster "world ?s"
        "\<lparr>refName = ''id'', refNamespace = ''org''\<rparr>" sampleIdentity "world ?s" sampleCapz]
    by (simp add: keyedK_def sampleParams_def sampleManagementCluster_def sampleIdentity_def)
qed

subsection \<open>scope.go: conditions\<close>

definition sameCondition :: "Condition \<Rightarrow> Condition \<Rightarrow> bool" where
  "sameCondition c x \<longleftrightarrow> cType x = cType c \<and> cStatus x = cStatus c \<and> cSeverity x = cSeverity c \<and>
     cReason x = cReason c \<and> cMessage x = cMessage c"

definition replacedBy :: "Condition \<Rightarrow> Condition \<Rightarrow> Condition \<Rightarrow> bool" where
  "replacedBy c x x' \<longleftrightarrow> (if cType x = cType c then sameCondition c x' else x' = x)"

lemma metav1_Now_infra: "metav1_Now K s = (r, t) \<Longrightarrow> infraCluster t = infraCluster s"
  by (auto simp: metav1_Now_def run_simps split: prod.splits)

lemma replaceCondition_run:
  assumes "replaceCondition K cs c f s = (Ok (cs', c', f'), t)"
  shows "list_all2 (replacedBy c) cs cs' \<and> sameCondition c c' \<and>
    f' = (f \<or> (\<exists>x\<in>set cs. cType x = cType c)) \<and> infraCluster t = infraCluster s"
  using assms
proof (induction cs arbitrary: c f s cs')
  case Nil
  then show ?case by (simp add: run_iffs sameCondition_def)
next
  case (Cons x cs)
  show ?case
  proof (cases "cType x = cType c")
    case True
    then obtain d u v cs'' where d: "(if cLastTransitionTime c = 0
          then bindM (metav1_Now K) (\<lambda>now. ret (c\<lparr>cLastTransitionTime := now\<rparr>)) else ret c) s = (Ok d, u)"
        and rest: "replaceCondition K cs d True u = (Ok (cs'', c', f'), t)" "cs' = d # cs''"
      using Cons.prems by (auto simp: run_iffs)
    have d': "sameCondition c d" "infraCluster u = infraCluster s"
      using d metav1_Now_infra by (auto simp: run_iffs sameCondition_def split: if_splits)
    have "replacedBy d = replacedBy c" "\<And>y. sameCondition d y \<longleftrightarrow> sameCondition c y"
      using d'(1) by (auto simp: replacedBy_def sameCondition_def fun_eq_iff)
    then show ?thesis
      using Cons.IH [OF rest(1)] rest(2) d' True by (auto simp: replacedBy_def sameCondition_def)
  next
    case False
    then obtain cs'' where "replaceCondition K cs c f s = (Ok (cs'', c', f'), t)" "cs' = x # cs''"
      using Cons.prems by (auto simp: run_iffs)
    with Cons.IH False show ?thesis by (fastforce simp: replacedBy_def)
  qed
qed

lemma parse_rawConditions:
  assumes conv: "\<And>c m. conditionToMap K b c = Inr m \<Longrightarrow> conditionFromMap K b m = Inr c"
  shows "rawConditions K b cs = Ok raw \<Longrightarrow> parseConditions K b raw acc = Ok (acc @ cs)"
proof (induction cs arbitrary: raw acc)
  case (Cons c cs)
  then obtain m raw' where m: "conditionToMap K b c = Inr m" "rawConditions K b cs = Ok raw'" "raw = RawMap m # raw'"
    by (cases "conditionToMap K b c") (auto simp: run_iffs)
  then show ?case using Cons.IH [OF m(2)] conv [OF m(1)] by simp
qed simp

lemma list_all2_replacedBy:
  assumes "list_all2 (replacedBy c) cs cs'"
  shows "filter (\<lambda>x. cType x \<noteq> cType c) cs' = filter (\<lambda>x. cType x \<noteq> cType c) cs"
    and "\<forall>x\<in>set cs'. cType x = cType c \<longrightarrow> sameCondition c x"
    and "length (filter (\<lambda>x. cType x = cType c) cs') = length (filter (\<lambda>x. cType x = cType c) cs)"
  using assms by (induction rule: list_all2_induct) (auto simp: replacedBy_def sameCondition_def split: if_splits)

text \<open>
  C33: Setting a Cluster API condition leaves the conditions of other types as they are and in
  order; afterwards the object has a condition of the type, and every one of that type has the
  status, severity, reason and message that were set. (The converters between conditions and
  unstructured maps are inverse to each other.)
\<close>

theorem SetUnstructuredCondition_sets:
  assumes conv: "\<And>x m. conditionToMap K False x = Inr m \<Longrightarrow> conditionFromMap K False m = Inr x"
    and cs: "currentConditions K False (infraCluster s) = Ok cs"
    and run: "SetUnstructuredCondition K (CAPICondition c) s = (Ok (), t)"
  shows "\<exists>cs'. currentConditions K False (infraCluster t) = Ok cs' \<and>
    filter (\<lambda>x. cType x \<noteq> cType c) cs' = filter (\<lambda>x. cType x \<noteq> cType c) cs \<and>
    (\<exists>x\<in>set cs'. cType x = cType c) \<and> (\<forall>x\<in>set cs'. cType x = cType c \<longrightarrow> sameCondition c x)"
proof -
  obtain cs1 c1 found u cs2 v raw where
    loop: "replaceCondition K cs c False s = (Ok (cs1, c1, found), u)"
    and add: "(if \<not> found
            then bindM (metav1_Now K) (\<lambda>now. ret (cs1 @ [c1\<lparr>cLastTransitionTime := now\<rparr>]))
            else ret cs1) u = (Ok cs2, v)"
    and raw: "rawConditions K False cs2 = Ok raw"
    and t: "t = v\<lparr>infraCluster := (infraCluster v)\<lparr>uConditions := SliceOf raw\<rparr>\<rparr>"
    using run cs
    by (auto simp: SetUnstructuredCondition_def setUnstructuredCAPICondition_def SetNestedSlice_def run_iffs)
  note loop' = replaceCondition_run [OF loop]
  note all = list_all2_replacedBy [OF conjunct1 [OF loop']]
  have cs2: "cs2 = cs1 \<and> found \<or> (\<exists>y. cs2 = cs1 @ [y] \<and> sameCondition c y \<and> \<not> found)"
    using add conjunct1 [OF conjunct2 [OF loop']] by (cases found) (auto simp: run_iffs sameCondition_def)
  have "currentConditions K False (infraCluster t) = Ok cs2"
    using parse_rawConditions [OF conv raw, of "[]"] by (simp add: t currentConditions_def)
  moreover have "filter (\<lambda>x. cType x \<noteq> cType c) cs2 = filter (\<lambda>x. cType x \<noteq> cType c) cs"
    using cs2 all(1) by (auto simp: sameCondition_def)
  moreover have "\<forall>x\<in>set cs2. cType x = cType c \<longrightarrow> sameCondition c x"
    using cs2 all(2) by auto
  moreover have "\<exists>x\<in>set cs2. cType x = cType c"
  proof (cases found)
    case True
    then have "filter (\<lambda>x. cType x = cType c) cs \<noteq> []"
      using loop' by (auto simp: filter_empty_conv)
    then have "filter (\<lambda>x. cType x = cType c) cs1 \<noteq> []" using all(3) by (metis length_0_conv)
    then show ?thesis using True cs2 by (auto simp: filter_empty_conv)
  next
    case False
    then show ?thesis using cs2 by (auto simp: sameCondition_def)
  qed
  ultimately show ?thesis by blast
qed

definition sampleConditionState :: "cloud st" where
  "sampleConditionState =
     (sampleState ''VSphereCluster'')\<lparr>infraCluster := (sampleInfra ''VSphereCluster'')\<lparr>uConditions :=
        SliceOf [RawMap [(''type'', ''Ready''), (''status'', ''True''), (''reason'', ''r'')]]\<rparr>\<rparr>"

definition sampleCondition :: Condition where
  "sampleCondition = \<lparr>cType = ''GSDNSZoneReady'', cStatus = ''True'', cSeverity = [], cReason = ''r'', cMessage = [],
     cLastTransitionTime = 1\<rparr>"

text \<open>A converter that keeps every field, for the example.\<close>

definition sampleConvK :: "cloud kubeApi" where
  "sampleConvK = sampleK\<lparr>
     conditionToMap := (\<lambda>_ c. if cSeverity c = [] \<and> cMessage c = [] \<and> cLastTransitionTime c = 1
        then Inr [(''type'', cType c), (''status'', cStatus c), (''reason'', cReason c)]
        else Inl (PlainError ''unsupported''))\<rparr>"

theorem SetUnstructuredCondition_sets_witness:
  "\<exists>cs'. currentConditions sampleConvK False
      (infraCluster (snd (SetUnstructuredCondition sampleConvK (CAPICondition sampleCondition) (sampleConditionState\<lparr>world := (sampleCloud ''x'')\<lparr>cNow := 1\<rparr>\<rparr>)))) = Ok cs' \<and>
     (\<exists>x\<in>set cs'. cType x = ''GSDNSZoneReady'')"
proof -
  let ?s = "sampleConditionState\<lparr>world := (sampleCloud ''x'')\<lparr>cNow := 1\<rparr>\<rparr>"
  have run: "SetUnstructuredCondition sampleConvK (CAPICondition sampleCondition) ?s =
      (Ok (), snd (SetUnstructuredCondition sampleConvK (CAPICondition sampleCondition) ?s))"
    unfolding prod_eq_iff by simp code_simp
  have cs: "\<exists>cs. currentConditions sampleConvK False (infraCluster ?s) = Ok cs"
    by (simp add: sampleConditionState_def currentConditions_def sampleConvK_def sampleK_def sampleKube_def)
  have conv: "conditionFromMap sampleConvK False m = Inr x" if "conditionToMap sampleConvK False x = Inr m" for x m
    using that by (auto simp: sampleConvK_def sampleK_def sampleKube_def split: if_splits)
  show ?thesis
    using cs SetUnstructuredCondition_sets [OF conv _ run] by (fastforce simp: sampleCondition_def)
qed

end
