(* ===== verification/Dns_Props.thy ===== *)
theory Dns_Props
  imports Dns_Service Infra_Props
begin

section \<open>More properties of the public DNS service\<close>

text \<open>
  Which addresses are published, what AKS clusters get, the delegation in the base domain, the
  creation of a missing zone, and the resource group with its tags.
\<close>

subsection \<open>Addresses\<close>

text \<open>
  C23: For a cluster with the patcher of this package whose control plane host is an IPv4 address,
  public or private, the desired records start with \<open>api\<close> and \<open>apiserver\<close>, each with that address
  exactly as it is written in the cluster, and a TTL of 300 seconds.
\<close>

theorem api_records_address:
  assumes "svPatcher sv = commonPatcherOps K (NewCommonPatcher client sub tenant cluster)"
    and "isIPv4Literal (clControlPlaneHost cluster)"
    and "\<not> isASOManagedCluster (infraCluster s)"
    and "getDesiredARecords K sv s = (Ok ds, t)"
  shows "take 2 ds = [aRecordSet ''api'' 300 [Some (clControlPlaneHost cluster)],
    aRecordSet ''apiserver'' 300 [Some (clControlPlaneHost cluster)]]"
proof -
  have "api_patcher (svPatcher sv) (clControlPlaneHost cluster)"
    unfolding assms(1) using common.api_patcher_axioms [of K client sub tenant cluster]
    by (simp add: IP_String_ParseIP [OF assms(2)])
  with ParseIP_IPv4_nonnil [OF assms(2)] have "apiAddress sv s = (Ok (clControlPlaneHost cluster), s)"
    by (rule apiAddress_contract [rotated])
  with getDesiredARecords_shape [OF assms(4,3)] show ?thesis by auto
qed

theorem api_records_address_witness:
  "take 2 sampleDesired = [aRecordSet ''api'' 300 [Some ''20.0.0.7''], aRecordSet ''apiserver'' 300 [Some ''20.0.0.7'']]"
proof -
  have "svPatcher sampleSv = commonPatcherOps sampleK (NewCommonPatcher ''client'' ''sub'' ''tenant'' sampleCluster)"
    by (simp add: sampleSv_def sampleDNSScope_def sampleScope_def samplePatcher_def)
  moreover have "isIPv4Literal (clControlPlaneHost sampleCluster)" by code_simp
  moreover have "\<not> isASOManagedCluster (infraCluster sampleZoneState)"
    by (simp add: sampleZoneState_def sampleState_def sampleInfra_def isASOManagedCluster_def kindAzureASOManagedCluster_def)
  ultimately show ?thesis
    using api_records_address [OF _ _ _ sampleDesired_run] by (simp add: sampleCluster_def)
qed

text \<open>
  C28: If the control plane host of a non-AKS cluster is not an IP address (a host name, or not yet
  set), the desired records are an error and nothing is published for a made-up address.
\<close>

theorem hostname_endpoint_error:
  assumes "svPatcher sv = commonPatcherOps K (NewCommonPatcher client sub tenant cluster)"
    and "svPublicIPsService sv = PublicIPService_Get cluster"
    and "ParseIP (clControlPlaneHost cluster) = []"
    and "\<not> isASOManagedCluster (infraCluster s)"
  shows "getDesiredARecords K sv s =
    (Err (Masked (PlainError (''cluster '' @ clName cluster @ '' does not have valid control plane IP address''))), s)"
  using assms
  by (simp add: getDesiredARecords_def getIPAddressForPublicDNS_def PublicIPService_Get_def IsASOManagedCluster_def
      commonPatcherOps_def NewCommonPatcher_def CommonPatcher_IsAPIServerPrivate_def
      CommonPatcher_APIServerPublicIP_def run_simps Let_def)

definition sampleHostnameCluster :: Cluster where
  "sampleHostnameCluster = sampleCluster\<lparr>clControlPlaneHost := ''api.internal''\<rparr>"

definition sampleHostnameSv :: "cloud Service" where
  "sampleHostnameSv = sampleSv\<lparr>svPublicIPsService := PublicIPService_Get sampleHostnameCluster,
     svScope := sampleDNSScope\<lparr>dsScope := sampleScope\<lparr>sPatcher :=
       commonPatcherOps sampleK (NewCommonPatcher ''client'' ''sub'' ''tenant'' sampleHostnameCluster)\<rparr>\<rparr>\<rparr>"

theorem hostname_endpoint_error_witness:
  "fst (getDesiredARecords sampleK sampleHostnameSv sampleZoneState) =
     Err (Masked (PlainError ''cluster wc does not have valid control plane IP address''))"
proof -
  have "ParseIP (clControlPlaneHost sampleHostnameCluster) = []" by code_simp
  moreover have "\<not> isASOManagedCluster (infraCluster sampleZoneState)"
    by (simp add: sampleZoneState_def sampleState_def sampleInfra_def isASOManagedCluster_def kindAzureASOManagedCluster_def)
  ultimately show ?thesis
    using hostname_endpoint_error [of sampleHostnameSv sampleK "''client''" "''sub''" "''tenant''" sampleHostnameCluster sampleZoneState]
    by (simp add: sampleHostnameSv_def sampleHostnameCluster_def sampleCluster_def)
qed

subsection \<open>AKS clusters\<close>

fun isARecordWrite :: "request \<Rightarrow> bool" where
  "isARecordWrite (RecordSetsCreateOrUpdate rg zone ty name r) \<longleftrightarrow> ty = RecordTypeA"
| "isARecordWrite q \<longleftrightarrow> False"

text \<open>
  C25: A successful reconciliation of an AKS cluster writes no A record at all (its API server is
  reached under a name of Azure's and ingress records are external-dns's business).
\<close>

theorem aks_no_A_records:
  assumes "New A scope (worldGetter g) s0 = (Ok sv, s1)"
    and "isASOManagedCluster (infraCluster s)"
    and "Reconcile K sv s = (Ok (), t)"
  shows "\<exists>ws. azureWrites t = azureWrites s @ ws \<and> (\<forall>(a, q)\<in>set ws. \<not> isARecordWrite q)"
proof -
  obtain a b where sv: "sv = serviceOf A scope (uniformClient a) (uniformClient b) g"
    using New_service [OF assms(1)] by blast
  have aks: "ars = []" if "calculateMissingARecords K sv cur u = (Ok (ars, cur'), v)" "infraCluster u = infraCluster s"
    for ars cur cur' u v
    using that assms(2) by (simp add: calculateMissingARecords_def getDesiredARecords_aks run_simps)
  show ?thesis
    using svc.Reconcile_run [OF assms(3) [unfolded sv]] aks by (fastforce simp: sv)
qed

theorem aks_no_A_records_witness:
  "\<exists>ws. azureWrites (snd (Reconcile sampleK sampleSv (sampleState ''AzureASOManagedCluster''))) = ws \<and>
     (\<forall>(a, q)\<in>set ws. \<not> isARecordWrite q)"
proof -
  let ?m = "Reconcile sampleK sampleSv (sampleState ''AzureASOManagedCluster'')"
  have run: "?m = (Ok (), snd ?m)" unfolding prod_eq_iff by simp code_simp
  have "isASOManagedCluster (infraCluster (sampleState ''AzureASOManagedCluster''))"
    by (simp add: sampleState_def sampleInfra_def isASOManagedCluster_def kindAzureASOManagedCluster_def)
  from aks_no_A_records [OF sampleSv_New this run] show ?thesis
    by (simp add: sampleState_def azureWrites_def List.map_filter_def)
qed

subsection \<open>The delegation in the base domain\<close>

text \<open>
  The record sets a listing of the SDK returns are freshly decoded: none of their name pointers is
  the address of a field of the operator's own \<^verbatim>\<open>Cluster\<close> object.
\<close>

definition freshNames :: "'w azureSdk \<Rightarrow> bool" where
  "freshNames A \<longleftrightarrow> (\<forall>a rg zone w rs r. Inr rs \<in> set (fst (recordSets_Pages A a rg zone w)) \<longrightarrow> r \<in> set rs \<longrightarrow>
     \<not> pointsTo (rsName r) ClusterNameField)"

lemma nsRecordExistsLoop_fresh:
  "\<forall>r\<in>set rs. \<not> pointsTo (rsName r) ClusterNameField \<Longrightarrow> nsRecordExistsLoop rs found = Ok found"
  by (induction rs) auto

lemma listed_fresh:
  assumes "freshNames A" "ListRecordSets (azureClientOps A ac) rg zone s = (Ok rs, t)" "r \<in> set rs"
  shows "\<not> pointsTo (rsName r) ClusterNameField"
proof -
  obtain xss where "fst (recordSets_Pages A (acRecordSets ac) rg zone (world s)) = map Inr xss" "rs = concat xss"
    using assms(2) by (auto simp: azure_ListRecordSets_run collectPages_Ok split: prod.splits)
  moreover then obtain xs where "xs \<in> set xss" "r \<in> set xs" using assms(3) by auto
  ultimately have "Inr xs \<in> set (fst (recordSets_Pages A (acRecordSets ac) rg zone (world s)))" by simp
  with \<open>r \<in> set xs\<close> show ?thesis using assms(1) unfolding freshNames_def by blast
qed

text \<open>
  C24: Every successful reconciliation writes the cluster's NS record in the base domain, also when
  the base domain already has it with the right name servers: the code looks for the record by
  comparing the name pointer of each listed record with the address of the cluster's name, and a
  listed record never has that address.
\<close>

theorem delegation_always_written:
  assumes "New A scope (worldGetter g) s0 = (Ok sv, s1)"
    and "freshNames A"
    and "Reconcile K sv s = (Ok (), t)"
  shows "\<exists>pre b ns post. armSubscription b = bzSubscriptionID (dsBaseZoneCredentials scope) \<and>
    azureWrites t = azureWrites s @ pre @
      [(b, RecordSetsCreateOrUpdate (dsBaseDomainResourceGroup scope) (dsBaseDomain scope) RecordTypeNS
             (pClusterName (dsPatcher scope)) (nsRecordSet ns))] @ post"
proof -
  obtain a b where sv: "sv = serviceOf A scope (uniformClient a) (uniformClient b) g"
      and b: "armSubscription b = bzSubscriptionID (dsBaseZoneCredentials scope)"
    using New_service [OF assms(1)] by blast
  obtain pre u v post where parts: "azureWrites u = azureWrites s @ pre" "azureWrites t = azureWrites v @ post"
      and del: "reconcileDelegation sv u = (Ok (), v)"
    using svc.Reconcile_delegation [OF assms(3) [unfolded sv]] by (auto simp: sv)
  obtain p :: ZoneProperties and x y bs ex where bs: "ListRecordSets (azureClientOps A (uniformClient b)) (dsBaseDomainResourceGroup scope)
        (dsBaseDomain scope) x = (Ok bs, y)" "nsRecordExistsLoop bs False = Ok ex"
      and w: "azureWrites v = azureWrites u @ (if ex then [] else
        [(b, RecordSetsCreateOrUpdate (dsBaseDomainResourceGroup scope) (dsBaseDomain scope) RecordTypeNS
             (pClusterName (dsPatcher scope)) (nsRecordSet (NameServers p)))])"
    using svc.reconcileDelegation_run [OF del [unfolded sv]] unfolding serviceOf_fields uniformClient_fields
    by blast
  have "\<not> ex" using bs listed_fresh [OF assms(2) bs(1)] nsRecordExistsLoop_fresh by fastforce
  with parts w b show ?thesis by auto
qed

definition sampleDelegatedState :: "cloud st" where
  "sampleDelegatedState = (sampleState ''AzureASOManagedCluster'')\<lparr>world :=
     (sampleCloud ''AzureASOManagedCluster'')\<lparr>
       cZones := [(''wc'', ''wc.example.io''), (''base-rg'', ''example.io'')],
       cRecords := [((''base-rg'', ''example.io''),
         [storedRecordSet ''NS'' ''wc'' (nsRecordSet [Some ''ns1-01.azure-dns.com.''])])]\<rparr>\<rparr>"

text \<open>In the in-memory cloud every listed name lives in a cell of its own when it did before.\<close>

definition decodedSdk :: "cloud azureSdk" where
  "decodedSdk = sampleSdk\<lparr>recordSets_Pages := (\<lambda>a rg zone w.
     if (rg, zone) \<in> set (cZones w)
     then ([Inr (map (\<lambda>r. case rsName r of NilPtr \<Rightarrow> r | Ptr ad x \<Rightarrow> r\<lparr>rsName := Ptr HeapCell x\<rparr>)
                  (bucket (cRecords w) (rg, zone)))], w)
     else ([Inl parentMissing], w))\<rparr>"

lemma freshNames_decodedSdk: "freshNames decodedSdk"
  by (auto simp: freshNames_def decodedSdk_def split: strptr.splits if_splits)

definition decodedSv :: "cloud Service" where
  "decodedSv = serviceOf decodedSdk sampleDNSScope (uniformClient sampleArm) (uniformClient sampleBaseArm) sampleGetter"

lemma decodedSv_New: "New decodedSdk sampleDNSScope (worldGetter sampleGetter) s = (Ok decodedSv, s)"
  using sampleSv_New [of s]
  by (simp add: New_def newAzureClient_def newBaseZoneClient_def newClientSet_def newSdkClient_def run_simps
      decodedSv_def serviceOf_def uniformClient_def sampleArm_def sampleBaseArm_def decodedSdk_def sampleSdk_def
      sampleDNSScope_def sampleScope_def samplePatcher_def commonPatcherOps_def NewCommonPatcher_def
      sampleIdentity_def AzureClientSecret_def secretValue_def Let_def)

theorem delegation_always_written_witness:
  "\<exists>pre b ns post. armSubscription b = ''bsub'' \<and>
     azureWrites (snd (Reconcile sampleK decodedSv sampleDelegatedState)) = pre @
       [(b, RecordSetsCreateOrUpdate ''base-rg'' ''example.io'' ''NS'' ''wc'' (nsRecordSet ns))] @ post"
proof -
  let ?m = "Reconcile sampleK decodedSv sampleDelegatedState"
  have run: "?m = (Ok (), snd ?m)" unfolding prod_eq_iff by simp code_simp
  show ?thesis
    using delegation_always_written [OF decodedSv_New freshNames_decodedSdk run]
    by (simp add: sampleDNSScope_def sampleScope_def samplePatcher_def commonPatcherOps_def NewCommonPatcher_def
        sampleCluster_def sampleDelegatedState_def sampleState_def azureWrites_def List.map_filter_def)
qed

subsection \<open>A missing zone\<close>

text \<open>
  C26: If the listing of the cluster's zone fails because the zone does not exist, however many
  times the error has been wrapped on the way, the service sends one request, the creation of the
  zone under the cluster's domain in the cluster's resource group, and goes on with an empty zone
  if that succeeds.
\<close>

theorem missing_zone_created:
  assumes "New A scope (worldGetter g) s0 = (Ok sv, s1)"
    and "\<And>a. fst (recordSets_Pages A a (DNSScope_ResourceGroup scope) (ClusterDomain scope) (world s)) = Inl e # ps"
    and "Cause e = ResponseError ''ParentResourceNotFound''"
  shows "\<exists>a. armSubscription a = pSubscriptionID (dsPatcher scope) \<and>
    azureWrites (snd (listOrCreateZone sv s)) = azureWrites s @
      [(a, ZonesCreateOrUpdate (DNSScope_ResourceGroup scope) (ClusterDomain scope)
         \<lparr>zoneName = Some (ClusterDomain scope), zoneLocation = Some ''global'', zoneProperties = None\<rparr>)] \<and>
    ((\<forall>w. \<exists>z w'. zones_CreateOrUpdate A a (DNSScope_ResourceGroup scope) (ClusterDomain scope)
         \<lparr>zoneName = Some (ClusterDomain scope), zoneLocation = Some ''global'', zoneProperties = None\<rparr> w = (Inr z, w'))
      \<longrightarrow> fst (listOrCreateZone sv s) = Ok [])"
proof -
  obtain a b where sv: "sv = serviceOf A scope (uniformClient a) (uniformClient b) g"
      and a: "armSubscription a = pSubscriptionID (dsPatcher scope)"
    using New_service [OF assms(1)] by blast
  let ?rg = "DNSScope_ResourceGroup scope" and ?zone = "ClusterDomain scope"
  let ?z = "\<lparr>zoneName = Some ?zone, zoneLocation = Some ''global'', zoneProperties = None\<rparr>"
  obtain w where pages: "recordSets_Pages A a ?rg ?zone (world s) = (Inl e # ps, w)"
    using assms(2) [of a] by (metis prod.collapse)
  obtain u where u: "azure_ListRecordSets A (uniformClient a) ?rg ?zone s = (Err (Masked e), u)"
    using pages by (simp add: azure_ListRecordSets_run)
  have "azureWrites u = azureWrites s" using azure.client_reads(2) [OF u [folded ListRecordSets_azure]] by simp
  moreover have "listOrCreateZone sv s =
      bindM (masked (masked (CreateOrUpdateZone (azureClientOps A (uniformClient a)) ?rg ?zone ?z))) (\<lambda>_. ret ([] :: RecordSet list)) u"
    using u assms(3)
    by (simp add: listOrCreateZone_def createClusterDNSZone_def sv run_simps IsParentResourceNotFound_iff)
  moreover have "sends [(a, ZonesCreateOrUpdate ?rg ?zone ?z)]
      (bindM (masked (masked (CreateOrUpdateZone (azureClientOps A (uniformClient a)) ?rg ?zone ?z))) (\<lambda>_. ret ([] :: RecordSet list)))"
    using azure.CreateOrUpdateZone_sends [of "uniformClient a" ?rg ?zone ?z A]
    by (intro sends_bind_tail sends_masked sends_basic) simp
  moreover have "fst (bindM (masked (masked (CreateOrUpdateZone (azureClientOps A (uniformClient a)) ?rg ?zone ?z)))
      (\<lambda>_. ret ([] :: RecordSet list)) u) = Ok []" if created: "\<forall>w. \<exists>z w'. zones_CreateOrUpdate A a ?rg ?zone ?z w = (Inr z, w')"
  proof -
    obtain z w' where "zones_CreateOrUpdate A a ?rg ?zone ?z (world u) = (Inr z, w')" using created by blast
    then show ?thesis
      by (simp add: azureClientOps_def azure_CreateOrUpdateZone_def countErrors_def run_simps)
  qed
  ultimately show ?thesis using a by (intro exI [of _ a]) (simp add: sends_def)
qed

theorem missing_zone_created_witness:
  "\<exists>a. armSubscription a = ''sub'' \<and>
     azureWrites (snd (listOrCreateZone sampleSv (sampleState ''VSphereCluster''))) =
       [(a, ZonesCreateOrUpdate ''wc'' ''wc.example.io''
          \<lparr>zoneName = Some ''wc.example.io'', zoneLocation = Some ''global'', zoneProperties = None\<rparr>)] \<and>
     fst (listOrCreateZone sampleSv (sampleState ''VSphereCluster'')) = Ok []"
  using missing_zone_created [OF sampleSv_New, of "sampleState ''VSphereCluster''" parentMissing "[]"]
  by (simp add: sampleDNSScope_names sampleSdk_def sampleState_def sampleCloud_def parentMissing_def azureWrites_def
      List.map_filter_def)

text \<open>
  C27: Any other failure of the listing, of whichever page, ends the reconciliation of an \<^verbatim>\<open>AzureCluster\<close> with
  an error that wraps it, before anything is written: the pages that came before the failure are not
  taken for the zone.
\<close>

theorem list_failure_stops:
  assumes "New A scope (worldGetter g) s0 = (Ok sv, s1)"
    and "isAzureCluster (infraCluster s)"
    and "\<And>a. fst (recordSets_Pages A a (DNSScope_ResourceGroup scope) (ClusterDomain scope) (world s)) = map Inr xss @ Inl e # ps"
    and "Cause e \<noteq> ResponseError ''ParentResourceNotFound''"
  shows "fst (Reconcile K sv s) = Err (Masked (Masked e)) \<and> azureWrites (snd (Reconcile K sv s)) = azureWrites s"
proof -
  obtain a b where sv: "sv = serviceOf A scope (uniformClient a) (uniformClient b) g"
    using New_service [OF assms(1)] by blast
  obtain w where "recordSets_Pages A a (DNSScope_ResourceGroup scope) (ClusterDomain scope) (world s) = (map Inr xss @ Inl e # ps, w)"
    using assms(3) [of a] by (metis prod.collapse)
  then show ?thesis
    using assms(2,4)
    by (simp add: Reconcile_def reconcileResourceGroup_def IsAzureCluster_def listOrCreateZone_def sv run_simps
        azure_ListRecordSets_run collectPages_Err IsParentResourceNotFound_iff azureWrites_def List.map_filter_def)
qed

text \<open>A service that answers the first page and then throttles.\<close>

definition throttledSdk :: "cloud azureSdk" where
  "throttledSdk = sampleSdk\<lparr>recordSets_Pages := (\<lambda>a rg zone w.
     ([Inr sampleCurrent, Inl (ResponseError ''TooManyRequests'')], w))\<rparr>"

definition throttledSv :: "cloud Service" where
  "throttledSv = serviceOf throttledSdk sampleDNSScope (uniformClient sampleArm) (uniformClient sampleBaseArm) sampleGetter"

lemma throttledSv_New: "New throttledSdk sampleDNSScope (worldGetter sampleGetter) s = (Ok throttledSv, s)"
  by (simp add: New_def newAzureClient_def newBaseZoneClient_def newClientSet_def newSdkClient_def run_simps
      throttledSv_def serviceOf_def uniformClient_def sampleArm_def sampleBaseArm_def throttledSdk_def sampleSdk_def
      sampleDNSScope_def sampleScope_def samplePatcher_def commonPatcherOps_def NewCommonPatcher_def
      sampleIdentity_def AzureClientSecret_def secretValue_def Let_def)

theorem list_failure_stops_witness:
  "fst (Reconcile sampleK throttledSv (sampleState ''AzureCluster'')) =
     Err (Masked (Masked (ResponseError ''TooManyRequests'')))"
  using list_failure_stops [OF throttledSv_New, of "sampleState ''AzureCluster''" "[sampleCurrent]"
      "ResponseError ''TooManyRequests''" "[]" sampleK]
  by (simp add: throttledSdk_def sampleState_def sampleInfra_def isAzureCluster_def kindAzureCluster_def)

subsection \<open>The resource group\<close>

text \<open>
  C38: Deleting the cluster's resource group succeeds when Azure reports that the group does not
  exist, so a deletion can be repeated; every other error of the request is returned, wrapped, and
  still has the code of Azure's error.
\<close>

theorem resource_group_delete_idempotent:
  assumes "New A scope (worldGetter g) s0 = (Ok sv, s1)"
    and "\<And>a. fst (resourceGroups_BeginDelete A a (DNSScope_ResourceGroup scope) (world s)) = Inl (ResponseError code)"
  shows "if code = ''ResourceGroupNotFound'' then fst (deleteClusterResourceGroup sv s) = Ok ()
    else \<exists>e. fst (deleteClusterResourceGroup sv s) = Err e \<and> AsResponseError e = Some code"
proof -
  obtain a b where sv: "sv = serviceOf A scope (uniformClient a) (uniformClient b) g"
    using New_service [OF assms(1)] by blast
  obtain w where "resourceGroups_BeginDelete A a (DNSScope_ResourceGroup scope) (world s) = (Inl (ResponseError code), w)"
    using assms(2) [of a] by (metis prod.collapse)
  then show ?thesis
    by (simp add: deleteClusterResourceGroup_def sv azureClientOps_def azure_DeleteResourceGroup_def run_simps
        IsResourceNotFoundError_Masked resourceNotFoundError_def)
qed

theorem resource_group_delete_idempotent_witness:
  "fst (deleteClusterResourceGroup sampleSv (sampleState ''VSphereCluster'')) = Ok ()"
  using resource_group_delete_idempotent [OF sampleSv_New, of "sampleState ''VSphereCluster''" "''ResourceGroupNotFound''"]
  by (simp add: sampleDNSScope_names sampleSdk_def sampleState_def sampleCloud_def)

text \<open>
  C37: If the cluster's resource group does not exist and a location is configured, the service
  sends one request, which creates the group under the cluster's name in that location with the
  tags of the scope.
\<close>

theorem resource_group_created:
  assumes "New A scope (worldGetter g) s0 = (Ok sv, s1)"
    and "\<And>a. fst (resourceGroups_Get A a (DNSScope_ResourceGroup scope) (world s)) =
      Inl (ResponseError ''ResourceGroupNotFound'')"
    and "sAzureLocation (dsScope scope) = location" "location \<noteq> []"
  shows "\<exists>a. armSubscription a = pSubscriptionID (dsPatcher scope) \<and>
    azureWrites (snd (createClusterResourceGroup K sv s)) = azureWrites s @
      [(a, ResourceGroupsCreateOrUpdate (DNSScope_ResourceGroup scope)
         \<lparr>rgName = Some (DNSScope_ResourceGroup scope), rgLocation = Some location, rgTags = dsResourceTags scope,
          rgProperties = None\<rparr>)]"
proof -
  obtain a b where sv: "sv = serviceOf A scope (uniformClient a) (uniformClient b) g"
      and a: "armSubscription a = pSubscriptionID (dsPatcher scope)"
    using New_service [OF assms(1)] by blast
  let ?rg = "DNSScope_ResourceGroup scope"
  let ?g = "\<lparr>rgName = Some ?rg, rgLocation = Some location, rgTags = dsResourceTags scope, rgProperties = None\<rparr>"
  obtain w where "resourceGroups_Get A a ?rg (world s) = (Inl (ResponseError ''ResourceGroupNotFound''), w)"
    using assms(2) [of a] by (metis prod.collapse)
  then obtain u where u: "GetResourceGroup (azureClientOps A (uniformClient a)) ?rg s = (Err (Masked resourceNotFoundError), u)"
    by (simp add: azureClientOps_def azure_GetResourceGroup_def run_simps)
  then have "createClusterResourceGroup K sv s =
      masked (CreateOrUpdateResourceGroup (azureClientOps A (uniformClient a)) ?rg ?g) u"
    using assms(3,4) by (simp add: createClusterResourceGroup_def resourceGroupLocation_def sv run_simps)
  moreover have "sends [(a, ResourceGroupsCreateOrUpdate ?rg ?g)]
      (masked (CreateOrUpdateResourceGroup (azureClientOps A (uniformClient a)) ?rg ?g))"
    using azure.CreateOrUpdateResourceGroup_sends [of "uniformClient a" ?rg ?g A] by (simp add: sends_masked)
  ultimately show ?thesis
    using a azure.client_reads(3) [OF u] by (intro exI [of _ a]) (simp add: sends_def)
qed

theorem resource_group_created_witness:
  "\<exists>a. armSubscription a = ''sub'' \<and>
     azureWrites (snd (createClusterResourceGroup sampleK sampleSv (sampleState ''VSphereCluster''))) =
       [(a, ResourceGroupsCreateOrUpdate ''wc'' \<lparr>rgName = Some ''wc'', rgLocation = Some ''westeurope'',
          rgTags = [(''team'', Some ''phoenix'')], rgProperties = None\<rparr>)]"
proof -
  have "sAzureLocation (dsScope sampleDNSScope) = ''westeurope''" "dsResourceTags sampleDNSScope = [(''team'', Some ''phoenix'')]"
    by (simp_all add: sampleDNSScope_def sampleScope_def)
  then show ?thesis
    using resource_group_created [OF sampleSv_New, of "sampleState ''VSphereCluster''" "''westeurope''" sampleK]
    by (simp add: sampleDNSScope_names sampleSdk_def sampleState_def sampleCloud_def azureWrites_def List.map_filter_def)
qed

subsection \<open>Records of services\<close>

text \<open>
  Which services are published, as the annotations and the type of a service say it: managed by
  external-dns in the sense of Giant Swarm, with a hostname, and of type \<^verbatim>\<open>LoadBalancer\<close>; its address is the
  first one of the load balancer.
\<close>

definition publishedService :: "KService \<Rightarrow> bool" where
  "publishedService svc \<longleftrightarrow>
     lookupStr (svcAnnotations svc) ''giantswarm.io/external-dns'' = ''managed'' \<and>
     lookupStr (svcAnnotations svc) ''external-dns.alpha.kubernetes.io/hostname'' \<noteq> [] \<and>
     svcType svc = ''LoadBalancer''"

definition hasAddress :: "KService \<Rightarrow> bool" where
  "hasAddress svc \<longleftrightarrow> svcIngressIPs svc \<noteq> [] \<and> hd (svcIngressIPs svc) \<noteq> []"

definition serviceRecord :: "string \<Rightarrow> KService \<Rightarrow> RecordSet" where
  "serviceRecord zone svc =
     aRecordSet (TrimSuffix (lookupStr (svcAnnotations svc) ''external-dns.alpha.kubernetes.io/hostname'') (''.'' @ zone)) 300
       [Some (hd (svcIngressIPs svc))]"

lemma managedHostname_published:
  "managedHostname svc = (if publishedService svc
     then Some (lookupStr (svcAnnotations svc) ''external-dns.alpha.kubernetes.io/hostname'') else None)"
  by (auto simp: managedHostname_def publishedService_def lookupStr_def split: option.splits)

lemma loadBalancerIP_address: "loadBalancerIP svc = (if hasAddress svc then Some (hd (svcIngressIPs svc)) else None)"
  by (auto simp: loadBalancerIP_def hasAddress_def split: list.splits)

lemma ingressLoop_published:
  "ingressLoop zone svcs = (case find publishedService svcs of
      None \<Rightarrow> Ok None
    | Some svc \<Rightarrow> if hasAddress svc then Ok (Some (serviceRecord zone svc)) else Err (Masked ingressNotReadyError))"
  by (induction svcs) (simp_all add: managedHostname_published loadBalancerIP_address serviceRecord_def)

text \<open>
  C39: The ingress record is decided by the first published service in the list the API returns for
  the ingress controllers: a service with the annotation \<^verbatim>\<open>giantswarm.io/external-dns: managed\<close>, a non-empty
  hostname annotation and the type \<^verbatim>\<open>LoadBalancer\<close>. Without an address it is an error that
  \<^verbatim>\<open>IsIngressNotReady\<close> recognises, otherwise the record of its hostname, made relative to the zone, with its
  first address and a TTL of 300 seconds. Without such a service there is no record and no error.
\<close>

theorem ingress_record_first_service:
  assumes "ClusterK8sClient K (dsScope (svScope sv)) s = (Ok (c, sc), s')"
    and "listServices K c ''kube-system'' (Some ''app.kubernetes.io/name in (ingress-nginx,nginx-ingress-controller)'') (world s') = (Inr svcs, w)"
  shows "case find (\<lambda>svc. lookupStr (svcAnnotations svc) ''giantswarm.io/external-dns'' = ''managed'' \<and>
        lookupStr (svcAnnotations svc) ''external-dns.alpha.kubernetes.io/hostname'' \<noteq> [] \<and> svcType svc = ''LoadBalancer'') svcs of
      None \<Rightarrow> \<exists>sv'. fst (getIngressARecord K sv s) = Ok (None, sv')
    | Some svc \<Rightarrow>
        if svcIngressIPs svc \<noteq> [] \<and> hd (svcIngressIPs svc) \<noteq> []
        then \<exists>sv'. fst (getIngressARecord K sv s) = Ok (Some (aRecordSet
          (TrimSuffix (lookupStr (svcAnnotations svc) ''external-dns.alpha.kubernetes.io/hostname'') (''.'' @ ClusterDomain (svScope sv)))
          300 [Some (hd (svcIngressIPs svc))]), sv')
        else \<exists>e. fst (getIngressARecord K sv s) = Err e \<and> IsIngressNotReady (Some e)"
proof -
  have "fst (getIngressARecord K sv s) =
      bindR (ingressLoop (svDomain sv) svcs) (\<lambda>r. Ok (r, sv\<lparr>svScope := (svScope sv)\<lparr>dsScope := sc\<rparr>\<rparr>))"
    using assms by (cases "ingressLoop (svDomain sv) svcs") (simp_all add: getIngressARecord_def run_simps)
  then show ?thesis
    unfolding publishedService_def [symmetric] hasAddress_def [symmetric] serviceRecord_def [symmetric]
    by (auto simp: ingressLoop_published IsIngressNotReady_def ingressNotReadyError_def split: option.splits)
qed

definition pendingService :: KService where
  "pendingService = sampleService\<lparr>svcIngressIPs := []\<rparr>"

definition internalService :: KService where
  "internalService = sampleService\<lparr>svcType := ''ClusterIP''\<rparr>"

theorem ingress_record_first_service_witness:
  "\<exists>sv'. fst (getIngressARecord (sampleK\<lparr>listServices := \<lambda>_ _ _ w. (Inr [internalService, sampleService, pendingService], w)\<rparr>)
     sampleSv sampleZoneState) = Ok (Some (aRecordSet ''ingress'' 300 [Some ''20.0.0.9'']), sv')"
proof -
  let ?K = "sampleK\<lparr>listServices := \<lambda>_ _ _ w. (Inr [internalService, sampleService, pendingService], w)\<rparr>"
  let ?c = "ClusterK8sClient ?K (dsScope (svScope sampleSv)) sampleZoneState"
  have "(case fst ?c of Ok x \<Rightarrow> True | _ \<Rightarrow> False)" by code_simp
  then obtain x where "fst ?c = Ok x" by (cases "fst ?c") simp_all
  then have c: "?c = (Ok (fst x, snd x), snd ?c)" by (metis prod.collapse)
  have zone: "TrimSuffix ''ingress.wc.example.io'' (''.'' @ ClusterDomain (svScope sampleSv)) = ''ingress''" by code_simp
  show ?thesis
    using ingress_record_first_service [OF c, of "[internalService, sampleService, pendingService]" "world (snd ?c)"] zone
    by (simp add: internalService_def sampleService_def)
qed

text \<open>
  C40: The gateway records are one per published service of the gateway namespace that has an address, in
  the order the API lists them: published as for the ingress record, by the annotation
  \<^verbatim>\<open>giantswarm.io/external-dns: managed\<close>, a non-empty hostname annotation and the type \<^verbatim>\<open>LoadBalancer\<close>. Services
  without an address are skipped and are no error.
\<close>

theorem gateway_records_all_services:
  assumes "ClusterK8sClient K (dsScope (svScope sv)) s = (Ok (c, sc), s')"
    and "listServices K c ''envoy-gateway-system'' None (world s') = (Inr svcs, w)"
  shows "\<exists>sv'. fst (getGatewayARecords K sv s) = Ok (map (\<lambda>svc. aRecordSet
        (TrimSuffix (lookupStr (svcAnnotations svc) ''external-dns.alpha.kubernetes.io/hostname'') (''.'' @ ClusterDomain (svScope sv)))
        300 [Some (hd (svcIngressIPs svc))])
      (filter (\<lambda>svc. lookupStr (svcAnnotations svc) ''giantswarm.io/external-dns'' = ''managed'' \<and>
        lookupStr (svcAnnotations svc) ''external-dns.alpha.kubernetes.io/hostname'' \<noteq> [] \<and> svcType svc = ''LoadBalancer'' \<and>
        svcIngressIPs svc \<noteq> [] \<and> hd (svcIngressIPs svc) \<noteq> []) svcs), sv')"
proof -
  have "gatewayLoop zone svcs [] = map (serviceRecord zone) (filter (\<lambda>svc. publishedService svc \<and> hasAddress svc) svcs)" for zone
    unfolding gatewayLoop_filter
    by (induction svcs)
      (simp_all add: List.map_filter_def gatewayRecord_def managedHostname_published loadBalancerIP_address serviceRecord_def)
  then show ?thesis
    using assms by (simp add: getGatewayARecords_def run_simps publishedService_def hasAddress_def serviceRecord_def [abs_def])
qed

theorem gateway_records_all_services_witness:
  "\<exists>sv'. fst (getGatewayARecords (sampleK\<lparr>listServices := \<lambda>_ _ _ w. (Inr [pendingService, sampleService, internalService], w)\<rparr>)
     sampleSv sampleZoneState) = Ok ([aRecordSet ''ingress'' 300 [Some ''20.0.0.9'']], sv')"
proof -
  let ?K = "sampleK\<lparr>listServices := \<lambda>_ _ _ w. (Inr [pendingService, sampleService, internalService], w)\<rparr>"
  let ?c = "ClusterK8sClient ?K (dsScope (svScope sampleSv)) sampleZoneState"
  have "(case fst ?c of Ok x \<Rightarrow> True | _ \<Rightarrow> False)" by code_simp
  then obtain x where "fst ?c = Ok x" by (cases "fst ?c") simp_all
  then have c: "?c = (Ok (fst x, snd x), snd ?c)" by (metis prod.collapse)
  have zone: "TrimSuffix ''ingress.wc.example.io'' (''.'' @ ClusterDomain (svScope sampleSv)) = ''ingress''" by code_simp
  show ?thesis
    using gateway_records_all_services [OF c, of "[pendingService, sampleService, internalService]" "world (snd ?c)"] zone
    by (simp add: internalService_def pendingService_def sampleService_def)
qed

subsection \<open>Two clusters\<close>

text \<open>The resource of Azure a request is about, whatever it sends there.\<close>

datatype resource =
    GroupResource string
  | ZoneResource string string
  | RecordResource string string string string
  | PrivateZoneResource string string
  | PrivateRecordResource string string string string
  | LinkResource string string string

fun resourceOf :: "request \<Rightarrow> resource" where
  "resourceOf (ZonesGet rg zone) = ZoneResource rg zone"
| "resourceOf (ZonesCreateOrUpdate rg zone z) = ZoneResource rg zone"
| "resourceOf (ZonesBeginDelete rg zone) = ZoneResource rg zone"
| "resourceOf (RecordSetsList rg zone) = ZoneResource rg zone"
| "resourceOf (RecordSetsCreateOrUpdate rg zone ty name r) = RecordResource rg zone ty name"
| "resourceOf (RecordSetsDelete rg zone ty name) = RecordResource rg zone ty name"
| "resourceOf (ResourceGroupsGet rg) = GroupResource rg"
| "resourceOf (ResourceGroupsCreateOrUpdate rg g) = GroupResource rg"
| "resourceOf (ResourceGroupsBeginDelete rg) = GroupResource rg"
| "resourceOf (PrivateZonesGet rg zone) = PrivateZoneResource rg zone"
| "resourceOf (PrivateZonesBeginCreateOrUpdate rg zone z) = PrivateZoneResource rg zone"
| "resourceOf (PrivateZonesBeginDelete rg zone) = PrivateZoneResource rg zone"
| "resourceOf (PrivateRecordSetsListByType rg zone ty) = PrivateZoneResource rg zone"
| "resourceOf (PrivateRecordSetsList rg zone) = PrivateZoneResource rg zone"
| "resourceOf (PrivateRecordSetsCreateOrUpdate rg zone ty name r) = PrivateRecordResource rg zone ty name"
| "resourceOf (VnetLinksList rg zone) = PrivateZoneResource rg zone"
| "resourceOf (VnetLinksBeginCreateOrUpdate rg zone name l) = LinkResource rg zone name"
| "resourceOf (VnetLinksBeginDelete rg zone name) = LinkResource rg zone name"
| "resourceOf (PollUntilDone q) = resourceOf q"

text \<open>The resources of a cluster: its group, its zone, the records of its zone and its delegation.\<close>

definition clusterResources :: "'w DNSScope \<Rightarrow> resource set" where
  "clusterResources sc =
     {GroupResource (DNSScope_ResourceGroup sc), ZoneResource (DNSScope_ResourceGroup sc) (ClusterDomain sc),
      RecordResource (dsBaseDomainResourceGroup sc) (dsBaseDomain sc) RecordTypeNS (pClusterName (dsPatcher sc))} \<union>
     {RecordResource (DNSScope_ResourceGroup sc) (ClusterDomain sc) ty name |ty name. True}"

lemma cluster_write_resource: "clusterWrite sc q \<or> delegationWrite sc q \<Longrightarrow> resourceOf q \<in> clusterResources sc"
  by (cases q) (auto simp: clusterResources_def)

lemma clusterResources_disjoint:
  fixes sc sc' :: "'w DNSScope"
  assumes "dsBaseDomain sc = dsBaseDomain sc'" "pClusterName (dsPatcher sc) \<noteq> pClusterName (dsPatcher sc')"
  shows "clusterResources sc \<inter> clusterResources sc' = {}"
  using assms pub.domain_not_base [of sc] pub.domain_not_base [of sc'] pub.domains_differ [of sc sc']
  by (auto simp: clusterResources_def DNSScope_ResourceGroup_def)

text \<open>
  C9: Reconciliations of different clusters do not interfere: for two clusters with the same base
  domain and different names, whatever their outcomes and the states they run in, no resource group,
  zone or record that a mutating request of one is about, whatever it sends there, is the subject of a
  mutating request of the other. The delegation of each in the base domain is a record of its own.
\<close>

theorem reconciliations_disjoint:
  fixes A A' :: "'w azureSdk"
  assumes "New A sc (worldGetter g) (s0 :: 's) = (Ok sv, s1)" "Reconcile K sv s = (r, t)" "azureWrites t = azureWrites s @ ws"
    and "New A' sc' (worldGetter g') (s0' :: 's) = (Ok sv', s1')" "Reconcile K' sv' s' = (r', t')" "azureWrites t' = azureWrites s' @ ws'"
    and "dsBaseDomain sc = dsBaseDomain sc'" "pClusterName (dsPatcher sc) \<noteq> pClusterName (dsPatcher sc')"
  shows "resourceOf ` snd ` set ws \<inter> resourceOf ` snd ` set ws' = {}"
proof -
  have within: "resourceOf ` snd ` set vs \<subseteq> clusterResources scope"
    if new: "New B scope (worldGetter h) u0 = (Ok sw, u1)" and run: "Reconcile L sw u = (q, v)"
      and vs: "azureWrites v = azureWrites u @ vs" 
    for B :: "'w azureSdk" and scope h and u0 u1 :: 's and sw L u q v vs
  proof -
    obtain a b where "sw = serviceOf B scope (uniformClient a) (uniformClient b) h" using New_service [OF new] by blast
    from writesOnlyD [OF svc.Reconcile_writesOnly run [unfolded this]] vs
    have "\<forall>w\<in>set vs. clusterWrite scope (snd w) \<or> delegationWrite scope (snd w)" by fastforce
    then show ?thesis using cluster_write_resource by fastforce
  qed
  show ?thesis
    using within [OF assms(1,2,3)] within [OF assms(4,5,6)] clusterResources_disjoint [OF assms(7,8)] by blast
qed

definition otherDNSScope :: "cloud DNSScope" where
  "otherDNSScope = sampleDNSScope\<lparr>dsScope := sampleScope\<lparr>sPatcher := samplePatcher\<lparr>pClusterName := ''other''\<rparr>\<rparr>\<rparr>"

definition otherSv :: "cloud Service" where
  "otherSv = serviceOf sampleSdk otherDNSScope (uniformClient sampleArm) (uniformClient sampleBaseArm) sampleGetter"

lemma otherSv_New: "New sampleSdk otherDNSScope (worldGetter sampleGetter) s = (Ok otherSv, s)"
  by (simp add: New_def newAzureClient_def newBaseZoneClient_def newClientSet_def newSdkClient_def run_simps
      otherSv_def otherDNSScope_def serviceOf_def uniformClient_def sampleArm_def sampleBaseArm_def sampleSdk_def
      sampleDNSScope_def sampleScope_def samplePatcher_def commonPatcherOps_def NewCommonPatcher_def
      sampleIdentity_def AzureClientSecret_def secretValue_def Let_def)

theorem reconciliations_disjoint_witness:
  "resourceOf ` snd ` set (azureWrites (snd (Reconcile sampleK sampleSv (sampleState ''VSphereCluster'')))) \<inter>
   resourceOf ` snd ` set (azureWrites (snd (Reconcile sampleK otherSv (sampleState ''VSphereCluster'')))) = {}"
proof -
  let ?s = "sampleState ''VSphereCluster''"
  have s: "azureWrites ?s = []" by (simp add: sampleState_def azureWrites_def List.map_filter_def)
  show ?thesis
    by (rule reconciliations_disjoint [where K = sampleK and K' = sampleK and s = ?s and s' = ?s and ?s0.0 = ?s and s0' = ?s,
          OF sampleSv_New prod.collapse [symmetric] _ otherSv_New prod.collapse [symmetric]])
      (simp_all add: s otherDNSScope_def sampleDNSScope_def sampleScope_def samplePatcher_def commonPatcherOps_def
        NewCommonPatcher_def sampleCluster_def)
qed

end
