(* ===== verification/Private_Props.thy ===== *)
theory Private_Props
  imports Private_Dns Dns_Props
begin

section \<open>Properties of the private DNS service\<close>

text \<open>
  The writes of \<open>Reconcile_private\<close> and \<open>ReconcileDelete_private\<close>, first for any client that keeps its contract
  (locale \<open>private_service\<close>), then for every service \<open>New_private\<close> returns.
\<close>

fun privateWrite :: "PrivateDNSScope \<Rightarrow> request \<Rightarrow> bool" where
  "privateWrite sc (PrivateZonesBeginCreateOrUpdate rg zone p) \<longleftrightarrow>
     rg = ManagementClusterResourceGroup sc \<and> zone = ClusterDomain_private sc"
| "privateWrite sc (VnetLinksBeginCreateOrUpdate rg zone name l) \<longleftrightarrow>
     rg = ManagementClusterResourceGroup sc \<and> zone = ClusterDomain_private sc \<and>
     name = virtualNetworkLinkName rg \<and> l = newVirtualNetworkLink (psVirtualNetworkID sc)"
| "privateWrite sc (VnetLinksBeginDelete rg zone name) \<longleftrightarrow>
     rg = ManagementClusterResourceGroup sc \<and> zone = ClusterDomain_private sc"
| "privateWrite sc (PrivateRecordSetsCreateOrUpdate rg zone ty name r) \<longleftrightarrow>
     rg = ManagementClusterResourceGroup sc \<and> zone = ClusterDomain_private sc \<and>
     ty \<in> {RecordTypeA, RecordTypeCNAME} \<and> prsNameOf r = Ok name"
| "privateWrite sc _ \<longleftrightarrow> False"

abbreviation privateRecordWrite :: "armClient \<Rightarrow> PrivateDNSScope \<Rightarrow> string \<Rightarrow> PrivateRecordSet \<Rightarrow> armClient \<times> request" where
  "privateRecordWrite a sc ty r \<equiv>
     (a, PrivateRecordSetsCreateOrUpdate (ManagementClusterResourceGroup sc) (ClusterDomain_private sc) ty (prsNm r) r)"

text \<open>What the code needs of a listed link not to dereference a nil pointer.\<close>

definition completeLink :: "VirtualNetworkLink \<Rightarrow> bool" where
  "completeLink l \<longleftrightarrow> vnlName l \<noteq> None \<and> vnlID l \<noteq> None \<and> (\<exists>v. linkedVnet l = Ok v)"

definition vnetOf :: "VirtualNetworkLink \<Rightarrow> string" where
  "vnetOf l = (case linkedVnet l of Ok v \<Rightarrow> v | _ \<Rightarrow> [])"

lemma operatorLinkIndex_found:
  assumes "\<forall>l\<in>set ls. completeLink l"
  shows "\<exists>ix. operatorLinkIndex n c ls = Ok ix \<and>
    (ix \<noteq> None \<longleftrightarrow> (\<exists>l\<in>set ls. vnlName l = Some n \<or> vnlID l = Some c))"
  using assms
proof (induction ls)
  case (Cons l ls)
  then obtain ix where ix: "operatorLinkIndex n c ls = Ok ix"
      "ix \<noteq> None \<longleftrightarrow> (\<exists>l\<in>set ls. vnlName l = Some n \<or> vnlID l = Some c)" by auto
  obtain x i where "vnlName l = Some x" "vnlID l = Some i" using Cons.prems by (auto simp: completeLink_def)
  with ix show ?case by auto
qed simp

lemma linkedVnet_vnetOf: "\<forall>l\<in>set ls. completeLink l \<Longrightarrow> \<forall>l\<in>set ls. linkedVnet l = Ok (vnetOf l)"
  by (auto simp: completeLink_def vnetOf_def)

lemma missingPrivateALoop_writes [writes_intros]: "writesOnly Q (missingPrivateALoop zone ds cur acc)"
  by (induction ds arbitrary: acc)
    (auto intro!: writes_intros simp: setRecordInfo_def split: option.splits)

lemma missingPrivateALoop_infra [sends_intros]: "keepsInfra (missingPrivateALoop zone ds cur acc)"
  by (induction ds arbitrary: acc)
    (auto intro!: sends_intros simp: setRecordInfo_def split: option.splits)

locale private_service =
  cl: private_client "psvClient sv" zc rc lc
  for sv :: "'w PrivateService" and zc rc lc
begin

lemma createPrivateRecordSet_writes:
  assumes "\<And>n. prsNameOf r = Ok n \<Longrightarrow>
    Q (rc, PrivateRecordSetsCreateOrUpdate (psvResourceGroup sv) (psvDomain sv) ty n r)"
  shows "writesOnly Q (createPrivateRecordSet sv ty r)"
proof (cases "prsNameOf r")
  case (Ok n)
  then have "createPrivateRecordSet sv ty r =
      bindM (CreateOrUpdateRecordSet_private (psvClient sv) (psvResourceGroup sv) (psvDomain sv) ty n r) (\<lambda>_. ret ())"
    by (simp add: createPrivateRecordSet_def fun_eq_iff run_simps)
  moreover have "writesOnly Q \<dots>"
    using assms [OF Ok] by (intro writes_intros cl.client_writes)
  ultimately show ?thesis by simp
qed (simp_all add: createPrivateRecordSet_def writesOnly_def run_simps)

lemma Reconcile_private_writesOnly:
  "writesOnly (\<lambda>(a, q). a \<in> {zc, rc, lc} \<and> privateWrite (psvScope sv) q) (Reconcile_private sv)"
  unfolding Reconcile_private_def listOrCreatePrivateZone_def ensureVnetLink_def privateZoneRecordsMetric_def
    updateARecords_private_def calculateMissingARecords_private_def updateCnameRecords_private_def Let_def
  by (intro writes_intros cl.client_writes createPrivateRecordSet_writes) auto

lemma beforeCname_writesOnly:
  "writesOnly (\<lambda>(a, q). a \<in> {zc, rc, lc} \<and> privateWrite (psvScope sv) q) (bindM (emit (GaugeSet ZoneInfo ls 1)) (\<lambda>_.
     bindM (listOrCreatePrivateZone sv) (\<lambda>rs. bindM (ensureVnetLink sv) (\<lambda>_.
     bindM (privateZoneRecordsMetric sv) (\<lambda>_. masked (updateARecords_private sv rs))))))"
  unfolding listOrCreatePrivateZone_def ensureVnetLink_def privateZoneRecordsMetric_def
    updateARecords_private_def calculateMissingARecords_private_def Let_def
  by (intro writes_intros cl.client_writes createPrivateRecordSet_writes) auto

lemma Reconcile_private_infra: "keepsInfra (Reconcile_private sv)" "keepsInfra (ReconcileDelete_private sv)"
  unfolding Reconcile_private_def listOrCreatePrivateZone_def ensureVnetLink_def privateZoneRecordsMetric_def
    updateARecords_private_def calculateMissingARecords_private_def updateCnameRecords_private_def Let_def
    createPrivateRecordSet_def ReconcileDelete_private_def
  by (intro sends_intros cl.client_infra)+

lemma createPrivateRecordSets_run:
  assumes "forEach (createPrivateRecordSet sv ty) rs s = (Ok x, t)"
  shows "azureWrites t = azureWrites s @ map (privateRecordWrite rc (psvScope sv) ty) rs"
  using assms
proof (induction rs arbitrary: s)
  case (Cons r rs)
  then obtain u where r: "createPrivateRecordSet sv ty r s = (Ok (), u)"
      and rs: "forEach (createPrivateRecordSet sv ty) rs u = (Ok x, t)"
    by (auto simp: run_iffs)
  have "azureWrites u = azureWrites s @ [privateRecordWrite rc (psvScope sv) ty r]"
    using r sendsD [OF cl.CreateOrUpdateRecordSet_sends]
    by (fastforce simp: createPrivateRecordSet_def run_iffs prsNameOf_def prsNm_def)
  with Cons.IH [OF rs] show ?case by simp
qed (simp add: run_iffs)

lemma updateARecords_private_run:
  assumes "updateARecords_private sv cur s = (Ok x, t)"
  shows "\<exists>rs u. calculateMissingARecords_private sv cur s = (Ok rs, u) \<and>
    azureWrites t = azureWrites s @ map (privateRecordWrite rc (psvScope sv) RecordTypeA) rs"
proof -
  have "forEach (\<lambda>r. masked (createPrivateRecordSet sv RecordTypeA r)) rs v = (Ok x, w) \<Longrightarrow>
      forEach (createPrivateRecordSet sv RecordTypeA) rs v = (Ok x, w)" for rs v x w
    by (induction rs arbitrary: v) (auto simp: run_iffs)
  moreover have "sends [] (calculateMissingARecords_private sv cur)"
    unfolding writesOnly_False_sends [symmetric] calculateMissingARecords_private_def by (intro writes_intros)
  note sendsD [OF this]
  ultimately show ?thesis
    using assms createPrivateRecordSets_run
    by (fastforce simp: updateARecords_private_def run_iffs split: if_splits)
qed

lemma updateCnameRecords_private_run:
  assumes "updateCnameRecords_private sv cur s = (Ok x, t)"
  shows "\<exists>rs. calculateMissingCnameRecords_private sv cur = Ok rs \<and>
    azureWrites t = azureWrites s @ map (privateRecordWrite rc (psvScope sv) RecordTypeCNAME) rs"
  using assms createPrivateRecordSets_run
  by (fastforce simp: updateCnameRecords_private_def run_iffs split: if_splits)

lemma ReconcileDelete_private_run:
  assumes "ReconcileDelete_private sv s = (r, t)"
  shows "azureWrites t = azureWrites s @
    (lc, VnetLinksBeginDelete (psvResourceGroup sv) (psvDomain sv) (virtualNetworkLinkName (psvResourceGroup sv))) #
    (if \<exists>u. DeleteVirtualNetworkLink (psvClient sv) (psvResourceGroup sv) (psvDomain sv)
         (virtualNetworkLinkName (psvResourceGroup sv)) s = (Ok (), u)
     then [(zc, PrivateZonesBeginDelete (psvResourceGroup sv) (psvDomain sv))] else [])"
proof -
  obtain q u where d: "DeleteVirtualNetworkLink (psvClient sv) (psvResourceGroup sv) (psvDomain sv)
      (virtualNetworkLinkName (psvResourceGroup sv)) s = (q, u)" by fastforce
  show ?thesis
    using assms d sendsD [OF cl.DeleteVirtualNetworkLink_sends d] sendsD [OF cl.DeletePrivateZone_sends [THEN sends_masked]]
    by (cases q) (auto simp: ReconcileDelete_private_def run_simps)
qed

text \<open>The link to the virtual network.\<close>

lemma ensureVnetLink_run:
  assumes links: "ListVirtualNetworkLink (psvClient sv) (psvResourceGroup sv) (psvDomain sv) s = (Ok ls, u)"
    and wf: "\<forall>l\<in>set ls. completeLink l"
    and run: "ensureVnetLink sv s = (Ok x, t)"
  defines "ln \<equiv> virtualNetworkLinkName (psvResourceGroup sv)"
  shows "azureWrites t = azureWrites s @
    (if \<exists>l\<in>set ls. vnlName l = Some ln \<or> vnlID l = Some (ManagementClusterClientID (psvScope sv)) then []
     else (case firstNamed vnetOf (psVirtualNetworkID (psvScope sv)) ls of
             None \<Rightarrow> []
           | Some l \<Rightarrow> [(lc, VnetLinksBeginDelete (psvResourceGroup sv) (psvDomain sv) (the (vnlName l)))]) @
          [(lc, VnetLinksBeginCreateOrUpdate (psvResourceGroup sv) (psvDomain sv) ln
              (newVirtualNetworkLink (psVirtualNetworkID (psvScope sv))))])"
proof -
  have u: "azureWrites u = azureWrites s" using cl.client_reads(3) [OF links] .
  obtain ix where ix: "operatorLinkIndex ln (ManagementClusterClientID (psvScope sv)) ls = Ok ix"
      "ix \<noteq> None \<longleftrightarrow> (\<exists>l\<in>set ls. vnlName l = Some ln \<or> vnlID l = Some (ManagementClusterClientID (psvScope sv)))"
    using operatorLinkIndex_found [OF wf] by blast
  note create = sendsD [OF cl.CreateOrUpdateVirtualNetworkLink_sends] and delete = sendsD [OF cl.DeleteVirtualNetworkLink_sends]
  show ?thesis
  proof (cases "ix = None")
    case False
    then show ?thesis
      using run links ix u by (auto simp: ensureVnetLink_def ln_def [symmetric] run_iffs Let_def)
  next
    case True
    note nms = linkedVnet_vnetOf [OF wf]
    show ?thesis
    proof (cases "firstNamed vnetOf (psVirtualNetworkID (psvScope sv)) ls")
      case None
      then show ?thesis
        using True run links ix u indexByName_None [OF nms None] create
        by (auto simp: ensureVnetLink_def ln_def [symmetric] run_iffs Let_def)
    next
      case (Some l)
      then obtain i where i: "indexByName linkedVnet (psVirtualNetworkID (psvScope sv)) ls = Ok (Some i)" "ls ! i = l"
        using indexByName_Some [OF nms] by blast
      obtain v where v: "DeleteVirtualNetworkLink (psvClient sv) (psvResourceGroup sv) (psvDomain sv) (the (vnlName l)) u = (Ok (), v)"
          "CreateOrUpdateVirtualNetworkLink (psvClient sv) (psvResourceGroup sv) (psvDomain sv)
             (psClusterName (psvScope sv)) (psVirtualNetworkID (psvScope sv)) ln v = (Ok x, t)"
        using True run links ix i by (auto simp: ensureVnetLink_def ln_def [symmetric] run_iffs Let_def)
      show ?thesis using True Some ix u delete [OF v(1)] create [OF v(2)] by simp
    qed
  qed
qed

end

subsection \<open>The contract holds of every service \<open>New_private\<close> returns\<close>

definition privateServiceOf :: "'w azureSdk \<Rightarrow> PrivateDNSScope \<Rightarrow> privateAzureClient \<Rightarrow> 'w PrivateService" where
  "privateServiceOf A scope pc = \<lparr>psvScope = scope, psvClient = privateClientOps A pc\<rparr>"

definition uniformPrivate :: "armClient \<Rightarrow> privateAzureClient" where
  "uniformPrivate a = \<lparr>pacPrivateZones = a, pacPrivateRecordSets = a, pacVirtualNetworkLinks = a\<rparr>"

lemma privateServiceOf_fields [simp]:
  "psvScope (privateServiceOf A scope pc) = scope" "psvClient (privateServiceOf A scope pc) = privateClientOps A pc"
  "pacPrivateZones (uniformPrivate a) = a" "pacPrivateRecordSets (uniformPrivate a) = a"
  "pacVirtualNetworkLinks (uniformPrivate a) = a"
  by (simp_all add: privateServiceOf_def uniformPrivate_def)

interpretation psvc: private_service "privateServiceOf A scope pc"
  "pacPrivateZones pc" "pacPrivateRecordSets pc" "pacVirtualNetworkLinks pc"
  for A :: "'w azureSdk" and scope pc
  by (intro private_service.intro) (simp add: pclient.private_client_axioms)

lemma New_private_service:
  assumes "New_private A scope s = (Ok sv, t)"
  shows "\<exists>a. sv = privateServiceOf A scope (uniformPrivate a) \<and>
    armSubscription a = ManagementClusterSubscriptionID scope \<and> t = s"
  using assms
  by (fastforce simp: New_private_def newPrivateDNSClient_def newSdkClient_def privateServiceOf_def uniformPrivate_def
      Let_def run_iffs split: if_splits)

subsection \<open>The wildcard record and the listing\<close>

text \<open>
  The listing asks for A records only; the service answers it with record sets that have no CNAME,
  and no comparison with one of them finds the wildcard record in sync.
\<close>

definition withoutCname :: "PrivateRecordSet \<Rightarrow> bool" where
  "withoutCname r \<longleftrightarrow> (case prsProperties r of None \<Rightarrow> True | Some p \<Rightarrow> pCnameRecord p = None)"

definition listsTypeAOnly :: "'w azureSdk \<Rightarrow> bool" where
  "listsTypeAOnly A \<longleftrightarrow> (\<forall>a rg zone w page. Inr page \<in> set (fst (privateRecordSets_PagesByType A a rg zone RecordTypeA w)) \<longrightarrow>
     (\<forall>r\<in>set page. withoutCname r))"

lemma indexByName_bound: "indexByName nm x rs = Ok (Some i) \<Longrightarrow> i < length rs"
  by (induction rs arbitrary: i) (auto simp: run_iffs split: if_splits option.splits)

lemma missingCname_withoutCname:
  assumes "\<forall>c\<in>set cur. withoutCname c"
    and "calculateMissingCnameRecords_private sv cur = Ok rs"
  shows "rs = desiredCnameRecords_private (WildcardFQDN_private (psvScope sv))"
proof -
  obtain ix where ix: "indexByName prsNameOf ''*'' cur = Ok ix"
    using assms(2) by (auto simp: calculateMissingCnameRecords_private_def desiredCnameRecords_private_def prsNameOf_def run_iffs)
  show ?thesis
  proof (cases ix)
    case None
    then show ?thesis
      using assms(2) ix by (simp add: calculateMissingCnameRecords_private_def desiredCnameRecords_private_def prsNameOf_def)
  next
    case (Some i)
    then have "withoutCname (cur ! i)" using assms(1) indexByName_bound ix by (metis nth_mem)
    then show ?thesis
      using assms(2) ix Some
      by (auto simp: calculateMissingCnameRecords_private_def desiredCnameRecords_private_def prsNameOf_def run_iffs
          privateCnameRecordDiffers_def withoutCname_def split: if_splits)
  qed
qed

lemma listOrCreatePrivateZone_withoutCname:
  assumes "listsTypeAOnly A"
    and "listOrCreatePrivateZone (privateServiceOf A scope pc) s = (Ok rs, t)"
  shows "\<forall>c\<in>set rs. withoutCname c"
proof -
  have "\<forall>c\<in>set cur. withoutCname c"
    if "ListPrivateRecordSets (privateClientOps A pc) rg zone s = (Ok cur, u)" for rg zone cur u
  proof -
    obtain pages w where pages: "privateRecordSets_PagesByType A (pacPrivateRecordSets pc) rg zone RecordTypeA (world s) = (pages, w)"
      by fastforce
    then have "collectPages pages [] = Ok cur"
      using that by (simp add: privateClientOps_def private_ListPrivateRecordSets_def callPager_def run_simps)
    then obtain xss where "pages = map Inr xss" "cur = concat xss" by (auto simp: collectPages_Ok)
    moreover have "\<forall>page. Inr page \<in> set pages \<longrightarrow> (\<forall>r\<in>set page. withoutCname r)"
      using assms(1) pages unfolding listsTypeAOnly_def by (metis fst_conv)
    ultimately show ?thesis by auto
  qed
  then show ?thesis
    using assms(2) by (auto simp: listOrCreatePrivateZone_def run_iffs split: if_splits)
qed

subsection \<open>A private service of the sample environment\<close>

definition samplePrivateScope :: PrivateDNSScope where
  "samplePrivateScope =
     \<lparr>psBaseDomain = ''example.io'', psClusterName = ''wc'', psApiServerIP = ''10.0.0.4'', psMcIngressIP = [],
      psWildcardCNAMETarget = [], psVirtualNetworkID = ''vnet-1'',
      psManagementClusterIdentity = \<lparr>clusterIdentity = sampleIdentity, identitySecret = [(clientSecretKeyName, ''secret'')]\<rparr>,
      psManagementClusterSpec = acSpec sampleManagementCluster\<rparr>"

definition samplePrivateSv :: "cloud PrivateService" where
  "samplePrivateSv = privateServiceOf sampleSdk samplePrivateScope (uniformPrivate sampleArm)"

definition samplePrivateZoneState :: "cloud st" where
  "samplePrivateZoneState = (sampleState ''AzureCluster'')\<lparr>world := (sampleCloud ''AzureCluster'')\<lparr>
     cPrivateZones := [(''mc-rg'', ''wc.example.io'')]\<rparr>\<rparr>"

lemma samplePrivateZoneState_writes [simp]: "azureWrites samplePrivateZoneState = []"
  by (simp add: samplePrivateZoneState_def sampleState_def azureWrites_def List.map_filter_def)

lemma samplePrivateSv_New: "New_private sampleSdk samplePrivateScope s = (Ok samplePrivateSv, s)"
  by (simp add: New_private_def newPrivateDNSClient_def newSdkClient_def run_simps samplePrivateSv_def privateServiceOf_def
      uniformPrivate_def sampleArm_def sampleSdk_def samplePrivateScope_def sampleIdentity_def sampleManagementCluster_def
      ManagementClusterSubscriptionID_def ManagementClusterAzureClientSecret_def secretValue_def Let_def)

lemma samplePrivateScope_names:
  "ManagementClusterResourceGroup samplePrivateScope = ''mc-rg''" "ClusterDomain_private samplePrivateScope = ''wc.example.io''"
  "ManagementClusterSubscriptionID samplePrivateScope = ''sub''" "psVirtualNetworkID samplePrivateScope = ''vnet-1''"
  "WildcardFQDN_private samplePrivateScope = ''ingress.wc.example.io''" "ManagementClusterClientID samplePrivateScope = ''client''"
  "virtualNetworkLinkName ''mc-rg'' = ''mc-rg-vnet-link''"
  by (simp_all add: samplePrivateScope_def sampleManagementCluster_def ManagementClusterResourceGroup_def
      ClusterDomain_private_def dotJoin_def ManagementClusterSubscriptionID_def WildcardFQDN_private_def
      ManagementClusterClientID_def sampleIdentity_def virtualNetworkLinkName_def)

lemma samplePrivateRun:
  "Reconcile_private samplePrivateSv (sampleState ''AzureCluster'') =
     (Ok (), snd (Reconcile_private samplePrivateSv (sampleState ''AzureCluster'')))"
  unfolding prod_eq_iff by simp code_simp

lemma sampleState_writes [simp]: "azureWrites (sampleState kind) = []"
  by (simp add: sampleState_def azureWrites_def List.map_filter_def)

subsection \<open>Properties\<close>

text \<open>
  C14: Whatever the outcome of a reconciliation of the private DNS service, every mutating request it
  sent concerns the private zone of the cluster in the resource group it is attached to: the zone
  itself, its link to the virtual network of the scope, the removal of another link of the zone, or
  an A or CNAME record of the zone. No zone and no record is deleted.
\<close>

theorem private_isolation:
  assumes "New_private A scope s0 = (Ok sv, s1)"
    and "Reconcile_private sv s = (r, t)"
  shows "\<exists>ws. azureWrites t = azureWrites s @ ws \<and>
    (\<forall>(a, q)\<in>set ws. armSubscription a = ManagementClusterSubscriptionID scope \<and> privateWrite scope q)"
proof -
  obtain a where sv: "sv = privateServiceOf A scope (uniformPrivate a)"
      and a: "armSubscription a = ManagementClusterSubscriptionID scope"
    using New_private_service [OF assms(1)] by blast
  show ?thesis
    using writesOnlyD [OF psvc.Reconcile_private_writesOnly assms(2) [unfolded sv]] a by fastforce
qed

theorem private_isolation_witness:
  "\<exists>ws. azureWrites (snd (Reconcile_private samplePrivateSv (sampleState ''AzureCluster''))) = ws \<and>
     list_all (\<lambda>(a, q). armSubscription a = ''sub'' \<and> privateWrite samplePrivateScope q) ws"
  using private_isolation [OF samplePrivateSv_New samplePrivateRun] by (simp add: samplePrivateScope_names list_all_iff)

text \<open>
  C15: The link to the virtual network: if the zone lists a link with the operator's name (or, as the
  code has it, a link whose ID equals the client ID), nothing is written. Otherwise the operator's
  link is created, after the first link of the zone to the same virtual network, if there is one,
  has been removed.
\<close>

theorem vnet_link_exact:
  assumes "New_private A scope s0 = (Ok sv, s1)"
    and "ListVirtualNetworkLink (psvClient sv) (psvResourceGroup sv) (psvDomain sv) s = (Ok ls, u)"
    and "\<forall>l\<in>set ls. completeLink l"
    and "ensureVnetLink sv s = (Ok (), t)"
  defines "rg \<equiv> ManagementClusterResourceGroup scope" and "zone \<equiv> ClusterDomain_private scope"
  shows "\<exists>a. armSubscription a = ManagementClusterSubscriptionID scope \<and>
    azureWrites t = azureWrites s @
      (if \<exists>l\<in>set ls. vnlName l = Some (rg @ ''-vnet-link'') \<or> vnlID l = Some (ManagementClusterClientID scope) then []
       else (case firstNamed vnetOf (psVirtualNetworkID scope) ls of
               None \<Rightarrow> []
             | Some l \<Rightarrow> [(a, VnetLinksBeginDelete rg zone (the (vnlName l)))]) @
            [(a, VnetLinksBeginCreateOrUpdate rg zone (rg @ ''-vnet-link'')
               \<lparr>vnlName = None, vnlID = None, vnlLocation = Some ''global'', vnlProperties = Some
                  \<lparr>RegistrationEnabled = Some False, VirtualNetwork = Some (Some (psVirtualNetworkID scope))\<rparr>\<rparr>)])"
proof -
  obtain a where sv: "sv = privateServiceOf A scope (uniformPrivate a)"
      and a: "armSubscription a = ManagementClusterSubscriptionID scope"
    using New_private_service [OF assms(1)] by blast
  show ?thesis
    using psvc.ensureVnetLink_run [OF assms(2) [unfolded sv] assms(3) assms(4) [unfolded sv]] a
    unfolding privateServiceOf_fields virtualNetworkLinkName_def newVirtualNetworkLink_def rg_def zone_def by blast
qed

definition sampleForeignLinkState :: "cloud st" where
  "sampleForeignLinkState = (sampleState ''AzureCluster'')\<lparr>world := (sampleCloud ''AzureCluster'')\<lparr>
     cLinks := [((''mc-rg'', ''wc.example.io''),
       [(newVirtualNetworkLink ''vnet-1'')\<lparr>vnlName := Some ''by-hand'', vnlID := Some ''id-1''\<rparr>])]\<rparr>\<rparr>"

theorem vnet_link_exact_witness:
  "\<exists>a. armSubscription a = ''sub'' \<and> azureWrites (snd (ensureVnetLink samplePrivateSv sampleForeignLinkState)) =
     [(a, VnetLinksBeginDelete ''mc-rg'' ''wc.example.io'' ''by-hand''),
      (a, VnetLinksBeginCreateOrUpdate ''mc-rg'' ''wc.example.io'' ''mc-rg-vnet-link'' (newVirtualNetworkLink ''vnet-1''))]"
proof -
  let ?l = "(newVirtualNetworkLink ''vnet-1'')\<lparr>vnlName := Some ''by-hand'', vnlID := Some ''id-1''\<rparr>"
  let ?s = sampleForeignLinkState and ?m = "ensureVnetLink samplePrivateSv sampleForeignLinkState"
  have list: "ListVirtualNetworkLink (psvClient samplePrivateSv) (psvResourceGroup samplePrivateSv) (psvDomain samplePrivateSv) ?s =
      (Ok [?l], snd (ListVirtualNetworkLink (psvClient samplePrivateSv) (psvResourceGroup samplePrivateSv) (psvDomain samplePrivateSv) ?s))"
    unfolding prod_eq_iff by simp code_simp
  have run: "?m = (Ok (), snd ?m)" unfolding prod_eq_iff by simp code_simp
  have l: "completeLink ?l" "vnetOf ?l = ''vnet-1''"
    by (simp_all add: completeLink_def vnetOf_def linkedVnet_def newVirtualNetworkLink_def)
  have "azureWrites ?s = []" by (simp add: sampleForeignLinkState_def)
  with vnet_link_exact [OF samplePrivateSv_New list _ run] l show ?thesis
    by (simp add: samplePrivateScope_names firstNamed_def newVirtualNetworkLink_def)
qed

text \<open>
  C16: The deletion of the private DNS of a cluster removes the operator's link first and the zone only
  if that succeeded; no other mutating request is sent.
\<close>

theorem private_delete_writes:
  assumes "New_private A scope s0 = (Ok sv, s1)"
    and "ReconcileDelete_private sv s = (r, t)"
  defines "rg \<equiv> ManagementClusterResourceGroup scope" and "zone \<equiv> ClusterDomain_private scope"
  shows "\<exists>a. armSubscription a = ManagementClusterSubscriptionID scope \<and>
    azureWrites t = azureWrites s @ (a, VnetLinksBeginDelete rg zone (virtualNetworkLinkName rg)) #
      (if \<exists>u. DeleteVirtualNetworkLink (psvClient sv) rg zone (virtualNetworkLinkName rg) s = (Ok (), u)
       then [(a, PrivateZonesBeginDelete rg zone)] else [])"
proof -
  obtain a where sv: "sv = privateServiceOf A scope (uniformPrivate a)"
      and a: "armSubscription a = ManagementClusterSubscriptionID scope"
    using New_private_service [OF assms(1)] by blast
  show ?thesis
    using psvc.ReconcileDelete_private_run [OF assms(2) [unfolded sv]] a
    unfolding sv privateServiceOf_fields rg_def zone_def by blast
qed

theorem private_delete_writes_witness:
  "\<exists>a. armSubscription a = ''sub'' \<and>
     azureWrites (snd (ReconcileDelete_private samplePrivateSv (sampleState ''AzureCluster''))) =
       [(a, VnetLinksBeginDelete ''mc-rg'' ''wc.example.io'' ''mc-rg-vnet-link''),
        (a, PrivateZonesBeginDelete ''mc-rg'' ''wc.example.io'')]"
proof -
  let ?s = "sampleState ''AzureCluster''" and ?m = "ReconcileDelete_private samplePrivateSv (sampleState ''AzureCluster'')"
  have run: "?m = (fst ?m, snd ?m)" by simp
  have "fst (DeleteVirtualNetworkLink (psvClient samplePrivateSv) ''mc-rg'' ''wc.example.io'' ''mc-rg-vnet-link'' ?s) = Ok ()"
    by code_simp
  then have "\<exists>u. DeleteVirtualNetworkLink (psvClient samplePrivateSv) ''mc-rg'' ''wc.example.io'' ''mc-rg-vnet-link'' ?s = (Ok (), u)"
    by (metis prod.collapse)
  then show ?thesis
    using private_delete_writes [OF samplePrivateSv_New run] by (simp add: samplePrivateScope_names)
qed

text \<open>
  C17: Updating the A records of the private zone, for a listing without nil pointers: the record sets
  written are the record of the private endpoint of the API server and the one of the management
  cluster's ingress, each if its address is known, less those the zone already lists with the same
  addresses and the same TTL, in this order.
\<close>

theorem private_A_records_exact:
  assumes "New_private A scope s0 = (Ok sv, s1)"
    and "\<forall>c\<in>set cur. completePrivateA c"
    and "updateARecords_private sv cur s = (Ok (), t)"
  shows "\<exists>a. armSubscription a = ManagementClusterSubscriptionID scope \<and>
    azureWrites t = azureWrites s @ map (privateRecordWrite a scope RecordTypeA) (filter (\<lambda>d. \<not> inSync prsNm samePrivateA cur d)
      ((if PrivateLinkedAPIServerIP scope = [] then [] else [privateARecordSet ''apiserver'' [Some (PrivateLinkedAPIServerIP scope)]]) @
       (if PrivateLinkedMcIngressIP scope = [] then [] else [privateARecordSet ''ingress'' [Some (PrivateLinkedMcIngressIP scope)]])))"
proof -
  obtain a where sv: "sv = privateServiceOf A scope (uniformPrivate a)"
      and a: "armSubscription a = ManagementClusterSubscriptionID scope"
    using New_private_service [OF assms(1)] by blast
  obtain rs u where rs: "calculateMissingARecords_private sv cur s = (Ok rs, u)"
      "azureWrites t = azureWrites s @ map (privateRecordWrite a scope RecordTypeA) rs"
    using psvc.updateARecords_private_run [OF assms(3) [unfolded sv]] by (auto simp: sv)
  have "namedPrivate (privateARecordSet n ips)" for n ips by (simp add: namedPrivate_def privateARecordSet_def)
  note calc = missingPrivateALoop_run [OF _ assms(2), where acc = "[]" and s = s and zone = "psvDomain sv"]
  have "rs = filter (\<lambda>d. \<not> inSync prsNm samePrivateA cur d)
      ((if PrivateLinkedAPIServerIP scope = [] then [] else [privateARecordSet ''apiserver'' [Some (PrivateLinkedAPIServerIP scope)]]) @
       (if PrivateLinkedMcIngressIP scope = [] then [] else [privateARecordSet ''ingress'' [Some (PrivateLinkedMcIngressIP scope)]]))"
    (is "_ = filter _ ?ds")
  proof -
    have "\<forall>d\<in>set ?ds. namedPrivate d" by (simp add: namedPrivate_def privateARecordSet_def)
    from calc [OF this] rs(1) show ?thesis
      by (auto simp: calculateMissingARecords_private_def getDesiredPrivateARecords_eq run_simps sv)
  qed
  then show ?thesis using rs(2) a by blast
qed

theorem private_A_records_exact_witness:
  "\<exists>a. armSubscription a = ''sub'' \<and>
     azureWrites (snd (updateARecords_private samplePrivateSv []
        samplePrivateZoneState)) =
       [(a, PrivateRecordSetsCreateOrUpdate ''mc-rg'' ''wc.example.io'' ''A'' ''apiserver''
          (privateARecordSet ''apiserver'' [Some ''10.0.0.4'']))]"
proof -
  let ?m = "updateARecords_private samplePrivateSv []
    samplePrivateZoneState"
  have run: "?m = (Ok (), snd ?m)" unfolding prod_eq_iff by simp code_simp
  have "PrivateLinkedAPIServerIP samplePrivateScope = ''10.0.0.4''" "PrivateLinkedMcIngressIP samplePrivateScope = []"
    by code_simp+
  moreover have "\<not> inSync prsNm samePrivateA [] (privateARecordSet ''apiserver'' [Some ''10.0.0.4''])"
    "prsNm (privateARecordSet ''apiserver'' [Some ''10.0.0.4'']) = ''apiserver''"
    by (simp_all add: inSync_def firstNamed_def prsNm_def privateARecordSet_def)
  ultimately show ?thesis
    using private_A_records_exact [OF samplePrivateSv_New _ run] by (simp add: samplePrivateScope_names)
qed

text \<open>
  C18: Since the listing asks Azure for A records only, the wildcard CNAME record is never among what
  it compares with: every successful reconciliation of the private DNS service ends by writing it,
  whatever the zone contains.
\<close>

theorem private_cname_always_written:
  assumes "New_private A scope s0 = (Ok sv, s1)"
    and "listsTypeAOnly A"
    and "Reconcile_private sv s = (Ok (), t)"
  shows "\<exists>a ws. armSubscription a = ManagementClusterSubscriptionID scope \<and>
    azureWrites t = azureWrites s @ ws @
      [(a, PrivateRecordSetsCreateOrUpdate (ManagementClusterResourceGroup scope) (ClusterDomain_private scope) ''CNAME'' ''*''
         \<lparr>prsName = Some ''*'', prsType = Some ''CNAME'', prsProperties = Some
            \<lparr>pTTL = Some cnameRecordTTL, pARecords = [], pCnameRecord = Some (Some (WildcardFQDN_private scope))\<rparr>\<rparr>)]"
proof -
  obtain a where sv: "sv = privateServiceOf A scope (uniformPrivate a)"
      and a: "armSubscription a = ManagementClusterSubscriptionID scope"
    using New_private_service [OF assms(1)] by blast
  obtain cur v w x where cur: "listOrCreatePrivateZone sv v = (Ok cur, w)"
      and cname: "updateCnameRecords_private sv cur x = (Ok (), t)"
      and before: "(bindM (emit (GaugeSet ZoneInfo [psvDomain sv, ZoneTypePrivate, psvResourceGroup sv,
                    ManagementClusterTenantID (psvScope sv), ManagementClusterSubscriptionID (psvScope sv)] 1)) (\<lambda>_.
         bindM (listOrCreatePrivateZone sv) (\<lambda>rs. bindM (ensureVnetLink sv) (\<lambda>_.
         bindM (privateZoneRecordsMetric sv) (\<lambda>_. masked (updateARecords_private sv rs)))))) s = (Ok (), x)"
    using assms(3) by (auto simp: Reconcile_private_def run_iffs)
  obtain ws where ws: "azureWrites x = azureWrites s @ ws"
    using writesOnlyD [OF psvc.beforeCname_writesOnly before [unfolded sv]] by blast
  obtain rs where "calculateMissingCnameRecords_private sv cur = Ok rs"
      and t: "azureWrites t = azureWrites x @ map (privateRecordWrite a scope RecordTypeCNAME) rs"
    using psvc.updateCnameRecords_private_run [OF cname [unfolded sv]] by (auto simp: sv)
  then have "rs = desiredCnameRecords_private (WildcardFQDN_private (psvScope sv))"
    using missingCname_withoutCname listOrCreatePrivateZone_withoutCname [OF assms(2) cur [unfolded sv]] by blast
  then show ?thesis
    using ws t a by (auto simp: sv desiredCnameRecords_private_def emptyPrivateProperties_def prsNm_def)
qed

theorem private_cname_always_written_witness:
  "\<exists>a ws. armSubscription a = ''sub'' \<and>
     azureWrites (snd (Reconcile_private samplePrivateSv (snd (Reconcile_private samplePrivateSv (sampleState ''AzureCluster''))))) =
       ws @ [(a, PrivateRecordSetsCreateOrUpdate ''mc-rg'' ''wc.example.io'' ''CNAME'' ''*''
         \<lparr>prsName = Some ''*'', prsType = Some ''CNAME'', prsProperties = Some
            \<lparr>pTTL = Some cnameRecordTTL, pARecords = [], pCnameRecord = Some (Some ''ingress.wc.example.io'')\<rparr>\<rparr>)]"
proof -
  let ?m = "Reconcile_private samplePrivateSv (snd (Reconcile_private samplePrivateSv (sampleState ''AzureCluster'')))"
  have run: "?m = (Ok (), snd ?m)" unfolding prod_eq_iff by simp code_simp
  have "listsTypeAOnly sampleSdk"
    by (auto simp: listsTypeAOnly_def sampleSdk_def parentMissing_def withoutCname_def privateTypeOf_def
        split: option.splits if_splits)
  from private_cname_always_written [OF samplePrivateSv_New this run] show ?thesis
    by (fastforce simp: samplePrivateScope_names)
qed

text \<open>
  A failure to read the private zone back is logged and otherwise ignored, and the count of its
  records is then taken from a nil pointer: the reconciliation panics after the zone and the link
  are in place and before any record is written.
\<close>

theorem private_zone_read_failure_panics:
  assumes "listOrCreatePrivateZone sv (s\<lparr>events := events s @ [GaugeSet ZoneInfo [psvDomain sv, ZoneTypePrivate,
      psvResourceGroup sv, ManagementClusterTenantID (psvScope sv), ManagementClusterSubscriptionID (psvScope sv)] 1]\<rparr>) = (Ok rs, s1)"
    and "ensureVnetLink sv s1 = (Ok (), s2)"
    and "GetPrivateZone (psvClient sv) (psvResourceGroup sv) (psvDomain sv) s2 = (Err e, t)"
  shows "Reconcile_private sv s = (Panic ''nil pointer dereference'', t)"
  using assms by (simp add: Reconcile_private_def privateZoneRecordsMetric_def run_simps)

definition unreadableSdk :: "cloud azureSdk" where
  "unreadableSdk = sampleSdk\<lparr>privateZones_Get := (\<lambda>_ _ _ w. (Inl (ResponseError ''TooManyRequests''), w))\<rparr>"

theorem private_zone_read_failure_panics_witness:
  "fst (Reconcile_private (privateServiceOf unreadableSdk samplePrivateScope (uniformPrivate sampleArm)) samplePrivateZoneState) =
     Panic ''nil pointer dereference''"
proof -
  let ?sv = "privateServiceOf unreadableSdk samplePrivateScope (uniformPrivate sampleArm)"
  let ?s = "samplePrivateZoneState\<lparr>events := events samplePrivateZoneState @ [GaugeSet ZoneInfo [psvDomain ?sv, ZoneTypePrivate,
      psvResourceGroup ?sv, ManagementClusterTenantID (psvScope ?sv), ManagementClusterSubscriptionID (psvScope ?sv)] 1]\<rparr>"
  let ?l = "listOrCreatePrivateZone ?sv ?s"
  let ?v = "ensureVnetLink ?sv (snd ?l)"
  let ?g = "GetPrivateZone (psvClient ?sv) (psvResourceGroup ?sv) (psvDomain ?sv) (snd ?v)"
  have "?l = (Ok [], snd ?l)" "?v = (Ok (), snd ?v)" "?g = (Err (Masked (ResponseError ''TooManyRequests'')), snd ?g)"
    unfolding prod_eq_iff by (simp, code_simp)+
  from private_zone_read_failure_panics [OF this] show ?thesis by simp
qed

end
