(* ===== verification/Effects.thy ===== *)
theory Effects
  imports Private_Props
begin

section \<open>The events of the services\<close>

text \<open>
  What the two DNS services log, whatever their outcome: calls of the Azure SDK and updates of
  metric vectors with the right number of label values, never an update of a Kubernetes object.
  \<^verbatim>\<open>WithLabelValues\<close> panics on a wrong number of values, so this is a condition for the operator to
  run at all. The facts are collected in \<open>emits_intros\<close>, one per client method and one per
  operation of a service.
\<close>

fun serviceEvent :: "event \<Rightarrow> bool" where
  "serviceEvent (KubeUpdate u) \<longleftrightarrow> False"
| "serviceEvent (KubeStatusUpdate u) \<longleftrightarrow> False"
| "serviceEvent (CapzPatch ac) \<longleftrightarrow> False"
| "serviceEvent e \<longleftrightarrow> wellLabelled e"

subsection \<open>The clients\<close>

lemma emits_countErrors [emits_intros]: "emits serviceEvent m \<Longrightarrow> emits serviceEvent (countErrors meth m)"
  unfolding countErrors_def by (intro emits_intros) simp_all

lemma emits_callPager [emits_intros]: "emits serviceEvent (callPager a q f)"
  unfolding callPager_def by (intro emits_intros) simp

lemma emits_pollAndCount [emits_intros]: "emits serviceEvent (pollAndCount A a q)"
  unfolding pollAndCount_def by (intro emits_intros) simp_all

lemma emits_azure_client [emits_intros]:
  "emits serviceEvent (azure_GetZone A ac rg zone)"
  "emits serviceEvent (azure_CreateOrUpdateZone A ac rg zone z)"
  "emits serviceEvent (azure_DeleteZone A ac rg zone)"
  "emits serviceEvent (azure_ListRecordSets A ac rg zone)"
  "emits serviceEvent (azure_CreateOrUpdateRecordSet A ac rg zone ty nm rs)"
  "emits serviceEvent (azure_DeleteRecordSet A ac rg zone ty nm)"
  "emits serviceEvent (azure_GetResourceGroup A ac rg)"
  "emits serviceEvent (azure_CreateOrUpdateResourceGroup A ac rg g)"
  "emits serviceEvent (azure_DeleteResourceGroup A ac rg)"
  unfolding azure_client_defs by (intro emits_intros; simp)+

lemma emits_private_client [emits_intros]:
  "emits serviceEvent (private_CreateOrUpdatePrivateZone A pc rg zone z)"
  "emits serviceEvent (private_GetPrivateZone A pc rg zone)"
  "emits serviceEvent (private_DeletePrivateZone A pc rg zone)"
  "emits serviceEvent (private_ListPrivateRecordSets A pc rg zone)"
  "emits serviceEvent (private_CreateOrUpdateVirtualNetworkLink A pc rg zone wc vnet ln)"
  "emits serviceEvent (private_ListVirtualNetworkLink A pc rg zone)"
  "emits serviceEvent (private_DeleteVirtualNetworkLink A pc rg zone ln)"
  "emits serviceEvent (private_ListRecordSets A pc rg zone)"
  "emits serviceEvent (private_CreateOrUpdateRecordSet A pc rg zone ty nm rs)"
  unfolding private_client_defs by (intro emits_intros; simp)+

lemma azureClientOps_fields [simp]:
  "GetZone (azureClientOps A ac) = azure_GetZone A ac"
  "CreateOrUpdateZone (azureClientOps A ac) = azure_CreateOrUpdateZone A ac"
  "CreateOrUpdateRecordSet (azureClientOps A ac) = azure_CreateOrUpdateRecordSet A ac"
  "DeleteRecordSet (azureClientOps A ac) = azure_DeleteRecordSet A ac"
  "GetResourceGroup (azureClientOps A ac) = azure_GetResourceGroup A ac"
  "CreateOrUpdateResourceGroup (azureClientOps A ac) = azure_CreateOrUpdateResourceGroup A ac"
  "DeleteResourceGroup (azureClientOps A ac) = azure_DeleteResourceGroup A ac"
  by (simp_all add: azureClientOps_def)

lemma privateClientOps_fields [simp]:
  "CreateOrUpdatePrivateZone (privateClientOps A pc) = private_CreateOrUpdatePrivateZone A pc"
  "GetPrivateZone (privateClientOps A pc) = private_GetPrivateZone A pc"
  "DeletePrivateZone (privateClientOps A pc) = private_DeletePrivateZone A pc"
  "ListPrivateRecordSets (privateClientOps A pc) = private_ListPrivateRecordSets A pc"
  "CreateOrUpdateVirtualNetworkLink (privateClientOps A pc) = private_CreateOrUpdateVirtualNetworkLink A pc"
  "ListVirtualNetworkLink (privateClientOps A pc) = private_ListVirtualNetworkLink A pc"
  "DeleteVirtualNetworkLink (privateClientOps A pc) = private_DeleteVirtualNetworkLink A pc"
  "CreateOrUpdateRecordSet_private (privateClientOps A pc) = private_CreateOrUpdateRecordSet A pc"
  by (simp_all add: privateClientOps_def)

subsection \<open>The services\<close>

lemma emits_setRecordInfo [emits_intros]: "emits serviceEvent (setRecordInfo zone ztype name ttl a)"
  unfolding setRecordInfo_def by (intro emits_intros) simp

lemma emits_missingALoop [emits_intros]: "emits serviceEvent (missingALoop zone ds cur acc)"
  by (induction ds arbitrary: cur acc) (auto intro!: emits_intros split: option.splits)

lemma emits_missingPrivateALoop [emits_intros]: "emits serviceEvent (missingPrivateALoop zone ds cur acc)"
  by (induction ds arbitrary: acc) (auto intro!: emits_intros split: option.splits)

lemma emits_Reconcile:
  "emits serviceEvent (Reconcile K (serviceOf A scope ac bac g))"
  unfolding Reconcile_def reconcileResourceGroup_def createClusterResourceGroup_def resourceGroupLocation_def
    updateClusterResourceGroup_def listOrCreateZone_def createClusterDNSZone_def reconcileDelegation_def
    createClusterNSRecord_def updateARecords_def calculateMissingARecords_def updateCnameRecords_def
    createRecordSet_def Let_def serviceOf_fields azureClientOps_fields ListRecordSets_azure
  by (intro emits_intros quiet_emits [OF quiet_ManagementCluster] quiet_emits [OF svc.quiet_getDesiredARecords]
      quiet_emits [OF quiet_IsAzureCluster(1)]; simp)

lemma emits_ReconcileDelete: "emits serviceEvent (ReconcileDelete (serviceOf A scope ac bac g))"
  unfolding ReconcileDelete_def deleteClusterNSRecords_def deleteClusterResourceGroup_def Let_def
    serviceOf_fields azureClientOps_fields
  by (intro emits_intros quiet_emits [OF quiet_IsAzureCluster(1)]; simp)

lemma emits_Reconcile_private: "emits serviceEvent (Reconcile_private (privateServiceOf A scope pc))"
  unfolding Reconcile_private_def listOrCreatePrivateZone_def ensureVnetLink_def privateZoneRecordsMetric_def
    updateARecords_private_def calculateMissingARecords_private_def updateCnameRecords_private_def
    createPrivateRecordSet_def Let_def privateServiceOf_fields privateClientOps_fields
  by (intro emits_intros; simp)

lemma emits_ReconcileDelete_private: "emits serviceEvent (ReconcileDelete_private (privateServiceOf A scope pc))"
  unfolding ReconcileDelete_private_def privateServiceOf_fields privateClientOps_fields
  by (intro emits_intros)

end
