(* ===== verification/Controller_Lemmas.thy ===== *)
theory Controller_Lemmas
  imports Controller Effects
begin

section \<open>What the controller builds and what its handlers log\<close>

text \<open>
  The services the controller builds are of the form the contracts of the services speak about
  (\<open>publicService_built\<close>, \<open>privateService_built\<close>), and building them logs nothing. Locale
  \<open>scope_patcher\<close> is what the handlers rely on in the patcher of a scope; it is interpreted on both
  patchers \<open>NewScope\<close> can choose, and the effects of \<open>reconcileNormal\<close>, \<open>reconcileDelete\<close> and the deferred
  \<open>Close\<close> are proved once inside it.
\<close>

subsection \<open>Results of a program\<close>

text \<open>\<open>yields m R\<close>: every result of a successful run of \<open>m\<close> satisfies \<open>R\<close>.\<close>

definition yields :: "('s, 'a) M \<Rightarrow> ('a \<Rightarrow> bool) \<Rightarrow> bool" where
  "yields m R \<longleftrightarrow> (\<forall>s x t. m s = (Ok x, t) \<longrightarrow> R x)"

lemma yieldsI: "(\<And>s x t. m s = (Ok x, t) \<Longrightarrow> R x) \<Longrightarrow> yields m R"
  by (simp add: yields_def)

lemma yields_masked [simp]: "yields (masked m) R = yields m R"
  by (simp add: yields_def run_iffs)

lemma yields_bind: "yields m R \<Longrightarrow> (\<And>x. R x \<Longrightarrow> k x = j x) \<Longrightarrow> bindM m k = bindM m j"
  unfolding yields_def by (rule ext) (simp add: bindM_def split: prod.splits res.splits, metis)

text \<open>A bind whose continuation is only ever run on results that satisfy \<open>R\<close>.\<close>

lemma emits_bind_yields:
  assumes "yields m R" "emits P m" "\<And>x. R x \<Longrightarrow> emits P (k x)"
  shows "emits P (bindM m k)"
proof -
  have "bindM m k = bindM m (\<lambda>x. if R x then k x else panic [])"
    using assms(1) by (rule yields_bind) simp
  moreover have "emits P \<dots>"
    using assms(2,3) by (intro emits_intros)
  ultimately show ?thesis by simp
qed

lemma keepsInfra_bind_yields:
  assumes "yields m R" "keepsInfra m" "\<And>x. R x \<Longrightarrow> keepsInfra (k x)"
  shows "keepsInfra (bindM m k)"
proof -
  have "bindM m k = bindM m (\<lambda>x. if R x then k x else panic [])"
    using assms(1) by (rule yields_bind) simp
  moreover have "keepsInfra \<dots>"
    using assms(2,3) by (intro sends_intros)
  ultimately show ?thesis by simp
qed

subsection \<open>Scopes\<close>

text \<open>The lookups only fill the caches of a scope.\<close>

definition sameScope :: "'w Scope \<Rightarrow> 'w Scope \<Rightarrow> bool" where
  "sameScope sc sc' \<longleftrightarrow> sCluster sc' = sCluster sc \<and> sPatcher sc' = sPatcher sc \<and>
     sPublicIPService sc' = sPublicIPService sc"

lemma sameScope_refl [simp]: "sameScope sc sc"
  by (simp add: sameScope_def)

lemma sameScope_trans: "sameScope a b \<Longrightarrow> sameScope b c \<Longrightarrow> sameScope a c"
  by (simp add: sameScope_def)

lemma ManagementCluster_same: "ManagementCluster K sc s = (Ok (mc, sc'), t) \<Longrightarrow> sameScope sc sc'"
  by (auto simp: ManagementCluster_def run_iffs sameScope_def split: option.splits)

lemma ManagementClusterIdentity_same:
  "ManagementClusterIdentity K sc s = (Ok (i, sc'), t) \<Longrightarrow> sameScope sc sc'"
  by (auto simp: ManagementClusterIdentity_def run_iffs sameScope_def split: option.splits dest!: ManagementCluster_same)

lemma InfraClusterIdentity_same:
  assumes "InfraClusterIdentity K sc s = (Ok (i, sc'), t)"
  shows "sameScope sc sc'"
proof -
  have "infraClusterIdentityFallback K sc u = (Ok (i, sc'), v) \<Longrightarrow> sameScope sc sc'" for u v
    by (auto simp: infraClusterIdentityFallback_def run_iffs split: option.splits dest: ManagementClusterIdentity_same)
  then show ?thesis
    using assms by (auto simp: InfraClusterIdentity_def run_iffs split: option.splits)
qed

subsection \<open>The services\<close>

lemma quiet_newClientSet [quiet_intros]: "quiet (newClientSet A sub cred)"
  unfolding newClientSet_def newSdkClient_def by (intro quiet_intros)

lemma quiet_New [quiet_intros]: "quiet (New A scope g)"
  unfolding New_def newAzureClient_def newBaseZoneClient_def Let_def by (intro quiet_intros)

lemma quiet_New_private [quiet_intros]: "quiet (New_private A scope)"
  unfolding New_private_def newPrivateDNSClient_def newSdkClient_def Let_def by (intro quiet_intros)

lemma quiet_getDnsServiceForPublicRecords [quiet_intros]: "quiet (getDnsServiceForPublicRecords A K r sc)"
  unfolding getDnsServiceForPublicRecords_def getInfraClusterStaticServicePrincipalSecret_def
  by (intro quiet_intros)

lemma quiet_privateServiceSecret [quiet_intros]: "quiet (privateServiceSecret K identity)"
  unfolding privateServiceSecret_def by (intro quiet_intros)

lemma quiet_getPrivateDnsService [quiet_intros]:
  "quiet (getPrivateDnsServiceForMcToWcApi A K r sc)" "quiet (getPrivateDnsServiceForWcToMcIngress A K r sc)"
  unfolding getPrivateDnsServiceForMcToWcApi_def getPrivateDnsServiceForWcToMcIngress_def by (intro quiet_intros)+

text \<open>The form of the services; the scope of the public one is the one the controller works on.\<close>

definition publicBuilt :: "'w azureSdk \<Rightarrow> ClusterReconciler \<Rightarrow> 'w Scope \<Rightarrow> 'w Service \<times> 'w Scope \<Rightarrow> bool" where
  "publicBuilt A r sc = (\<lambda>(sv, sc'). sameScope sc sc' \<and>
     (\<forall>g. sPublicIPService sc = worldGetter g \<longrightarrow>
       (\<exists>scope a b. sv = serviceOf A scope (uniformClient a) (uniformClient b) g \<and>
          sameScope sc (dsScope scope) \<and> dsBaseDomain scope = rBaseDomain r \<and>
          dsBaseDomainResourceGroup scope = rBaseDomainResourceGroup r \<and>
          armSubscription a = pSubscriptionID (sPatcher sc) \<and> armSubscription b = rBaseZoneSubscriptionID r)))"

definition privateBuilt :: "'w azureSdk \<Rightarrow> ClusterReconciler \<Rightarrow> 'w Scope \<Rightarrow> 'w PrivateService option \<times> 'w Scope \<Rightarrow> bool" where
  "privateBuilt A r sc = (\<lambda>(p, sc'). sameScope sc sc' \<and>
     (\<forall>sv. p = Some sv \<longrightarrow> (\<exists>scope a. sv = privateServiceOf A scope (uniformPrivate a) \<and> psBaseDomain scope = rBaseDomain r)))"

lemma publicService_built: "yields (getDnsServiceForPublicRecords A K r sc) (publicBuilt A r sc)"
proof (rule yieldsI)
  fix s x t assume "getDnsServiceForPublicRecords A K r sc s = (Ok x, t)"
  then obtain i sc' v ps dnsScope w sv where id: "InfraClusterIdentity K sc s = (Ok (i, sc'), v)"
      and ps: "NewDNSScope ps = Ok dnsScope" "dpClusterScope ps = sc'" "dpBaseDomain ps = rBaseDomain r"
        "dpBaseDomainResourceGroup ps = rBaseDomainResourceGroup r"
        "bzSubscriptionID (dpBaseZoneCredentials ps) = rBaseZoneSubscriptionID r"
      and new: "New A dnsScope (sPublicIPService sc') w = (Ok sv, t)" and x: "x = (sv, sc')"
    unfolding getDnsServiceForPublicRecords_def by (simp add: run_iffs) force
  have scope: "dsScope dnsScope = sc'" "dsBaseDomain dnsScope = rBaseDomain r"
      "dsBaseDomainResourceGroup dnsScope = rBaseDomainResourceGroup r"
      "bzSubscriptionID (dsBaseZoneCredentials dnsScope) = rBaseZoneSubscriptionID r"
    using ps by (auto simp: NewDNSScope_def split: if_splits)
  note same = InfraClusterIdentity_same [OF id]
  have "\<exists>scope a b. sv = serviceOf A scope (uniformClient a) (uniformClient b) g \<and>
      sameScope sc (dsScope scope) \<and> dsBaseDomain scope = rBaseDomain r \<and>
      dsBaseDomainResourceGroup scope = rBaseDomainResourceGroup r \<and>
      armSubscription a = pSubscriptionID (sPatcher sc) \<and> armSubscription b = rBaseZoneSubscriptionID r"
    if "sPublicIPService sc = worldGetter g" for g
  proof -
    have "New A dnsScope (worldGetter g) w = (Ok sv, t)" using new same that by (simp add: sameScope_def)
    from New_service [OF this] scope same show ?thesis by (fastforce simp: sameScope_def)
  qed
  with x same show "publicBuilt A r sc x" by (simp add: publicBuilt_def)
qed

lemma publicService_built_masked: "yields (masked (getDnsServiceForPublicRecords A K r sc)) (publicBuilt A r sc)"
  by (simp add: publicService_built)

lemma New_private_built:
  "NewPrivateDNSScope ps = Ok scope \<Longrightarrow> New_private A scope s = (Ok sv, t) \<Longrightarrow>
     \<exists>scope a. sv = privateServiceOf A scope (uniformPrivate a) \<and> psBaseDomain scope = ppBaseDomain ps"
  by (auto simp: NewPrivateDNSScope_def dest!: New_private_service split: if_splits)

lemma privateService_built:
  "yields (getPrivateDnsServiceForMcToWcApi A K r sc) (privateBuilt A r sc)" (is ?mc)
  "yields (getPrivateDnsServiceForWcToMcIngress A K r sc) (privateBuilt A r sc)" (is ?wc)
proof -
  show ?mc
  proof (rule yieldsI)
    fix s x t assume "getPrivateDnsServiceForMcToWcApi A K r sc s = (Ok x, t)"
    then show "privateBuilt A r sc x"
      by (auto simp: getPrivateDnsServiceForMcToWcApi_def privateBuilt_def run_iffs split: option.splits prod.splits
          dest!: ManagementCluster_same ManagementClusterIdentity_same New_private_built intro: sameScope_trans) blast+
  qed
  show ?wc
  proof (rule yieldsI)
    fix s x t assume "getPrivateDnsServiceForWcToMcIngress A K r sc s = (Ok x, t)"
    then show "privateBuilt A r sc x"
      by (auto simp: getPrivateDnsServiceForWcToMcIngress_def privateBuilt_def run_iffs split: option.splits prod.splits
          dest!: ManagementCluster_same InfraClusterIdentity_same New_private_built intro: sameScope_trans) blast+
  qed
qed

subsection \<open>Logs of the remaining parts\<close>

lemma emits_modifies [emits_intros]: "(\<And>s. events (f s) = events s) \<Longrightarrow> emits P (modifies f)"
  by (rule emits_same) (simp add: run_simps)

lemma emits_replaceCondition [emits_intros]: "emits P (replaceCondition K cs c found)"
  by (induction cs arbitrary: c found) (auto intro!: emits_intros simp: metav1_Now_def)

lemma emits_SetUnstructuredCondition [emits_intros]: "emits P (SetUnstructuredCondition K c)"
  unfolding SetUnstructuredCondition_def setUnstructuredCondition_def setUnstructuredCAPICondition_def
    SetNestedSlice_def metav1_Now_def
  by (cases c) (auto intro!: emits_intros)

lemma emits_setDnsReady: "(\<And>u. P (KubeStatusUpdate u)) \<Longrightarrow> emits P (setDnsReady K)"
  unfolding setDnsReady_def IsASOManagedCluster_def by (intro emits_intros)

lemma emits_removeControllerFinalizer: "emits P (removeControllerFinalizer K)"
  unfolding removeControllerFinalizer_def by (intro emits_intros) simp

lemma quiet_isClusterReady [quiet_intros]: "quiet (isClusterReadyForDnsManagements K cl)"
  unfolding isClusterReadyForDnsManagements_def Let_def by (intro quiet_intros)

text \<open>A program that logs no mutating request sends none.\<close>

lemma emits_writesOnly:
  assumes "emits P m" "\<And>e. P e \<Longrightarrow> writeOf e = None"
  shows "writesOnly Q m"
  unfolding writesOnly_def
proof
  fix s
  obtain es where "events (snd (m s)) = events s @ es" "\<forall>e\<in>set es. P e"
    using assms(1) unfolding emits_def by blast
  then have "azureWrites (snd (m s)) = azureWrites s @ List.map_filter writeOf es" "List.map_filter writeOf es = []"
    using assms(2) by (auto simp: azureWrites_def map_filter_append List.map_filter_def filter_empty_conv)
  then show "\<exists>ws. azureWrites (snd (m s)) = azureWrites s @ ws \<and> (\<forall>w\<in>set ws. Q w)" by auto
qed

text \<open>What is known of the requests and of all events together.\<close>

lemma emits_writes:
  assumes "emits P m" "writesOnly Q m"
  shows "emits (\<lambda>e. P e \<and> (\<forall>w. writeOf e = Some w \<longrightarrow> Q w)) m"
  unfolding emits_def
proof
  fix s
  obtain es where es: "events (snd (m s)) = events s @ es" "\<forall>e\<in>set es. P e"
    using assms(1) unfolding emits_def by blast
  obtain ws where "azureWrites (snd (m s)) = azureWrites s @ ws" and ws: "\<forall>w\<in>set ws. Q w"
    using assms(2) unfolding writesOnly_def by blast
  with es(1) have "ws = List.map_filter writeOf es" by (simp add: azureWrites_def map_filter_append)
  with ws have "\<forall>e\<in>set es. \<forall>w. writeOf e = Some w \<longrightarrow> Q w" by (force simp: List.map_filter_def)
  with es show "\<exists>es. events (snd (m s)) = events s @ es \<and> (\<forall>e\<in>set es. P e \<and> (\<forall>w. writeOf e = Some w \<longrightarrow> Q w))"
    by blast
qed

text \<open>The private part of a handler, over a service that was built; a nil service panics.\<close>

lemma onPrivateService_eq:
  "onPrivateService m act = bindM m (\<lambda>x. case fst x of
     None \<Rightarrow> panic nilDeref | Some p \<Rightarrow> bindM (act p) (\<lambda>_. ret (snd x)))"
  unfolding onPrivateService_def
  by (intro arg_cong [where f = "bindM m"]) (auto simp: fun_eq_iff run_simps split: option.splits prod.splits)

lemma onPrivateService_emits:
  assumes "yields m (privateBuilt A r sc)" "quiet m"
    "\<And>scope pc. psBaseDomain scope = rBaseDomain r \<Longrightarrow> emits P (act (privateServiceOf A scope pc))"
  shows "emits P (onPrivateService m act)"
  unfolding onPrivateService_eq
  by (rule emits_bind_yields [OF assms(1) quiet_emits [OF assms(2)]])
    (auto intro!: emits_intros assms(3) simp: privateBuilt_def)

lemma onPrivateService_infra:
  assumes "yields m (privateBuilt A r sc)" "quiet m" "\<And>scope pc. keepsInfra (act (privateServiceOf A scope pc))"
  shows "keepsInfra (onPrivateService m act)"
  unfolding onPrivateService_eq
  by (rule keepsInfra_bind_yields [OF assms(1) quiet_infra [OF assms(2)]])
    (auto intro!: sends_intros assms(3) simp: privateBuilt_def)

lemma onPrivateService_same:
  assumes "yields m (privateBuilt A r sc)"
  shows "yields (onPrivateService m act) (sameScope sc)"
  using assms unfolding onPrivateService_eq yields_def
  by (fastforce simp: run_iffs privateBuilt_def split: option.splits prod.splits)

end
