(* ===== verification/Controller_Handlers.thy ===== *)
theory Controller_Handlers
  imports Controller_Lemmas
begin

section \<open>The handlers, for every patcher\<close>

text \<open>
  Locale \<open>scope_patcher\<close>: what the handlers rely on in the patcher of their scope. The effects of
  \<open>reconcileNormal\<close> and \<open>reconcileDelete\<close> are proved inside it, and it is interpreted on the patcher of this
  package and on CAPZ's.
\<close>

text \<open>
  The requests a reconciliation of a cluster that is not being deleted may send: creations and
  updates, all of them in the base domain or below it, and the removal of a virtual network link
  of a private zone below it.
\<close>

fun withinBase :: "string \<Rightarrow> string \<Rightarrow> request \<Rightarrow> bool" where
  "withinBase base cluster (ResourceGroupsCreateOrUpdate rg g) \<longleftrightarrow> rg = cluster"
| "withinBase base cluster (ZonesCreateOrUpdate rg zone z) \<longleftrightarrow> rg = cluster \<and> zone = dotJoin cluster base"
| "withinBase base cluster (RecordSetsCreateOrUpdate rg zone ty name r) \<longleftrightarrow>
     rg = cluster \<and> zone = dotJoin cluster base \<and> ty \<in> {RecordTypeA, RecordTypeCNAME} \<or>
     zone = base \<and> ty = RecordTypeNS \<and> name = cluster"
| "withinBase base cluster (PrivateZonesBeginCreateOrUpdate rg zone z) \<longleftrightarrow> (\<exists>n. zone = dotJoin n base)"
| "withinBase base cluster (PrivateRecordSetsCreateOrUpdate rg zone ty name r) \<longleftrightarrow>
     (\<exists>n. zone = dotJoin n base) \<and> ty \<in> {RecordTypeA, RecordTypeCNAME}"
| "withinBase base cluster (VnetLinksBeginCreateOrUpdate rg zone name l) \<longleftrightarrow> (\<exists>n. zone = dotJoin n base)"
| "withinBase base cluster (VnetLinksBeginDelete rg zone name) \<longleftrightarrow> (\<exists>n. zone = dotJoin n base)"
| "withinBase base cluster _ \<longleftrightarrow> False"

lemma clusterWrite_within:
  "clusterWrite scope q \<Longrightarrow> withinBase (dsBaseDomain scope) (pClusterName (dsPatcher scope)) q"
  by (cases q) (auto simp: DNSScope_ResourceGroup_def ClusterDomain_def)

lemma delegationWrite_within:
  "delegationWrite scope q \<Longrightarrow> withinBase (dsBaseDomain scope) (pClusterName (dsPatcher scope)) q"
  by (cases q) auto

lemma privateWrite_within: "privateWrite scope q \<Longrightarrow> withinBase (psBaseDomain scope) cluster q"
  by (cases q) (auto simp: ClusterDomain_private_def)

lemma Reconcile_private_within:
  "psBaseDomain scope = base \<Longrightarrow>
     writesOnly (\<lambda>(a, q). withinBase base cluster q) (Reconcile_private (privateServiceOf A scope pc))"
  by (rule writesOnly_weaken [OF psvc.Reconcile_private_writesOnly]) (auto intro: privateWrite_within)

lemma Reconcile_within:
  assumes "publicBuilt A r sc (sv, sc')" "sPublicIPService sc = worldGetter g"
  shows "writesOnly (\<lambda>(a, q). withinBase (rBaseDomain r) (pClusterName (sPatcher sc)) q) (Reconcile K sv)"
proof -
  obtain scope a b where sv: "sv = serviceOf A scope (uniformClient a) (uniformClient b) g"
      and scope: "dsBaseDomain scope = rBaseDomain r" "dsPatcher scope = sPatcher sc"
    using assms by (fastforce simp: publicBuilt_def sameScope_def)
  show ?thesis
    unfolding sv scope [symmetric]
    by (rule writesOnly_weaken [OF svc.Reconcile_writesOnly])
      (auto intro: clusterWrite_within delegationWrite_within)
qed

subsection \<open>The contract of a patcher\<close>

text \<open>What a handler logs: what the services log, with the requests above only, status updates, and
  what its patcher logs (\<open>P\<close>).\<close>

definition handlerEvent :: "(event \<Rightarrow> bool) \<Rightarrow> string \<Rightarrow> string \<Rightarrow> event \<Rightarrow> bool" where
  "handlerEvent P base cluster e \<longleftrightarrow>
     serviceEvent e \<and> (\<forall>a q. writeOf e = Some (a, q) \<longrightarrow> withinBase base cluster q) \<or>
     (\<exists>u. e = KubeStatusUpdate u) \<or> P e"

lemma service_handler:
  assumes "emits serviceEvent m" "writesOnly (\<lambda>(a, q). withinBase base cluster q) m"
  shows "emits (handlerEvent P base cluster) m"
  using emits_writes [OF assms] by (rule emits_weaken) (auto simp: handlerEvent_def)

lemma patcher_handler: "emits P m \<Longrightarrow> emits (handlerEvent P base cluster) m"
  by (erule emits_weaken) (simp add: handlerEvent_def)

locale scope_patcher =
  fixes p :: "'w Patcher"
    and P :: "event \<Rightarrow> bool"
  assumes patch_emits: "emits P (pPatchObject p)"
    and close_emits: "emits P (pClose p)"
    and no_request: "P e \<Longrightarrow> writeOf e = None"
begin

lemma addControllerFinalizer_emits: "sPatcher sc = p \<Longrightarrow> emits P (addControllerFinalizer K sc)"
  unfolding addControllerFinalizer_def by (intro emits_intros) (simp_all add: patch_emits)

text \<open>The parts of \<^verbatim>\<open>reconcileNormal\<close>, for a scope with this patcher.\<close>

lemma publicPart_emits:
  assumes "sPatcher sc = p" "sPublicIPService sc = worldGetter g"
  shows "emits (handlerEvent P (rBaseDomain r) (pClusterName p)) (bindM (masked (getDnsServiceForPublicRecords A K r sc)) (\<lambda>(dnsService, sc3).
    bindM (emit (GaugeSet ZoneInfo [rBaseDomain r, ZoneTypePublic, rBaseDomainResourceGroup r,
                   rBaseZoneTenantID r, rBaseZoneSubscriptionID r] 1)) (\<lambda>_.
    bindM (masked (Reconcile K dnsService)) (\<lambda>_.
    bindM (setDnsReady K) (\<lambda>_.
    bindM (pPatchObject (sPatcher sc3)) (\<lambda>_.
    ret \<lparr>RequeueAfter = 300\<rparr>))))))"
proof (rule emits_bind_yields [where R = "publicBuilt A r sc"])
  fix x assume x: "publicBuilt A r sc x"
  obtain sv sc3 where [simp]: "x = (sv, sc3)" by fastforce
  have "emits serviceEvent (Reconcile K sv)" "sPatcher sc3 = p"
    using x assms emits_Reconcile by (fastforce simp: publicBuilt_def sameScope_def)+
  with Reconcile_within [OF x [simplified] assms(2), of K]
  have "emits (handlerEvent P (rBaseDomain r) (pClusterName p)) (Reconcile K sv)" "sPatcher sc3 = p"
    by (auto intro!: service_handler simp: assms(1))
  then show "emits (handlerEvent P (rBaseDomain r) (pClusterName p)) (case x of (dnsService, sc3) \<Rightarrow>
    bindM (emit (GaugeSet ZoneInfo [rBaseDomain r, ZoneTypePublic, rBaseDomainResourceGroup r,
                   rBaseZoneTenantID r, rBaseZoneSubscriptionID r] 1)) (\<lambda>_.
    bindM (masked (Reconcile K dnsService)) (\<lambda>_.
    bindM (setDnsReady K) (\<lambda>_.
    bindM (pPatchObject (sPatcher sc3)) (\<lambda>_.
    ret \<lparr>RequeueAfter = 300\<rparr>)))))"
    by (simp, intro emits_intros emits_setDnsReady patcher_handler [OF patch_emits])
      (simp_all add: handlerEvent_def)
qed (auto intro!: quiet_emits quiet_intros simp: publicService_built)

lemma reconcileNormal_emits:
  assumes sc: "sPatcher sc = p" "sPublicIPService sc = worldGetter g"
  shows "emits (handlerEvent P (rBaseDomain r) (pClusterName p)) (reconcileNormal A K r sc)"
proof -
  note private_emits = onPrivateService_emits [OF privateService_built(1) quiet_getPrivateDnsService(1)]
    onPrivateService_emits [OF _ quiet_masked [OF quiet_getPrivateDnsService(2)], unfolded yields_masked, OF privateService_built(2)]
  note private_same = onPrivateService_same [OF privateService_built(1)]
    onPrivateService_same [of "masked (getPrivateDnsServiceForWcToMcIngress A K r sc')" for sc', unfolded yields_masked, OF privateService_built(2)]
  note private_Rec = emits_masked [OF service_handler [OF emits_Reconcile_private Reconcile_private_within]]
  have if_same: "yields (if b then m else ret sc1) (sameScope sc1)" if "yields m (sameScope sc1)"
    for b and m :: "('w, 'w Scope) prog" and sc1
    using that by (simp add: yields_def run_iffs)
  show ?thesis
    unfolding reconcileNormal_def Let_def
    apply (rule emits_bindM [OF patcher_handler [OF addControllerFinalizer_emits [OF sc(1)]]])
    apply (rule emits_bindM [OF quiet_emits [OF quiet_isClusterReady]])
    apply (rule emits_case_prod, rule emits_if, rule emits_basic, rule emits_bindM [OF emits_basic(5)])
    apply (rule emits_bind_yields [OF if_same [OF private_same(1)]])
     apply (intro emits_if emits_basic private_emits(1) private_Rec, assumption)
    apply (rule emits_bind_yields [OF if_same [OF private_same(2)]])
     apply (intro emits_if emits_basic private_emits(2) private_Rec, assumption)
    apply (rule publicPart_emits)
    using sc by (auto simp: sameScope_def)
qed

end

subsection \<open>The two patchers\<close>

definition kubeEvent :: "event \<Rightarrow> bool" where
  "kubeEvent e \<longleftrightarrow> (\<exists>u. e = KubeUpdate u \<or> e = KubeStatusUpdate u) \<or> (\<exists>ac. e = CapzPatch ac)"

lemma PatchObject_emits: "emits kubeEvent (CommonPatcher_PatchObject K)"
  unfolding CommonPatcher_PatchObject_def by (intro emits_intros) (auto simp: kubeEvent_def)

interpretation commonPatcher: scope_patcher "commonPatcherOps K cp" kubeEvent
  for K :: "'w kubeApi" and cp
  by unfold_locales (auto simp: commonPatcherOps_def PatchObject_emits kubeEvent_def)

interpretation capzPatcher: scope_patcher "capzPatcherOps ac c" "\<lambda>e. e = CapzPatch ac"
  for ac and c :: "'w capzScope"
  by unfold_locales (auto simp: capzPatcherOps_def capzPatch_def intro!: emits_intros)

text \<open>The patcher of a scope \<open>NewScope\<close> returns is one of the two; its cluster is the one of the parameters.\<close>

definition knownPatcher :: "'w kubeApi \<Rightarrow> 'w Patcher \<Rightarrow> bool" where
  "knownPatcher K p \<longleftrightarrow> (\<exists>cp. p = commonPatcherOps K cp) \<or> (\<exists>ac c. p = capzPatcherOps ac c)"

lemma NewScope_common:
  assumes "NewScope K Z ps s = (Ok sc, t)" "\<not> isAzureCluster (infraCluster s)"
  shows "\<exists>cp g. sPatcher sc = commonPatcherOps K cp \<and> cpCluster cp = spCluster ps \<and>
    sPublicIPService sc = worldGetter g \<and> sCluster sc = spCluster ps"
  using assms PublicIPService_Get_world
  by (fastforce simp: NewScope_def newCommonScope_def run_iffs NewCommonPatcher_def split: prod.splits)

lemma callWorld_Ok: "callWorld f s = (Ok x, t) \<Longrightarrow> \<exists>w. f (world s) = (Inr x, w)"
  by (cases "f (world s)"; cases "fst (f (world s))") (auto simp: callWorld_def)

lemma NewScope_azure:
  assumes "NewScope K Z ps s = (Ok sc, t)" "isAzureCluster (infraCluster s)"
  shows "\<exists>ac c g w w'. sPatcher sc = capzPatcherOps ac c \<and> sPublicIPService sc = worldGetter g \<and> sCluster sc = spCluster ps \<and>
    fst (getAzureCluster K (clInfrastructureRefName (spCluster ps)) (clNamespace (spCluster ps)) (world s)) = Inr ac \<and>
    newClusterScope Z (spCluster ps) ac w = (Inr c, w')"
proof -
  obtain ac u c v g where ac: "callWorld (getAzureCluster K (clInfrastructureRefName (spCluster ps)) (clNamespace (spCluster ps))) s = (Ok ac, u)"
      and c: "callWorld (newClusterScope Z (spCluster ps) ac) u = (Ok c, v)"
      and sc: "sPatcher sc = capzPatcherOps ac c" "sPublicIPService sc = worldGetter g" "sCluster sc = spCluster ps"
    using assms by (auto simp: NewScope_def newAzureScope_def run_iffs Let_def)
  have "fst (getAzureCluster K (clInfrastructureRefName (spCluster ps)) (clNamespace (spCluster ps)) (world s)) = Inr ac"
    using callWorld_Ok [OF ac] by auto
  moreover have "\<exists>w'. newClusterScope Z (spCluster ps) ac (world u) = (Inr c, w')"
    by (rule callWorld_Ok [OF c])
  ultimately show ?thesis using sc by blast
qed

subsection \<open>reconcileDelete\<close>

text \<open>Everything \<open>reconcileDelete\<close> does before it removes the finalizer.\<close>

definition deleteDns :: "'w azureSdk \<Rightarrow> 'w kubeApi \<Rightarrow> ClusterReconciler \<Rightarrow> 'w Scope \<Rightarrow> ('w, unit) prog" where
  "deleteDns A K r sc =
     bindM (reads infraCluster) (\<lambda>u.
     let annotations = uAnnotations u; spec = azureClusterSpec K u;
         domain = dotJoin (pClusterName (sPatcher sc)) (rBaseDomain r) in
     bindM (if spec \<noteq> None \<and> lookupStr annotations azurePrivateEndpointOperatorApiServerAnnotation \<noteq> []
            then bindM (onPrivateService (getPrivateDnsServiceForMcToWcApi A K r sc)
                          (\<lambda>p. masked (ReconcileDelete_private p))) (\<lambda>sc.
                 bindM (deleteClusterMetrics domain ZoneTypePrivate) (\<lambda>_. ret sc))
            else ret sc) (\<lambda>sc1.
     bindM (if spec \<noteq> None \<and> lookupStr annotations azurePrivateEndpointOperatorMcIngressAnnotation \<noteq> []
            then bindM (onPrivateService (getPrivateDnsServiceForWcToMcIngress A K r sc1)
                          (\<lambda>p. masked (ReconcileDelete_private p))) (\<lambda>sc.
                 bindM (deleteClusterMetrics domain ZoneTypePrivate) (\<lambda>_. ret sc))
            else ret sc1) (\<lambda>sc2.
     bindM (masked (getDnsServiceForPublicRecords A K r sc2)) (\<lambda>(dnsService, sc3).
     masked (ReconcileDelete dnsService)))))"

lemma reconcileDelete_eq:
  "reconcileDelete A K r sc = bindM (deleteDns A K r sc) (\<lambda>_.
     bindM (removeControllerFinalizer K) (\<lambda>_.
     bindM (deleteClusterMetrics (dotJoin (pClusterName (sPatcher sc)) (rBaseDomain r)) ZoneTypePublic) (\<lambda>_.
     ret emptyResult)))"
  unfolding reconcileDelete_def deleteDns_def Let_def split_def bindM_assoc by simp

lemma if_private_same:
  fixes m :: "('w, 'w Scope) prog" and n :: "('w, unit) prog"
  shows "yields m (sameScope sc) \<Longrightarrow> yields (if b then bindM m (\<lambda>sc. bindM n (\<lambda>_. ret sc)) else ret sc) (sameScope sc)"
  by (auto simp: yields_def run_iffs)

lemmas delete_private_same =
  if_private_same [OF onPrivateService_same [OF privateService_built(1)]]
  if_private_same [OF onPrivateService_same [OF privateService_built(2)]]

lemma deleteDns_infra:
  assumes "sPublicIPService sc = worldGetter g"
  shows "keepsInfra (deleteDns A K r sc)"
proof -
  have pub: "keepsInfra (ReconcileDelete sv)" if "publicBuilt A r sc1 (sv, sc')" "sPublicIPService sc1 = worldGetter g" for sc1 sv sc'
    using that svc.ReconcileDelete_infra by (fastforce simp: publicBuilt_def)
  show ?thesis
    unfolding deleteDns_def Let_def deleteClusterMetrics_def
    apply (rule keepsInfra_bindM [OF keepsInfra_basic(5)])
    apply (rule keepsInfra_bind_yields [OF delete_private_same(1)])
     apply (intro sends_intros onPrivateService_infra [OF privateService_built(1) quiet_getPrivateDnsService(1)]
       psvc.Reconcile_private_infra)
    apply (rule keepsInfra_bind_yields [OF delete_private_same(2)])
     apply (intro sends_intros onPrivateService_infra [OF privateService_built(2) quiet_getPrivateDnsService(2)]
       psvc.Reconcile_private_infra)
    apply (rule keepsInfra_bind_yields [OF publicService_built_masked])
     apply (intro sends_intros quiet_infra quiet_getDnsServiceForPublicRecords)
    using assms by (auto intro!: sends_intros pub simp: sameScope_def)
qed

text \<open>
  What Azure has to answer for the deletions of the public part to succeed: the NS record is deleted;
  the resource group too, or it does not exist. (\<open>resourceNotFoundError\<close> is a value of the operator's own, which
  the code takes for that answer wherever it appears.)
\<close>

definition groupDeleted :: "'w azureSdk \<Rightarrow> armClient \<Rightarrow> string \<Rightarrow> 'w \<Rightarrow> bool" where
  "groupDeleted A a rg w = (case resourceGroups_BeginDelete A a rg w of
      (Inl err, w') \<Rightarrow> err = ResponseError ''ResourceGroupNotFound'' \<or> Cause err = resourceNotFoundError
    | (Inr x, w') \<Rightarrow> (case fst (pollUntilDone A a (ResourceGroupsBeginDelete rg) w') of
        Inl err \<Rightarrow> Cause err = resourceNotFoundError | Inr x \<Rightarrow> True))"

lemma deleteClusterResourceGroup_iff:
  "fst (deleteClusterResourceGroup (serviceOf A scope ac bac g) s) = Ok () \<longleftrightarrow>
     groupDeleted A (acResourceGroups ac) (DNSScope_ResourceGroup scope) (world s)"
proof -
  have known: "IsResourceNotFoundError (Some err) \<longleftrightarrow> err = ResponseError ''ResourceGroupNotFound'' \<or> Cause err = resourceNotFoundError"
    for err by (cases err) (auto simp: IsResourceNotFoundError_def resourceGroupNotFoundErrorMessage_def resourceNotFoundError_def)
  moreover have "Cause resourceNotFoundError = resourceNotFoundError" by (simp add: resourceNotFoundError_def)
  ultimately show ?thesis
    by (auto simp: deleteClusterResourceGroup_def azure_DeleteResourceGroup_def groupDeleted_def countErrors_def run_simps
        split: prod.splits sum.splits res.splits)
qed

lemma deleteClusterNSRecords_iff:
  "(\<exists>t. deleteClusterNSRecords (serviceOf A scope ac bac g) s = (Ok (), t) \<and> world t = w) \<longleftrightarrow>
     recordSets_Delete A (acRecordSets bac) (dsBaseDomainResourceGroup scope) (dsBaseDomain scope) RecordTypeNS
       (pClusterName (dsPatcher scope)) (world s) = (Inr (), w)"
  (is "_ \<longleftrightarrow> ?d = _")
proof -
  obtain q v where "?d = (q, v)" by fastforce
  then show ?thesis
    by (cases q) (auto simp: deleteClusterNSRecords_def azure_DeleteRecordSet_def countErrors_def run_simps)
qed

lemma ReconcileDelete_iff:
  assumes "\<not> isAzureCluster (infraCluster s)"
  shows "fst (ReconcileDelete (serviceOf A scope ac bac g) s) = Ok () \<longleftrightarrow>
    (\<exists>w. recordSets_Delete A (acRecordSets bac) (dsBaseDomainResourceGroup scope) (dsBaseDomain scope) RecordTypeNS
       (pClusterName (dsPatcher scope)) (world s) = (Inr (), w) \<and>
     groupDeleted A (acResourceGroups ac) (DNSScope_ResourceGroup scope) w)"
proof -
  let ?sv = "serviceOf A scope ac bac g"
  obtain q t where ns: "deleteClusterNSRecords ?sv s = (q, t)" by fastforce
  have "infraCluster t = infraCluster s"
    using keepsInfraD [OF azure.DeleteRecordSet_infra] ns by (auto simp: deleteClusterNSRecords_def)
  then have "fst (ReconcileDelete ?sv s) = Ok () \<longleftrightarrow> q = Ok () \<and> fst (deleteClusterResourceGroup ?sv t) = Ok ()"
    using ns assms by (cases q; cases "deleteClusterResourceGroup ?sv t")
      (auto simp: ReconcileDelete_def IsAzureCluster_def run_simps split: res.splits)
  then show ?thesis
    unfolding deleteClusterResourceGroup_iff deleteClusterNSRecords_iff [of A scope ac bac g, symmetric] using ns by auto
qed

text \<open>
  The requests of a deletion: the cluster's NS record in the base domain, the cluster's resource
  group, and links and private zones below the base domain. None of them creates anything.
\<close>

fun deletionWithin :: "string \<Rightarrow> string \<Rightarrow> request \<Rightarrow> bool" where
  "deletionWithin base cluster (RecordSetsDelete rg zone ty name) \<longleftrightarrow> zone = base \<and> ty = RecordTypeNS \<and> name = cluster"
| "deletionWithin base cluster (ResourceGroupsBeginDelete rg) \<longleftrightarrow> rg = cluster"
| "deletionWithin base cluster (PrivateZonesBeginDelete rg zone) \<longleftrightarrow> (\<exists>n. zone = dotJoin n base)"
| "deletionWithin base cluster (VnetLinksBeginDelete rg zone name) \<longleftrightarrow> (\<exists>n. zone = dotJoin n base)"
| "deletionWithin base cluster _ \<longleftrightarrow> False"

definition deletionEvent :: "string \<Rightarrow> string \<Rightarrow> event \<Rightarrow> bool" where
  "deletionEvent base cluster e \<longleftrightarrow>
     serviceEvent e \<and> (\<forall>a q. writeOf e = Some (a, q) \<longrightarrow> deletionWithin base cluster q)"

lemma ReconcileDelete_private_event:
  assumes "psBaseDomain scope = base"
  shows "emits (deletionEvent base cluster) (ReconcileDelete_private (privateServiceOf A scope pc))"
proof -
  have "writesOnly (\<lambda>(a, q). deletionWithin base cluster q) (ReconcileDelete_private (privateServiceOf A scope pc))"
    unfolding ReconcileDelete_private_def privateServiceOf_fields
    by (intro writes_intros pclient.client_writes) (use assms in \<open>auto simp: ClusterDomain_private_def\<close>)
  from emits_writes [OF emits_ReconcileDelete_private this] show ?thesis
    by (rule emits_weaken) (auto simp: deletionEvent_def)
qed

lemma ReconcileDelete_event:
  assumes "publicBuilt A r sc (sv, sc')" "sPublicIPService sc = worldGetter g"
  shows "emits (deletionEvent (rBaseDomain r) (pClusterName (sPatcher sc))) (ReconcileDelete sv)"
proof -
  obtain scope a b where sv: "sv = serviceOf A scope (uniformClient a) (uniformClient b) g"
      and scope: "dsBaseDomain scope = rBaseDomain r" "dsPatcher scope = sPatcher sc"
    using assms by (fastforce simp: publicBuilt_def sameScope_def)
  have "writesOnly (\<lambda>(a, q). deletionWithin (rBaseDomain r) (pClusterName (sPatcher sc)) q) (ReconcileDelete sv)"
    unfolding ReconcileDelete_def deleteClusterNSRecords_def deleteClusterResourceGroup_def Let_def sv serviceOf_fields
    by (intro writes_intros azure.client_writes quiet_writesOnly [OF quiet_IsAzureCluster(1)])
      (use scope in \<open>auto simp: DNSScope_ResourceGroup_def\<close>)
  from emits_writes [OF emits_ReconcileDelete [of A scope "uniformClient a" "uniformClient b" g, folded sv] this]
  show ?thesis by (rule emits_weaken) (auto simp: deletionEvent_def)
qed

lemma deleteClusterMetrics_event:
  "ztype = ZoneTypePublic \<or> ztype = ZoneTypePrivate \<Longrightarrow> emits (deletionEvent base cluster) (deleteClusterMetrics name ztype)"
  unfolding deleteClusterMetrics_def by (intro emits_intros) (auto simp: deletionEvent_def)

lemma deleteDns_event:
  assumes sc: "sPublicIPService sc = worldGetter g"
  shows "emits (deletionEvent (rBaseDomain r) (pClusterName (sPatcher sc))) (deleteDns A K r sc)"
  unfolding deleteDns_def Let_def
  apply (rule emits_bindM [OF emits_basic(5)])
  apply (rule emits_bind_yields [OF delete_private_same(1)])
   apply (intro emits_intros deleteClusterMetrics_event ReconcileDelete_private_event
     onPrivateService_emits [OF privateService_built(1) quiet_getPrivateDnsService(1)]; simp)
  apply (rule emits_bind_yields [OF delete_private_same(2)])
   apply (intro emits_intros deleteClusterMetrics_event ReconcileDelete_private_event
     onPrivateService_emits [OF privateService_built(2) quiet_getPrivateDnsService(2)]; simp)
  apply (rule emits_bind_yields [OF publicService_built_masked])
   apply (intro emits_intros quiet_emits quiet_getDnsServiceForPublicRecords)
  using sc ReconcileDelete_event by (fastforce intro!: emits_intros simp: sameScope_def)

lemma reconcileDelete_event:
  assumes sc: "sPublicIPService sc = worldGetter g"
  shows "emits (deletionEvent (rBaseDomain r) (pClusterName (sPatcher sc))) (reconcileDelete A K r sc)"
  unfolding reconcileDelete_eq
  by (intro emits_intros deleteDns_event [OF sc] emits_removeControllerFinalizer deleteClusterMetrics_event) simp

text \<open>The object in memory loses the finalizer exactly when the deletion succeeds.\<close>

lemma reconcileDelete_infra:
  assumes sc: "sPublicIPService sc = worldGetter g"
    and run: "reconcileDelete A K r sc s = (res, t)"
  shows "infraCluster t = (case res of
      Ok x \<Rightarrow> if containsFinalizer K (infraCluster s) AzureClusterControllerFinalizer
              then removeFinalizer K (infraCluster s) AzureClusterControllerFinalizer else infraCluster s
    | _ \<Rightarrow> infraCluster s)"
proof -
  obtain q u where d: "deleteDns A K r sc s = (q, u)" by fastforce
  have "infraCluster u = infraCluster s" using keepsInfraD [OF deleteDns_infra [OF sc] d] .
  then show ?thesis
    using run d by (cases q) (auto simp: reconcileDelete_eq run_simps removeControllerFinalizer_def deleteClusterMetrics_def)
qed

end
