(* ===== verification/Controller_Props.thy ===== *)
theory Controller_Props
  imports Controller_Handlers
begin

section \<open>Properties of the controller\<close>

text \<open>
  The requests of the two handlers, the early returns of \<open>Reconcile_cluster\<close>, the finalizer, and the
  panics of the private part.
\<close>

subsection \<open>The handlers of a scope the controller built\<close>

lemma NewScope_built:
  assumes "NewScope K Z ps s = (Ok sc, t)"
  shows "\<exists>g. sPublicIPService sc = worldGetter g \<and> knownPatcher K (sPatcher sc)"
  unfolding knownPatcher_def using NewScope_common [OF assms] NewScope_azure [OF assms] by blast

lemma reconcileNormal_event:
  assumes "sPublicIPService sc = worldGetter g" "knownPatcher K (sPatcher sc)"
  shows "emits (handlerEvent kubeEvent (rBaseDomain r) (pClusterName (sPatcher sc))) (reconcileNormal A K r sc)"
  using assms(2) unfolding knownPatcher_def
proof (elim disjE exE)
  fix cp assume "sPatcher sc = commonPatcherOps K cp"
  then show ?thesis using commonPatcher.reconcileNormal_emits assms(1) by metis
next
  fix ac c assume "sPatcher sc = capzPatcherOps ac c"
  then have "emits (handlerEvent (\<lambda>e. e = CapzPatch ac) (rBaseDomain r) (pClusterName (sPatcher sc))) (reconcileNormal A K r sc)"
    using capzPatcher.reconcileNormal_emits assms(1) by metis
  then show ?thesis by (rule emits_weaken) (auto simp: handlerEvent_def kubeEvent_def)
qed

lemma emits_writes_of:
  assumes "emits P m" "m s = (r, t)" "\<And>e a q. P e \<Longrightarrow> writeOf e = Some (a, q) \<Longrightarrow> Q q"
  shows "\<exists>ws. azureWrites t = azureWrites s @ ws \<and> (\<forall>(a, q)\<in>set ws. Q q)"
proof -
  obtain es where es: "events t = events s @ es" "\<forall>e\<in>set es. P e" using emitsD [OF assms(1,2)] by blast
  then have "azureWrites t = azureWrites s @ List.map_filter writeOf es"
    by (simp add: azureWrites_def map_filter_append)
  moreover have "\<forall>(a, q)\<in>set (List.map_filter writeOf es). Q q"
    using es(2) assms(3) by (fastforce simp: List.map_filter_def)
  ultimately show ?thesis by blast
qed

lemma handlerEvent_within: "handlerEvent kubeEvent base cluster e \<Longrightarrow> writeOf e = Some (a, q) \<Longrightarrow> withinBase base cluster q"
  by (auto simp: handlerEvent_def kubeEvent_def)

lemma deletionEvent_within: "deletionEvent base cluster e \<Longrightarrow> writeOf e = Some (a, q) \<Longrightarrow> deletionWithin base cluster q"
  by (auto simp: deletionEvent_def)

subsection \<open>A reconciler of the sample environment\<close>

definition sampleReconciler :: ClusterReconciler where
  "sampleReconciler =
     \<lparr>rBaseDomain = ''example.io'', rBaseDomainResourceGroup = ''base-rg'', rBaseZoneClientID = ''bc'',
      rBaseZoneClientSecret = ''bs'', rBaseZoneSubscriptionID = ''bsub'', rBaseZoneTenantID = ''bt'',
      rManagementClusterConfig = \<lparr>mccName = ''mc'', mccNamespace = ''org''\<rparr>,
      rInfraClusterZoneAzureConfig = sampleReconcilerZone, rClusterAzureIdentityRef = None\<rparr>"

lemma sampleCluster_name [simp]: "clName sampleCluster = ''wc''"
  by (simp add: sampleCluster_def)

definition sampleParams :: ScopeParams where
  "sampleParams = \<lparr>spCluster = sampleCluster, spManagementClusterConfig = \<lparr>mccName = ''mc'', mccNamespace = ''org''\<rparr>,
     spClusterIdentityRef = None, spClusterZoneAzureConfig = sampleReconcilerZone\<rparr>"

definition sampleCommonScope :: "cloud Scope" where
  "sampleCommonScope =
     \<lparr>sCluster = sampleCluster, sPatcher = samplePatcher, sPublicIPService = PublicIPService_Get sampleCluster,
      sManagementClusterConfig = \<lparr>mccName = ''mc'', mccNamespace = ''org''\<rparr>,
      sManagementCluster = None, sManagementClusterIdentity = None, sClusterIdentityRef = None,
      sClusterK8sClient = None, sAzureLocation = ''westeurope''\<rparr>"

lemma sampleNewScope_any:
  assumes "\<not> isAzureCluster (infraCluster s)" "lookupStr (uAnnotations (infraCluster s)) AnnotationAzureClusterIdentityName = []"
  shows "NewScope sampleK sampleCapz sampleParams s = (Ok sampleCommonScope, s)"
  using assms
  by (simp add: NewScope_def newCommonScope_def configuredCredentials_def asoManagedClusterIdentityRef_def run_simps
      sampleParams_def sampleReconcilerZone_def sampleCommonScope_def samplePatcher_def sampleCluster_def Let_def)

lemma sampleNewScope:
  "NewScope sampleK sampleCapz sampleParams (sampleState ''VSphereCluster'') = (Ok sampleCommonScope, sampleState ''VSphereCluster'')"
  by (rule sampleNewScope_any) (simp_all add: sampleState_def sampleInfra_def isAzureCluster_def kindAzureCluster_def)

subsection \<open>Properties\<close>

text \<open>
  C5: The reconciliation of a cluster that is not being deleted, whatever its outcome, sends only
  creations and updates of the cluster's own resource group, zone and records, of its NS record in
  the base domain, and of private zones below the base domain with their links and records. The
  only thing it ever deletes is a link of such a private zone.
\<close>

theorem normal_within_base:
  assumes "NewScope K Z ps s0 = (Ok sc, s1)"
    and "reconcileNormal A K r sc s = (res, t)"
  shows "\<exists>ws. azureWrites t = azureWrites s @ ws \<and>
    (\<forall>(a, q)\<in>set ws. withinBase (rBaseDomain r) (pClusterName (sPatcher sc)) q)"
proof -
  obtain g where "sPublicIPService sc = worldGetter g" "knownPatcher K (sPatcher sc)"
    using NewScope_built [OF assms(1)] by blast
  from emits_writes_of [OF reconcileNormal_event [OF this] assms(2) handlerEvent_within] show ?thesis .
qed

theorem normal_within_base_witness:
  "let m = reconcileNormal sampleSdk sampleK sampleReconciler sampleCommonScope (sampleState ''VSphereCluster'') in
   fst m = Ok \<lparr>RequeueAfter = 300\<rparr> \<and> azureWrites (snd m) \<noteq> [] \<and>
   list_all (\<lambda>(a, q). withinBase ''example.io'' ''wc'' q) (azureWrites (snd m))"
proof -
  let ?m = "reconcileNormal sampleSdk sampleK sampleReconciler sampleCommonScope (sampleState ''VSphereCluster'')"
  have "(\<lambda>(x, t). x = Ok \<lparr>RequeueAfter = 300\<rparr> \<and> azureWrites t \<noteq> []) ?m" by code_simp
  then have "fst ?m = Ok \<lparr>RequeueAfter = 300\<rparr>" "azureWrites (snd ?m) \<noteq> []" by (simp_all add: case_prod_beta)
  moreover have run: "?m = (fst ?m, snd ?m)" by simp
  have "\<forall>(a, q)\<in>set (azureWrites (snd ?m)). withinBase ''example.io'' ''wc'' q"
    using normal_within_base [OF sampleNewScope run]
    by (simp add: sampleReconciler_def sampleCommonScope_def
        samplePatcher_def commonPatcherOps_def NewCommonPatcher_def sampleCluster_def)
  ultimately show ?thesis by (simp add: Let_def list_all_iff)
qed

text \<open>
  C6: The reconciliation of a cluster that is being deleted, whatever its outcome, sends only
  deletions: of the cluster's NS record in the base domain, of the cluster's resource group, and of
  private zones below the base domain and their links.
\<close>

theorem deletion_within_base:
  assumes "NewScope K Z ps s0 = (Ok sc, s1)"
    and "reconcileDelete A K r sc s = (res, t)"
  shows "\<exists>ws. azureWrites t = azureWrites s @ ws \<and>
    (\<forall>(a, q)\<in>set ws. deletionWithin (rBaseDomain r) (pClusterName (sPatcher sc)) q)"
proof -
  obtain g where "sPublicIPService sc = worldGetter g" using NewScope_built [OF assms(1)] by blast
  from emits_writes_of [OF reconcileDelete_event [OF this] assms(2) deletionEvent_within] show ?thesis .
qed

theorem deletion_within_base_witness:
  "let m = reconcileDelete sampleSdk sampleK sampleReconciler sampleCommonScope (sampleState ''VSphereCluster'') in
   fst m = Ok \<lparr>RequeueAfter = 0\<rparr> \<and> azureWrites (snd m) \<noteq> [] \<and>
   list_all (\<lambda>(a, q). deletionWithin ''example.io'' ''wc'' q) (azureWrites (snd m))"
proof -
  let ?m = "reconcileDelete sampleSdk sampleK sampleReconciler sampleCommonScope (sampleState ''VSphereCluster'')"
  have "(\<lambda>(x, t). x = Ok \<lparr>RequeueAfter = 0\<rparr> \<and> azureWrites t \<noteq> []) ?m" by code_simp
  then have "fst ?m = Ok \<lparr>RequeueAfter = 0\<rparr>" "azureWrites (snd ?m) \<noteq> []" by (simp_all add: case_prod_beta)
  moreover have run: "?m = (fst ?m, snd ?m)" by simp
  have "\<forall>(a, q)\<in>set (azureWrites (snd ?m)). deletionWithin ''example.io'' ''wc'' q"
    using deletion_within_base [OF sampleNewScope run]
    by (simp add: sampleReconciler_def sampleCommonScope_def
        samplePatcher_def commonPatcherOps_def NewCommonPatcher_def sampleCluster_def)
  ultimately show ?thesis by (simp add: Let_def list_all_iff)
qed

text \<open>
  The early returns of the controller. A cluster that is not found is done; one whose
  infrastructure object is not found is tried again after a minute; every other lookup error is
  returned; a paused cluster is left alone. In all these cases nothing is logged: no request, no
  update, no metric.
\<close>

theorem early_returns:
  assumes "getClusterByName K namespace name (world s) = (c, w1)"
    and "\<And>cl. c = Inr cl \<Longrightarrow> getInfraObject K cl w1 = (i, w2)"
    and "\<And>cl infra. c = Inr cl \<Longrightarrow> i = Inr infra \<Longrightarrow> isPaused K cl infra"
  shows "\<exists>t. Reconcile_cluster A K Z r namespace name s =
      ((case c of
          Inl err \<Rightarrow> if apiIsNotFound K err then Ok \<lparr>RequeueAfter = 0\<rparr> else Err err
        | Inr cl \<Rightarrow> (case i of
            Inl err \<Rightarrow> if apiIsNotFound K err then Ok \<lparr>RequeueAfter = 60\<rparr> else Err (Masked err)
          | Inr infra \<Rightarrow> Ok \<lparr>RequeueAfter = 0\<rparr>)), t) \<and> events t = events s"
  using assms
  by (auto simp: Reconcile_cluster_def run_simps emptyResult_def split: sum.splits)

theorem early_returns_witness:
  "\<exists>t. Reconcile_cluster sampleSdk (sampleK\<lparr>isPaused := \<lambda>_ _. True\<rparr>) sampleCapz sampleReconciler ''org'' ''wc''
     (sampleState ''AzureCluster'') = (Ok \<lparr>RequeueAfter = 0\<rparr>, t) \<and> events t = []"
  using early_returns [of "sampleK\<lparr>isPaused := \<lambda>_ _. True\<rparr>" "''org''" "''wc''" "sampleState ''AzureCluster''"
      "Inr sampleCluster" "sampleCloud ''AzureCluster''" "Inr (sampleInfra ''AzureCluster'')" "sampleCloud ''AzureCluster''"
      sampleSdk sampleCapz sampleReconciler]
  by (simp add: sampleK_def sampleKube_def sampleState_def sampleCloud_def)

text \<open>
  A provisioned \<^verbatim>\<open>AzureCluster\<close> is taken as ready for DNS exactly when its status lists a condition of
  type \<^verbatim>\<open>LoadBalancersReady\<close>: the status of that condition, also \<^verbatim>\<open>False\<close>, is not looked at. One that is
  not ready is tried again after two minutes.
\<close>

theorem load_balancer_status_ignored:
  assumes "clPhase cl = ''Provisioned''"
    and "isAzureCluster (infraCluster s)"
    and "azureClusterStatus K (infraCluster s) = Some cs"
  shows "isClusterReadyForDnsManagements K cl s =
    (if ''LoadBalancersReady'' \<in> set (map cType cs) then (Ok (\<lparr>RequeueAfter = 0\<rparr>, True), s)
     else (Ok (\<lparr>RequeueAfter = 120\<rparr>, False), s))"
  using assms by (auto simp: isClusterReadyForDnsManagements_def run_simps list_ex_iff emptyResult_def Let_def
      intro: rev_image_eqI [OF _ sym])

definition failedLoadBalancer :: AzureCluster where
  "failedLoadBalancer = sampleManagementCluster\<lparr>acConditions :=
     [dnsZoneReadyCondition\<lparr>cType := ''LoadBalancersReady'', cStatus := ''False''\<rparr>]\<rparr>"

theorem load_balancer_status_ignored_witness:
  "isClusterReadyForDnsManagements (sampleK\<lparr>fromUnstructured := \<lambda>_. Inr failedLoadBalancer\<rparr>) sampleCluster
     (sampleState ''AzureCluster'') = (Ok (\<lparr>RequeueAfter = 0\<rparr>, True), sampleState ''AzureCluster'')"
  using load_balancer_status_ignored [of sampleCluster "sampleState ''AzureCluster''"
      "sampleK\<lparr>fromUnstructured := \<lambda>_. Inr failedLoadBalancer\<rparr>" "acConditions failedLoadBalancer"]
  by (simp add: sampleCluster_def sampleState_def sampleInfra_def isAzureCluster_def kindAzureCluster_def azureClusterStatus_def
      azureClusterFromInfraObject_def failedLoadBalancer_def dnsZoneReadyCondition_def)

subsection \<open>The deferred close\<close>

lemma emits_deferClose: "emits P close \<Longrightarrow> emits P m \<Longrightarrow> emits P (deferClose close m)"
  unfolding emits_def
proof
  fix s assume close: "\<forall>s. \<exists>es. events (snd (close s)) = events s @ es \<and> (\<forall>e\<in>set es. P e)"
    and m: "\<forall>s. \<exists>es. events (snd (m s)) = events s @ es \<and> (\<forall>e\<in>set es. P e)"
  obtain r t where r: "m s = (r, t)" by fastforce
  obtain es fs where "events t = events s @ es" "\<forall>e\<in>set es. P e"
      "events (snd (close t)) = events t @ fs" "\<forall>e\<in>set fs. P e"
    using close m r by (metis snd_conv)
  then show "\<exists>es. events (snd (deferClose close m s)) = events s @ es \<and> (\<forall>e\<in>set es. P e)"
    using r by (intro exI [of _ "es @ fs"]) (auto simp: deferClose_def split: res.splits prod.splits)
qed

text \<open>The run of a cluster that is found and not paused.\<close>

definition reconcilerParams :: "ClusterReconciler \<Rightarrow> Cluster \<Rightarrow> ScopeParams" where
  "reconcilerParams r cl = \<lparr>spCluster = cl, spManagementClusterConfig = rManagementClusterConfig r,
     spClusterIdentityRef = rClusterAzureIdentityRef r, spClusterZoneAzureConfig = rInfraClusterZoneAzureConfig r\<rparr>"

lemma Reconcile_cluster_run:
  assumes "getClusterByName K namespace name (world s) = (Inr cl, w1)" "getInfraObject K cl w1 = (Inr infra, w2)"
    "\<not> isPaused K cl infra"
    "NewScope K Z (reconcilerParams r cl) (s\<lparr>world := w2, infraCluster := infra\<rparr>) = (Ok sc, s1)"
  shows "Reconcile_cluster A K Z r namespace name s =
    deferClose (pClose (sPatcher sc))
      (if clDeleting cl \<or> uDeleting infra then reconcileDelete A K r sc else reconcileNormal A K r sc) s1"
  using assms by (simp add: Reconcile_cluster_def run_simps reconcilerParams_def [symmetric])

text \<open>The package \<^verbatim>\<open>controllerutil\<close>, as documented: finalizers are a list of strings.\<close>

definition finalizerLaws :: "'w kubeApi \<Rightarrow> bool" where
  "finalizerLaws K \<longleftrightarrow> (\<forall>u f. containsFinalizer K u f = (f \<in> set (uFinalizers u)) \<and>
     removeFinalizer K u f = u\<lparr>uFinalizers := removeAll f (uFinalizers u)\<rparr>)"

lemma removedFinalizer:
  assumes "finalizerLaws K"
  shows "(if containsFinalizer K u f then removeFinalizer K u f else u) = u\<lparr>uFinalizers := removeAll f (uFinalizers u)\<rparr>"
  using assms by (simp add: finalizerLaws_def)

text \<open>
  The deletion of an AKS cluster up to the deferred close: it succeeds exactly when the service can
  be built and Azure deletes the NS record and the resource group.
\<close>

lemma aks_reconcileDelete:
  assumes sc: "sPublicIPService sc = worldGetter g" and aks: "isASOManagedCluster (infraCluster s)"
    and run: "reconcileDelete A K r sc s = (res, t)"
  shows "\<exists>a b. armSubscription a = pSubscriptionID (sPatcher sc) \<and> armSubscription b = rBaseZoneSubscriptionID r \<and>
    (\<forall>x. res = Ok x \<longrightarrow> x = \<lparr>RequeueAfter = 0\<rparr>) \<and>
    ((\<exists>x. res = Ok x) \<longleftrightarrow> (\<exists>x u w. getDnsServiceForPublicRecords A K r sc s = (Ok x, u) \<and>
       recordSets_Delete A b (rBaseDomainResourceGroup r) (rBaseDomain r) ''NS'' (pClusterName (sPatcher sc)) (world u) = (Inr (), w) \<and>
       groupDeleted A a (pClusterName (sPatcher sc)) w))"
proof -
  have kind: "\<not> isAzureCluster (infraCluster s)"
    using aks by (simp add: isAzureCluster_def isASOManagedCluster_def kindAzureCluster_def kindAzureASOManagedCluster_def)
  then have spec: "azureClusterSpec K (infraCluster s) = None"
    by (simp add: azureClusterSpec_def azureClusterFromInfraObject_def)
  obtain q u where svc: "getDnsServiceForPublicRecords A K r sc s = (q, u)" by fastforce
  have u: "infraCluster u = infraCluster s" using quietD [OF quiet_getDnsServiceForPublicRecords svc] by simp
  obtain q' v where dns: "deleteDns A K r sc s = (q', v)" by fastforce
  have ok: "\<forall>x. res = Ok x \<longrightarrow> x = \<lparr>RequeueAfter = 0\<rparr>" "(\<exists>x. res = Ok x) \<longleftrightarrow> fst (deleteDns A K r sc s) = Ok ()"
  proof -
    have "res = (case q' of Ok x \<Rightarrow> Ok \<lparr>RequeueAfter = 0\<rparr> | Err e \<Rightarrow> Err e | Panic p \<Rightarrow> Panic p)"
      using run dns by (cases q') (simp_all add: reconcileDelete_eq run_simps removeControllerFinalizer_def
        deleteClusterMetrics_def emptyResult_def split: if_splits)
    then show "\<forall>x. res = Ok x \<longrightarrow> x = \<lparr>RequeueAfter = 0\<rparr>" "(\<exists>x. res = Ok x) \<longleftrightarrow> fst (deleteDns A K r sc s) = Ok ()"
      unfolding dns by (cases q'; simp)+
  qed
  show ?thesis
  proof (cases q)
    case (Ok x)
    obtain sv sc' where x: "x = (sv, sc')" by fastforce
    have "publicBuilt A r sc (sv, sc')" using publicService_built svc unfolding Ok x yields_def by blast
    then obtain scope a b where sv: "sv = serviceOf A scope (uniformClient a) (uniformClient b) g"
        and scope: "dsPatcher scope = sPatcher sc" "dsBaseDomain scope = rBaseDomain r"
          "dsBaseDomainResourceGroup scope = rBaseDomainResourceGroup r"
        and ab: "armSubscription a = pSubscriptionID (sPatcher sc)" "armSubscription b = rBaseZoneSubscriptionID r"
      using sc by (fastforce simp: publicBuilt_def sameScope_def)
    have "fst (deleteDns A K r sc s) = Ok () \<longleftrightarrow> fst (ReconcileDelete sv u) = Ok ()"
      using svc spec by (cases "ReconcileDelete sv u") (auto simp: deleteDns_def run_simps Let_def Ok x split: res.splits)
    also have "\<dots> \<longleftrightarrow> (\<exists>w. recordSets_Delete A b (rBaseDomainResourceGroup r) (rBaseDomain r) ''NS''
        (pClusterName (sPatcher sc)) (world u) = (Inr (), w) \<and> groupDeleted A a (pClusterName (sPatcher sc)) w)"
      unfolding sv using ReconcileDelete_iff [of u A scope "uniformClient a" "uniformClient b" g] kind u scope
      by (simp add: DNSScope_ResourceGroup_def)
    finally show ?thesis using ok ab svc Ok by auto
  next
    case (Err e)
    then have "\<nexists>x. res = Ok x" unfolding ok(2) using svc spec by (simp add: deleteDns_def run_simps Let_def)
    then show ?thesis using ok(1) svc Err
      by (intro exI [of _ "\<lparr>armSubscription = _, armCredential = NoCredential\<rparr>"]) auto
  next
    case (Panic e)
    then have "\<nexists>x. res = Ok x" unfolding ok(2) using svc spec by (simp add: deleteDns_def run_simps Let_def)
    then show ?thesis using ok(1) svc Panic
      by (intro exI [of _ "\<lparr>armSubscription = _, armCredential = NoCredential\<rparr>"]) auto
  qed
qed

text \<open>The deferred close of an AKS cluster: one update, of the object as it is in memory.\<close>

lemma aks_close:
  assumes "isASOManagedCluster (infraCluster s)" "p = commonPatcherOps K cp"
  shows "events (snd (pClose p s)) = events s @ [KubeUpdate (infraCluster s)] \<and>
    (fst (updateObject K (infraCluster s) (world s)) = Inr v \<longrightarrow> fst (pClose p s) = Ok ())"
  using assms by (simp add: commonPatcherOps_def CommonPatcher_PatchObject_def run_simps kubeUpdate_def split: prod.splits sum.splits)

text \<open>Both together, as \<open>Reconcile_cluster\<close> runs them.\<close>

lemma aks_deletion_run:
  assumes "getClusterByName K namespace name (world s) = (Inr cl, w1)" "getInfraObject K cl w1 = (Inr infra, w2)"
    and "\<not> isPaused K cl infra" "clDeleting cl \<or> uDeleting infra" "isASOManagedCluster infra"
    and "NewScope K Z (reconcilerParams r cl) (s\<lparr>world := w2, infraCluster := infra\<rparr>) = (Ok sc, s1)"
    and "finalizerLaws K"
    and del: "reconcileDelete A K r sc s1 = (res, s2)"
  defines "v \<equiv> (if \<exists>x. res = Ok x then infra\<lparr>uFinalizers := removeAll AzureClusterControllerFinalizer (uFinalizers infra)\<rparr> else infra)"
  shows "\<exists>es. events (snd (Reconcile_cluster A K Z r namespace name s)) = events s @ es @ [KubeUpdate v] \<and>
    (\<forall>e\<in>set es. serviceEvent e) \<and>
    (\<forall>x. res = Ok x \<longrightarrow> (\<exists>y. fst (updateObject K v (world s2)) = Inr y) \<longrightarrow>
       fst (Reconcile_cluster A K Z r namespace name s) = Ok x)"
proof -
  have not_azure: "\<not> isAzureCluster infra"
    using assms(5) by (simp add: isAzureCluster_def isASOManagedCluster_def kindAzureCluster_def kindAzureASOManagedCluster_def)
  then obtain cp g where sc: "sPatcher sc = commonPatcherOps K cp" "sPublicIPService sc = worldGetter g"
    using NewScope_common [OF assms(6)] by auto
  have s1: "events s1 = events s" "infraCluster s1 = infra" using quietD [OF quiet_NewScope assms(6)] by simp_all
  have "infraCluster s2 = v"
    using reconcileDelete_infra [OF sc(2) del] removedFinalizer [OF assms(7), of infra AzureClusterControllerFinalizer]
    by (auto simp: v_def s1 split: res.splits)
  then have v: "infraCluster s2 = v" "isASOManagedCluster (infraCluster s2)"
    using assms(5) by (auto simp: v_def isASOManagedCluster_def)
  obtain es where "events s2 = events s1 @ es" "\<forall>e\<in>set es. serviceEvent e"
    using emitsD [OF reconcileDelete_event [OF sc(2)] del] unfolding deletionEvent_def by blast
  moreover have "Reconcile_cluster A K Z r namespace name s = deferClose (pClose (sPatcher sc)) (reconcileDelete A K r sc) s1"
    using Reconcile_cluster_run [OF assms(1-3,6), of A] assms(4) by simp
  ultimately show ?thesis
    using aks_close [OF v(2) sc(1)] del s1 v(1)
    by (intro exI [of _ es]) (auto simp: deferClose_def split: res.splits prod.splits)
qed

text \<open>
  C3: The deletion of an AKS cluster always ends with one update of its object, the only one of the
  reconciliation, also when the handler failed or panicked. The object it sends has lost the
  operator's finalizer exactly when the service could be built and Azure deleted the cluster's NS
  record in the base domain and the cluster's resource group (or had none); otherwise it is the
  object as it was read, so the cluster stays until a later attempt succeeds.
\<close>

theorem aks_finalizer_after_deletion:
  assumes "getClusterByName K namespace name (world s) = (Inr cl, w1)" "getInfraObject K cl w1 = (Inr infra, w2)"
    and "\<not> isPaused K cl infra" "clDeleting cl \<or> uDeleting infra" "isASOManagedCluster infra"
    and "NewScope K Z (reconcilerParams r cl) (s\<lparr>world := w2, infraCluster := infra\<rparr>) = (Ok sc, s1)"
    and "finalizerLaws K"
  shows "\<exists>a b es. armSubscription a = pSubscriptionID (sPatcher sc) \<and> armSubscription b = rBaseZoneSubscriptionID r \<and>
    events (snd (Reconcile_cluster A K Z r namespace name s)) = events s @ es @ [KubeUpdate (
      if \<exists>x u w. getDnsServiceForPublicRecords A K r sc s1 = (Ok x, u) \<and>
           recordSets_Delete A b (rBaseDomainResourceGroup r) (rBaseDomain r) ''NS'' (clName cl) (world u) = (Inr (), w) \<and>
           groupDeleted A a (clName cl) w
      then infra\<lparr>uFinalizers := removeAll ''dns-operator-azure.giantswarm.io/azurecluster'' (uFinalizers infra)\<rparr>
      else infra)] \<and>
    (\<forall>u. KubeUpdate u \<notin> set es \<and> KubeStatusUpdate u \<notin> set es)"
proof -
  obtain res s2 where del: "reconcileDelete A K r sc s1 = (res, s2)" by fastforce
  have not_azure: "\<not> isAzureCluster infra"
    using assms(5) by (simp add: isAzureCluster_def isASOManagedCluster_def kindAzureCluster_def kindAzureASOManagedCluster_def)
  then obtain cp g where sc: "sPatcher sc = commonPatcherOps K cp" "cpCluster cp = cl" "sPublicIPService sc = worldGetter g"
    using NewScope_common [OF assms(6)] by (auto simp: reconcilerParams_def)
  have name: "pClusterName (sPatcher sc) = clName cl" by (simp add: sc commonPatcherOps_def)
  have "isASOManagedCluster (infraCluster s1)" using quietD [OF quiet_NewScope assms(6)] assms(5) by simp
  from aks_reconcileDelete [OF sc(3) this del] obtain a b where
    ab: "armSubscription a = pSubscriptionID (sPatcher sc)" "armSubscription b = rBaseZoneSubscriptionID r"
    and ok: "(\<exists>x. res = Ok x) \<longleftrightarrow> (\<exists>x u w. getDnsServiceForPublicRecords A K r sc s1 = (Ok x, u) \<and>
       recordSets_Delete A b (rBaseDomainResourceGroup r) (rBaseDomain r) ''NS'' (clName cl) (world u) = (Inr (), w) \<and>
       groupDeleted A a (clName cl) w)"
    unfolding name by blast
  obtain es where "\<forall>e\<in>set es. serviceEvent e"
      "events (snd (Reconcile_cluster A K Z r namespace name s)) = events s @ es @ [KubeUpdate (if \<exists>x. res = Ok x
        then infra\<lparr>uFinalizers := removeAll AzureClusterControllerFinalizer (uFinalizers infra)\<rparr> else infra)]"
    using aks_deletion_run [OF assms del] by blast
  then show ?thesis using ab unfolding ok by (intro exI [of _ a] exI [of _ b] exI [of _ es]) auto
qed

definition sampleAksDeleting :: Unstructured where
  "sampleAksDeleting = (sampleInfra ''AzureASOManagedCluster'')\<lparr>uDeleting := True,
     uFinalizers := [''dns-operator-azure.giantswarm.io/azurecluster'', ''aks'']\<rparr>"

definition sampleAksState :: "cloud st" where
  "sampleAksState = (sampleState ''AzureASOManagedCluster'')\<lparr>world :=
     (sampleCloud ''AzureASOManagedCluster'')\<lparr>cObject := sampleAksDeleting\<rparr>\<rparr>"

lemma sampleReconciler_params: "reconcilerParams sampleReconciler sampleCluster = sampleParams"
  by (simp add: reconcilerParams_def sampleReconciler_def sampleParams_def)

text \<open>An AKS cluster that is found, not paused and being deleted.\<close>

lemma sampleAks_found:
  "getClusterByName sampleK ''org'' ''wc'' (world sampleAksState) = (Inr sampleCluster, world sampleAksState)"
  "getInfraObject sampleK sampleCluster (world sampleAksState) = (Inr sampleAksDeleting, world sampleAksState)"
  "\<not> isPaused sampleK sampleCluster sampleAksDeleting"
  "clDeleting sampleCluster \<or> uDeleting sampleAksDeleting" "isASOManagedCluster sampleAksDeleting"
  by (simp_all add: sampleK_def sampleKube_def sampleAksState_def sampleAksDeleting_def sampleCluster_def sampleInfra_def
      lookupOk_def entries_def isASOManagedCluster_def kindAzureASOManagedCluster_def)

lemma sampleAks_scope:
  "NewScope sampleK sampleCapz (reconcilerParams sampleReconciler sampleCluster)
     (sampleAksState\<lparr>world := world sampleAksState, infraCluster := sampleAksDeleting\<rparr>) =
   (Ok sampleCommonScope, sampleAksState\<lparr>world := world sampleAksState, infraCluster := sampleAksDeleting\<rparr>)"
  unfolding sampleReconciler_params
  by (rule sampleNewScope_any) (simp_all add: sampleAksDeleting_def sampleInfra_def isAzureCluster_def kindAzureCluster_def)

lemma sampleK_finalizers: "finalizerLaws sampleK"
  by (simp add: finalizerLaws_def sampleK_def sampleKube_def)

lemma sampleAks_service:
  "\<exists>x u. getDnsServiceForPublicRecords sampleSdk sampleK sampleReconciler sampleCommonScope
     (sampleAksState\<lparr>world := world sampleAksState, infraCluster := sampleAksDeleting\<rparr>) = (Ok x, u)"
  (is "\<exists>x u. ?b = (Ok x, u)")
proof -
  have "(case fst ?b of Ok x \<Rightarrow> True | _ \<Rightarrow> False)" by code_simp
  then obtain x where "fst ?b = Ok x" by (cases "fst ?b") simp_all
  then show ?thesis by (metis prod.collapse)
qed

theorem aks_finalizer_after_deletion_witness:
  "\<exists>es. events (snd (Reconcile_cluster sampleSdk sampleK sampleCapz sampleReconciler ''org'' ''wc'' sampleAksState)) =
     es @ [KubeUpdate (sampleAksDeleting\<lparr>uFinalizers := [''aks'']\<rparr>)]"
proof -
  have "\<exists>w'. recordSets_Delete sampleSdk b rg zone ty name w = (Inr (), w')" "groupDeleted sampleSdk a rg w"
    for a b rg zone ty name w
    by (simp_all add: sampleSdk_def groupDeleted_def split: option.splits)
  with sampleAks_service
  have deleted: "\<exists>x u w. getDnsServiceForPublicRecords sampleSdk sampleK sampleReconciler sampleCommonScope
      (sampleAksState\<lparr>world := world sampleAksState, infraCluster := sampleAksDeleting\<rparr>) = (Ok x, u) \<and>
      recordSets_Delete sampleSdk b rg zone ''NS'' name (world u) = (Inr (), w) \<and> groupDeleted sampleSdk a rg' w"
    for a b rg zone name rg' by metis
  have events: "events sampleAksState = []" by (simp add: sampleAksState_def sampleState_def)
  show ?thesis
    using aks_finalizer_after_deletion [OF sampleAks_found sampleAks_scope sampleK_finalizers, of sampleSdk]
    unfolding if_P [OF deleted] events by (auto simp: sampleAksDeleting_def)
qed

text \<open>
  C19: For an \<^verbatim>\<open>AzureCluster\<close>, no update and no patch of a reconciliation carries the finalizer of the
  operator unless the \<^verbatim>\<open>AzureCluster\<close> had it when it was read. The object in memory, to which
  \<open>reconcileNormal\<close> adds the finalizer and from which \<open>reconcileDelete\<close> removes it, is sent in status updates only,
  never in an update; what CAPZ's patcher is given to patch is the \<^verbatim>\<open>AzureCluster\<close> exactly as \<open>newAzureScope\<close>
  read it.
\<close>

theorem azure_cluster_finalizer_not_sent:
  assumes "getClusterByName K namespace name (world s) = (Inr cl, w1)" "getInfraObject K cl w1 = (Inr infra, w2)"
    and "isAzureCluster infra"
    and "getAzureCluster K (clInfrastructureRefName cl) (clNamespace cl) w2 = (Inr ac, w3)"
    and "''dns-operator-azure.giantswarm.io/azurecluster'' \<notin> set (acFinalizers ac)"
    and "Reconcile_cluster A K Z r namespace name s = (res, t)"
  shows "\<exists>es. events t = events s @ es \<and> (\<forall>u. KubeUpdate u \<notin> set es) \<and>
    (\<forall>ac'. CapzPatch ac' \<in> set es \<longrightarrow> ac' = ac \<and> ''dns-operator-azure.giantswarm.io/azurecluster'' \<notin> set (acFinalizers ac'))"
proof (cases "isPaused K cl infra")
  case True
  then show ?thesis using assms by (auto simp: Reconcile_cluster_def run_simps)
next
  case False
  let ?P = "\<lambda>e. (\<forall>u. e \<noteq> KubeUpdate u) \<and> (\<forall>ac'. e = CapzPatch ac' \<longrightarrow> ac' = ac)"
  obtain q s1 where new: "NewScope K Z (reconcilerParams r cl) (s\<lparr>world := w2, infraCluster := infra\<rparr>) = (q, s1)"
    by fastforce
  have s1: "events s1 = events s" using quietD [OF quiet_NewScope new] by simp
  show ?thesis
  proof (cases q)
    case (Ok sc)
    obtain c g where sc: "sPatcher sc = capzPatcherOps ac c" "sPublicIPService sc = worldGetter g"
      using NewScope_azure [OF new [unfolded Ok]] assms(3,4) by (auto simp: reconcilerParams_def)
    have normal: "emits ?P (reconcileNormal A K r sc)"
      using capzPatcher.reconcileNormal_emits [OF sc] by (rule emits_weaken) (auto simp: handlerEvent_def)
    have delete: "emits ?P (reconcileDelete A K r sc)"
      using reconcileDelete_event [OF sc(2)] by (rule emits_weaken) (auto simp: deletionEvent_def)
    have close: "emits ?P (pClose (sPatcher sc))"
      using capzPatcher.close_emits unfolding sc(1) by (rule emits_weaken) simp
    have emits: "emits ?P (deferClose (pClose (sPatcher sc))
        (if clDeleting cl \<or> uDeleting infra then reconcileDelete A K r sc else reconcileNormal A K r sc))"
      by (intro emits_deferClose emits_if normal delete close)
    have "deferClose (pClose (sPatcher sc))
        (if clDeleting cl \<or> uDeleting infra then reconcileDelete A K r sc else reconcileNormal A K r sc) s1 = (res, t)"
      using Reconcile_cluster_run [OF assms(1,2) False new [unfolded Ok], of A] assms(6) by simp
    from emitsD [OF emits this] obtain es where "events t = events s @ es" "\<forall>e\<in>set es. ?P e" unfolding s1 by blast
    with assms(5) show ?thesis by (intro exI [of _ es]) auto
  qed (use assms False new s1 in \<open>auto simp: Reconcile_cluster_def run_simps reconcilerParams_def [symmetric]\<close>)
qed

text \<open>
  At the sample: the finalizer is added in memory, the patch that follows does not carry it.
\<close>

theorem azure_cluster_finalizer_not_sent_witness:
  "let es = events (snd (Reconcile_cluster sampleSdk sampleK sampleCapz sampleReconciler ''org'' ''wc'' (sampleState ''AzureCluster''))) in
   CapzPatch sampleManagementCluster \<in> set es \<and> (\<forall>u. KubeUpdate u \<notin> set es) \<and>
   list_all (\<lambda>e. case e of CapzPatch ac \<Rightarrow> ac = sampleManagementCluster | _ \<Rightarrow> True) es"
proof -
  let ?m = "Reconcile_cluster sampleSdk sampleK sampleCapz sampleReconciler ''org'' ''wc'' (sampleState ''AzureCluster'')"
  have run: "?m = (fst ?m, snd ?m)" by simp
  have "list_ex (\<lambda>e. e = CapzPatch sampleManagementCluster) (events (snd ?m))" by code_simp
  then have "CapzPatch sampleManagementCluster \<in> set (events (snd ?m))" by (auto simp: list_ex_iff)
  moreover have "(\<forall>u. KubeUpdate u \<notin> set (events (snd ?m))) \<and>
      (\<forall>ac. CapzPatch ac \<in> set (events (snd ?m)) \<longrightarrow> ac = sampleManagementCluster)"
    using azure_cluster_finalizer_not_sent [OF _ _ _ _ _ run, of sampleCluster "sampleCloud ''AzureCluster''"
        "sampleInfra ''AzureCluster''" "sampleCloud ''AzureCluster''" sampleManagementCluster "sampleCloud ''AzureCluster''"]
    by (auto simp: sampleK_def sampleKube_def sampleState_def sampleCloud_def sampleInfra_def isAzureCluster_def
        kindAzureCluster_def sampleCluster_def sampleManagementCluster_def)
  ultimately show ?thesis by (auto simp: Let_def list_all_iff split: event.splits)
qed

text \<open>
  C20: If the secret of the management cluster's service principal does not exist, the deletion of an
  \<^verbatim>\<open>AzureCluster\<close> with a private API server endpoint does not report an error: the function that builds the
  private DNS service returns neither a service nor an error, and the method call on the nil
  service panics. No request was sent and the finalizer is still in place.
\<close>

theorem missing_secret_panics:
  assumes "azureClusterSpec K (infraCluster s) \<noteq> None"
    and "lookupStr (uAnnotations (infraCluster s)) azurePrivateEndpointOperatorApiServerAnnotation \<noteq> []"
    and "ManagementCluster K sc s = (Ok (mc, sc1), s1)"
    and "ManagementClusterIdentity K sc1 s1 = (Ok (identity, sc2), s2)"
    and "idType identity = ManualServicePrincipal"
    and "getSecret K (idClientSecretName identity) (idClientSecretNamespace identity) (world s2) = (Inl err, w)"
    and "apiIsNotFound K err"
  shows "\<exists>t. reconcileDelete A K r sc s = (Panic ''nil pointer dereference'', t) \<and>
    events t = events s \<and> infraCluster t = infraCluster s"
proof -
  have "events s2 = events s \<and> infraCluster s2 = infraCluster s"
    using quietD [OF quiet_ManagementCluster assms(3)] quietD [OF quiet_ManagementClusterIdentity assms(4)] by simp
  then show ?thesis
    using assms
    by (auto simp: reconcileDelete_def Let_def onPrivateService_def getPrivateDnsServiceForMcToWcApi_def
        privateServiceSecret_def run_simps)
qed

definition privateEndpointInfra :: Unstructured where
  "privateEndpointInfra = (sampleInfra ''AzureCluster'')\<lparr>uAnnotations :=
     Some [(azurePrivateEndpointOperatorApiServerAnnotation, ''10.0.0.4'')]\<rparr>"

theorem missing_secret_panics_witness:
  "\<exists>t. reconcileDelete sampleSdk (sampleK\<lparr>getSecret := \<lambda>_ _ w. (Inl (PlainError ''NotFound''), w)\<rparr>) sampleReconciler sampleCommonScope
     ((sampleState ''AzureCluster'')\<lparr>infraCluster := privateEndpointInfra\<rparr>) = (Panic ''nil pointer dereference'', t) \<and>
     events t = [] \<and> infraCluster t = privateEndpointInfra"
proof -
  let ?K = "sampleK\<lparr>getSecret := \<lambda>_ _ w. (Inl (PlainError ''NotFound''), w)\<rparr>"
  let ?s = "(sampleState ''AzureCluster'')\<lparr>infraCluster := privateEndpointInfra\<rparr>"
  let ?sc1 = "sampleCommonScope\<lparr>sManagementCluster := Some sampleManagementCluster\<rparr>"
  have infra: "azureClusterSpec ?K (infraCluster ?s) \<noteq> None"
    "lookupStr (uAnnotations (infraCluster ?s)) azurePrivateEndpointOperatorApiServerAnnotation \<noteq> []"
    by (simp_all add: privateEndpointInfra_def azureClusterSpec_def azureClusterFromInfraObject_def isAzureCluster_def
        kindAzureCluster_def sampleInfra_def sampleK_def sampleKube_def)
  have mc: "ManagementCluster ?K sampleCommonScope ?s = (Ok (sampleManagementCluster, ?sc1), ?s)"
    by (simp add: ManagementCluster_def managementAzureCluster_def sampleCommonScope_def sampleK_def sampleKube_def run_simps)
  have ident: "ManagementClusterIdentity ?K ?sc1 ?s = (Ok (sampleIdentity, ?sc1\<lparr>sManagementClusterIdentity := Some sampleIdentity\<rparr>), ?s)"
    by (simp add: ManagementClusterIdentity_def ManagementCluster_def azureClusterIdentity_def sampleManagementCluster_def
        sampleCommonScope_def sampleK_def sampleKube_def run_simps)
  have "getSecret ?K (idClientSecretName sampleIdentity) (idClientSecretNamespace sampleIdentity) (world ?s) =
      (Inl (PlainError ''NotFound''), world ?s)" "apiIsNotFound ?K (PlainError ''NotFound'')" "idType sampleIdentity = ManualServicePrincipal"
    by (simp_all add: sampleIdentity_def sampleK_def sampleKube_def)
  from missing_secret_panics [OF infra mc ident this(3,1,2), of sampleSdk sampleReconciler] show ?thesis
    by (simp add: sampleState_def)
qed

end
