(* ===== verification/Main_Config.thy ===== *)
theory Main_Config
  imports Controller_Props
begin

section \<open>The entry of the program (\<open>main.go\<close>)\<close>

text \<open>
  Flags, environment and the start of the controller manager. The controller-runtime library is a
  parameter (\<open>managerApi\<close>): whether it finds a configuration of the API server, what its constructor is given, and
  whether its three calls fail. Bad flags and a missing configuration end the process (\<open>None\<close>). The text
  of the arguments is split and converted by the package \<^verbatim>\<open>flag\<close>; \<open>setFlag\<close> is the table of the bindings
  \<^verbatim>\<open>mainError\<close> registers, on converted values, and \<open>flagParse\<close> applies them in the order of the command
  line. \<^verbatim>\<open>os.Getenv\<close> is the function \<open>env\<close>, with the empty string for a variable that is not set.
\<close>

abbreviation "SubscriptionId \<equiv> ''AZURE_SUBSCRIPTION_ID''"
abbreviation "TenantId \<equiv> ''AZURE_TENANT_ID''"
abbreviation "ClientId \<equiv> ''AZURE_CLIENT_ID''"
abbreviation "ClientSecret \<equiv> ''AZURE_CLIENT_SECRET''"
abbreviation "InfraClusterSubscriptionID \<equiv> ''CLUSTER_AZURE_SUBSCRIPTION_ID''"
abbreviation "InfraClusterClientID \<equiv> ''CLUSTER_AZURE_CLIENT_ID''"
abbreviation "InfraClusterClientSecret \<equiv> ''CLUSTER_AZURE_CLIENT_SECRET''"
abbreviation "InfraClusterTenantID \<equiv> ''CLUSTER_AZURE_TENANT_ID''"
abbreviation "InfraClusterLocation \<equiv> ''CLUSTER_AZURE_LOCATION''"

subsection \<open>Flags\<close>

record Flags =
  metricsAddr :: string
  enableLeaderElection :: bool
  baseDomain :: string
  baseDomainResourceGroup :: string
  syncPeriod :: int \<comment> \<open>seconds\<close>
  clusterConcurrency :: int
  managementClusterName :: string
  managementClusterNamespace :: string
  azureIdentityRefName :: string
  azureIdentityRefNamespace :: string

definition defaultFlags :: Flags where
  "defaultFlags =
     \<lparr>metricsAddr = '':8080'', enableLeaderElection = False, baseDomain = [], baseDomainResourceGroup = [],
      syncPeriod = 300, clusterConcurrency = 5, managementClusterName = [], managementClusterNamespace = [],
      azureIdentityRefName = [], azureIdentityRefNamespace = []\<rparr>"

datatype flagValue = StringVal string | BoolVal bool | IntVal int | DurationVal int

fun setFlag :: "string \<Rightarrow> flagValue \<Rightarrow> Flags \<Rightarrow> Flags option" where
  "setFlag name (StringVal v) fl =
     (if name = ''metrics-addr'' then Some (fl\<lparr>metricsAddr := v\<rparr>)
      else if name = ''base-domain'' then Some (fl\<lparr>baseDomain := v\<rparr>)
      else if name = ''base-domain-resource-group'' then Some (fl\<lparr>baseDomainResourceGroup := v\<rparr>)
      else if name = ''management-cluster-name'' then Some (fl\<lparr>managementClusterName := v\<rparr>)
      else if name = ''management-cluster-namespace'' then Some (fl\<lparr>managementClusterNamespace := v\<rparr>)
      else if name = ''azure-identity-ref-name'' then Some (fl\<lparr>azureIdentityRefName := v\<rparr>)
      else if name = ''azure-identity-ref-namespace'' then Some (fl\<lparr>azureIdentityRefNamespace := v\<rparr>)
      else None)"
| "setFlag name (BoolVal b) fl =
     (if name = ''enable-leader-election'' then Some (fl\<lparr>enableLeaderElection := b\<rparr>) else None)"
| "setFlag name (IntVal i) fl =
     (if name = ''cluster-concurrency'' then Some (fl\<lparr>clusterConcurrency := i\<rparr>) else None)"
| "setFlag name (DurationVal d) fl =
     (if name = ''sync-period'' then Some (fl\<lparr>syncPeriod := d\<rparr>) else None)"

text \<open>
  \<^verbatim>\<open>flag.Parse\<close> ends the program on a flag that is not defined (\<open>None\<close>). The libraries register flags of
  their own (\<^verbatim>\<open>opts.BindFlags\<close> those of the logger); they are the predicate \<open>libFlag\<close> and change none of
  these variables.
\<close>

primrec flagParse :: "(string \<Rightarrow> bool) \<Rightarrow> (string \<times> flagValue) list \<Rightarrow> Flags \<Rightarrow> Flags option" where
  "flagParse libFlag [] fl = Some fl"
| "flagParse libFlag (a # as) fl =
     (if libFlag (fst a) then flagParse libFlag as fl
      else (case setFlag (fst a) (snd a) fl of None \<Rightarrow> None | Some fl' \<Rightarrow> flagParse libFlag as fl'))"

subsection \<open>mainError\<close>

record ManagerOptions =
  moUserAgent :: string
  moMetricsBindAddress :: string
  moWebhookPort :: int
  moLeaderElection :: bool
  moLeaderElectionID :: string
  moSyncPeriod :: int

record managerApi =
  restConfigFound :: bool \<comment> \<open>\<^verbatim>\<open>GetConfigOrDie\<close> ends the process if not\<close>
  newManager :: "ManagerOptions \<Rightarrow> error option"
  setupWithManager :: "ClusterReconciler \<Rightarrow> int \<Rightarrow> error option" \<comment> \<open>\<^verbatim>\<open>MaxConcurrentReconciles\<close>\<close>
  startManager :: "error option"

definition managerOptions :: "Flags \<Rightarrow> ManagerOptions" where
  "managerOptions fl =
     \<lparr>moUserAgent = ''dns-operator-azure'', moMetricsBindAddress = metricsAddr fl, moWebhookPort = 9443,
      moLeaderElection = enableLeaderElection fl, moLeaderElectionID = ''dns-operator-azure-leader-election'',
      moSyncPeriod = syncPeriod fl\<rparr>"

definition requireEnv :: "(string \<Rightarrow> string) \<Rightarrow> string \<Rightarrow> string res" where
  "requireEnv env v =
     (if env v = [] then Err (Masked (PlainError (''environment variable '' @ v @ '' not set''))) else Ok (env v))"

definition mainReconciler :: "Flags \<Rightarrow> (string \<Rightarrow> string) \<Rightarrow> ClusterReconciler res" where
  "mainReconciler fl env =
     bindR (requireEnv env SubscriptionId) (\<lambda>baseZoneSubscriptionID.
     bindR (requireEnv env ClientId) (\<lambda>baseZoneClientID.
     bindR (requireEnv env ClientSecret) (\<lambda>baseZoneClientSecret.
     bindR (requireEnv env TenantId) (\<lambda>baseZoneTenantID.
     Ok \<lparr>rBaseDomain = baseDomain fl,
         rBaseDomainResourceGroup = baseDomainResourceGroup fl,
         rBaseZoneClientID = baseZoneClientID,
         rBaseZoneClientSecret = baseZoneClientSecret,
         rBaseZoneSubscriptionID = baseZoneSubscriptionID,
         rBaseZoneTenantID = baseZoneTenantID,
         rManagementClusterConfig =
           \<lparr>mccName = managementClusterName fl, mccNamespace = managementClusterNamespace fl\<rparr>,
         rInfraClusterZoneAzureConfig =
           \<lparr>czSubscriptionID = env InfraClusterSubscriptionID, czClientID = env InfraClusterClientID,
            czTenantID = env InfraClusterTenantID, czClientSecret = env InfraClusterClientSecret,
            czLocation = env InfraClusterLocation\<rparr>,
         rClusterAzureIdentityRef =
           (if azureIdentityRefName fl \<noteq> [] \<and> azureIdentityRefNamespace fl \<noteq> []
            then Some \<lparr>refName = azureIdentityRefName fl, refNamespace = azureIdentityRefNamespace fl\<rparr>
            else None)\<rparr>))))"

definition maskErr :: "error option \<Rightarrow> unit res" where
  "maskErr e = (case e of None \<Rightarrow> Ok () | Some err \<Rightarrow> Err (Masked err))"

text \<open>What follows once the flags are parsed and the configuration of the API server is there.\<close>

definition startOperator :: "managerApi \<Rightarrow> Flags \<Rightarrow> (string \<Rightarrow> string) \<Rightarrow> unit res" where
  "startOperator M fl env =
     bindR (maskErr (newManager M (managerOptions fl))) (\<lambda>_.
     bindR (mainReconciler fl env) (\<lambda>r.
     bindR (maskErr (setupWithManager M r (clusterConcurrency fl))) (\<lambda>_.
     maskErr (startManager M))))"

definition mainError ::
    "managerApi \<Rightarrow> (string \<Rightarrow> bool) \<Rightarrow> (string \<times> flagValue) list \<Rightarrow> (string \<Rightarrow> string) \<Rightarrow> unit res option" where
  "mainError M libFlag args env =
     (case flagParse libFlag args defaultFlags of
        None \<Rightarrow> None
      | Some fl \<Rightarrow> if \<not> restConfigFound M then None else Some (startOperator M fl env))"

text \<open>\<^verbatim>\<open>main\<close> turns every error into a panic.\<close>

definition main ::
    "managerApi \<Rightarrow> (string \<Rightarrow> bool) \<Rightarrow> (string \<times> flagValue) list \<Rightarrow> (string \<Rightarrow> string) \<Rightarrow> unit res option" where
  "main M libFlag args env =
     map_option (\<lambda>r. case r of Ok _ \<Rightarrow> Ok () | Err e \<Rightarrow> Panic ''mainError'' | Panic p \<Rightarrow> Panic p)
       (mainError M libFlag args env)"

subsection \<open>Properties\<close>

text \<open>
  C21: The program starts only with flags it knows, a configuration of the API server, and all four
  credentials of the base domain in the environment. Without one of the first two the process ends
  at once; otherwise the error names the first credential missing, in the order subscription,
  client, client secret, tenant, and no controller is set up then.
\<close>

theorem main_credentials:
  "case flagParse libFlag args defaultFlags of
     None \<Rightarrow> mainError M libFlag args env = None \<and> main M libFlag args env = None
   | Some fl \<Rightarrow>
       if \<not> restConfigFound M then mainError M libFlag args env = None \<and> main M libFlag args env = None
       else (case find (\<lambda>v. env v = []) [''AZURE_SUBSCRIPTION_ID'', ''AZURE_CLIENT_ID'', ''AZURE_CLIENT_SECRET'', ''AZURE_TENANT_ID''] of
           Some v \<Rightarrow> mainError M libFlag args env = Some (case newManager M (managerOptions fl) of
               None \<Rightarrow> Err (Masked (PlainError (''environment variable '' @ v @ '' not set'')))
             | Some err \<Rightarrow> Err (Masked err)) \<and> main M libFlag args env = Some (Panic ''mainError'')
         | None \<Rightarrow> \<exists>r. mainReconciler fl env = Ok r \<and>
             (mainError M libFlag args env = Some (Ok ()) \<longleftrightarrow> newManager M (managerOptions fl) = None \<and>
                setupWithManager M r (clusterConcurrency fl) = None \<and> startManager M = None))"
  by (auto simp: mainError_def startOperator_def main_def mainReconciler_def requireEnv_def maskErr_def split: option.splits)

text \<open>
  C22: The flags of the base domain are not checked at the start. With the configuration \<^verbatim>\<open>main\<close> builds,
  the scope of the public DNS service is rejected exactly when one of the two flags is empty: the
  check of the credentials in \<^verbatim>\<open>NewDNSScope\<close> never fails. An empty base domain therefore surfaces as an
  error of every single reconciliation, which builds no DNS service.
\<close>

theorem main_base_domain:
  assumes "mainReconciler fl env = Ok r"
    and "dpBaseDomain ps = rBaseDomain r" "dpBaseDomainResourceGroup ps = rBaseDomainResourceGroup r"
    and "dpBaseZoneCredentials ps = \<lparr>bzClientID = rBaseZoneClientID r, bzClientSecret = rBaseZoneClientSecret r,
           bzSubscriptionID = rBaseZoneSubscriptionID r, bzTenantID = rBaseZoneTenantID r\<rparr>"
  shows "((\<exists>d. NewDNSScope ps = Ok d) \<longleftrightarrow> baseDomain fl \<noteq> [] \<and> baseDomainResourceGroup fl \<noteq> []) \<and>
    (fst (getDnsServiceForPublicRecords A K r sc s) = Ok x \<longrightarrow> baseDomain fl \<noteq> [] \<and> baseDomainResourceGroup fl \<noteq> [])"
proof -
  have r: "rBaseDomain r = baseDomain fl" "rBaseDomainResourceGroup r = baseDomainResourceGroup fl" "rBaseZoneClientID r \<noteq> []"
    using assms(1) by (auto simp: mainReconciler_def requireEnv_def run_iffs split: if_splits)
  have "fst (getDnsServiceForPublicRecords A K r sc s) \<noteq> Ok x" if "baseDomain fl = [] \<or> baseDomainResourceGroup fl = []"
  proof
    assume "fst (getDnsServiceForPublicRecords A K r sc s) = Ok x"
    then obtain t where "getDnsServiceForPublicRecords A K r sc s = (Ok x, t)" by (metis prod.collapse)
    with that show False
      by (auto simp: getDnsServiceForPublicRecords_def NewDNSScope_def run_iffs r split: if_splits)
  qed
  then show ?thesis using r assms(2-4) by (auto simp: NewDNSScope_def)
qed

definition sampleFlags :: Flags where
  "sampleFlags = defaultFlags\<lparr>baseDomain := ''example.io'', baseDomainResourceGroup := ''base-rg'',
     managementClusterName := ''mc'', managementClusterNamespace := ''org''\<rparr>"

definition sampleEnv :: "string \<Rightarrow> string" where
  "sampleEnv v = (case map_of [(SubscriptionId, ''bsub''), (ClientId, ''bc''), (ClientSecret, ''bs''), (TenantId, ''bt''),
      (InfraClusterSubscriptionID, ''sub''), (InfraClusterClientID, ''client''), (InfraClusterClientSecret, ''secret''),
      (InfraClusterTenantID, ''tenant''), (InfraClusterLocation, ''westeurope'')] v of None \<Rightarrow> [] | Some x \<Rightarrow> x)"

lemma sampleFlags_parse:
  "flagParse (\<lambda>name. HasPrefix name ''zap-'') [(''base-domain'', StringVal ''wrong''), (''zap-devel'', BoolVal True), (''management-cluster-name'', StringVal ''mc''),
     (''base-domain'', StringVal ''example.io''), (''base-domain-resource-group'', StringVal ''base-rg''),
     (''management-cluster-namespace'', StringVal ''org'')] defaultFlags = Some sampleFlags"
  by code_simp

lemma sampleReconciler_main: "mainReconciler sampleFlags sampleEnv = Ok sampleReconciler"
  by (simp add: mainReconciler_def requireEnv_def sampleEnv_def sampleFlags_def defaultFlags_def sampleReconciler_def
      sampleReconcilerZone_def)

theorem main_base_domain_witness:
  "(\<exists>d. NewDNSScope (\<lparr>dpClusterScope = sampleCommonScope, dpBaseDomain = ''example.io'', dpBaseDomainResourceGroup = ''base-rg'',
      dpBaseZoneCredentials = \<lparr>bzClientID = ''bc'', bzClientSecret = ''bs'', bzSubscriptionID = ''bsub'', bzTenantID = ''bt''\<rparr>,
      dpAzureClusterIdentity = sampleIdentity, dpAzureClusterServicePrincipalSecret = [],
      dpManagementClusterAzureIdentity = emptyAzureClusterIdentity, dpManagementClusterServicePrincipalSecret = [],
      dpManagementClusterSpec = acSpec emptyAzureCluster, dpResourceTags = []\<rparr> :: cloud DNSScopeParams) = Ok d)"
  using main_base_domain [OF sampleReconciler_main, of "\<lparr>dpClusterScope = sampleCommonScope, dpBaseDomain = ''example.io'',
      dpBaseDomainResourceGroup = ''base-rg'',
      dpBaseZoneCredentials = \<lparr>bzClientID = ''bc'', bzClientSecret = ''bs'', bzSubscriptionID = ''bsub'', bzTenantID = ''bt''\<rparr>,
      dpAzureClusterIdentity = sampleIdentity, dpAzureClusterServicePrincipalSecret = [],
      dpManagementClusterAzureIdentity = emptyAzureClusterIdentity, dpManagementClusterServicePrincipalSecret = [],
      dpManagementClusterSpec = acSpec emptyAzureCluster, dpResourceTags = []\<rparr> :: cloud DNSScopeParams"]
  by (simp add: sampleReconciler_def sampleFlags_def defaultFlags_def)

end
