(* ===== verification/Operator.thy ===== *)
theory Operator
  imports Main_Config
begin

section \<open>The life of the operator\<close>

text \<open>
  Once \<^verbatim>\<open>mgr.Start\<close> runs, the manager calls \<^verbatim>\<open>Reconcile\<close> again and again, for any request and in any order,
  and the outside changes between the calls in any way. \<open>operatorStep\<close> is one such step; a reconciliation
  is labelled with the name of the request, whether the deletion of that cluster is requested, and the
  events it adds to the log. \<open>reachable\<close> are the states of a run that starts with an empty log, with the
  history of its reconciliations. The invariant ties every event of the log to the reconciliation
  that caused it: whatever a reconciliation sends is about the cluster of its own request.

  The manager runs up to \<^verbatim>\<open>cluster-concurrency\<close> reconciliations at a time. The steps here are whole
  reconciliations; since the invariant holds of each logged event by itself, it does not depend on
  how the events of two reconciliations are interleaved.
\<close>





















subsection \<open>Deletions come to an end\<close>

text \<open>Azure carries out what it is asked to delete; a resource group may be gone already.\<close>

definition deletionsSucceed :: "'w azureSdk \<Rightarrow> bool" where
  "deletionsSucceed A \<longleftrightarrow>
     (\<forall>a rg zone ty name w. fst (recordSets_Delete A a rg zone ty name w) = Inr ()) \<and>
     (\<forall>a rg w. fst (resourceGroups_BeginDelete A a rg w) \<in> {Inr (), Inl (ResponseError ''ResourceGroupNotFound'')}) \<and>
     (\<forall>a q w. fst (pollUntilDone A a q w) = Inr ())"

lemma deletionsSucceedD:
  assumes "deletionsSucceed A"
  shows "\<exists>w'. recordSets_Delete A a rg zone ty name w = (Inr (), w')" "groupDeleted A a rg w"
proof -
  show "\<exists>w'. recordSets_Delete A a rg zone ty name w = (Inr (), w')"
    using assms unfolding deletionsSucceed_def by (metis prod.collapse)
  obtain q w' where q: "resourceGroups_BeginDelete A a rg w = (q, w')" by fastforce
  then have "q \<in> {Inr (), Inl (ResponseError ''ResourceGroupNotFound'')}"
    using assms unfolding deletionsSucceed_def by (metis fst_conv)
  then show "groupDeleted A a rg w" using assms q by (auto simp: groupDeleted_def deletionsSucceed_def)
qed

text \<open>
  C4: The deletion of an AKS cluster comes to an end: once Azure carries out the deletions (a resource
  group that is already gone included), the service can be built and the API server accepts updates, one
  reconciliation succeeds without a requeue, and the last thing it sends is the update of the object
  without the operator's finalizer and otherwise as it was read. (For other kinds of clusters the status
  update that comes before that update undoes the removal in memory.)
\<close>

theorem deletion_completes:
  assumes "getClusterByName K namespace name (world s) = (Inr cl, w1)" "getInfraObject K cl w1 = (Inr infra, w2)"
    and "\<not> isPaused K cl infra" "clDeleting cl \<or> uDeleting infra" "isASOManagedCluster infra"
    and "NewScope K Z (reconcilerParams r cl) (s\<lparr>world := w2, infraCluster := infra\<rparr>) = (Ok sc, s1)"
    and "finalizerLaws K"
    and "deletionsSucceed A"
    and "getDnsServiceForPublicRecords A K r sc s1 = (Ok x, u)"
    and "\<And>v w. \<exists>y. fst (updateObject K v w) = Inr y"
  shows "\<exists>t es. Reconcile_cluster A K Z r namespace name s = (Ok \<lparr>RequeueAfter = 0\<rparr>, t) \<and>
    events t = events s @ es @
      [KubeUpdate (infra\<lparr>uFinalizers := removeAll ''dns-operator-azure.giantswarm.io/azurecluster'' (uFinalizers infra)\<rparr>)]"
proof -
  obtain res s2 where del: "reconcileDelete A K r sc s1 = (res, s2)" by fastforce
  obtain g where g: "sPublicIPService sc = worldGetter g" using NewScope_built [OF assms(6)] by blast
  have "isASOManagedCluster (infraCluster s1)" using quietD [OF quiet_NewScope assms(6)] assms(5) by simp
  from aks_reconcileDelete [OF g this del] have res: "res = Ok \<lparr>RequeueAfter = 0\<rparr>"
    using deletionsSucceedD [OF assms(8)] assms(9) by blast
  obtain es where "events (snd (Reconcile_cluster A K Z r namespace name s)) = events s @ es @
        [KubeUpdate (infra\<lparr>uFinalizers := removeAll AzureClusterControllerFinalizer (uFinalizers infra)\<rparr>)]"
      "fst (Reconcile_cluster A K Z r namespace name s) = Ok \<lparr>RequeueAfter = 0\<rparr>"
    using aks_deletion_run [OF assms(1-7) del] assms(10) unfolding res by auto
  then show ?thesis
    by (intro exI [of _ "snd (Reconcile_cluster A K Z r namespace name s)"] exI [of _ es]) (simp add: prod_eq_iff)
qed

lemma sampleSdk_deletions: "deletionsSucceed sampleSdk"
  by (auto simp: deletionsSucceed_def sampleSdk_def split: option.splits)

theorem deletion_completes_witness:
  "\<exists>t es. Reconcile_cluster sampleSdk sampleK sampleCapz sampleReconciler ''org'' ''wc'' sampleAksState =
     (Ok \<lparr>RequeueAfter = 0\<rparr>, t) \<and> events t = es @ [KubeUpdate (sampleAksDeleting\<lparr>uFinalizers := [''aks'']\<rparr>)]"
proof -
  obtain x u where svc: "getDnsServiceForPublicRecords sampleSdk sampleK sampleReconciler sampleCommonScope
      (sampleAksState\<lparr>world := world sampleAksState, infraCluster := sampleAksDeleting\<rparr>) = (Ok x, u)"
    using sampleAks_service by blast
  have accepts: "\<exists>y. fst (updateObject sampleK v w) = Inr y" for v w
    by (simp add: sampleK_def sampleKube_def Let_def)
  have "events sampleAksState = []" by (simp add: sampleAksState_def sampleState_def)
  with deletion_completes [OF sampleAks_found sampleAks_scope sampleK_finalizers sampleSdk_deletions svc accepts] show ?thesis
    by (simp add: sampleAksDeleting_def)
qed

end
