(* ===== verification/Zone_Refinement.thy ===== *)
theory Zone_Refinement
  imports Dns_Props
begin

section \<open>The A records refine an update of a map\<close>

text \<open>
  Seen from outside, a zone is a map from record names and types to addresses and TTLs. The
  abstract specification of \<open>updateARecords\<close> is the update of that map by the desired records
  (\<open>publishA\<close>); the code compares with a listing and writes only what differs. The refinement
  holds for every SDK whose \<^verbatim>\<open>CreateOrUpdate\<close> stores what it is given (\<open>storesRecordSets\<close>), seen through
  an abstraction function \<open>view\<close> of the subscription of the cluster. From the refinement follows that
  the update settles: a second one finds nothing to write.
\<close>

type_synonym recordKey = "string \<times> string \<times> string \<times> string" \<comment> \<open>resource group, zone, type, name\<close>
type_synonym zoneView = "recordKey \<rightharpoonup> string option list \<times> int option"

definition contentA :: "RecordSet \<Rightarrow> string option list \<times> int option" where
  "contentA r = (case rsProperties r of None \<Rightarrow> ([], None) | Some p \<Rightarrow> (ARecords p, TTL p))"

definition publishA :: "string \<Rightarrow> string \<Rightarrow> RecordSet list \<Rightarrow> zoneView \<Rightarrow> zoneView" where
  "publishA rg zone ds m = m ++ map_of (map (\<lambda>d. ((rg, zone, RecordTypeA, rsNm d), contentA d)) ds)"

definition storesRecordSets :: "'w azureSdk \<Rightarrow> string \<Rightarrow> ('w \<Rightarrow> zoneView) \<Rightarrow> bool" where
  "storesRecordSets A sub view \<longleftrightarrow> (\<forall>a rg zone ty name r w x w'. armSubscription a = sub \<longrightarrow>
     recordSets_CreateOrUpdate A a rg zone ty name r w = (Inr x, w') \<longrightarrow>
     view w' = (view w)((rg, zone, ty, name) \<mapsto> contentA r))"

text \<open>The comparison of the code is the comparison of the contents.\<close>

lemma sameA_content: "named d \<Longrightarrow> named c \<Longrightarrow> sameA d c \<longleftrightarrow> contentA d = contentA c"
  by (auto simp: sameA_def contentA_def named_def)

subsection \<open>Writing the missing records\<close>

lemma createRecordSet_view:
  assumes "storesRecordSets A (armSubscription (acRecordSets ac)) view"
    and "createRecordSet (serviceOf A scope ac bac g) ty r s = (Ok x, t)"
  shows "view (world t) = (view (world s))((DNSScope_ResourceGroup scope, ClusterDomain scope, ty, rsNm r) \<mapsto> contentA r)"
proof -
  obtain q w' where q: "recordSets_CreateOrUpdate A (acRecordSets ac) (DNSScope_ResourceGroup scope) (ClusterDomain scope) ty
      (rsNm r) r (world s) = (q, w')" by fastforce
  have "rsNameOf r = Ok (rsNm r)"
    using assms(2) by (auto simp: createRecordSet_def run_iffs rsNameOf_def deref_Ok_iff rsNm_def)
  then obtain y where y: "q = Inr y" and t: "world t = w'"
    using assms(2) q
    by (cases q) (auto simp: createRecordSet_def run_simps azureClientOps_def azure_CreateOrUpdateRecordSet_def countErrors_def)
  show ?thesis using assms(1) q unfolding storesRecordSets_def t y by blast
qed

lemma createRecordSets_view:
  assumes "storesRecordSets A (armSubscription (acRecordSets ac)) view" "distinct (map rsNm rs)"
    and "forEach (\<lambda>r. masked (createRecordSet (serviceOf A scope ac bac g) RecordTypeA r)) rs s = (Ok x, t)"
  shows "view (world t) = publishA (DNSScope_ResourceGroup scope) (ClusterDomain scope) rs (view (world s))"
  using assms(2,3)
proof (induction rs arbitrary: s)
  case (Cons r rs)
  let ?k = "(DNSScope_ResourceGroup scope, ClusterDomain scope, RecordTypeA, rsNm r)"
  obtain u where u: "createRecordSet (serviceOf A scope ac bac g) RecordTypeA r s = (Ok (), u)"
      and rs: "forEach (\<lambda>r. masked (createRecordSet (serviceOf A scope ac bac g) RecordTypeA r)) rs u = (Ok x, t)"
    using Cons.prems(2) by (auto simp: run_iffs)
  have fresh: "?k \<notin> dom (map_of (map (\<lambda>d. ((DNSScope_ResourceGroup scope, ClusterDomain scope, RecordTypeA, rsNm d), contentA d)) rs))"
    using Cons.prems(1) by (auto simp: dom_map_of_conv_image_fst)
  have "publishA (DNSScope_ResourceGroup scope) (ClusterDomain scope) rs ((view (world s))(?k \<mapsto> contentA r)) =
      publishA (DNSScope_ResourceGroup scope) (ClusterDomain scope) (r # rs) (view (world s))"
    unfolding publishA_def by (subst map_add_upd_left [OF fresh]) simp
  moreover have "view (world t) = publishA (DNSScope_ResourceGroup scope) (ClusterDomain scope) rs (view (world u))"
    using Cons.prems(1) by (intro Cons.IH [OF _ rs]) simp
  ultimately show ?case unfolding createRecordSet_view [OF assms(1) u] by (rule trans [rotated])
qed (simp add: run_iffs publishA_def)

text \<open>What is in sync need not be written: publishing only the rest gives the same map.\<close>

lemma publishA_skip:
  assumes "\<forall>d\<in>set ds. \<not> Q d \<longrightarrow> m (rg, zone, RecordTypeA, rsNm d) = Some (contentA d)" "distinct (map rsNm ds)"
  shows "publishA rg zone (filter Q ds) m = publishA rg zone ds m"
  using assms
proof (induction ds)
  case (Cons d ds)
  have fresh: "(rg, zone, RecordTypeA, rsNm d) \<notin> fst ` (\<lambda>d. ((rg, zone, RecordTypeA, rsNm d), contentA d)) ` set ds"
    using Cons.prems(2) by auto
  then have none: "map_of (map (\<lambda>d. ((rg, zone, RecordTypeA, rsNm d), contentA d)) ds) (rg, zone, RecordTypeA, rsNm d) = None"
    by (auto simp: map_of_eq_None_iff)
  have "publishA rg zone (filter Q ds) m = publishA rg zone ds m" using Cons by simp
  with Cons.prems(1) none show ?case
    by (cases "Q d") (auto simp: publishA_def map_add_def fun_eq_iff split: option.splits)
qed (simp add: publishA_def)

lemma publishA_lookup:
  assumes "distinct (map rsNm ds)" "d \<in> set ds"
  shows "publishA rg zone ds m (rg, zone, RecordTypeA, rsNm d) = Some (contentA d)"
proof -
  let ?f = "\<lambda>d. ((rg, zone, RecordTypeA, rsNm d), contentA d)"
  have "distinct (map fst (map ?f ds))"
    using assms(1) by (simp add: distinct_map inj_on_def o_def)
  moreover have "?f d \<in> set (map ?f ds)" using assms(2) by simp
  ultimately have "map_of (map ?f ds) (rg, zone, RecordTypeA, rsNm d) = Some (contentA d)"
    by (rule map_of_is_SomeI)
  then show ?thesis by (simp add: publishA_def)
qed

text \<open>A successful update of the A records, seen through the abstraction.\<close>

lemma updateARecords_view:
  assumes "New A scope (worldGetter g) s0 = (Ok sv, s1)"
    and "storesRecordSets A (pSubscriptionID (dsPatcher scope)) view"
    and "getDesiredARecords K sv s = (Ok ds, s')" "view (world s') = view (world s)"
    and "distinct (map rsNm ds)"
    and "\<forall>c\<in>set cur. completeA c \<and> (rsNm c \<in> rsNm ` set ds \<longrightarrow>
           view (world s) (DNSScope_ResourceGroup scope, ClusterDomain scope, ''A'', rsNm c) = Some (contentA c))"
    and "updateARecords K sv cur s = (Ok cur', t)"
  shows "view (world t) = publishA (DNSScope_ResourceGroup scope) (ClusterDomain scope) ds (view (world s))"
proof -
  let ?rg = "DNSScope_ResourceGroup scope" and ?zone = "ClusterDomain scope" and ?Q = "\<lambda>d. \<not> inSync rsNm sameA cur d"
  obtain a b where sv: "sv = serviceOf A scope (uniformClient a) (uniformClient b) g"
      and a: "armSubscription (acRecordSets (uniformClient a)) = pSubscriptionID (dsPatcher scope)"
    using New_service [OF assms(1)] by (auto simp: uniformClient_def)
  have named: "\<forall>d\<in>set ds. named d"
    using getDesiredARecords_desired [OF assms(3)] desiredRecord_facts by blast
  have complete: "\<forall>c\<in>set cur. completeA c" using assms(6) by blast
  obtain cur'' u where calc: "calculateMissingARecords K sv cur s = (Ok (filter ?Q ds, cur''), u)" "world u = world s'"
    using missingALoop_run [OF named complete, of "svDomain sv" "[]" s']
    by (auto simp: calculateMissingARecords_def run_simps assms(3))
  have "view (world t) = publishA ?rg ?zone (filter ?Q ds) (view (world u))"
  proof (cases "filter ?Q ds = []")
    case True
    then show ?thesis using assms(7) calc by (auto simp: updateARecords_def run_simps publishA_def)
  next
    case False
    then have "forEach (\<lambda>r. masked (createRecordSet sv RecordTypeA r)) (filter ?Q ds) u = (Ok (), t)"
      using assms(7) calc by (auto simp: updateARecords_def run_iffs)
    moreover have "distinct (map rsNm (filter ?Q ds))" using assms(5) by (rule distinct_map_filter)
    ultimately show ?thesis using createRecordSets_view [OF assms(2) [folded a]] unfolding sv by blast
  qed
  also have "\<dots> = publishA ?rg ?zone (filter ?Q ds) (view (world s))" using calc(2) assms(4) by simp
  also have "\<dots> = publishA ?rg ?zone ds (view (world s))"
  proof (rule publishA_skip [OF _ assms(5)], intro ballI impI)
    fix d assume d: "d \<in> set ds" "\<not> ?Q d"
    then obtain c where c: "firstNamed rsNm (rsNm d) cur = Some c" "sameA d c"
      by (auto simp: inSync_def split: option.splits)
    have "c \<in> set cur" "rsNm c = rsNm d" using firstNamed_Some [OF c(1)] by auto
    moreover have "contentA d = contentA c"
      using c(2) sameA_content named d(1) complete completeA_named \<open>c \<in> set cur\<close> by blast
    ultimately show "view (world s) (?rg, ?zone, RecordTypeA, rsNm d) = Some (contentA d)"
      using assms(6) d(1) by (metis imageI)
  qed
  finally show ?thesis .
qed

text \<open>
  C2: Refinement: seen as a map from names to addresses and TTLs, a successful update of the A records
  is the update of that map by all the desired records. The code reaches it by writing only the
  records that differ from a listing of the zone, provided the listing is true to the zone for the
  desired names, Azure stores what it is sent, and reading the desired records leaves the zone
  alone.
\<close>

theorem updateARecords_refines:
  assumes "New A scope (worldGetter g) s0 = (Ok sv, s1)"
    and "storesRecordSets A (pSubscriptionID (dsPatcher scope)) view"
    and "getDesiredARecords K sv s = (Ok ds, s')" "view (world s') = view (world s)"
    and "distinct (map rsNm ds)"
    and "\<forall>c\<in>set cur. completeA c \<and> (rsNm c \<in> rsNm ` set ds \<longrightarrow>
           view (world s) (DNSScope_ResourceGroup scope, ClusterDomain scope, ''A'', rsNm c) = Some (contentA c))"
    and "updateARecords K sv cur s = (Ok cur', t)"
  shows "view (world t) = publishA (DNSScope_ResourceGroup scope) (ClusterDomain scope) ds (view (world s))"
  using assms by (rule updateARecords_view)

text \<open>
  C12: The A records settle. After a successful update as above, as long as the zone and the desired
  records stay the same, a second update succeeds and sends no mutating request, provided its
  listing shows, as the first record set under each desired name, the A record of the zone. (A record
  set of another type listed first under the name would be compared instead, and the A record written
  again.)
\<close>

theorem ARecords_settle:
  assumes "New A scope (worldGetter g) s0 = (Ok sv, s1)"
    and "storesRecordSets A (pSubscriptionID (dsPatcher scope)) view"
    and "getDesiredARecords K sv s = (Ok ds, s')" "view (world s') = view (world s)"
    and "distinct (map rsNm ds)"
    and "\<forall>c\<in>set cur. completeA c \<and> (rsNm c \<in> rsNm ` set ds \<longrightarrow>
           view (world s) (DNSScope_ResourceGroup scope, ClusterDomain scope, ''A'', rsNm c) = Some (contentA c))"
    and "updateARecords K sv cur s = (Ok cur', t)"
    and "getDesiredARecords K sv u = (Ok ds, u')" "view (world u) = view (world t)"
    and "\<forall>c\<in>set listed. completeA c"
    and "\<forall>d\<in>set ds. \<exists>c. firstNamed rsNm (rsNm d) listed = Some c \<and>
           view (world u) (DNSScope_ResourceGroup scope, ClusterDomain scope, ''A'', rsNm d) = Some (contentA c)"
  shows "\<exists>listed' v. updateARecords K sv listed u = (Ok listed', v) \<and> azureWrites v = azureWrites u"
proof -
  obtain a b where sv: "sv = serviceOf A scope (uniformClient a) (uniformClient b) g"
    using New_service [OF assms(1)] by blast
  have named: "\<forall>d\<in>set ds. named d"
    using getDesiredARecords_desired [OF assms(3)] desiredRecord_facts by blast
  have "inSync rsNm sameA listed d" if d: "d \<in> set ds" for d
  proof -
    obtain c where c: "firstNamed rsNm (rsNm d) listed = Some c"
        "view (world u) (DNSScope_ResourceGroup scope, ClusterDomain scope, ''A'', rsNm d) = Some (contentA c)"
      using assms(11) d by blast
    have "contentA c = contentA d"
      using c(2) publishA_lookup [OF assms(5) d] unfolding assms(9) updateARecords_view [OF assms(1-7)] by simp
    moreover have "named c" using firstNamed_Some [OF c(1)] assms(10) completeA_named by blast
    ultimately show ?thesis using c(1) sameA_content named d by (simp add: inSync_def)
  qed
  then have "fst (bindM (missingALoop (svDomain sv) ds listed []) (\<lambda>(r, cur'). ret r) u') = Ok []"
    using pubA.calc_complete [OF named assms(10)] by blast
  then obtain listed' v where "calculateMissingARecords K sv listed u = (Ok ([], listed'), v)"
    by (auto simp: calculateMissingARecords_def run_simps assms(8) split: prod.splits res.splits)
  then have run: "updateARecords K sv listed u = (Ok listed', v)"
    and missing: "calculateMissingARecords K sv listed u = (Ok ([], listed'), v)"
    by (simp_all add: updateARecords_def run_simps)
  show ?thesis using svc.updateARecords_run [OF run [unfolded sv]] missing run unfolding sv by auto
qed

subsection \<open>The sample environment stores what it is sent\<close>

definition holdsRecord :: "string \<Rightarrow> string \<Rightarrow> RecordSet \<Rightarrow> bool" where
  "holdsRecord ty name x \<longleftrightarrow> rsName x = Ptr HeapCell name \<and> rsType x = Some (''Microsoft.Network/dnszones/'' @ ty)"

definition sampleView :: "cloud \<Rightarrow> zoneView" where
  "sampleView w = (\<lambda>(rg, zone, ty, name). map_option contentA (find (holdsRecord ty name) (bucket (cRecords w) (rg, zone))))"

lemma holdsRecord_inj: "holdsRecord ty name x \<Longrightarrow> holdsRecord ty' name' x \<longleftrightarrow> ty' = ty \<and> name' = name"
  by (auto simp: holdsRecord_def)

lemma find_put:
  assumes "holdsRecord ty name y" "\<And>x. Q x \<longleftrightarrow> holdsRecord ty name x"
  shows "find (holdsRecord ty' name') (filter (\<lambda>x. \<not> Q x) xs @ [y]) =
    (if ty' = ty \<and> name' = name then Some y else find (holdsRecord ty' name') xs)"
proof (induction xs)
  case (Cons x xs)
  show ?case
  proof (cases "holdsRecord ty name x")
    case True
    then show ?thesis using Cons assms(2) holdsRecord_inj [OF True, of ty' name'] by auto
  next
    case False
    then show ?thesis using Cons assms(2) by auto
  qed
qed (use holdsRecord_inj [OF assms(1)] in simp)

lemma bucket_update: "bucket (AList.update k v al) k' = (if k' = k then v else bucket al k')"
  by (simp add: bucket_def AList.update_conv')

lemma sampleSdk_stores: "storesRecordSets sampleSdk sub sampleView"
  unfolding storesRecordSets_def
proof (intro allI impI)
  fix a rg zone ty name r w x w'
  assume "recordSets_CreateOrUpdate sampleSdk a rg zone ty name r w = (Inr x, w')"
  then have w': "w' = w\<lparr>cRecords := AList.update (rg, zone)
      (putRecordSet (storedRecordSet ty name r) (bucket (cRecords w) (rg, zone))) (cRecords w)\<rparr>"
    by (auto simp: sampleSdk_def split: if_splits)
  have held: "holdsRecord ty name (storedRecordSet ty name r)" "contentA (storedRecordSet ty name r) = contentA r"
    by (auto simp: holdsRecord_def storedRecordSet_def contentA_def split: option.splits)
  have "(rsName y = rsName (storedRecordSet ty name r) \<and> rsType y = rsType (storedRecordSet ty name r)) = holdsRecord ty name y" for y
    by (simp add: holdsRecord_def storedRecordSet_def)
  from find_put [OF held(1) this]
  have put: "find (holdsRecord ty' name') (putRecordSet (storedRecordSet ty name r) xs) =
      (if ty' = ty \<and> name' = name then Some (storedRecordSet ty name r) else find (holdsRecord ty' name') xs)" for ty' name' xs
    unfolding putRecordSet_def .
  show "sampleView w' = (sampleView w)((rg, zone, ty, name) \<mapsto> contentA r)"
    by (rule ext) (auto simp: sampleView_def w' put held(2) bucket_update split: if_splits)
qed

theorem updateARecords_refines_witness:
  "sampleView (world (snd (updateARecords sampleK sampleSv [] sampleZoneState))) =
     publishA ''wc'' ''wc.example.io'' sampleDesired (sampleView (world sampleZoneState))"
proof -
  let ?m = "updateARecords sampleK sampleSv [] sampleZoneState"
  have run: "?m = (Ok [], snd ?m)" unfolding prod_eq_iff by simp code_simp
  have "cRecords (world (snd (getDesiredARecords sampleK sampleSv sampleZoneState))) = cRecords (world sampleZoneState)"
    by code_simp
  then have "sampleView (world (snd (getDesiredARecords sampleK sampleSv sampleZoneState))) = sampleView (world sampleZoneState)"
    by (simp add: sampleView_def fun_eq_iff)
  moreover have "distinct (map rsNm sampleDesired)" by (simp add: sampleDesired_def)
  ultimately show ?thesis
    using updateARecords_refines [OF sampleSv_New sampleSdk_stores sampleDesired_run _ _ _ run] by (simp add: sampleDNSScope_names)
qed

theorem ARecords_settle_witness:
  "let t = snd (updateARecords sampleK sampleSv [] sampleZoneState);
       listed = bucket (cRecords (world t)) (''wc'', ''wc.example.io'') in
   azureWrites t \<noteq> [] \<and> (\<exists>listed' v. updateARecords sampleK sampleSv listed t = (Ok listed', v) \<and> azureWrites v = azureWrites t)"
proof -
  let ?m = "updateARecords sampleK sampleSv [] sampleZoneState"
  let ?t = "snd ?m" and ?d = "getDesiredARecords sampleK sampleSv"
  let ?listed = "bucket (cRecords (world ?t)) (''wc'', ''wc.example.io'')"
  have run: "?m = (Ok [], ?t)" unfolding prod_eq_iff by simp code_simp
  have again: "?d ?t = (Ok sampleDesired, snd (?d ?t))" unfolding prod_eq_iff by simp code_simp
  have "cRecords (world (snd (?d sampleZoneState))) = cRecords (world sampleZoneState)" by code_simp
  then have same: "sampleView (world (snd (?d sampleZoneState))) = sampleView (world sampleZoneState)"
    by (simp add: sampleView_def fun_eq_iff)
  have listing: "list_all (\<lambda>c. completeA c) ?listed"
    "list_all (\<lambda>d. case firstNamed rsNm (rsNm d) ?listed of None \<Rightarrow> False
       | Some c \<Rightarrow> sampleView (world ?t) (''wc'', ''wc.example.io'', ''A'', rsNm d) = Some (contentA c)) sampleDesired"
    by code_simp+
  then have listed: "\<forall>c\<in>set ?listed. completeA c"
    "\<forall>d\<in>set sampleDesired. \<exists>c. firstNamed rsNm (rsNm d) ?listed = Some c \<and>
       sampleView (world ?t) (DNSScope_ResourceGroup sampleDNSScope, ClusterDomain sampleDNSScope, ''A'', rsNm d) = Some (contentA c)"
    by (auto simp: list_all_iff sampleDNSScope_names split: option.splits)
  have "distinct (map rsNm sampleDesired)" by (simp add: sampleDesired_def)
  from ARecords_settle [OF sampleSv_New sampleSdk_stores sampleDesired_run same this _ run again refl listed]
  have "\<exists>listed' v. updateARecords sampleK sampleSv ?listed ?t = (Ok listed', v) \<and> azureWrites v = azureWrites ?t" by simp
  moreover have "azureWrites ?t \<noteq> []" by code_simp
  ultimately show ?thesis unfolding Let_def by blast
qed

end
