(* ===== verification/Spec2Isabelle.thy ===== *)
theory Spec2Isabelle
  imports Operator Zone_Refinement Infra_Props
begin

text \<open>
  A verification development of \<^verbatim>\<open>dns-operator-azure\<close>, the Kubernetes operator that keeps the DNS zones
  of workload clusters in Azure DNS. It covers the Go code of the operator: \<^verbatim>\<open>main.go\<close>, \<^verbatim>\<open>controllers\<close>, \<^verbatim>\<open>azure\<close>
  and \<^verbatim>\<open>pkg\<close>.

  \<^bold>\<open>The program.\<close> \<^verbatim>\<open>main.go\<close> reads flags and environment and starts a manager that calls the controller
  for every \<^verbatim>\<open>Cluster\<close> object. The controller looks up the infrastructure object of the cluster, builds a
  scope (\<^verbatim>\<open>pkg/infracluster\<close>) with the identity and the patcher of the cluster, and runs up to three
  services: two private DNS services (\<^verbatim>\<open>azure/services/privatedns\<close>, for clusters with private endpoints)
  and the public one (\<^verbatim>\<open>azure/services/dns\<close>). A service lists what Azure has, compares it with what it
  wants, and writes the difference through a client over the Azure SDK. Afterwards the controller
  sets a condition and patches the object; on deletion it removes what it created and then its
  finalizer. Every part updates Prometheus metrics.

  \<^bold>\<open>How it is modelled.\<close> A Go call is a program of the monad \<open>M\<close> (theory \<open>Prelude\<close>): it ends with a value, a
  returned error or a panic, and the three are kept apart. The state (theory \<open>Platform\<close>) is the
  outside world \<open>'w\<close>, the infrastructure object the operator mutates in memory (one pointer shared by
  controller, scope and patcher), and the log of everything the operator asked of the outside.
  Libraries are parameters: the record \<open>azureSdk\<close> has a field per SDK function, \<open>kubeApi\<close> per function of
  the Kubernetes client and the converters, \<open>capz\<close> and \<open>capzScope\<close> for Cluster API Provider Azure,
  \<open>managerApi\<close> for controller-runtime. Nothing is assumed about them except where a theorem says so
  (\<open>listsTypeAOnly\<close>, \<open>freshNames\<close>, \<open>storesRecordSets\<close>, \<open>deletionsSucceed\<close>, \<open>namedLookups\<close>, \<open>finalizerLaws\<close>); \<open>Sample_Env\<close> has concrete instances, at which the
  theorems with hypotheses are shown to apply. Structs are records, Go interfaces are records of
  their methods, pointers are options (a nil dereference is a panic), and pointers to strings have
  addresses where the code compares addresses. All loops are over finite lists (a pager is the
  list of its pages), so every definition is total and no fuel is needed.

  \<^bold>\<open>Theories.\<close>
  \<^item> \<open>Prelude\<close>, \<open>Go_Std\<close>: errors and \<^verbatim>\<open>microerror\<close>, the monad and its inversion rules; \<^verbatim>\<open>strings\<close>, \<^verbatim>\<open>strconv\<close> and
    \<^verbatim>\<open>net.IP\<close> (bytes are \<open>8 word\<close>).
  \<^item> \<open>Metrics\<close> (\<^verbatim>\<open>pkg/metrics\<close>), \<open>Errors\<close> (\<^verbatim>\<open>azure/errors.go\<close>, \<^verbatim>\<open>azure/services/dns/errors.go\<close>, \<^verbatim>\<open>pkg/errors\<close>).
  \<^item> \<open>Platform\<close>: data of the libraries, state and log, and the predicates on programs the other theories
    reason with: \<open>emits\<close> (which events), \<open>sends\<close> and \<open>writesOnly\<close> (which mutating requests), \<open>keepsInfra\<close>, \<open>quiet\<close>.
  \<^item> \<open>Infracluster\<close>, \<open>Conditions\<close> (\<^verbatim>\<open>pkg/infracluster\<close>): scopes, patchers, identities, status conditions;
    \<open>Infra_Props\<close>: which credentials a scope gets, what a patch stores, what setting a condition does.
  \<^item> \<open>Dns_Scope\<close> (\<^verbatim>\<open>azure/scope\<close>): parameters and names; locale \<open>zone_naming\<close>, interpreted on both scopes.
  \<^item> \<open>Dns_Client\<close> (\<^verbatim>\<open>dns/client.go\<close>): locale \<open>dns_client\<close>, the contract of a client, interpreted on the one of
    this package; \<open>Record_Diff\<close>: locale \<open>record_diff\<close>, the contract of a comparison of record sets,
    interpreted on the four comparisons of the code.
  \<^item> \<open>Dns_Records\<close> (\<^verbatim>\<open>arecords.go\<close>, \<^verbatim>\<open>cnamerecords.go\<close>, \<^verbatim>\<open>nsrecords.go\<close>), \<open>Resource_Group\<close> (\<^verbatim>\<open>resourcegroup.go\<close>),
    \<open>Dns_Service\<close> (\<^verbatim>\<open>dns.go\<close>): the public service. Locale \<open>dns_service\<close> extends \<open>dns_client\<close> for both clients of the
    service and is interpreted on every service \<open>New\<close> returns. Shown there and in \<open>Dns_Props\<close>: the exact
    sequence of writes of a successful run, isolation whatever the outcome, that two clusters share
    no resource, the desired records and which services are published, the error paths.
  \<^item> \<open>Zone_Refinement\<close>: the update of the A records refines the update of a map from names to addresses,
    and a second update finds nothing to write. Azure keys record sets by type and name, so the map does
    too; the comparison of the code looks at names only, which the second statement has to respect.
  \<^item> \<open>Private_Client\<close>, \<open>Private_Dns\<close>, \<open>Private_Props\<close> (\<^verbatim>\<open>azure/services/privatedns\<close>): the same for the private
    service, with its link to a virtual network; locales \<open>private_client\<close> and \<open>private_service\<close>.
  \<^item> \<open>Controller\<close> (\<^verbatim>\<open>controllers/cluster_controller.go\<close>): the handlers, with the deferred \<^verbatim>\<open>Close\<close>. \<open>Effects\<close>: what
    the services log. \<open>Controller_Lemmas\<close>, \<open>Controller_Handlers\<close>: the services the controller builds, and
    locale \<open>scope_patcher\<close>, inside which the effects of the handlers are proved for both patchers.
    \<open>Controller_Props\<close>: containment in the base domain, early returns, which requests carry the
    finalizer (the patches by CAPZ are events of the log too), panics.
  \<^item> \<open>Main_Config\<close> (\<^verbatim>\<open>main.go\<close>): flags, environment, configuration, start.
  \<^item> \<open>Operator\<close>: the step relation of the running operator with the history of its reconciliations, the
    invariant that ties each event to the cluster it was caused for, by rule induction, and that the
    deletion of an AKS cluster comes to an end.

  \<^bold>\<open>Not modelled.\<close> Log output; the registration of types with the scheme (\<^verbatim>\<open>init\<close> of \<^verbatim>\<open>main.go\<close>) and of the
  controller with the manager (\<^verbatim>\<open>SetupWithManager\<close>), which are calls of libraries only; the text format of
  command line arguments; the contexts and their cancellation; plain getters, which are the fields
  of the records; the Helm chart and the CI files. Reconciliations of different clusters run
  concurrently in the program; they share no state of the operator but the metrics, and the steps of
  \<open>Operator\<close> are whole reconciliations.

  \<^bold>\<open>What the theorems showed of the code\<close> is in the manifest beside the development: among others, that the
  delegation and the private wildcard record are rewritten at every reconciliation, that a finalizer
  is not stored for some kinds of clusters, and that two error paths end in a nil dereference.
\<close>

end
